(* ===== verification/Prelude.thy ===== *)
theory Prelude
  imports Main "HOL-Library.Word" "HOL-Library.AList"
begin

section \<open>Prelude: types, results, effectful iteration, hash maps\<close>

text \<open>
  What every theory of the development shares: names for Rust's integer types and byte
  vectors, \<open>Result\<close> as a sum (\<open>Err\<close> is \<open>Inl\<close>, \<open>Ok\<close> is \<open>Inr\<close>), a type of panics,
  the two iterator shapes the source uses with effects (\<open>filter_map(..).collect()\<close> over a
  state and \<open>map(..).collect::<Result<_, _>>()\<close>), and \<open>HashMap\<close> as an association list
  whose order is the iteration order of the map.
\<close>

named_theorems result_simps \<open>equations of the operations on results\<close>

subsection \<open>Integers and bytes\<close>

type_synonym u8 = "8 word"
type_synonym u16 = "16 word"
type_synonym u32 = "32 word"
type_synonym u64 = "64 word"
type_synonym i32 = "32 word"
type_synonym i64 = "64 word"
type_synonym bytes = "u8 list"
type_synonym uuid = "128 word"

definition u64_MAX :: u64 where
  "u64_MAX = 18446744073709551615"

lemma unat_u64_MAX: "unat u64_MAX = 18446744073709551615"
  by (simp add: u64_MAX_def)

lemma unat_u8_le: "unat (c :: u8) \<le> 255"
proof -
  have "unat c < 2 ^ LENGTH(8)" by (rule unsigned_less)
  then show ?thesis by simp
qed

lemma unat_u64_le: "unat (n :: u64) \<le> 18446744073709551615"
proof -
  have "unat n < 2 ^ LENGTH(64)" by (rule unsigned_less)
  then show ?thesis by simp
qed

text \<open>The \<open>as\<close> casts between unsigned widths: widening keeps the value, narrowing keeps the low bits.\<close>

lemma ucast_u8_u32_u8 [simp]: "(ucast (ucast (x :: u8) :: u32) :: u8) = x"
  by (rule bit_word_eqI) (simp add: bit_simps)

lemma ucast_u32_u64_u32 [simp]: "(ucast (ucast (x :: u32) :: u64) :: u32) = x"
  by (rule bit_word_eqI) (simp add: bit_simps)

lemma ucast_u64_u32_u64: "(ucast (ucast (x :: u64) :: u32) :: u64) = take_bit 32 x"
  by (rule bit_word_eqI) (auto simp: bit_simps)

lemma ucast_u32_u8_u32: "unat (x :: u32) < 256 \<Longrightarrow> (ucast (ucast x :: u8) :: u32) = x"
  by (rule word_unat_eq_iff [THEN iffD2]) (simp add: unsigned_ucast_eq take_bit_eq_mod unat_mod_distrib)

subsection \<open>Results and panics\<close>

abbreviation Ok :: "'a \<Rightarrow> 'e + 'a" where
  "Ok \<equiv> Inr"

abbreviation Err :: "'e \<Rightarrow> 'e + 'a" where
  "Err \<equiv> Inl"

text \<open>
  A call of \<open>unwrap\<close>, \<open>expect\<close>, \<open>unreachable!\<close> or a panicking operator that fails is a
  value of this type; the string is the message the source gives, empty where it gives none.
\<close>

datatype panic = Panic string

primrec and_then :: "'e + 'a \<Rightarrow> ('a \<Rightarrow> 'e + 'b) \<Rightarrow> 'e + 'b" where
  "and_then (Inl e) f = Err e"
| "and_then (Inr a) f = f a"

primrec map_err :: "('e \<Rightarrow> 'f) \<Rightarrow> 'e + 'a \<Rightarrow> 'f + 'a" where
  "map_err f (Inl e) = Err (f e)"
| "map_err f (Inr a) = Ok a"

definition is_err :: "'e + 'a \<Rightarrow> bool" where
  "is_err r \<longleftrightarrow> (case r of Inl _ \<Rightarrow> True | Inr _ \<Rightarrow> False)"

primrec ok :: "'e + 'a \<Rightarrow> 'a option" where
  "ok (Inl e) = None"
| "ok (Inr a) = Some a"

primrec unwrap :: "string \<Rightarrow> 'a option \<Rightarrow> panic + 'a" where
  "unwrap msg None = Err (Panic msg)"
| "unwrap msg (Some a) = Ok a"

text \<open>\<open>expect\<close> and \<open>unwrap\<close> of a \<open>Result\<close>.\<close>

definition unwrap_result :: "string \<Rightarrow> 'e + 'a \<Rightarrow> panic + 'a" where
  "unwrap_result msg r = map_err (\<lambda>_. Panic msg) r"

lemma unwrap_result_simps [simp, result_simps]:
  "unwrap_result msg (Inr a) = Inr a" "unwrap_result msg (Inl e) = Inl (Panic msg)"
  by (simp_all add: unwrap_result_def)

lemma unwrap_result_eq_Ok [result_simps]: "unwrap_result msg r = Inr a \<longleftrightarrow> r = Inr a"
  by (cases r) simp_all

lemma is_err_simps [simp, result_simps]: "is_err (Inl e)" "\<not> is_err (Inr a)"
  by (simp_all add: is_err_def)

lemma and_then_eq_Ok [result_simps]:
  "and_then r f = Inr b \<longleftrightarrow> (\<exists>a. r = Inr a \<and> f a = Inr b)"
  by (cases r) simp_all

lemma map_err_eq_Ok [result_simps]: "map_err f r = Inr a \<longleftrightarrow> r = Inr a"
  by (cases r) simp_all

lemma map_err_eq_Err [result_simps]: "map_err f r = Inl e \<longleftrightarrow> (\<exists>e'. r = Inl e' \<and> e = f e')"
  by (cases r) auto

lemma unwrap_eq_Ok [result_simps]: "unwrap msg x = Inr a \<longleftrightarrow> x = Some a"
  by (cases x) simp_all

subsection \<open>Collecting results: the first error wins\<close>

primrec try_map :: "('a \<Rightarrow> 'e + 'b) \<Rightarrow> 'a list \<Rightarrow> 'e + 'b list" where
  "try_map f [] = Ok []"
| "try_map f (x # xs) = and_then (f x) (\<lambda>y. and_then (try_map f xs) (\<lambda>ys. Ok (y # ys)))"

lemma try_map_map_Ok:
  assumes "\<And>x. x \<in> set xs \<Longrightarrow> f (g x) = Inr (h x)"
  shows "try_map f (map g xs) = Inr (map h xs)"
  using assms by (induction xs) auto

lemma try_map_Ok_length: "try_map f xs = Inr ys \<Longrightarrow> length ys = length xs"
  by (induction xs arbitrary: ys) (auto simp: result_simps)

lemma try_map_Ok_set: "try_map f xs = Inr ys \<Longrightarrow> x \<in> set xs \<Longrightarrow> \<exists>y \<in> set ys. f x = Inr y"
  by (induction xs arbitrary: ys) (auto simp: result_simps)

lemma try_map_is_err: "is_err (try_map f xs) \<longleftrightarrow> (\<exists>x \<in> set xs. is_err (f x))"
proof (induction xs)
  case (Cons x xs)
  then show ?case by (cases "f x"; cases "try_map f xs") auto
qed simp

subsection \<open>Iterating with effects\<close>

text \<open>
  \<open>iter().filter_map(f).collect()\<close> where the closure also acts on a state: the elements are
  visited in order, and those for which the closure returns a value are collected.
\<close>

primrec filter_map_st :: "('a \<Rightarrow> 'w \<Rightarrow> 'w \<times> 'b option) \<Rightarrow> 'a list \<Rightarrow> 'w \<Rightarrow> 'w \<times> 'b list" where
  "filter_map_st f [] w = (w, [])"
| "filter_map_st f (x # xs) w =
     (case f x w of (w', r) \<Rightarrow>
      case filter_map_st f xs w' of (w'', ys) \<Rightarrow>
        (w'', case r of None \<Rightarrow> ys | Some y \<Rightarrow> y # ys))"

text \<open>A \<open>for\<close> loop whose body only acts on the state.\<close>

primrec for_each :: "('a \<Rightarrow> 'w \<Rightarrow> 'w) \<Rightarrow> 'a list \<Rightarrow> 'w \<Rightarrow> 'w" where
  "for_each f [] w = w"
| "for_each f (x # xs) w = for_each f xs (f x w)"

lemma for_each_append: "for_each f (xs @ ys) w = for_each f ys (for_each f xs w)"
  by (induction xs arbitrary: w) auto

lemma for_each_invariant:
  assumes "P w" "\<And>x w. x \<in> set xs \<Longrightarrow> P w \<Longrightarrow> P (f x w)"
  shows "P (for_each f xs w)"
  using assms by (induction xs arbitrary: w) auto

subsection \<open>Hash maps\<close>

text \<open>
  \<open>HashMap\<close> iterates in an order of its own. The model keeps the entries in a list, in
  iteration order; theorems quantify over the list, hence over the order.
\<close>

type_synonym ('k, 'v) hashmap = "('k \<times> 'v) list"

definition hm_wf :: "('k, 'v) hashmap \<Rightarrow> bool" where
  "hm_wf m \<longleftrightarrow> distinct (map fst m)"

definition hm_insert :: "'k \<Rightarrow> 'v \<Rightarrow> ('k, 'v) hashmap \<Rightarrow> ('k, 'v) hashmap" where
  "hm_insert k v m = AList.update k v m"

definition hm_remove :: "'k \<Rightarrow> ('k, 'v) hashmap \<Rightarrow> 'v option \<times> ('k, 'v) hashmap" where
  "hm_remove k m = (map_of m k, AList.delete k m)"

lemma hm_wf_Nil [simp]: "hm_wf []"
  by (simp add: hm_wf_def)

lemma hm_wf_insert [simp]: "hm_wf m \<Longrightarrow> hm_wf (hm_insert k v m)"
  by (simp add: hm_wf_def hm_insert_def distinct_update)

lemma hm_wf_remove [simp]: "hm_wf m \<Longrightarrow> hm_wf (snd (hm_remove k m))"
  by (simp add: hm_wf_def hm_remove_def distinct_delete)

lemma map_of_hm_insert [simp]: "map_of (hm_insert k v m) = (map_of m)(k \<mapsto> v)"
  by (simp add: hm_insert_def update_conv')

lemma map_of_hm_remove [simp]: "map_of (snd (hm_remove k m)) = (map_of m)(k := None)"
  by (simp add: hm_remove_def delete_conv')

lemma fst_hm_remove [simp]: "fst (hm_remove k m) = map_of m k"
  by (simp add: hm_remove_def)

lemma hm_wf_map_of: "hm_wf m \<Longrightarrow> (k, v) \<in> set m \<longleftrightarrow> map_of m k = Some v"
  by (auto simp: hm_wf_def map_of_eq_Some_iff)

end
