(* ===== verification/Channels.thy ===== *)
theory Channels
  imports Prelude
begin

section \<open>Bounded channels\<close>

text \<open>
  Subscribers are fed through bounded tokio channels, which are not part of the repository.
  What the server uses of them is \<open>try_send\<close>: an argument of every definition that sends, a
  function on an unknown world \<open>'w\<close> in which a channel is named by its sender \<open>'s\<close>. The
  locale states its documented behaviour in terms of what can be observed of a channel: the
  items waiting in it, its capacity, and whether its receiver still exists.
\<close>

datatype TrySendError = Full | Closed

type_synonym ('w, 's, 'm) try_send = "'w \<Rightarrow> 's \<Rightarrow> 'm \<Rightarrow> 'w \<times> (TrySendError + unit)"

locale bounded_channels =
  fixes try_send :: "('w, 's, 'm) try_send"
    and queued :: "'w \<Rightarrow> 's \<Rightarrow> 'm list"
    and capacity :: "'w \<Rightarrow> 's \<Rightarrow> nat"
    and is_open :: "'w \<Rightarrow> 's \<Rightarrow> bool"
  assumes send_closed: "\<not> is_open w s \<Longrightarrow> try_send w s m = (w, Err Closed)"
    and send_full:
      "is_open w s \<Longrightarrow> capacity w s \<le> length (queued w s) \<Longrightarrow> try_send w s m = (w, Err Full)"
    and send_ok:
      "is_open w s \<Longrightarrow> length (queued w s) < capacity w s \<Longrightarrow>
         snd (try_send w s m) = Ok () \<and>
         queued (fst (try_send w s m)) = (queued w)(s := queued w s @ [m])"
    and send_capacity: "capacity (fst (try_send w s m)) = capacity w"
    and send_open: "is_open (fst (try_send w s m)) = is_open w"
begin

definition room :: "'w \<Rightarrow> 's \<Rightarrow> bool" where
  "room w s \<longleftrightarrow> is_open w s \<and> length (queued w s) < capacity w s"

lemma send_result:
  "snd (try_send w s m) =
     (if \<not> is_open w s then Err Closed else if room w s then Ok () else Err Full)"
  by (cases "room w s") (auto simp: room_def send_closed send_full send_ok not_less)

lemma send_closed_iff: "snd (try_send w s m) = Err Closed \<longleftrightarrow> \<not> is_open w s"
  by (simp add: send_result)

lemma send_queued:
  "queued (fst (try_send w s m)) = (if room w s then (queued w)(s := queued w s @ [m]) else queued w)"
  by (cases "is_open w s") (auto simp: room_def send_closed send_full send_ok not_less)

lemma send_room_other: "s' \<noteq> s \<Longrightarrow> room (fst (try_send w s m)) s' = room w s'"
  by (simp add: room_def send_open send_capacity send_queued)

lemma send_bounded:
  assumes "\<And>s. length (queued w s) \<le> capacity w s"
  shows "length (queued (fst (try_send w s m)) s') \<le> capacity (fst (try_send w s m)) s'"
  using assms [of s'] by (auto simp: send_queued send_capacity room_def)

end

subsection \<open>Sending to many subscribers\<close>

text \<open>
  The shape of every handler: each entry is an id, a sender and perhaps a message; the ids
  whose channel turns out to be closed are collected.
\<close>

type_synonym ('s, 'm) send_entry = "uuid \<times> 's \<times> 'm option"

definition send_entry :: "('w, 's, 'm) try_send \<Rightarrow> ('s, 'm) send_entry \<Rightarrow> 'w \<Rightarrow> 'w \<times> uuid option" where
  "send_entry ts e w =
     (case e of (uuid, s, p) \<Rightarrow>
       case p of
         None \<Rightarrow> (w, None)
       | Some m \<Rightarrow>
           (case ts w s m of (w', r) \<Rightarrow> (w', if r = Err Closed then Some uuid else None)))"

definition send_all :: "('w, 's, 'm) try_send \<Rightarrow> ('s, 'm) send_entry list \<Rightarrow> 'w \<Rightarrow> 'w \<times> uuid list" where
  "send_all ts es w = filter_map_st (send_entry ts) es w"

lemma send_all_Nil [simp]: "send_all ts [] w = (w, [])"
  by (simp add: send_all_def)

lemma send_all_Cons:
  "send_all ts (e # es) w =
     (case send_entry ts e w of (w', r) \<Rightarrow>
      case send_all ts es w' of (w'', ys) \<Rightarrow> (w'', case r of None \<Rightarrow> ys | Some y \<Rightarrow> y # ys))"
  by (simp add: send_all_def)

lemma fst_send_all_Cons:
  "fst (send_all ts (e # es) w) = fst (send_all ts es (fst (send_entry ts e w)))"
  by (simp add: send_all_Cons split: prod.splits)

lemma snd_send_all_Cons:
  "snd (send_all ts (e # es) w) =
     (case snd (send_entry ts e w) of
        None \<Rightarrow> snd (send_all ts es (fst (send_entry ts e w)))
      | Some y \<Rightarrow> y # snd (send_all ts es (fst (send_entry ts e w))))"
  by (simp add: send_all_Cons split: prod.splits option.splits)

lemma send_all_append:
  "send_all ts (es @ fs) w =
     (case send_all ts es w of (w', xs) \<Rightarrow>
      case send_all ts fs w' of (w'', ys) \<Rightarrow> (w'', xs @ ys))"
  by (induction es arbitrary: w) (auto simp: send_all_Cons split: prod.splits option.splits)

lemma filter_map_st_send_all:
  assumes "\<And>x w. x \<in> set xs \<Longrightarrow> f x w = send_entry ts (g x) w"
  shows "filter_map_st f xs w = send_all ts (map g xs) w"
  using assms by (induction xs arbitrary: w) (auto simp: send_all_Cons split: prod.splits)

context bounded_channels
begin

lemma send_entry_failed:
  "snd (send_entry try_send (u, s, p) w) = (if p \<noteq> None \<and> \<not> is_open w s then Some u else None)"
  by (simp add: send_entry_def send_result split: option.splits prod.splits)
    (metis send_closed_iff snd_conv)

lemma send_entry_open: "is_open (fst (send_entry try_send e w)) = is_open w"
  by (auto simp: send_entry_def split: option.splits prod.splits)
    (metis fst_conv send_open)+

lemma send_entry_capacity: "capacity (fst (send_entry try_send e w)) = capacity w"
  by (auto simp: send_entry_def split: option.splits prod.splits)
    (metis fst_conv send_capacity)+

lemma send_entry_queued:
  "queued (fst (send_entry try_send (u, s, p) w)) =
     (case p of
        None \<Rightarrow> queued w
      | Some m \<Rightarrow> if room w s then (queued w)(s := queued w s @ [m]) else queued w)"
proof (cases p)
  case (Some m)
  obtain w' r where "try_send w s m = (w', r)" by fastforce
  with Some show ?thesis using send_queued [of w s m] by (simp add: send_entry_def)
qed (simp add: send_entry_def)

lemma send_all_open: "is_open (fst (send_all try_send es w)) = is_open w"
  by (induction es arbitrary: w) (simp_all add: fst_send_all_Cons send_entry_open)

lemma send_all_capacity: "capacity (fst (send_all try_send es w)) = capacity w"
  by (induction es arbitrary: w) (simp_all add: fst_send_all_Cons send_entry_capacity)

lemma send_all_failed:
  "snd (send_all try_send es w) = map fst (filter (\<lambda>(u, s, p). p \<noteq> None \<and> \<not> is_open w s) es)"
proof (induction es arbitrary: w)
  case (Cons e es)
  then show ?case
    by (cases e) (auto simp: snd_send_all_Cons send_entry_failed send_entry_open)
qed simp

text \<open>A channel no entry names is left alone.\<close>

lemma send_all_queued_other:
  "s \<notin> (\<lambda>(u, s, p). s) ` set es \<Longrightarrow> queued (fst (send_all try_send es w)) s = queued w s"
proof (induction es arbitrary: w)
  case (Cons e es)
  then show ?case
    by (cases e) (auto simp: fst_send_all_Cons send_entry_queued split: option.splits)
qed simp

text \<open>With one entry per channel, each channel gets its message if it is open and has room.\<close>

lemma send_all_queued:
  assumes "distinct (map (\<lambda>(u, s, p). s) es)" "(u, s, p) \<in> set es"
  shows "queued (fst (send_all try_send es w)) s =
    queued w s @ (case p of Some m \<Rightarrow> if room w s then [m] else [] | None \<Rightarrow> [])"
  using assms
proof (induction es arbitrary: w)
  case (Cons e es)
  obtain u' t q where e: "e = (u', t, q)" by (cases e)
  let ?w' = "fst (send_entry try_send (u', t, q) w)"
  show ?case
  proof (cases "(u, s, p) = e")
    case True
    then have "s \<notin> (\<lambda>(u, s, p). s) ` set es" using Cons.prems(1) by auto
    then have "queued (fst (send_all try_send es ?w')) s = queued ?w' s"
      by (rule send_all_queued_other)
    with True e show ?thesis
      by (auto simp: fst_send_all_Cons send_entry_queued split: option.splits)
  next
    case False
    then have in_es: "(u, s, p) \<in> set es" and "s \<noteq> t" using Cons.prems by (auto simp: e image_iff)
    then have "queued ?w' s = queued w s" "room ?w' s = room w s"
      by (auto simp: room_def send_entry_queued send_entry_open send_entry_capacity
          split: option.splits)
    then show ?thesis
      using Cons.IH [of ?w'] Cons.prems(1) in_es by (cases p) (simp_all add: fst_send_all_Cons e)
  qed
qed simp

lemma send_all_no_open:
  assumes "\<And>u s m. (u, s, Some m) \<in> set es \<Longrightarrow> \<not> is_open w s"
  shows "fst (send_all try_send es w) = w"
  using assms
proof (induction es)
  case (Cons e es)
  obtain u s p where e: "e = (u, s, p)" by (cases e)
  have "\<not> is_open w s" if "p = Some m" for m
    using Cons.prems [of u s m] that by (simp add: e)
  then have "fst (send_entry try_send e w) = w"
    by (cases p) (simp_all add: e send_entry_def send_closed)
  moreover have "fst (send_all try_send es w) = w"
    by (rule Cons.IH) (use Cons.prems in force)
  ultimately show ?case by (simp add: fst_send_all_Cons)
qed simp

end

subsection \<open>A reference implementation of the channels\<close>

text \<open>
  The contract is met by the obvious store of queues. The witnesses evaluate the server on it.
\<close>

record 'm chan =
  ch_queue :: "'m list"
  ch_capacity :: nat
  ch_open :: bool

type_synonym ('s, 'm) chan_store = "'s \<Rightarrow> 'm chan"

definition chan_try_send :: "(('s, 'm) chan_store, 's, 'm) try_send" where
  "chan_try_send w s m =
     (if \<not> ch_open (w s) then (w, Err Closed)
      else if ch_capacity (w s) \<le> length (ch_queue (w s)) then (w, Err Full)
      else (w(s := w s\<lparr>ch_queue := ch_queue (w s) @ [m]\<rparr>), Ok ()))"

abbreviation chan_queued :: "('s, 'm) chan_store \<Rightarrow> 's \<Rightarrow> 'm list" where
  "chan_queued w s \<equiv> ch_queue (w s)"

abbreviation chan_capacity :: "('s, 'm) chan_store \<Rightarrow> 's \<Rightarrow> nat" where
  "chan_capacity w s \<equiv> ch_capacity (w s)"

abbreviation chan_is_open :: "('s, 'm) chan_store \<Rightarrow> 's \<Rightarrow> bool" where
  "chan_is_open w s \<equiv> ch_open (w s)"

definition new_chan :: "nat \<Rightarrow> 'm chan" where
  "new_chan n = \<lparr>ch_queue = [], ch_capacity = n, ch_open = True\<rparr>"

interpretation chans: bounded_channels chan_try_send chan_queued chan_capacity chan_is_open
  by unfold_locales (auto simp: chan_try_send_def fun_eq_iff)

end
