(* ===== verification/Solana_Types.thy ===== *)
theory Solana_Types
  imports Prelude
begin

section \<open>The two sides of proto/src/convert.rs\<close>

text \<open>
  The native types the conversions destructure (fields as the source names them) and the
  messages of proto/proto/confirmed_block.proto, which the build turns into structs of the
  same fields (\<open>Pb\<close> prefix; a message field is an \<open>option\<close>, a \<open>bytes\<close> field a byte
  vector, an enum field its \<open>i32\<close> number). Keys, hashes and signatures are wrappers around
  their bytes. An \<open>f64\<close> is its IEEE-754 bit pattern.
\<close>

datatype pubkey = Pubkey (pubkey_bytes: bytes)
datatype hash = Hash (hash_bytes: bytes)
datatype signature = Signature (signature_bytes: bytes)

definition wf_pubkey :: "pubkey \<Rightarrow> bool" where
  "wf_pubkey k \<longleftrightarrow> length (pubkey_bytes k) = 32"

definition wf_hash :: "hash \<Rightarrow> bool" where
  "wf_hash h \<longleftrightarrow> length (hash_bytes h) = 32"

definition wf_signature :: "signature \<Rightarrow> bool" where
  "wf_signature s \<longleftrightarrow> length (signature_bytes s) = 64"

subsection \<open>Floating-point numbers\<close>

type_synonym f64 = "64 word"

unbundle bit_operations_syntax

definition f64_magnitude :: "f64 \<Rightarrow> f64" where
  "f64_magnitude x = x AND 0x7FFFFFFFFFFFFFFF"

text \<open>
  \<open>(x - 0.0).abs() > f64::EPSILON\<close>: the subtraction changes nothing, the magnitude is the
  pattern without its sign bit, magnitudes compare as their patterns, \<open>EPSILON\<close> is
  \<open>2 ^ -52\<close> and a comparison with a NaN is false.
\<close>

definition f64_above_epsilon :: "f64 \<Rightarrow> bool" where
  "f64_above_epsilon x \<longleftrightarrow>
     0x3CB0000000000000 < f64_magnitude x \<and> f64_magnitude x \<le> 0x7FF0000000000000"

definition f64_default :: f64 where
  "f64_default = 0"

subsection \<open>Rewards\<close>

datatype RewardType = Fee | Rent | Staking | Voting

record Reward =
  r_pubkey :: string
  r_lamports :: i64
  r_post_balance :: u64
  r_reward_type :: "RewardType option"
  r_commission :: "u8 option"

datatype PbRewardType = Pb_Unspecified | Pb_Fee | Pb_Rent | Pb_Staking | Pb_Voting

primrec pb_reward_type_as_i32 :: "PbRewardType \<Rightarrow> i32" where
  "pb_reward_type_as_i32 Pb_Unspecified = 0"
| "pb_reward_type_as_i32 Pb_Fee = 1"
| "pb_reward_type_as_i32 Pb_Rent = 2"
| "pb_reward_type_as_i32 Pb_Staking = 3"
| "pb_reward_type_as_i32 Pb_Voting = 4"

record PbReward =
  pr_pubkey :: string
  pr_lamports :: i64
  pr_post_balance :: u64
  pr_reward_type :: i32
  pr_commission :: string

record PbNumPartitions =
  pnp_num_partitions :: u64

record PbRewards =
  prs_rewards :: "PbReward list"
  prs_num_partitions :: "PbNumPartitions option"

record RewardsAndNumPartitions =
  rnp_rewards :: "Reward list"
  rnp_num_partitions :: "u64 option"

record StoredExtendedReward =
  ser_pubkey :: string
  ser_lamports :: i64
  ser_post_balance :: u64
  ser_reward_type :: "RewardType option"
  ser_commission :: "u8 option"

subsection \<open>Instructions and messages\<close>

record CompiledInstruction =
  ci_program_id_index :: u8
  ci_accounts :: bytes
  ci_data :: bytes

record PbCompiledInstruction =
  pci_program_id_index :: u32
  pci_accounts :: bytes
  pci_data :: bytes

record InnerInstruction =
  ii_instruction :: CompiledInstruction
  ii_stack_height :: "u32 option"

record PbInnerInstruction =
  pii_program_id_index :: u32
  pii_accounts :: bytes
  pii_data :: bytes
  pii_stack_height :: "u32 option"

record InnerInstructions =
  iis_index :: u8
  iis_instructions :: "InnerInstruction list"

record PbInnerInstructions =
  piis_index :: u32
  piis_instructions :: "PbInnerInstruction list"

record MessageHeader =
  mh_num_required_signatures :: u8
  mh_num_readonly_signed_accounts :: u8
  mh_num_readonly_unsigned_accounts :: u8

record PbMessageHeader =
  pmh_num_required_signatures :: u32
  pmh_num_readonly_signed_accounts :: u32
  pmh_num_readonly_unsigned_accounts :: u32

record MessageAddressTableLookup =
  atl_account_key :: pubkey
  atl_writable_indexes :: bytes
  atl_readonly_indexes :: bytes

record PbMessageAddressTableLookup =
  patl_account_key :: bytes
  patl_writable_indexes :: bytes
  patl_readonly_indexes :: bytes

record LegacyMessage =
  lm_header :: MessageHeader
  lm_account_keys :: "pubkey list"
  lm_recent_blockhash :: hash
  lm_instructions :: "CompiledInstruction list"

record V0Message =
  vm_header :: MessageHeader
  vm_account_keys :: "pubkey list"
  vm_recent_blockhash :: hash
  vm_instructions :: "CompiledInstruction list"
  vm_address_table_lookups :: "MessageAddressTableLookup list"

datatype VersionedMessage = Legacy LegacyMessage | V0 V0Message

record PbMessage =
  pm_header :: "PbMessageHeader option"
  pm_account_keys :: "bytes list"
  pm_recent_blockhash :: bytes
  pm_instructions :: "PbCompiledInstruction list"
  pm_versioned :: bool
  pm_address_table_lookups :: "PbMessageAddressTableLookup list"

record Transaction =
  t_signatures :: "signature list"
  t_message :: LegacyMessage

record VersionedTransaction =
  vt_signatures :: "signature list"
  vt_message :: VersionedMessage

record PbTransaction =
  pt_signatures :: "bytes list"
  pt_message :: "PbMessage option"

subsection \<open>Token balances and return data\<close>

record UiTokenAmount =
  uta_ui_amount :: "f64 option"
  uta_decimals :: u8
  uta_amount :: string
  uta_ui_amount_string :: string

record PbUiTokenAmount =
  puta_ui_amount :: f64
  puta_decimals :: u32
  puta_amount :: string
  puta_ui_amount_string :: string

record TransactionTokenBalance =
  ttb_account_index :: u8
  ttb_mint :: string
  ttb_ui_token_amount :: UiTokenAmount
  ttb_owner :: string
  ttb_program_id :: string

record PbTokenBalance =
  ptb_account_index :: u32
  ptb_mint :: string
  ptb_ui_token_amount :: "PbUiTokenAmount option"
  ptb_owner :: string
  ptb_program_id :: string

record TransactionReturnData =
  trd_program_id :: pubkey
  trd_data :: bytes

record PbReturnData =
  prd_program_id :: bytes
  prd_data :: bytes

end
