(* ===== verification/Codec.thy ===== *)
theory Codec
  imports Prelude
begin

section \<open>Codecs: the contract of the \<open>From\<close> and \<open>TryFrom\<close> pairs\<close>

text \<open>
  Most of proto/src/convert.rs is pairs of conversions between a native type and its
  protobuf message. The contract of a pair is that decoding gives back what was encoded, on
  the values for which it can; containers of such values then round-trip as well. The two
  locales state the contract for decoders that cannot fail and for decoders that can; every
  pair of the source is an interpretation of one of them.
\<close>

locale codec =
  fixes enc :: "'a \<Rightarrow> 'b"
    and dec :: "'b \<Rightarrow> 'e + 'a"
    and valid :: "'a \<Rightarrow> bool"
  assumes dec_enc: "valid a \<Longrightarrow> dec (enc a) = Inr a"
begin

lemma dec_enc_list: "list_all valid xs \<Longrightarrow> try_map dec (map enc xs) = Inr xs"
  by (induction xs) (simp_all add: dec_enc)

lemma enc_inj: "valid a \<Longrightarrow> valid b \<Longrightarrow> enc a = enc b \<Longrightarrow> a = b"
  by (metis dec_enc sum.inject(2))

lemma enc_list_inj:
  "list_all valid xs \<Longrightarrow> list_all valid ys \<Longrightarrow> map enc xs = map enc ys \<Longrightarrow> xs = ys"
  by (metis dec_enc_list sum.inject(2))

end

locale total_codec =
  fixes enc :: "'a \<Rightarrow> 'b"
    and dec :: "'b \<Rightarrow> 'a"
    and valid :: "'a \<Rightarrow> bool"
  assumes dec_enc: "valid a \<Longrightarrow> dec (enc a) = a"
begin

lemma dec_enc_list: "list_all valid xs \<Longrightarrow> map dec (map enc xs) = xs"
  by (induction xs) (simp_all add: dec_enc)

lemma dec_enc_option: "pred_option valid x \<Longrightarrow> map_option dec (map_option enc x) = x"
  by (cases x) (simp_all add: dec_enc)

end

sublocale total_codec \<subseteq> fallible: codec enc "\<lambda>b. (Inr (dec b) :: panic + 'a)" valid
  by unfold_locales (simp add: dec_enc)

end
