(* ===== verification/Rust_Std.thy ===== *)
theory Rust_Std
  imports Prelude
begin

section \<open>The pieces of Rust's standard library the source uses\<close>

text \<open>
  Decimal rendering and parsing of unsigned integers (\<open>to_string\<close>, \<open>str::parse\<close>) with
  the parser's errors, and \<open>checked_sub\<close>. Parsing follows the standard library: an empty
  string, a lone sign and a non-digit are errors, a leading \<open>+\<close> is accepted, and a value
  beyond the type's maximum is an overflow, whichever is met first from the left.
\<close>

subsection \<open>Rendering\<close>

definition digit_char :: "nat \<Rightarrow> char" where
  "digit_char d = char_of (48 + d)"

fun show_nat :: "nat \<Rightarrow> string" where
  "show_nat n = (if n < 10 then [digit_char n] else show_nat (n div 10) @ [digit_char (n mod 10)])"

declare show_nat.simps [simp del]

definition u8_to_string :: "u8 \<Rightarrow> string" where
  "u8_to_string c = show_nat (unat c)"

definition u64_to_string :: "u64 \<Rightarrow> string" where
  "u64_to_string n = show_nat (unat n)"

subsection \<open>Parsing\<close>

datatype parse_int_error = Empty | InvalidDigit | PosOverflow

text \<open>The \<open>Display\<close> text of the three errors.\<close>

primrec show_parse_int_error :: "parse_int_error \<Rightarrow> string" where
  "show_parse_int_error Empty = ''cannot parse integer from empty string''"
| "show_parse_int_error InvalidDigit = ''invalid digit found in string''"
| "show_parse_int_error PosOverflow = ''number too large to fit in target type''"

definition to_digit :: "char \<Rightarrow> nat option" where
  "to_digit c = (let n = (of_char c :: nat) in if 48 \<le> n \<and> n \<le> 57 then Some (n - 48) else None)"

fun parse_digits :: "nat \<Rightarrow> nat \<Rightarrow> string \<Rightarrow> parse_int_error + nat" where
  "parse_digits mx acc [] = Ok acc"
| "parse_digits mx acc (c # cs) =
     (case to_digit c of
        None \<Rightarrow> Err InvalidDigit
      | Some d \<Rightarrow> if mx < acc * 10 + d then Err PosOverflow else parse_digits mx (acc * 10 + d) cs)"

definition parse_uint :: "nat \<Rightarrow> string \<Rightarrow> parse_int_error + nat" where
  "parse_uint mx s =
     (case s of
        [] \<Rightarrow> Err Empty
      | [c] \<Rightarrow> parse_digits mx 0 [c]
      | c # cs \<Rightarrow> if c = CHR ''+'' then parse_digits mx 0 cs else parse_digits mx 0 (c # cs))"

definition u8_from_str :: "string \<Rightarrow> parse_int_error + u8" where
  "u8_from_str s = and_then (parse_uint 255 s) (\<lambda>n. Ok (of_nat n))"

definition u64_from_str :: "string \<Rightarrow> parse_int_error + u64" where
  "u64_from_str s = and_then (parse_uint 18446744073709551615 s) (\<lambda>n. Ok (of_nat n))"

subsection \<open>Parsing what was rendered\<close>

lemma to_digit_digit_char [simp]: "d < 10 \<Longrightarrow> to_digit (digit_char d) = Some d"
  by (simp add: to_digit_def digit_char_def Let_def)

lemma parse_digits_snoc:
  "parse_digits mx acc (cs @ [c]) =
     and_then (parse_digits mx acc cs) (\<lambda>a. parse_digits mx a [c])"
  by (induction cs arbitrary: acc) (auto split: option.splits)

lemma parse_digits_show_nat: "n \<le> mx \<Longrightarrow> parse_digits mx 0 (show_nat n) = Inr n"
proof (induction n rule: show_nat.induct)
  case (1 n)
  show ?case
  proof (cases "n < 10")
    case True
    with "1.prems" show ?thesis by (simp add: show_nat.simps [of n])
  next
    case False
    then have "parse_digits mx 0 (show_nat (n div 10)) = Inr (n div 10)"
      using "1.IH" "1.prems" by simp
    moreover have "n div 10 * 10 + n mod 10 = n" by (rule div_mult_mod_eq)
    ultimately show ?thesis
      using False "1.prems" by (simp add: show_nat.simps [of n] parse_digits_snoc)
  qed
qed

lemma digit_char_ne_plus: "d < 10 \<Longrightarrow> digit_char d \<noteq> CHR ''+''"
  using to_digit_digit_char [of d] by (auto simp: to_digit_def Let_def)

lemma hd_show_nat: "hd (show_nat n) \<noteq> CHR ''+'' \<and> show_nat n \<noteq> []"
proof (induction n rule: show_nat.induct)
  case (1 n)
  show ?case
  proof (cases "n < 10")
    case True
    then show ?thesis by (simp add: show_nat.simps [of n] digit_char_ne_plus)
  next
    case False
    with 1 show ?thesis by (simp add: show_nat.simps [of n])
  qed
qed

lemma parse_uint_no_sign: "s \<noteq> [] \<Longrightarrow> hd s \<noteq> CHR ''+'' \<Longrightarrow> parse_uint mx s = parse_digits mx 0 s"
  by (cases s; cases "tl s") (simp_all add: parse_uint_def del: parse_digits.simps)

lemma parse_uint_show_nat: "n \<le> mx \<Longrightarrow> parse_uint mx (show_nat n) = Inr n"
  using hd_show_nat [of n] by (simp add: parse_uint_no_sign parse_digits_show_nat)

lemma u8_from_to_string [simp]: "u8_from_str (u8_to_string c) = Inr c"
  by (simp add: u8_from_str_def u8_to_string_def parse_uint_show_nat unat_u8_le)

lemma u64_from_to_string [simp]: "u64_from_str (u64_to_string n) = Inr n"
  by (simp add: u64_from_str_def u64_to_string_def parse_uint_show_nat unat_u64_le)

lemma u8_from_str_Nil [simp]: "u8_from_str [] = Inl Empty"
  by (simp add: u8_from_str_def parse_uint_def)

lemma u8_to_string_ne_Nil: "u8_to_string c \<noteq> []"
  using hd_show_nat by (simp add: u8_to_string_def)

lemma parse_digits_bound: "acc \<le> mx \<Longrightarrow> parse_digits mx acc s = Inr n \<Longrightarrow> n \<le> mx"
proof (induction s arbitrary: acc)
  case (Cons c s)
  then show ?case by (fastforce simp: not_less split: option.splits if_splits)
qed simp

lemma parse_uint_bound:
  assumes "parse_uint mx s = Inr n"
  shows "n \<le> mx"
proof -
  obtain s' where "parse_digits mx 0 s' = Inr n"
    using assms by (auto simp: parse_uint_def split: list.splits if_splits simp del: parse_digits.simps)
  then show ?thesis by (rule parse_digits_bound [rotated]) simp
qed

subsection \<open>Checked subtraction\<close>

definition checked_sub :: "u64 \<Rightarrow> u64 \<Rightarrow> u64 option" where
  "checked_sub a b = (if b \<le> a then Some (a - b) else None)"

definition unwrap_or_default :: "u64 option \<Rightarrow> u64" where
  "unwrap_or_default x = (case x of None \<Rightarrow> 0 | Some a \<Rightarrow> a)"

lemma unat_saturating: "unat (unwrap_or_default (checked_sub a b)) = unat a - unat b"
  by (auto simp: unwrap_or_default_def checked_sub_def unat_sub word_le_nat_alt)

end
