(* ===== verification/Tx_Error.thy ===== *)
theory Tx_Error
  imports Codec Rust_Std
begin

section \<open>Transaction errors (proto/src/convert.rs, proto/proto/transaction_by_addr.proto)\<close>

text \<open>
  The error of a failed transaction and its message form: two numbered enums with optional
  details. The native enums are read off the exhaustive matches of the encoder; the numbers
  are those of the proto file; each \<open>match\<close> of the decoder on a number is a table in the
  order of its arms.
\<close>

subsection \<open>The enums\<close>

datatype (plugins only: size) InstructionError =
    IE_GenericError
  | IE_InvalidArgument
  | IE_InvalidInstructionData
  | IE_InvalidAccountData
  | IE_AccountDataTooSmall
  | IE_InsufficientFunds
  | IE_IncorrectProgramId
  | IE_MissingRequiredSignature
  | IE_AccountAlreadyInitialized
  | IE_UninitializedAccount
  | IE_UnbalancedInstruction
  | IE_ModifiedProgramId
  | IE_ExternalAccountLamportSpend
  | IE_ExternalAccountDataModified
  | IE_ReadonlyLamportChange
  | IE_ReadonlyDataModified
  | IE_DuplicateAccountIndex
  | IE_ExecutableModified
  | IE_RentEpochModified
  | IE_NotEnoughAccountKeys
  | IE_AccountDataSizeChanged
  | IE_AccountNotExecutable
  | IE_AccountBorrowFailed
  | IE_AccountBorrowOutstanding
  | IE_DuplicateAccountOutOfSync
  | IE_Custom u32
  | IE_InvalidError
  | IE_ExecutableDataModified
  | IE_ExecutableLamportChange
  | IE_ExecutableAccountNotRentExempt
  | IE_UnsupportedProgramId
  | IE_CallDepth
  | IE_MissingAccount
  | IE_ReentrancyNotAllowed
  | IE_MaxSeedLengthExceeded
  | IE_InvalidSeeds
  | IE_InvalidRealloc
  | IE_ComputationalBudgetExceeded
  | IE_PrivilegeEscalation
  | IE_ProgramEnvironmentSetupFailure
  | IE_ProgramFailedToComplete
  | IE_ProgramFailedToCompile
  | IE_Immutable
  | IE_IncorrectAuthority
  | IE_BorshIoError string
  | IE_AccountNotRentExempt
  | IE_InvalidAccountOwner
  | IE_ArithmeticOverflow
  | IE_UnsupportedSysvar
  | IE_IllegalOwner
  | IE_MaxAccountsDataAllocationsExceeded
  | IE_MaxAccountsExceeded
  | IE_MaxInstructionTraceLengthExceeded
  | IE_BuiltinProgramsMustConsumeComputeUnits

datatype (plugins only: size) TransactionError =
    TE_AccountInUse
  | TE_AccountLoadedTwice
  | TE_AccountNotFound
  | TE_ProgramAccountNotFound
  | TE_InsufficientFundsForFee
  | TE_InvalidAccountForFee
  | TE_AlreadyProcessed
  | TE_BlockhashNotFound
  | TE_CallChainTooDeep
  | TE_MissingSignatureForFee
  | TE_InvalidAccountIndex
  | TE_SignatureFailure
  | TE_InvalidProgramForExecution
  | TE_SanitizeFailure
  | TE_ClusterMaintenance
  | TE_InstructionError u8 InstructionError
  | TE_AccountBorrowOutstanding
  | TE_WouldExceedMaxBlockCostLimit
  | TE_UnsupportedVersion
  | TE_InvalidWritableAccount
  | TE_WouldExceedMaxAccountCostLimit
  | TE_WouldExceedAccountDataBlockLimit
  | TE_TooManyAccountLocks
  | TE_AddressLookupTableNotFound
  | TE_InvalidAddressLookupTableOwner
  | TE_InvalidAddressLookupTableData
  | TE_InvalidAddressLookupTableIndex
  | TE_InvalidRentPayingAccount
  | TE_WouldExceedMaxVoteCostLimit
  | TE_WouldExceedAccountDataTotalLimit
  | TE_DuplicateInstruction u8
  | TE_InsufficientFundsForRent u8
  | TE_MaxLoadedAccountsDataSizeExceeded
  | TE_InvalidLoadedAccountsDataSizeLimit
  | TE_ResanitizationNeeded
  | TE_ProgramExecutionTemporarilyRestricted u8
  | TE_UnbalancedTransaction
  | TE_ProgramCacheHitMaxLimit
  | TE_CommitCancelled

datatype (plugins only: size) InstructionErrorType =
    IET_GenericError
  | IET_InvalidArgument
  | IET_InvalidInstructionData
  | IET_InvalidAccountData
  | IET_AccountDataTooSmall
  | IET_InsufficientFunds
  | IET_IncorrectProgramId
  | IET_MissingRequiredSignature
  | IET_AccountAlreadyInitialized
  | IET_UninitializedAccount
  | IET_UnbalancedInstruction
  | IET_ModifiedProgramId
  | IET_ExternalAccountLamportSpend
  | IET_ExternalAccountDataModified
  | IET_ReadonlyLamportChange
  | IET_ReadonlyDataModified
  | IET_DuplicateAccountIndex
  | IET_ExecutableModified
  | IET_RentEpochModified
  | IET_NotEnoughAccountKeys
  | IET_AccountDataSizeChanged
  | IET_AccountNotExecutable
  | IET_AccountBorrowFailed
  | IET_AccountBorrowOutstanding
  | IET_DuplicateAccountOutOfSync
  | IET_Custom
  | IET_InvalidError
  | IET_ExecutableDataModified
  | IET_ExecutableLamportChange
  | IET_ExecutableAccountNotRentExempt
  | IET_UnsupportedProgramId
  | IET_CallDepth
  | IET_MissingAccount
  | IET_ReentrancyNotAllowed
  | IET_MaxSeedLengthExceeded
  | IET_InvalidSeeds
  | IET_InvalidRealloc
  | IET_ComputationalBudgetExceeded
  | IET_PrivilegeEscalation
  | IET_ProgramEnvironmentSetupFailure
  | IET_ProgramFailedToComplete
  | IET_ProgramFailedToCompile
  | IET_Immutable
  | IET_IncorrectAuthority
  | IET_BorshIoError
  | IET_AccountNotRentExempt
  | IET_InvalidAccountOwner
  | IET_ArithmeticOverflow
  | IET_UnsupportedSysvar
  | IET_IllegalOwner
  | IET_MaxAccountsDataAllocationsExceeded
  | IET_MaxAccountsExceeded
  | IET_MaxInstructionTraceLengthExceeded
  | IET_BuiltinProgramsMustConsumeComputeUnits

datatype (plugins only: size) TransactionErrorType =
    TET_AccountInUse
  | TET_AccountLoadedTwice
  | TET_AccountNotFound
  | TET_ProgramAccountNotFound
  | TET_InsufficientFundsForFee
  | TET_InvalidAccountForFee
  | TET_AlreadyProcessed
  | TET_BlockhashNotFound
  | TET_InstructionError
  | TET_CallChainTooDeep
  | TET_MissingSignatureForFee
  | TET_InvalidAccountIndex
  | TET_SignatureFailure
  | TET_InvalidProgramForExecution
  | TET_SanitizeFailure
  | TET_ClusterMaintenance
  | TET_AccountBorrowOutstandingTx
  | TET_WouldExceedMaxBlockCostLimit
  | TET_UnsupportedVersion
  | TET_InvalidWritableAccount
  | TET_WouldExceedMaxAccountCostLimit
  | TET_WouldExceedAccountDataBlockLimit
  | TET_TooManyAccountLocks
  | TET_AddressLookupTableNotFound
  | TET_InvalidAddressLookupTableOwner
  | TET_InvalidAddressLookupTableData
  | TET_InvalidAddressLookupTableIndex
  | TET_InvalidRentPayingAccount
  | TET_WouldExceedMaxVoteCostLimit
  | TET_WouldExceedAccountDataTotalLimit
  | TET_DuplicateInstruction
  | TET_InsufficientFundsForRent
  | TET_MaxLoadedAccountsDataSizeExceeded
  | TET_InvalidLoadedAccountsDataSizeLimit
  | TET_ResanitizationNeeded
  | TET_ProgramExecutionTemporarilyRestricted
  | TET_UnbalancedTransaction
  | TET_ProgramCacheHitMaxLimit
  | TET_CommitCancelled

primrec instruction_error_type_as_i32 :: "InstructionErrorType \<Rightarrow> i32" where
  "instruction_error_type_as_i32 IET_GenericError = 0"
| "instruction_error_type_as_i32 IET_InvalidArgument = 1"
| "instruction_error_type_as_i32 IET_InvalidInstructionData = 2"
| "instruction_error_type_as_i32 IET_InvalidAccountData = 3"
| "instruction_error_type_as_i32 IET_AccountDataTooSmall = 4"
| "instruction_error_type_as_i32 IET_InsufficientFunds = 5"
| "instruction_error_type_as_i32 IET_IncorrectProgramId = 6"
| "instruction_error_type_as_i32 IET_MissingRequiredSignature = 7"
| "instruction_error_type_as_i32 IET_AccountAlreadyInitialized = 8"
| "instruction_error_type_as_i32 IET_UninitializedAccount = 9"
| "instruction_error_type_as_i32 IET_UnbalancedInstruction = 10"
| "instruction_error_type_as_i32 IET_ModifiedProgramId = 11"
| "instruction_error_type_as_i32 IET_ExternalAccountLamportSpend = 12"
| "instruction_error_type_as_i32 IET_ExternalAccountDataModified = 13"
| "instruction_error_type_as_i32 IET_ReadonlyLamportChange = 14"
| "instruction_error_type_as_i32 IET_ReadonlyDataModified = 15"
| "instruction_error_type_as_i32 IET_DuplicateAccountIndex = 16"
| "instruction_error_type_as_i32 IET_ExecutableModified = 17"
| "instruction_error_type_as_i32 IET_RentEpochModified = 18"
| "instruction_error_type_as_i32 IET_NotEnoughAccountKeys = 19"
| "instruction_error_type_as_i32 IET_AccountDataSizeChanged = 20"
| "instruction_error_type_as_i32 IET_AccountNotExecutable = 21"
| "instruction_error_type_as_i32 IET_AccountBorrowFailed = 22"
| "instruction_error_type_as_i32 IET_AccountBorrowOutstanding = 23"
| "instruction_error_type_as_i32 IET_DuplicateAccountOutOfSync = 24"
| "instruction_error_type_as_i32 IET_Custom = 25"
| "instruction_error_type_as_i32 IET_InvalidError = 26"
| "instruction_error_type_as_i32 IET_ExecutableDataModified = 27"
| "instruction_error_type_as_i32 IET_ExecutableLamportChange = 28"
| "instruction_error_type_as_i32 IET_ExecutableAccountNotRentExempt = 29"
| "instruction_error_type_as_i32 IET_UnsupportedProgramId = 30"
| "instruction_error_type_as_i32 IET_CallDepth = 31"
| "instruction_error_type_as_i32 IET_MissingAccount = 32"
| "instruction_error_type_as_i32 IET_ReentrancyNotAllowed = 33"
| "instruction_error_type_as_i32 IET_MaxSeedLengthExceeded = 34"
| "instruction_error_type_as_i32 IET_InvalidSeeds = 35"
| "instruction_error_type_as_i32 IET_InvalidRealloc = 36"
| "instruction_error_type_as_i32 IET_ComputationalBudgetExceeded = 37"
| "instruction_error_type_as_i32 IET_PrivilegeEscalation = 38"
| "instruction_error_type_as_i32 IET_ProgramEnvironmentSetupFailure = 39"
| "instruction_error_type_as_i32 IET_ProgramFailedToComplete = 40"
| "instruction_error_type_as_i32 IET_ProgramFailedToCompile = 41"
| "instruction_error_type_as_i32 IET_Immutable = 42"
| "instruction_error_type_as_i32 IET_IncorrectAuthority = 43"
| "instruction_error_type_as_i32 IET_BorshIoError = 44"
| "instruction_error_type_as_i32 IET_AccountNotRentExempt = 45"
| "instruction_error_type_as_i32 IET_InvalidAccountOwner = 46"
| "instruction_error_type_as_i32 IET_ArithmeticOverflow = 47"
| "instruction_error_type_as_i32 IET_UnsupportedSysvar = 48"
| "instruction_error_type_as_i32 IET_IllegalOwner = 49"
| "instruction_error_type_as_i32 IET_MaxAccountsDataAllocationsExceeded = 50"
| "instruction_error_type_as_i32 IET_MaxAccountsExceeded = 51"
| "instruction_error_type_as_i32 IET_MaxInstructionTraceLengthExceeded = 52"
| "instruction_error_type_as_i32 IET_BuiltinProgramsMustConsumeComputeUnits = 53"

primrec transaction_error_type_as_i32 :: "TransactionErrorType \<Rightarrow> i32" where
  "transaction_error_type_as_i32 TET_AccountInUse = 0"
| "transaction_error_type_as_i32 TET_AccountLoadedTwice = 1"
| "transaction_error_type_as_i32 TET_AccountNotFound = 2"
| "transaction_error_type_as_i32 TET_ProgramAccountNotFound = 3"
| "transaction_error_type_as_i32 TET_InsufficientFundsForFee = 4"
| "transaction_error_type_as_i32 TET_InvalidAccountForFee = 5"
| "transaction_error_type_as_i32 TET_AlreadyProcessed = 6"
| "transaction_error_type_as_i32 TET_BlockhashNotFound = 7"
| "transaction_error_type_as_i32 TET_InstructionError = 8"
| "transaction_error_type_as_i32 TET_CallChainTooDeep = 9"
| "transaction_error_type_as_i32 TET_MissingSignatureForFee = 10"
| "transaction_error_type_as_i32 TET_InvalidAccountIndex = 11"
| "transaction_error_type_as_i32 TET_SignatureFailure = 12"
| "transaction_error_type_as_i32 TET_InvalidProgramForExecution = 13"
| "transaction_error_type_as_i32 TET_SanitizeFailure = 14"
| "transaction_error_type_as_i32 TET_ClusterMaintenance = 15"
| "transaction_error_type_as_i32 TET_AccountBorrowOutstandingTx = 16"
| "transaction_error_type_as_i32 TET_WouldExceedMaxBlockCostLimit = 17"
| "transaction_error_type_as_i32 TET_UnsupportedVersion = 18"
| "transaction_error_type_as_i32 TET_InvalidWritableAccount = 19"
| "transaction_error_type_as_i32 TET_WouldExceedMaxAccountCostLimit = 20"
| "transaction_error_type_as_i32 TET_WouldExceedAccountDataBlockLimit = 21"
| "transaction_error_type_as_i32 TET_TooManyAccountLocks = 22"
| "transaction_error_type_as_i32 TET_AddressLookupTableNotFound = 23"
| "transaction_error_type_as_i32 TET_InvalidAddressLookupTableOwner = 24"
| "transaction_error_type_as_i32 TET_InvalidAddressLookupTableData = 25"
| "transaction_error_type_as_i32 TET_InvalidAddressLookupTableIndex = 26"
| "transaction_error_type_as_i32 TET_InvalidRentPayingAccount = 27"
| "transaction_error_type_as_i32 TET_WouldExceedMaxVoteCostLimit = 28"
| "transaction_error_type_as_i32 TET_WouldExceedAccountDataTotalLimit = 29"
| "transaction_error_type_as_i32 TET_DuplicateInstruction = 30"
| "transaction_error_type_as_i32 TET_InsufficientFundsForRent = 31"
| "transaction_error_type_as_i32 TET_MaxLoadedAccountsDataSizeExceeded = 32"
| "transaction_error_type_as_i32 TET_InvalidLoadedAccountsDataSizeLimit = 33"
| "transaction_error_type_as_i32 TET_ResanitizationNeeded = 34"
| "transaction_error_type_as_i32 TET_ProgramExecutionTemporarilyRestricted = 35"
| "transaction_error_type_as_i32 TET_UnbalancedTransaction = 36"
| "transaction_error_type_as_i32 TET_ProgramCacheHitMaxLimit = 37"
| "transaction_error_type_as_i32 TET_CommitCancelled = 38"

primrec instruction_error_type :: "InstructionError \<Rightarrow> InstructionErrorType" where
  "instruction_error_type IE_GenericError = IET_GenericError"
| "instruction_error_type IE_InvalidArgument = IET_InvalidArgument"
| "instruction_error_type IE_InvalidInstructionData = IET_InvalidInstructionData"
| "instruction_error_type IE_InvalidAccountData = IET_InvalidAccountData"
| "instruction_error_type IE_AccountDataTooSmall = IET_AccountDataTooSmall"
| "instruction_error_type IE_InsufficientFunds = IET_InsufficientFunds"
| "instruction_error_type IE_IncorrectProgramId = IET_IncorrectProgramId"
| "instruction_error_type IE_MissingRequiredSignature = IET_MissingRequiredSignature"
| "instruction_error_type IE_AccountAlreadyInitialized = IET_AccountAlreadyInitialized"
| "instruction_error_type IE_UninitializedAccount = IET_UninitializedAccount"
| "instruction_error_type IE_UnbalancedInstruction = IET_UnbalancedInstruction"
| "instruction_error_type IE_ModifiedProgramId = IET_ModifiedProgramId"
| "instruction_error_type IE_ExternalAccountLamportSpend = IET_ExternalAccountLamportSpend"
| "instruction_error_type IE_ExternalAccountDataModified = IET_ExternalAccountDataModified"
| "instruction_error_type IE_ReadonlyLamportChange = IET_ReadonlyLamportChange"
| "instruction_error_type IE_ReadonlyDataModified = IET_ReadonlyDataModified"
| "instruction_error_type IE_DuplicateAccountIndex = IET_DuplicateAccountIndex"
| "instruction_error_type IE_ExecutableModified = IET_ExecutableModified"
| "instruction_error_type IE_RentEpochModified = IET_RentEpochModified"
| "instruction_error_type IE_NotEnoughAccountKeys = IET_NotEnoughAccountKeys"
| "instruction_error_type IE_AccountDataSizeChanged = IET_AccountDataSizeChanged"
| "instruction_error_type IE_AccountNotExecutable = IET_AccountNotExecutable"
| "instruction_error_type IE_AccountBorrowFailed = IET_AccountBorrowFailed"
| "instruction_error_type IE_AccountBorrowOutstanding = IET_AccountBorrowOutstanding"
| "instruction_error_type IE_DuplicateAccountOutOfSync = IET_DuplicateAccountOutOfSync"
| "instruction_error_type (IE_Custom c) = IET_Custom"
| "instruction_error_type IE_InvalidError = IET_InvalidError"
| "instruction_error_type IE_ExecutableDataModified = IET_ExecutableDataModified"
| "instruction_error_type IE_ExecutableLamportChange = IET_ExecutableLamportChange"
| "instruction_error_type IE_ExecutableAccountNotRentExempt = IET_ExecutableAccountNotRentExempt"
| "instruction_error_type IE_UnsupportedProgramId = IET_UnsupportedProgramId"
| "instruction_error_type IE_CallDepth = IET_CallDepth"
| "instruction_error_type IE_MissingAccount = IET_MissingAccount"
| "instruction_error_type IE_ReentrancyNotAllowed = IET_ReentrancyNotAllowed"
| "instruction_error_type IE_MaxSeedLengthExceeded = IET_MaxSeedLengthExceeded"
| "instruction_error_type IE_InvalidSeeds = IET_InvalidSeeds"
| "instruction_error_type IE_InvalidRealloc = IET_InvalidRealloc"
| "instruction_error_type IE_ComputationalBudgetExceeded = IET_ComputationalBudgetExceeded"
| "instruction_error_type IE_PrivilegeEscalation = IET_PrivilegeEscalation"
| "instruction_error_type IE_ProgramEnvironmentSetupFailure = IET_ProgramEnvironmentSetupFailure"
| "instruction_error_type IE_ProgramFailedToComplete = IET_ProgramFailedToComplete"
| "instruction_error_type IE_ProgramFailedToCompile = IET_ProgramFailedToCompile"
| "instruction_error_type IE_Immutable = IET_Immutable"
| "instruction_error_type IE_IncorrectAuthority = IET_IncorrectAuthority"
| "instruction_error_type (IE_BorshIoError s) = IET_BorshIoError"
| "instruction_error_type IE_AccountNotRentExempt = IET_AccountNotRentExempt"
| "instruction_error_type IE_InvalidAccountOwner = IET_InvalidAccountOwner"
| "instruction_error_type IE_ArithmeticOverflow = IET_ArithmeticOverflow"
| "instruction_error_type IE_UnsupportedSysvar = IET_UnsupportedSysvar"
| "instruction_error_type IE_IllegalOwner = IET_IllegalOwner"
| "instruction_error_type IE_MaxAccountsDataAllocationsExceeded = IET_MaxAccountsDataAllocationsExceeded"
| "instruction_error_type IE_MaxAccountsExceeded = IET_MaxAccountsExceeded"
| "instruction_error_type IE_MaxInstructionTraceLengthExceeded = IET_MaxInstructionTraceLengthExceeded"
| "instruction_error_type IE_BuiltinProgramsMustConsumeComputeUnits = IET_BuiltinProgramsMustConsumeComputeUnits"

primrec transaction_error_type :: "TransactionError \<Rightarrow> TransactionErrorType" where
  "transaction_error_type TE_AccountInUse = TET_AccountInUse"
| "transaction_error_type TE_AccountLoadedTwice = TET_AccountLoadedTwice"
| "transaction_error_type TE_AccountNotFound = TET_AccountNotFound"
| "transaction_error_type TE_ProgramAccountNotFound = TET_ProgramAccountNotFound"
| "transaction_error_type TE_InsufficientFundsForFee = TET_InsufficientFundsForFee"
| "transaction_error_type TE_InvalidAccountForFee = TET_InvalidAccountForFee"
| "transaction_error_type TE_AlreadyProcessed = TET_AlreadyProcessed"
| "transaction_error_type TE_BlockhashNotFound = TET_BlockhashNotFound"
| "transaction_error_type TE_CallChainTooDeep = TET_CallChainTooDeep"
| "transaction_error_type TE_MissingSignatureForFee = TET_MissingSignatureForFee"
| "transaction_error_type TE_InvalidAccountIndex = TET_InvalidAccountIndex"
| "transaction_error_type TE_SignatureFailure = TET_SignatureFailure"
| "transaction_error_type TE_InvalidProgramForExecution = TET_InvalidProgramForExecution"
| "transaction_error_type TE_SanitizeFailure = TET_SanitizeFailure"
| "transaction_error_type TE_ClusterMaintenance = TET_ClusterMaintenance"
| "transaction_error_type (TE_InstructionError i e) = TET_InstructionError"
| "transaction_error_type TE_AccountBorrowOutstanding = TET_AccountBorrowOutstandingTx"
| "transaction_error_type TE_WouldExceedMaxBlockCostLimit = TET_WouldExceedMaxBlockCostLimit"
| "transaction_error_type TE_UnsupportedVersion = TET_UnsupportedVersion"
| "transaction_error_type TE_InvalidWritableAccount = TET_InvalidWritableAccount"
| "transaction_error_type TE_WouldExceedMaxAccountCostLimit = TET_WouldExceedMaxAccountCostLimit"
| "transaction_error_type TE_WouldExceedAccountDataBlockLimit = TET_WouldExceedAccountDataBlockLimit"
| "transaction_error_type TE_TooManyAccountLocks = TET_TooManyAccountLocks"
| "transaction_error_type TE_AddressLookupTableNotFound = TET_AddressLookupTableNotFound"
| "transaction_error_type TE_InvalidAddressLookupTableOwner = TET_InvalidAddressLookupTableOwner"
| "transaction_error_type TE_InvalidAddressLookupTableData = TET_InvalidAddressLookupTableData"
| "transaction_error_type TE_InvalidAddressLookupTableIndex = TET_InvalidAddressLookupTableIndex"
| "transaction_error_type TE_InvalidRentPayingAccount = TET_InvalidRentPayingAccount"
| "transaction_error_type TE_WouldExceedMaxVoteCostLimit = TET_WouldExceedMaxVoteCostLimit"
| "transaction_error_type TE_WouldExceedAccountDataTotalLimit = TET_WouldExceedAccountDataTotalLimit"
| "transaction_error_type (TE_DuplicateInstruction i) = TET_DuplicateInstruction"
| "transaction_error_type (TE_InsufficientFundsForRent i) = TET_InsufficientFundsForRent"
| "transaction_error_type TE_MaxLoadedAccountsDataSizeExceeded = TET_MaxLoadedAccountsDataSizeExceeded"
| "transaction_error_type TE_InvalidLoadedAccountsDataSizeLimit = TET_InvalidLoadedAccountsDataSizeLimit"
| "transaction_error_type TE_ResanitizationNeeded = TET_ResanitizationNeeded"
| "transaction_error_type (TE_ProgramExecutionTemporarilyRestricted i) = TET_ProgramExecutionTemporarilyRestricted"
| "transaction_error_type TE_UnbalancedTransaction = TET_UnbalancedTransaction"
| "transaction_error_type TE_ProgramCacheHitMaxLimit = TET_ProgramCacheHitMaxLimit"
| "transaction_error_type TE_CommitCancelled = TET_CommitCancelled"

definition instruction_error_table :: "(i32 \<times> InstructionError) list" where
  "instruction_error_table =
     [(0, IE_GenericError),
      (1, IE_InvalidArgument),
      (2, IE_InvalidInstructionData),
      (3, IE_InvalidAccountData),
      (4, IE_AccountDataTooSmall),
      (5, IE_InsufficientFunds),
      (6, IE_IncorrectProgramId),
      (7, IE_MissingRequiredSignature),
      (8, IE_AccountAlreadyInitialized),
      (9, IE_UninitializedAccount),
      (10, IE_UnbalancedInstruction),
      (11, IE_ModifiedProgramId),
      (12, IE_ExternalAccountLamportSpend),
      (13, IE_ExternalAccountDataModified),
      (14, IE_ReadonlyLamportChange),
      (15, IE_ReadonlyDataModified),
      (16, IE_DuplicateAccountIndex),
      (17, IE_ExecutableModified),
      (18, IE_RentEpochModified),
      (19, IE_NotEnoughAccountKeys),
      (20, IE_AccountDataSizeChanged),
      (21, IE_AccountNotExecutable),
      (22, IE_AccountBorrowFailed),
      (23, IE_AccountBorrowOutstanding),
      (24, IE_DuplicateAccountOutOfSync),
      (26, IE_InvalidError),
      (27, IE_ExecutableDataModified),
      (28, IE_ExecutableLamportChange),
      (29, IE_ExecutableAccountNotRentExempt),
      (30, IE_UnsupportedProgramId),
      (31, IE_CallDepth),
      (32, IE_MissingAccount),
      (33, IE_ReentrancyNotAllowed),
      (34, IE_MaxSeedLengthExceeded),
      (35, IE_InvalidSeeds),
      (36, IE_InvalidRealloc),
      (37, IE_ComputationalBudgetExceeded),
      (38, IE_PrivilegeEscalation),
      (39, IE_ProgramEnvironmentSetupFailure),
      (40, IE_ProgramFailedToComplete),
      (41, IE_ProgramFailedToCompile),
      (42, IE_Immutable),
      (43, IE_IncorrectAuthority),
      (44, IE_BorshIoError []),
      (45, IE_AccountNotRentExempt),
      (46, IE_InvalidAccountOwner),
      (47, IE_ArithmeticOverflow),
      (48, IE_UnsupportedSysvar),
      (49, IE_IllegalOwner),
      (50, IE_MaxAccountsDataAllocationsExceeded),
      (51, IE_MaxAccountsExceeded),
      (52, IE_MaxInstructionTraceLengthExceeded),
      (53, IE_BuiltinProgramsMustConsumeComputeUnits)]"

definition transaction_error_table :: "(i32 \<times> TransactionError) list" where
  "transaction_error_table =
     [(0, TE_AccountInUse),
      (1, TE_AccountLoadedTwice),
      (2, TE_AccountNotFound),
      (3, TE_ProgramAccountNotFound),
      (4, TE_InsufficientFundsForFee),
      (5, TE_InvalidAccountForFee),
      (6, TE_AlreadyProcessed),
      (7, TE_BlockhashNotFound),
      (9, TE_CallChainTooDeep),
      (10, TE_MissingSignatureForFee),
      (11, TE_InvalidAccountIndex),
      (12, TE_SignatureFailure),
      (13, TE_InvalidProgramForExecution),
      (14, TE_SanitizeFailure),
      (15, TE_ClusterMaintenance),
      (16, TE_AccountBorrowOutstanding),
      (17, TE_WouldExceedMaxBlockCostLimit),
      (18, TE_UnsupportedVersion),
      (19, TE_InvalidWritableAccount),
      (20, TE_WouldExceedMaxAccountCostLimit),
      (21, TE_WouldExceedAccountDataBlockLimit),
      (22, TE_TooManyAccountLocks),
      (23, TE_AddressLookupTableNotFound),
      (24, TE_InvalidAddressLookupTableOwner),
      (25, TE_InvalidAddressLookupTableData),
      (26, TE_InvalidAddressLookupTableIndex),
      (27, TE_InvalidRentPayingAccount),
      (28, TE_WouldExceedMaxVoteCostLimit),
      (29, TE_WouldExceedAccountDataTotalLimit),
      (32, TE_MaxLoadedAccountsDataSizeExceeded),
      (33, TE_InvalidLoadedAccountsDataSizeLimit),
      (34, TE_ResanitizationNeeded),
      (36, TE_UnbalancedTransaction),
      (37, TE_ProgramCacheHitMaxLimit),
      (38, TE_CommitCancelled)]"
subsection \<open>The messages\<close>

record PbInstructionError =
  pie_index :: u32
  pie_error :: i32
  pie_custom :: "u32 option"

record PbTransactionError =
  pte_transaction_error :: i32
  pte_instruction_error :: "PbInstructionError option"
  pte_transaction_details :: "u32 option"

end
