(* ===== verification/Convert_Tx_Error.thy ===== *)
theory Convert_Tx_Error
  imports Tx_Error
begin

section \<open>Encoding and decoding transaction errors (proto/src/convert.rs)\<close>

text \<open>
  \<open>From<TransactionError> for tx_by_addr::TransactionError\<close> and its fallible inverse. The
  decoder prefers the details it is given: number 8 with an instruction error, then the
  numbers 30, 31 and 35 with their account index, and only then the plain table, in which
  those four numbers have no entry.
\<close>

subsection \<open>Encoding\<close>

definition custom_error_to_pb :: "InstructionError \<Rightarrow> u32 option" where
  "custom_error_to_pb e = (case e of IE_Custom custom \<Rightarrow> Some custom | _ \<Rightarrow> None)"

definition instruction_error_to_pb :: "u8 \<Rightarrow> InstructionError \<Rightarrow> PbInstructionError" where
  "instruction_error_to_pb index e =
     \<lparr>pie_index = ucast index,
      pie_error = instruction_error_type_as_i32 (instruction_error_type e),
      pie_custom = custom_error_to_pb e\<rparr>"

definition transaction_error_to_pb :: "TransactionError \<Rightarrow> PbTransactionError" where
  "transaction_error_to_pb te =
     \<lparr>pte_transaction_error = transaction_error_type_as_i32 (transaction_error_type te),
      pte_instruction_error =
        (case te of TE_InstructionError index e \<Rightarrow> Some (instruction_error_to_pb index e) | _ \<Rightarrow> None),
      pte_transaction_details =
        (case te of
           TE_DuplicateInstruction index \<Rightarrow> Some (ucast index)
         | TE_InsufficientFundsForRent account_index \<Rightarrow> Some (ucast account_index)
         | TE_ProgramExecutionTemporarilyRestricted account_index \<Rightarrow> Some (ucast account_index)
         | _ \<Rightarrow> None)\<rparr>"

subsection \<open>Decoding\<close>

definition decode_instruction_error :: "PbInstructionError \<Rightarrow> string + TransactionError" where
  "decode_instruction_error ie =
     (case pie_custom ie of
        Some custom \<Rightarrow> Ok (TE_InstructionError (ucast (pie_index ie)) (IE_Custom custom))
      | None \<Rightarrow>
          (case map_of instruction_error_table (pie_error ie) of
             Some e \<Rightarrow> Ok (TE_InstructionError (ucast (pie_index ie)) e)
           | None \<Rightarrow> Err ''Invalid InstructionError''))"

definition decode_details :: "i32 \<Rightarrow> u32 \<Rightarrow> TransactionError option" where
  "decode_details n index =
     (if n = 30 then Some (TE_DuplicateInstruction (ucast index))
      else if n = 31 then Some (TE_InsufficientFundsForRent (ucast index))
      else if n = 35 then Some (TE_ProgramExecutionTemporarilyRestricted (ucast index))
      else None)"

definition decode_plain :: "i32 \<Rightarrow> string + TransactionError" where
  "decode_plain n =
     (case map_of transaction_error_table n of
        Some te \<Rightarrow> Ok te
      | None \<Rightarrow> Err ''Invalid TransactionError'')"

definition transaction_error_try_from :: "PbTransactionError \<Rightarrow> string + TransactionError" where
  "transaction_error_try_from te =
     (case (if pte_transaction_error te = 8 then pte_instruction_error te else None) of
        Some ie \<Rightarrow> decode_instruction_error ie
      | None \<Rightarrow>
          (case Option.bind (pte_transaction_details te) (decode_details (pte_transaction_error te)) of
             Some e \<Rightarrow> Ok e
           | None \<Rightarrow> decode_plain (pte_transaction_error te)))"

subsection \<open>The numbering\<close>

text \<open>What the message form does not carry: the text of a Borsh error.\<close>

definition forget_borsh :: "InstructionError \<Rightarrow> InstructionError" where
  "forget_borsh e = (case e of IE_BorshIoError _ \<Rightarrow> IE_BorshIoError [] | _ \<Rightarrow> e)"

definition is_custom :: "InstructionError \<Rightarrow> bool" where
  "is_custom e \<longleftrightarrow> (case e of IE_Custom _ \<Rightarrow> True | _ \<Rightarrow> False)"

definition has_details :: "TransactionError \<Rightarrow> bool" where
  "has_details te \<longleftrightarrow>
     (case te of TE_InstructionError _ _ \<Rightarrow> True | TE_DuplicateInstruction _ \<Rightarrow> True
      | TE_InsufficientFundsForRent _ \<Rightarrow> True | TE_ProgramExecutionTemporarilyRestricted _ \<Rightarrow> True
      | _ \<Rightarrow> False)"

lemma instruction_error_table_encoded:
  "map_of instruction_error_table (instruction_error_type_as_i32 (instruction_error_type e)) =
     (if is_custom e then None else Some (forget_borsh e))"
  by (cases e) (simp_all add: instruction_error_table_def is_custom_def forget_borsh_def)

lemma transaction_error_table_encoded:
  "map_of transaction_error_table (transaction_error_type_as_i32 (transaction_error_type te)) =
     (if has_details te then None else Some te)"
  by (cases te) (simp_all add: transaction_error_table_def has_details_def)

lemma decode_encoded_instruction_error:
  "decode_instruction_error (instruction_error_to_pb i e) = Inr (TE_InstructionError i (forget_borsh e))"
proof (cases "is_custom e")
  case True
  then obtain c where "e = IE_Custom c" by (cases e) (simp_all add: is_custom_def)
  then show ?thesis
    by (simp add: decode_instruction_error_def instruction_error_to_pb_def custom_error_to_pb_def
        forget_borsh_def)
next
  case False
  then have "custom_error_to_pb e = None"
    by (cases e) (simp_all add: is_custom_def custom_error_to_pb_def)
  with False show ?thesis
    by (simp add: decode_instruction_error_def instruction_error_to_pb_def
        instruction_error_table_encoded)
qed

lemma transaction_error_code_8:
  "transaction_error_type_as_i32 (transaction_error_type te) = 8 \<longleftrightarrow>
     (\<exists>i e. te = TE_InstructionError i e)"
  by (cases te) simp_all

subsection \<open>The tables\<close>

lemma in_of_nat_upt: "k \<le> 4294967296 \<Longrightarrow> (n :: i32) \<in> set (map of_nat [0..<k]) \<longleftrightarrow> unat n < k"
proof
  assume k: "k \<le> 4294967296" and "n \<in> set (map of_nat [0..<k])"
  then obtain j where "n = of_nat j" "j < k" by auto
  with k show "unat n < k" by (simp add: unat_of_nat)
next
  assume "unat n < k"
  then have "of_nat (unat n) \<in> (of_nat ` {0..<k} :: i32 set)" by (intro imageI) simp
  then show "n \<in> set (map of_nat [0..<k])" by simp
qed

lemma transaction_error_table_keys:
  "map fst transaction_error_table =
     filter (\<lambda>n. n \<notin> {8, 30, 31, 35}) (map of_nat [0..<39])"
  by (simp add: transaction_error_table_def upt_rec)

lemma instruction_error_table_keys:
  "map fst instruction_error_table = filter (\<lambda>n. n \<noteq> 25) (map of_nat [0..<54])"
  by (simp add: instruction_error_table_def upt_rec)

lemma map_of_None_keys: "map_of m k = None \<longleftrightarrow> k \<notin> set (map fst m)"
  by (simp add: map_of_eq_None_iff)

lemma transaction_error_table_None:
  "map_of transaction_error_table n = None \<longleftrightarrow> 39 \<le> unat n \<or> n \<in> {8, 30, 31, 35}"
proof -
  have "n \<in> set (map of_nat [0..<39]) \<longleftrightarrow> unat n < 39" by (rule in_of_nat_upt) simp
  then show ?thesis
    unfolding map_of_None_keys transaction_error_table_keys set_filter by (auto simp: not_less)
qed

lemma instruction_error_table_None:
  "map_of instruction_error_table n = None \<longleftrightarrow> 54 \<le> unat n \<or> n = 25"
proof -
  have "n \<in> set (map of_nat [0..<54]) \<longleftrightarrow> unat n < 54" by (rule in_of_nat_upt) simp
  then show ?thesis
    unfolding map_of_None_keys instruction_error_table_keys set_filter by (auto simp: not_less)
qed

lemma transaction_error_table_code:
  assumes "map_of transaction_error_table n = Some te"
  shows "transaction_error_type_as_i32 (transaction_error_type te) = n"
proof -
  have "list_all (\<lambda>(n, te). transaction_error_type_as_i32 (transaction_error_type te) = n)
      transaction_error_table"
    by (simp add: transaction_error_table_def)
  with map_of_SomeD [OF assms] show ?thesis by (auto simp: list_all_iff)
qed

lemma instruction_error_table_code:
  assumes "map_of instruction_error_table n = Some e"
  shows "instruction_error_type_as_i32 (instruction_error_type e) = n \<and> custom_error_to_pb e = None"
proof -
  have "list_all (\<lambda>(n, e). instruction_error_type_as_i32 (instruction_error_type e) = n \<and>
      custom_error_to_pb e = None) instruction_error_table"
    by (simp add: instruction_error_table_def custom_error_to_pb_def)
  with map_of_SomeD [OF assms] show ?thesis by (auto simp: list_all_iff)
qed

lemma transaction_error_table_plain:
  assumes "map_of transaction_error_table n = Some te"
  shows "\<not> has_details te"
proof -
  have "list_all (\<lambda>(n, te). \<not> has_details te) transaction_error_table"
    by (simp add: transaction_error_table_def has_details_def)
  with map_of_SomeD [OF assms] show ?thesis by (auto simp: list_all_iff)
qed

lemma no_details_to_pb:
  "\<not> has_details te \<Longrightarrow> transaction_error_to_pb te =
     \<lparr>pte_transaction_error = transaction_error_type_as_i32 (transaction_error_type te),
      pte_instruction_error = None, pte_transaction_details = None\<rparr>"
  by (cases te) (simp_all add: has_details_def transaction_error_to_pb_def)

lemma try_from_no_details:
  "\<not> has_details te \<Longrightarrow> transaction_error_try_from (transaction_error_to_pb te) = Inr te"
  by (auto simp: no_details_to_pb transaction_error_try_from_def decode_plain_def
      transaction_error_table_encoded transaction_error_code_8 has_details_def)

definition forget_message :: "TransactionError \<Rightarrow> TransactionError" where
  "forget_message te =
     (case te of TE_InstructionError i e \<Rightarrow> TE_InstructionError i (forget_borsh e) | _ \<Rightarrow> te)"

lemma try_from_to_pb:
  "transaction_error_try_from (transaction_error_to_pb te) = Inr (forget_message te)"
proof (cases "has_details te")
  case False
  then have "forget_message te = te" by (cases te) (simp_all add: has_details_def forget_message_def)
  with False show ?thesis by (simp add: try_from_no_details)
next
  case True
  then show ?thesis
    by (cases te)
      (simp_all add: has_details_def transaction_error_to_pb_def transaction_error_try_from_def
        decode_encoded_instruction_error decode_details_def forget_message_def)
qed

subsection \<open>The contract of the pair\<close>

interpretation tx_error: codec transaction_error_to_pb transaction_error_try_from
    "\<lambda>te. forget_message te = te"
  by unfold_locales (simp add: try_from_to_pb)

lemma forget_message_id:
  "forget_message te = te \<longleftrightarrow> (\<forall>i s. te = TE_InstructionError i (IE_BorshIoError s) \<longrightarrow> s = [])"
proof (cases te)
  case (TE_InstructionError i e)
  then show ?thesis by (cases e) (auto simp: forget_message_def forget_borsh_def)
qed (simp_all add: forget_message_def)

lemma decode_instruction_error_code:
  assumes "decode_instruction_error ie = Inr te"
  shows "\<exists>e. te = TE_InstructionError (ucast (pie_index ie)) e \<and> custom_error_to_pb e = pie_custom ie \<and>
    (pie_custom ie = None \<longrightarrow> instruction_error_type_as_i32 (instruction_error_type e) = pie_error ie)"
  using assms
  by (auto simp: decode_instruction_error_def custom_error_to_pb_def
      dest: instruction_error_table_code split: option.splits)

lemma decode_details_code:
  "decode_details n index = Some te \<Longrightarrow>
     transaction_error_type_as_i32 (transaction_error_type te) = n"
  by (auto simp: decode_details_def split: if_splits)

lemma decode_plain_code:
  "decode_plain n = Inr te \<Longrightarrow>
     transaction_error_type_as_i32 (transaction_error_type te) = n \<and> \<not> has_details te"
  by (auto simp: decode_plain_def dest: transaction_error_table_code transaction_error_table_plain
      split: option.splits)

lemma try_from_code:
  assumes "transaction_error_try_from p = Inr te"
  shows "transaction_error_type_as_i32 (transaction_error_type te) = pte_transaction_error p"
  using assms
  by (auto simp: transaction_error_try_from_def bind_eq_Some_conv
      dest!: decode_instruction_error_code decode_details_code decode_plain_code
      split: option.splits if_splits)

text \<open>
  C14. A transaction error survives its message form exactly when it is not a Borsh error with
  a message, the text of which the form does not carry; every other error, with its
  instruction index, custom code and account index, comes back unchanged.
\<close>

theorem transaction_error_roundtrip:
  "transaction_error_try_from (transaction_error_to_pb te) = Inr te \<longleftrightarrow>
     \<not> (\<exists>i s. te = TE_InstructionError i (IE_BorshIoError s) \<and> s \<noteq> [])"
  using tx_error.dec_enc [of te] forget_message_id [of te]
  by (auto simp: try_from_to_pb)

text \<open>
  C21. The decoder rejects exactly the messages that name no error: number 8 with an unknown
  instruction error or with none, the numbers 30, 31 and 35 without their account index, and
  the numbers from 39 on (the negative ones among them).
\<close>

theorem transaction_error_rejected:
  "is_err (transaction_error_try_from p) \<longleftrightarrow>
     (if pte_transaction_error p = 8 then
        (case pte_instruction_error p of
           None \<Rightarrow> True
         | Some ie \<Rightarrow> pie_custom ie = None \<and> (54 \<le> unat (pie_error ie) \<or> pie_error ie = 25))
      else if pte_transaction_error p \<in> {30, 31, 35} then pte_transaction_details p = None
      else 39 \<le> unat (pte_transaction_error p))"
proof -
  have ie: "is_err (decode_instruction_error ie) \<longleftrightarrow>
      pie_custom ie = None \<and> (54 \<le> unat (pie_error ie) \<or> pie_error ie = 25)" for ie
    unfolding instruction_error_table_None [symmetric]
    by (simp add: decode_instruction_error_def split: option.splits)
  have plain: "is_err (decode_plain n) \<longleftrightarrow> 39 \<le> unat n \<or> n \<in> {8, 30, 31, 35}" for n
    unfolding transaction_error_table_None [symmetric] by (simp add: decode_plain_def split: option.splits)
  show ?thesis
    by (cases "pte_transaction_details p")
      (auto simp: transaction_error_try_from_def ie plain decode_details_def split: option.splits)
qed

definition pb_normal :: "PbTransactionError \<Rightarrow> bool" where
  "pb_normal p \<longleftrightarrow>
     (case pte_instruction_error p of
        None \<Rightarrow> pte_transaction_error p \<noteq> 8
      | Some ie \<Rightarrow> pte_transaction_error p = 8 \<and> unat (pie_index ie) < 256 \<and>
          (pie_custom ie \<noteq> None \<longrightarrow> pie_error ie = 25)) \<and>
     (case pte_transaction_details p of
        None \<Rightarrow> pte_transaction_error p \<notin> {30, 31, 35}
      | Some i \<Rightarrow> pte_transaction_error p \<in> {30, 31, 35} \<and> unat i < 256)"

lemma pb_instruction_error_eqI:
  assumes "unat (pie_index ie) < 256" "custom_error_to_pb e = pie_custom ie"
    and "instruction_error_type_as_i32 (instruction_error_type e) = pie_error ie"
  shows "instruction_error_to_pb (ucast (pie_index ie)) e = ie"
  using assms by (cases ie) (auto simp: instruction_error_to_pb_def ucast_u32_u8_u32)

lemma to_pb_code:
  "pte_transaction_error (transaction_error_to_pb te) =
     transaction_error_type_as_i32 (transaction_error_type te)"
  by (simp add: transaction_error_to_pb_def)

lemma custom_error_number:
  "custom_error_to_pb e \<noteq> None \<Longrightarrow> instruction_error_type_as_i32 (instruction_error_type e) = 25"
  by (cases e) (simp_all add: custom_error_to_pb_def)

lemma normal_instruction_error:
  assumes "decode_instruction_error ie = Inr te" "unat (pie_index ie) < 256"
    and "pie_custom ie \<noteq> None \<longrightarrow> pie_error ie = 25"
  shows "transaction_error_to_pb te =
    \<lparr>pte_transaction_error = 8, pte_instruction_error = Some ie, pte_transaction_details = None\<rparr>"
proof -
  obtain e where e: "te = TE_InstructionError (ucast (pie_index ie)) e"
      "custom_error_to_pb e = pie_custom ie"
      "pie_custom ie = None \<longrightarrow> instruction_error_type_as_i32 (instruction_error_type e) = pie_error ie"
    using decode_instruction_error_code [OF assms(1)] by (elim exE conjE) (rule that)
  then have "instruction_error_to_pb (ucast (pie_index ie)) e = ie"
    using assms(2,3) custom_error_number [of e] by (intro pb_instruction_error_eqI) auto
  with e show ?thesis by (simp add: transaction_error_to_pb_def)
qed

lemma normal_details:
  assumes "decode_details n i = Some te" "unat i < 256"
  shows "transaction_error_to_pb te =
    \<lparr>pte_transaction_error = n, pte_instruction_error = None, pte_transaction_details = Some i\<rparr>"
  using assms
  by (auto simp: decode_details_def transaction_error_to_pb_def ucast_u32_u8_u32 split: if_splits)

lemma normal_encode_decoded:
  assumes p: "transaction_error_try_from p = Inr te" and n: "pb_normal p"
  shows "transaction_error_to_pb te = p"
proof -
  obtain c ie d where p_eq: "p = \<lparr>pte_transaction_error = c, pte_instruction_error = ie,
      pte_transaction_details = d\<rparr>" by (cases p)
  consider (instr) x where "ie = Some x" "c = 8" "d = None"
    | (details) i where "ie = None" "d = Some i" "c \<noteq> 8"
    | (plain) "ie = None" "d = None" "c \<noteq> 8"
    using n by (auto simp: pb_normal_def p_eq split: option.splits)
  then show ?thesis
  proof cases
    case instr
    with p n show ?thesis
      by (auto simp: p_eq pb_normal_def transaction_error_try_from_def intro: normal_instruction_error)
  next
    case details
    then have "\<exists>e. decode_details c i = Some e"
      using n by (auto simp: p_eq pb_normal_def decode_details_def)
    with details p n show ?thesis
      by (auto simp: p_eq pb_normal_def transaction_error_try_from_def intro: normal_details)
  next
    case plain
    with p show ?thesis
      by (auto simp: p_eq transaction_error_try_from_def no_details_to_pb dest: decode_plain_code)
  qed
qed

text \<open>
  C22. Decoding keeps the error's number, and a message that carries only what its number
  calls for, with an index that fits a byte, is encoded back to itself.
\<close>

theorem transaction_error_decode_encode:
  assumes "transaction_error_try_from p = Inr te"
  shows "pte_transaction_error (transaction_error_to_pb te) = pte_transaction_error p \<and>
    (pb_normal p \<longrightarrow> transaction_error_to_pb te = p)"
  using assms by (simp add: normal_encode_decoded to_pb_code try_from_code)

theorem transaction_error_decode_encode_witness:
  "transaction_error_to_pb (TE_InsufficientFundsForRent 10) =
     \<lparr>pte_transaction_error = 31, pte_instruction_error = None, pte_transaction_details = Some 10\<rparr>"
proof -
  let ?p = "\<lparr>pte_transaction_error = 31, pte_instruction_error = None, pte_transaction_details = Some 10\<rparr>"
  have "transaction_error_try_from ?p = Inr (TE_InsufficientFundsForRent 10)"
    by (simp add: transaction_error_try_from_def decode_details_def)
  moreover have "pb_normal ?p" by (simp add: pb_normal_def)
  ultimately show ?thesis using transaction_error_decode_encode [of ?p] by blast
qed

end
