(* ===== verification/Solana_Sdk.thy ===== *)
theory Solana_Sdk
  imports Solana_Types Convert_Tx_Error
begin

section \<open>What the conversions call of the Solana crates and of bincode\<close>

text \<open>
  These functions are not part of the repository: they are the fields of a record, an argument
  of every definition that calls one of them. The locale states the documented behaviour the
  round trips rely on: a key and a signature are made from exactly their own bytes, bincode
  reads back what it wrote, and a versioned transaction around a legacy message can be turned
  into the legacy transaction.
\<close>

datatype bincode_error = Bincode_Custom string | Bincode_Other string

record sdk =
  pubkey_try_from :: "bytes \<Rightarrow> string + pubkey"
  signature_try_from :: "bytes \<Rightarrow> string + signature"
  real_number_string_trimmed :: "u64 \<Rightarrow> u8 \<Rightarrow> string"
  bincode_serialize :: "TransactionError \<Rightarrow> bytes option"
  bincode_deserialize :: "bytes \<Rightarrow> bincode_error + TransactionError"
  into_legacy_transaction :: "VersionedTransaction \<Rightarrow> Transaction option"

text \<open>The versioned transaction that holds a legacy one.\<close>

definition versioned_of :: "Transaction \<Rightarrow> VersionedTransaction" where
  "versioned_of t = \<lparr>vt_signatures = t_signatures t, vt_message = Legacy (t_message t)\<rparr>"

locale solana_sdk =
  fixes S :: sdk
  assumes pubkey_from_bytes: "wf_pubkey k \<Longrightarrow> pubkey_try_from S (pubkey_bytes k) = Inr k"
    and pubkey_bytes_from: "pubkey_try_from S b = Inr k \<Longrightarrow> pubkey_bytes k = b \<and> length b = 32"
    and signature_from_bytes:
      "wf_signature s \<Longrightarrow> signature_try_from S (signature_bytes s) = Inr s"
    and signature_bytes_from:
      "signature_try_from S b = Inr s \<Longrightarrow> signature_bytes s = b \<and> length b = 64"
    and bincode_reads_back: "bincode_serialize S e = Some b \<Longrightarrow> bincode_deserialize S b = Inr e"
    and into_legacy: "into_legacy_transaction S (versioned_of t) = Some t"
begin

lemma pubkey_wrong_length: "length b \<noteq> 32 \<Longrightarrow> is_err (pubkey_try_from S b)"
  using pubkey_bytes_from by (cases "pubkey_try_from S b") auto

lemma wf_pubkey_from: "pubkey_try_from S b = Inr k \<Longrightarrow> wf_pubkey k"
  using pubkey_bytes_from by (auto simp: wf_pubkey_def)

end

subsection \<open>The crates' behaviour on byte arrays\<close>

text \<open>
  An executable instance: keys and signatures check the length of their bytes, and the errors
  without details are written as the one byte of their number. It shows that the contract can
  be met, and the witnesses evaluate with it.
\<close>

definition array_pubkey :: "bytes \<Rightarrow> string + pubkey" where
  "array_pubkey b = (if length b = 32 then Ok (Pubkey b) else Err ''wrong length'')"

definition array_signature :: "bytes \<Rightarrow> string + signature" where
  "array_signature b = (if length b = 64 then Ok (Signature b) else Err ''wrong length'')"

definition byte_serialize :: "TransactionError \<Rightarrow> bytes option" where
  "byte_serialize e =
     (if has_details e then None
      else Some [ucast (transaction_error_type_as_i32 (transaction_error_type e))])"

definition byte_deserialize :: "bytes \<Rightarrow> bincode_error + TransactionError" where
  "byte_deserialize b =
     (case b of
        [n] \<Rightarrow> (case map_of transaction_error_table (ucast n) of
                  Some e \<Rightarrow> Ok e
                | None \<Rightarrow> Err (Bincode_Other ''variant''))
      | _ \<Rightarrow> Err (Bincode_Other ''length''))"

definition legacy_of :: "VersionedTransaction \<Rightarrow> Transaction option" where
  "legacy_of t =
     (case vt_message t of
        Legacy m \<Rightarrow> Some \<lparr>t_signatures = vt_signatures t, t_message = m\<rparr>
      | V0 _ \<Rightarrow> None)"

definition array_sdk :: sdk where
  "array_sdk =
     \<lparr>pubkey_try_from = array_pubkey, signature_try_from = array_signature,
      real_number_string_trimmed = (\<lambda>amount decimals. u64_to_string amount),
      bincode_serialize = byte_serialize, bincode_deserialize = byte_deserialize,
      into_legacy_transaction = legacy_of\<rparr>"

lemma code_fits_byte:
  "(ucast (ucast (transaction_error_type_as_i32 t) :: u8) :: i32) = transaction_error_type_as_i32 t"
  by (cases t) simp_all

lemma byte_deserialize_serialize: "byte_serialize e = Some b \<Longrightarrow> byte_deserialize b = Inr e"
  by (auto simp: byte_serialize_def byte_deserialize_def code_fits_byte
      transaction_error_table_encoded split: if_splits)

interpretation array_sdk: solana_sdk array_sdk
proof
  fix k b s e t
  show "wf_pubkey k \<Longrightarrow> pubkey_try_from array_sdk (pubkey_bytes k) = Inr k"
    by (simp add: array_sdk_def array_pubkey_def wf_pubkey_def)
  show "pubkey_try_from array_sdk b = Inr k \<Longrightarrow> pubkey_bytes k = b \<and> length b = 32"
    by (auto simp: array_sdk_def array_pubkey_def split: if_splits)
  show "wf_signature s \<Longrightarrow> signature_try_from array_sdk (signature_bytes s) = Inr s"
    by (simp add: array_sdk_def array_signature_def wf_signature_def)
  show "signature_try_from array_sdk b = Inr s \<Longrightarrow> signature_bytes s = b \<and> length b = 64"
    by (auto simp: array_sdk_def array_signature_def split: if_splits)
  show "bincode_serialize array_sdk e = Some b \<Longrightarrow> bincode_deserialize array_sdk b = Inr e"
    by (simp add: array_sdk_def byte_deserialize_serialize)
  show "into_legacy_transaction array_sdk (versioned_of t) = Some t"
    by (simp add: array_sdk_def legacy_of_def versioned_of_def)
qed

end
