(* ===== verification/Convert_Leaf.thy ===== *)
theory Convert_Leaf
  imports Solana_Sdk Rust_Std
begin

section \<open>The leaves of a block: rewards, instructions, headers, balances\<close>

text \<open>
  The conversions of proto/src/convert.rs (and of the stored rewards in proto/src/lib.rs)
  whose values hold no other converted type, and the containers just above them. An
  \<open>as u32\<close> widens and an \<open>as u8\<close> keeps the low byte.
\<close>

subsection \<open>Rewards\<close>

definition reward_type_to_pb :: "RewardType option \<Rightarrow> PbRewardType" where
  "reward_type_to_pb t =
     (case t of
        None \<Rightarrow> Pb_Unspecified
      | Some Fee \<Rightarrow> Pb_Fee
      | Some Rent \<Rightarrow> Pb_Rent
      | Some Staking \<Rightarrow> Pb_Staking
      | Some Voting \<Rightarrow> Pb_Voting)"

definition reward_to_pb :: "Reward \<Rightarrow> PbReward" where
  "reward_to_pb reward =
     \<lparr>pr_pubkey = r_pubkey reward,
      pr_lamports = r_lamports reward,
      pr_post_balance = r_post_balance reward,
      pr_reward_type = pb_reward_type_as_i32 (reward_type_to_pb (r_reward_type reward)),
      pr_commission = (case r_commission reward of Some c \<Rightarrow> u8_to_string c | None \<Rightarrow> [])\<rparr>"

definition reward_type_from_i32 :: "i32 \<Rightarrow> RewardType option" where
  "reward_type_from_i32 n =
     (if n = 0 then None
      else if n = 1 then Some Fee
      else if n = 2 then Some Rent
      else if n = 3 then Some Staking
      else if n = 4 then Some Voting
      else None)"

definition reward_from_pb :: "PbReward \<Rightarrow> Reward" where
  "reward_from_pb reward =
     \<lparr>r_pubkey = pr_pubkey reward,
      r_lamports = pr_lamports reward,
      r_post_balance = pr_post_balance reward,
      r_reward_type = reward_type_from_i32 (pr_reward_type reward),
      r_commission = ok (u8_from_str (pr_commission reward))\<rparr>"

definition num_partitions_to_pb :: "u64 \<Rightarrow> PbNumPartitions" where
  "num_partitions_to_pb num_partitions = \<lparr>pnp_num_partitions = num_partitions\<rparr>"

definition reward_list_to_pb :: "Reward list \<Rightarrow> PbRewards" where
  "reward_list_to_pb rewards =
     \<lparr>prs_rewards = map reward_to_pb rewards, prs_num_partitions = None\<rparr>"

definition rewards_and_partitions_to_pb :: "RewardsAndNumPartitions \<Rightarrow> PbRewards" where
  "rewards_and_partitions_to_pb input =
     \<lparr>prs_rewards = map reward_to_pb (rnp_rewards input),
      prs_num_partitions = map_option num_partitions_to_pb (rnp_num_partitions input)\<rparr>"

definition reward_list_from_pb :: "PbRewards \<Rightarrow> Reward list" where
  "reward_list_from_pb rewards = map reward_from_pb (prs_rewards rewards)"

definition rewards_pair_from_pb :: "PbRewards \<Rightarrow> Reward list \<times> u64 option" where
  "rewards_pair_from_pb rewards =
     (map reward_from_pb (prs_rewards rewards),
      map_option pnp_num_partitions (prs_num_partitions rewards))"

definition stored_reward_to_reward :: "StoredExtendedReward \<Rightarrow> Reward" where
  "stored_reward_to_reward value =
     \<lparr>r_pubkey = ser_pubkey value, r_lamports = ser_lamports value,
      r_post_balance = ser_post_balance value, r_reward_type = ser_reward_type value,
      r_commission = ser_commission value\<rparr>"

definition reward_to_stored_reward :: "Reward \<Rightarrow> StoredExtendedReward" where
  "reward_to_stored_reward value =
     \<lparr>ser_pubkey = r_pubkey value, ser_lamports = r_lamports value,
      ser_post_balance = r_post_balance value, ser_reward_type = r_reward_type value,
      ser_commission = r_commission value\<rparr>"

definition stored_rewards_to_pb :: "StoredExtendedReward list \<Rightarrow> PbRewards" where
  "stored_rewards_to_pb rewards =
     \<lparr>prs_rewards = map (\<lambda>r. reward_to_pb (stored_reward_to_reward r)) rewards,
      prs_num_partitions = None\<rparr>"

definition stored_rewards_from_pb :: "PbRewards \<Rightarrow> StoredExtendedReward list" where
  "stored_rewards_from_pb rewards =
     map (\<lambda>r. reward_to_stored_reward (reward_from_pb r)) (prs_rewards rewards)"

subsection \<open>Instructions\<close>

definition compiled_instruction_to_pb :: "CompiledInstruction \<Rightarrow> PbCompiledInstruction" where
  "compiled_instruction_to_pb value =
     \<lparr>pci_program_id_index = ucast (ci_program_id_index value),
      pci_accounts = ci_accounts value,
      pci_data = ci_data value\<rparr>"

definition compiled_instruction_from_pb :: "PbCompiledInstruction \<Rightarrow> CompiledInstruction" where
  "compiled_instruction_from_pb value =
     \<lparr>ci_program_id_index = ucast (pci_program_id_index value),
      ci_accounts = pci_accounts value,
      ci_data = pci_data value\<rparr>"

definition inner_instruction_to_pb :: "InnerInstruction \<Rightarrow> PbInnerInstruction" where
  "inner_instruction_to_pb value =
     \<lparr>pii_program_id_index = ucast (ci_program_id_index (ii_instruction value)),
      pii_accounts = ci_accounts (ii_instruction value),
      pii_data = ci_data (ii_instruction value),
      pii_stack_height = ii_stack_height value\<rparr>"

definition inner_instruction_from_pb :: "PbInnerInstruction \<Rightarrow> InnerInstruction" where
  "inner_instruction_from_pb value =
     \<lparr>ii_instruction =
        \<lparr>ci_program_id_index = ucast (pii_program_id_index value),
         ci_accounts = pii_accounts value,
         ci_data = pii_data value\<rparr>,
      ii_stack_height = pii_stack_height value\<rparr>"

definition inner_instructions_to_pb :: "InnerInstructions \<Rightarrow> PbInnerInstructions" where
  "inner_instructions_to_pb value =
     \<lparr>piis_index = ucast (iis_index value),
      piis_instructions = map inner_instruction_to_pb (iis_instructions value)\<rparr>"

definition inner_instructions_from_pb :: "PbInnerInstructions \<Rightarrow> InnerInstructions" where
  "inner_instructions_from_pb value =
     \<lparr>iis_index = ucast (piis_index value),
      iis_instructions = map inner_instruction_from_pb (piis_instructions value)\<rparr>"

subsection \<open>Headers, lookups and return data\<close>

definition message_header_to_pb :: "MessageHeader \<Rightarrow> PbMessageHeader" where
  "message_header_to_pb value =
     \<lparr>pmh_num_required_signatures = ucast (mh_num_required_signatures value),
      pmh_num_readonly_signed_accounts = ucast (mh_num_readonly_signed_accounts value),
      pmh_num_readonly_unsigned_accounts = ucast (mh_num_readonly_unsigned_accounts value)\<rparr>"

definition message_header_from_pb :: "PbMessageHeader \<Rightarrow> MessageHeader" where
  "message_header_from_pb value =
     \<lparr>mh_num_required_signatures = ucast (pmh_num_required_signatures value),
      mh_num_readonly_signed_accounts = ucast (pmh_num_readonly_signed_accounts value),
      mh_num_readonly_unsigned_accounts = ucast (pmh_num_readonly_unsigned_accounts value)\<rparr>"

definition lookup_to_pb :: "MessageAddressTableLookup \<Rightarrow> PbMessageAddressTableLookup" where
  "lookup_to_pb lookup =
     \<lparr>patl_account_key = pubkey_bytes (atl_account_key lookup),
      patl_writable_indexes = atl_writable_indexes lookup,
      patl_readonly_indexes = atl_readonly_indexes lookup\<rparr>"

definition lookup_from_pb ::
  "sdk \<Rightarrow> PbMessageAddressTableLookup \<Rightarrow> panic + MessageAddressTableLookup" where
  "lookup_from_pb S value =
     and_then (unwrap_result [] (pubkey_try_from S (patl_account_key value)))
       (\<lambda>account_key. Ok
          \<lparr>atl_account_key = account_key,
           atl_writable_indexes = patl_writable_indexes value,
           atl_readonly_indexes = patl_readonly_indexes value\<rparr>)"

definition return_data_to_pb :: "TransactionReturnData \<Rightarrow> PbReturnData" where
  "return_data_to_pb value =
     \<lparr>prd_program_id = pubkey_bytes (trd_program_id value), prd_data = trd_data value\<rparr>"

definition return_data_from_pb :: "sdk \<Rightarrow> PbReturnData \<Rightarrow> panic + TransactionReturnData" where
  "return_data_from_pb S value =
     and_then (unwrap_result [] (pubkey_try_from S (prd_program_id value)))
       (\<lambda>program_id. Ok \<lparr>trd_program_id = program_id, trd_data = prd_data value\<rparr>)"

subsection \<open>Token balances\<close>

definition token_balance_to_pb :: "TransactionTokenBalance \<Rightarrow> PbTokenBalance" where
  "token_balance_to_pb value =
     (let amount = ttb_ui_token_amount value in
      \<lparr>ptb_account_index = ucast (ttb_account_index value),
       ptb_mint = ttb_mint value,
       ptb_ui_token_amount = Some
         \<lparr>puta_ui_amount = (case uta_ui_amount amount of Some x \<Rightarrow> x | None \<Rightarrow> f64_default),
          puta_decimals = ucast (uta_decimals amount),
          puta_amount = uta_amount amount,
          puta_ui_amount_string = uta_ui_amount_string amount\<rparr>,
       ptb_owner = ttb_owner value,
       ptb_program_id = ttb_program_id value\<rparr>)"

definition default_ui_token_amount :: PbUiTokenAmount where
  "default_ui_token_amount =
     \<lparr>puta_ui_amount = f64_default, puta_decimals = 0, puta_amount = [], puta_ui_amount_string = []\<rparr>"

definition u64_or_default :: "string \<Rightarrow> u64" where
  "u64_or_default s = (case u64_from_str s of Inr n \<Rightarrow> n | Inl _ \<Rightarrow> 0)"

definition ui_token_amount_from_pb :: "sdk \<Rightarrow> PbUiTokenAmount \<Rightarrow> UiTokenAmount" where
  "ui_token_amount_from_pb S a =
     \<lparr>uta_ui_amount = (if f64_above_epsilon (puta_ui_amount a) then Some (puta_ui_amount a) else None),
      uta_decimals = ucast (puta_decimals a),
      uta_amount = puta_amount a,
      uta_ui_amount_string =
        (if puta_ui_amount_string a \<noteq> [] then puta_ui_amount_string a
         else real_number_string_trimmed S (u64_or_default (puta_amount a)) (ucast (puta_decimals a)))\<rparr>"

definition token_balance_from_pb :: "sdk \<Rightarrow> PbTokenBalance \<Rightarrow> TransactionTokenBalance" where
  "token_balance_from_pb S value =
     (let ui_token_amount =
        (case ptb_ui_token_amount value of Some a \<Rightarrow> a | None \<Rightarrow> default_ui_token_amount)
      in
      \<lparr>ttb_account_index = ucast (ptb_account_index value),
       ttb_mint = ptb_mint value,
       ttb_ui_token_amount = ui_token_amount_from_pb S ui_token_amount,
       ttb_owner = ptb_owner value,
       ttb_program_id = ptb_program_id value\<rparr>)"

subsection \<open>What a round trip makes of a token balance\<close>

text \<open>
  The message form has no absent amount and no absent text: an amount that is missing or not
  above the machine epsilon reads back as missing, an empty text is computed anew.
\<close>

definition canonical_ui_amount :: "sdk \<Rightarrow> UiTokenAmount \<Rightarrow> UiTokenAmount" where
  "canonical_ui_amount S a =
     a\<lparr>uta_ui_amount :=
         (case uta_ui_amount a of
            Some x \<Rightarrow> if f64_above_epsilon x then Some x else None
          | None \<Rightarrow> None),
       uta_ui_amount_string :=
         (if uta_ui_amount_string a \<noteq> [] then uta_ui_amount_string a
          else real_number_string_trimmed S (u64_or_default (uta_amount a)) (uta_decimals a))\<rparr>"

definition canonical_balance :: "sdk \<Rightarrow> TransactionTokenBalance \<Rightarrow> TransactionTokenBalance" where
  "canonical_balance S b =
     b\<lparr>ttb_ui_token_amount := canonical_ui_amount S (ttb_ui_token_amount b)\<rparr>"

lemma f64_default_not_above: "\<not> f64_above_epsilon f64_default"
  by (simp add: f64_above_epsilon_def f64_magnitude_def f64_default_def)

lemma token_balance_from_to_pb:
  "token_balance_from_pb S (token_balance_to_pb b) = canonical_balance S b"
  by (cases b)
    (simp add: token_balance_from_pb_def token_balance_to_pb_def ui_token_amount_from_pb_def
      canonical_balance_def canonical_ui_amount_def f64_default_not_above Let_def
      split: option.splits)

subsection \<open>The contracts\<close>

interpretation reward: total_codec reward_to_pb reward_from_pb "\<lambda>_. True"
proof
  fix r :: Reward
  have "reward_type_from_i32 (pb_reward_type_as_i32 (reward_type_to_pb t)) = t" for t
    by (cases t) (simp_all add: reward_type_to_pb_def reward_type_from_i32_def split: RewardType.splits)
  then show "reward_from_pb (reward_to_pb r) = r"
    by (simp add: reward_from_pb_def reward_to_pb_def split: option.splits)
qed

interpretation stored_reward: total_codec stored_reward_to_reward reward_to_stored_reward "\<lambda>_. True"
  by unfold_locales (simp add: stored_reward_to_reward_def reward_to_stored_reward_def)

interpretation compiled_instruction:
    total_codec compiled_instruction_to_pb compiled_instruction_from_pb "\<lambda>_. True"
  by unfold_locales (simp add: compiled_instruction_to_pb_def compiled_instruction_from_pb_def)

interpretation inner_instruction:
    total_codec inner_instruction_to_pb inner_instruction_from_pb "\<lambda>_. True"
  by unfold_locales (simp add: inner_instruction_to_pb_def inner_instruction_from_pb_def)

lemma list_all_True: "list_all (\<lambda>_. True) xs"
  by (simp add: list_all_iff)

lemma inner_instruction_list: "map inner_instruction_from_pb (map inner_instruction_to_pb xs) = xs"
  by (rule inner_instruction.dec_enc_list) (rule list_all_True)

interpretation inner_instructions:
    total_codec inner_instructions_to_pb inner_instructions_from_pb "\<lambda>_. True"
  by unfold_locales
    (simp add: inner_instructions_to_pb_def inner_instructions_from_pb_def
      inner_instruction_list [unfolded list.map_comp])

interpretation message_header: total_codec message_header_to_pb message_header_from_pb "\<lambda>_. True"
  by unfold_locales (simp add: message_header_to_pb_def message_header_from_pb_def)

interpretation token_balance: total_codec token_balance_to_pb "token_balance_from_pb S"
    "\<lambda>b. canonical_balance S b = b" for S
  by unfold_locales (simp add: token_balance_from_to_pb)

context solana_sdk
begin

lemma lookup_from_to_pb:
  "wf_pubkey (atl_account_key l) \<Longrightarrow> lookup_from_pb S (lookup_to_pb l) = Inr l"
  by (simp add: lookup_from_pb_def lookup_to_pb_def pubkey_from_bytes)

lemma return_data_from_to_pb:
  "wf_pubkey (trd_program_id d) \<Longrightarrow> return_data_from_pb S (return_data_to_pb d) = Inr d"
  by (simp add: return_data_from_pb_def return_data_to_pb_def pubkey_from_bytes)

lemma lookup_from_pb_panics:
  "length (patl_account_key l) \<noteq> 32 \<Longrightarrow> lookup_from_pb S l = Inl (Panic [])"
  using pubkey_wrong_length [of "patl_account_key l"]
  by (cases "pubkey_try_from S (patl_account_key l)") (simp_all add: lookup_from_pb_def)

end

sublocale solana_sdk \<subseteq> lookup: codec lookup_to_pb "lookup_from_pb S"
    "\<lambda>l. wf_pubkey (atl_account_key l)"
  by unfold_locales (rule lookup_from_to_pb)

sublocale solana_sdk \<subseteq> return_data: codec return_data_to_pb "return_data_from_pb S"
    "\<lambda>d. wf_pubkey (trd_program_id d)"
  by unfold_locales (rule return_data_from_to_pb)

end
