(* ===== verification/Convert_Transaction.thy ===== *)
theory Convert_Transaction
  imports Convert_Leaf
begin

section \<open>Messages and transactions (proto/src/convert.rs)\<close>

text \<open>
  The message of a transaction, legacy or with address table lookups, and the transaction
  with its signatures. Decoding panics where a required part is missing or a key, a hash or a
  signature has the wrong length; the checks run in the order of the source.
\<close>

subsection \<open>Encoding\<close>

definition legacy_message_to_pb :: "LegacyMessage \<Rightarrow> PbMessage" where
  "legacy_message_to_pb message =
     \<lparr>pm_header = Some (message_header_to_pb (lm_header message)),
      pm_account_keys = map pubkey_bytes (lm_account_keys message),
      pm_recent_blockhash = hash_bytes (lm_recent_blockhash message),
      pm_instructions = map compiled_instruction_to_pb (lm_instructions message),
      pm_versioned = False,
      pm_address_table_lookups = []\<rparr>"

definition versioned_message_to_pb :: "VersionedMessage \<Rightarrow> PbMessage" where
  "versioned_message_to_pb message =
     (case message of
        Legacy m \<Rightarrow> legacy_message_to_pb m
      | V0 m \<Rightarrow>
          \<lparr>pm_header = Some (message_header_to_pb (vm_header m)),
           pm_account_keys = map pubkey_bytes (vm_account_keys m),
           pm_recent_blockhash = hash_bytes (vm_recent_blockhash m),
           pm_instructions = map compiled_instruction_to_pb (vm_instructions m),
           pm_versioned = True,
           pm_address_table_lookups = map lookup_to_pb (vm_address_table_lookups m)\<rparr>)"

definition transaction_to_pb :: "Transaction \<Rightarrow> PbTransaction" where
  "transaction_to_pb value =
     \<lparr>pt_signatures = map signature_bytes (t_signatures value),
      pt_message = Some (legacy_message_to_pb (t_message value))\<rparr>"

definition versioned_transaction_to_pb :: "VersionedTransaction \<Rightarrow> PbTransaction" where
  "versioned_transaction_to_pb value =
     \<lparr>pt_signatures = map signature_bytes (vt_signatures value),
      pt_message = Some (versioned_message_to_pb (vt_message value))\<rparr>"

subsection \<open>Decoding\<close>

definition pubkey_or_panic :: "sdk \<Rightarrow> bytes \<Rightarrow> panic + pubkey" where
  "pubkey_or_panic S key = unwrap_result [] (pubkey_try_from S key)"

definition hash_or_panic :: "bytes \<Rightarrow> panic + hash" where
  "hash_or_panic b = (if length b = 32 then Ok (Hash b) else Err (Panic []))"

definition message_from_pb :: "sdk \<Rightarrow> PbMessage \<Rightarrow> panic + VersionedMessage" where
  "message_from_pb S value =
     and_then (unwrap ''header is required'' (pm_header value)) (\<lambda>pb_header.
     let header = message_header_from_pb pb_header in
     and_then (try_map (pubkey_or_panic S) (pm_account_keys value)) (\<lambda>account_keys.
     and_then (hash_or_panic (pm_recent_blockhash value)) (\<lambda>recent_blockhash.
     let instructions = map compiled_instruction_from_pb (pm_instructions value) in
     and_then (try_map (lookup_from_pb S) (pm_address_table_lookups value)) (\<lambda>address_table_lookups.
       Ok (if \<not> pm_versioned value
           then Legacy
             \<lparr>lm_header = header, lm_account_keys = account_keys,
              lm_recent_blockhash = recent_blockhash, lm_instructions = instructions\<rparr>
           else V0
             \<lparr>vm_header = header, vm_account_keys = account_keys,
              vm_recent_blockhash = recent_blockhash, vm_instructions = instructions,
              vm_address_table_lookups = address_table_lookups\<rparr>)))))"

definition transaction_from_pb :: "sdk \<Rightarrow> PbTransaction \<Rightarrow> panic + VersionedTransaction" where
  "transaction_from_pb S value =
     and_then (unwrap_result [] (try_map (signature_try_from S) (pt_signatures value))) (\<lambda>signatures.
     and_then (unwrap ''message is required'' (pt_message value)) (\<lambda>pb_message.
     and_then (message_from_pb S pb_message) (\<lambda>message.
       Ok \<lparr>vt_signatures = signatures, vt_message = message\<rparr>)))"

subsection \<open>Well-formed values\<close>

text \<open>The lengths that the native array types guarantee.\<close>

definition wf_message :: "VersionedMessage \<Rightarrow> bool" where
  "wf_message message =
     (case message of
        Legacy m \<Rightarrow> list_all wf_pubkey (lm_account_keys m) \<and> wf_hash (lm_recent_blockhash m)
      | V0 m \<Rightarrow>
          list_all wf_pubkey (vm_account_keys m) \<and> wf_hash (vm_recent_blockhash m) \<and>
          list_all (\<lambda>l. wf_pubkey (atl_account_key l)) (vm_address_table_lookups m))"

definition wf_transaction :: "VersionedTransaction \<Rightarrow> bool" where
  "wf_transaction t \<longleftrightarrow> list_all wf_signature (vt_signatures t) \<and> wf_message (vt_message t)"

lemma hash_or_panic_bytes: "wf_hash h \<Longrightarrow> hash_or_panic (hash_bytes h) = Inr h"
  by (simp add: hash_or_panic_def wf_hash_def)

lemma compiled_instruction_list:
  "map (compiled_instruction_from_pb \<circ> compiled_instruction_to_pb) xs = xs"
  using compiled_instruction.dec_enc_list [OF list_all_True, of xs] by simp

context solana_sdk
begin

lemma pubkey_list:
  "list_all wf_pubkey ks \<Longrightarrow> try_map (pubkey_or_panic S) (map pubkey_bytes ks) = Inr ks"
  by (induction ks) (simp_all add: pubkey_or_panic_def pubkey_from_bytes)

lemma signature_list:
  "list_all wf_signature ss \<Longrightarrow> try_map (signature_try_from S) (map signature_bytes ss) = Inr ss"
  by (induction ss) (simp_all add: signature_from_bytes)

lemma message_from_to_pb:
  assumes "wf_message m"
  shows "message_from_pb S (versioned_message_to_pb m) = Inr m"
proof (cases m)
  case (Legacy l)
  with assms show ?thesis
    by (simp add: wf_message_def versioned_message_to_pb_def legacy_message_to_pb_def
        message_from_pb_def pubkey_list hash_or_panic_bytes message_header.dec_enc
        compiled_instruction_list)
next
  case (V0 v)
  with assms show ?thesis
    by (simp add: wf_message_def versioned_message_to_pb_def message_from_pb_def pubkey_list
        hash_or_panic_bytes message_header.dec_enc compiled_instruction_list lookup.dec_enc_list)
qed

lemma transaction_from_to_pb:
  "wf_transaction t \<Longrightarrow> transaction_from_pb S (versioned_transaction_to_pb t) = Inr t"
  by (simp add: transaction_from_pb_def versioned_transaction_to_pb_def wf_transaction_def
      signature_list message_from_to_pb)

lemma message_from_pb_wf:
  assumes "message_from_pb S p = Inr m"
  shows "wf_message m"
proof -
  have keys: "try_map (pubkey_or_panic S) bs = Inr ks \<Longrightarrow> list_all wf_pubkey ks" for bs ks
    by (induction bs arbitrary: ks)
      (auto simp: result_simps pubkey_or_panic_def dest: wf_pubkey_from)
  have lookups: "try_map (lookup_from_pb S) ls = Inr as \<Longrightarrow>
      list_all (\<lambda>l. wf_pubkey (atl_account_key l)) as" for ls as
    by (induction ls arbitrary: as)
      (auto simp: result_simps lookup_from_pb_def dest: wf_pubkey_from)
  have hash: "hash_or_panic b = Inr h \<Longrightarrow> wf_hash h" for b h
    by (auto simp: hash_or_panic_def wf_hash_def split: if_splits)
  show ?thesis
    using assms
    by (auto simp: message_from_pb_def result_simps Let_def wf_message_def
        dest: keys lookups hash split: if_splits)
qed

end

sublocale solana_sdk \<subseteq> transaction: codec versioned_transaction_to_pb "transaction_from_pb S"
    wf_transaction
  by unfold_locales (rule transaction_from_to_pb)

lemma transaction_to_pb_versioned: "transaction_to_pb t = versioned_transaction_to_pb (versioned_of t)"
  by (simp add: transaction_to_pb_def versioned_transaction_to_pb_def versioned_of_def
      versioned_message_to_pb_def)

end
