(* ===== verification/Convert_Meta.thy ===== *)
theory Convert_Meta
  imports Convert_Transaction
begin

section \<open>Transaction metadata (proto/src/convert.rs)\<close>

text \<open>
  What a transaction left behind: its status, fees and balances, inner instructions, logs,
  token balances, rewards, loaded addresses and return data. Decoding can fail with a bincode
  error (the status, the loaded addresses) or panic (the return data), in the order of the
  source; both are values of \<open>failure\<close>.
\<close>

datatype failure = Panics panic | Fails bincode_error

abbreviation panics :: "panic + 'a \<Rightarrow> failure + 'a" where
  "panics \<equiv> map_err Panics"

abbreviation fails :: "bincode_error + 'a \<Rightarrow> failure + 'a" where
  "fails \<equiv> map_err Fails"

record LoadedAddresses =
  la_writable :: "pubkey list"
  la_readonly :: "pubkey list"

record TransactionStatusMeta =
  tsm_status :: "TransactionError + unit"
  tsm_fee :: u64
  tsm_pre_balances :: "u64 list"
  tsm_post_balances :: "u64 list"
  tsm_inner_instructions :: "InnerInstructions list option"
  tsm_log_messages :: "string list option"
  tsm_pre_token_balances :: "TransactionTokenBalance list option"
  tsm_post_token_balances :: "TransactionTokenBalance list option"
  tsm_rewards :: "Reward list option"
  tsm_loaded_addresses :: LoadedAddresses
  tsm_return_data :: "TransactionReturnData option"
  tsm_compute_units_consumed :: "u64 option"

record PbTransactionStatusMeta =
  ptsm_err :: "bytes option"
  ptsm_fee :: u64
  ptsm_pre_balances :: "u64 list"
  ptsm_post_balances :: "u64 list"
  ptsm_inner_instructions :: "PbInnerInstructions list"
  ptsm_inner_instructions_none :: bool
  ptsm_log_messages :: "string list"
  ptsm_log_messages_none :: bool
  ptsm_pre_token_balances :: "PbTokenBalance list"
  ptsm_post_token_balances :: "PbTokenBalance list"
  ptsm_rewards :: "PbReward list"
  ptsm_loaded_writable_addresses :: "bytes list"
  ptsm_loaded_readonly_addresses :: "bytes list"
  ptsm_return_data :: "PbReturnData option"
  ptsm_return_data_none :: bool
  ptsm_compute_units_consumed :: "u64 option"

definition list_or_default :: "'a list option \<Rightarrow> 'a list" where
  "list_or_default x = (case x of Some xs \<Rightarrow> xs | None \<Rightarrow> [])"

subsection \<open>Encoding\<close>

definition status_to_err :: "sdk \<Rightarrow> TransactionError + unit \<Rightarrow> panic + bytes option" where
  "status_to_err S status =
     (case status of
        Inr _ \<Rightarrow> Ok None
      | Inl err \<Rightarrow>
          and_then (unwrap ''transaction error to serialize to bytes'' (bincode_serialize S err))
            (\<lambda>b. Ok (Some b)))"

definition meta_to_pb :: "sdk \<Rightarrow> TransactionStatusMeta \<Rightarrow> panic + PbTransactionStatusMeta" where
  "meta_to_pb S value =
     and_then (status_to_err S (tsm_status value)) (\<lambda>err. Ok
       \<lparr>ptsm_err = err,
        ptsm_fee = tsm_fee value,
        ptsm_pre_balances = tsm_pre_balances value,
        ptsm_post_balances = tsm_post_balances value,
        ptsm_inner_instructions =
          map inner_instructions_to_pb (list_or_default (tsm_inner_instructions value)),
        ptsm_inner_instructions_none = (tsm_inner_instructions value = None),
        ptsm_log_messages = list_or_default (tsm_log_messages value),
        ptsm_log_messages_none = (tsm_log_messages value = None),
        ptsm_pre_token_balances =
          map token_balance_to_pb (list_or_default (tsm_pre_token_balances value)),
        ptsm_post_token_balances =
          map token_balance_to_pb (list_or_default (tsm_post_token_balances value)),
        ptsm_rewards = map reward_to_pb (list_or_default (tsm_rewards value)),
        ptsm_loaded_writable_addresses =
          map pubkey_bytes (la_writable (tsm_loaded_addresses value)),
        ptsm_loaded_readonly_addresses =
          map pubkey_bytes (la_readonly (tsm_loaded_addresses value)),
        ptsm_return_data = map_option return_data_to_pb (tsm_return_data value),
        ptsm_return_data_none = (tsm_return_data value = None),
        ptsm_compute_units_consumed = tsm_compute_units_consumed value\<rparr>)"

subsection \<open>Decoding\<close>

definition err_to_status :: "sdk \<Rightarrow> bytes option \<Rightarrow> bincode_error + (TransactionError + unit)" where
  "err_to_status S err =
     (case err of
        None \<Rightarrow> Ok (Inr ())
      | Some b \<Rightarrow> and_then (bincode_deserialize S b) (\<lambda>e. Ok (Inl e)))"

definition addresses_from_pb :: "sdk \<Rightarrow> string \<Rightarrow> bytes list \<Rightarrow> bincode_error + pubkey list" where
  "addresses_from_pb S kind keys =
     map_err (\<lambda>err. Bincode_Custom (''Invalid '' @ kind @ '' address: '' @ err))
       (try_map (pubkey_try_from S) keys)"

definition meta_from_pb :: "sdk \<Rightarrow> PbTransactionStatusMeta \<Rightarrow> failure + TransactionStatusMeta" where
  "meta_from_pb S value =
     and_then (fails (err_to_status S (ptsm_err value))) (\<lambda>status.
     and_then (fails (addresses_from_pb S ''writable'' (ptsm_loaded_writable_addresses value))) (\<lambda>writable.
     and_then (fails (addresses_from_pb S ''readonly'' (ptsm_loaded_readonly_addresses value))) (\<lambda>readonly.
     and_then
       (if ptsm_return_data_none value then Ok None
        else (case ptsm_return_data value of
                None \<Rightarrow> Ok None
              | Some d \<Rightarrow> panics (and_then (return_data_from_pb S d) (\<lambda>d'. Ok (Some d'))))) (\<lambda>return_data.
     Ok \<lparr>tsm_status = status,
         tsm_fee = ptsm_fee value,
         tsm_pre_balances = ptsm_pre_balances value,
         tsm_post_balances = ptsm_post_balances value,
         tsm_inner_instructions =
           (if ptsm_inner_instructions_none value then None
            else Some (map inner_instructions_from_pb (ptsm_inner_instructions value))),
         tsm_log_messages =
           (if ptsm_log_messages_none value then None else Some (ptsm_log_messages value)),
         tsm_pre_token_balances = Some (map (token_balance_from_pb S) (ptsm_pre_token_balances value)),
         tsm_post_token_balances = Some (map (token_balance_from_pb S) (ptsm_post_token_balances value)),
         tsm_rewards = Some (map reward_from_pb (ptsm_rewards value)),
         tsm_loaded_addresses = \<lparr>la_writable = writable, la_readonly = readonly\<rparr>,
         tsm_return_data = return_data,
         tsm_compute_units_consumed = ptsm_compute_units_consumed value\<rparr>))))"

subsection \<open>What a round trip makes of metadata\<close>

text \<open>
  The message form marks missing inner instructions, logs and return data, but not missing
  token balances and rewards: these come back as empty lists.
\<close>

definition canonical_meta :: "sdk \<Rightarrow> TransactionStatusMeta \<Rightarrow> TransactionStatusMeta" where
  "canonical_meta S m =
     m\<lparr>tsm_pre_token_balances :=
         Some (map (canonical_balance S) (list_or_default (tsm_pre_token_balances m))),
       tsm_post_token_balances :=
         Some (map (canonical_balance S) (list_or_default (tsm_post_token_balances m))),
       tsm_rewards := Some (list_or_default (tsm_rewards m))\<rparr>"

definition wf_meta :: "TransactionStatusMeta \<Rightarrow> bool" where
  "wf_meta m \<longleftrightarrow>
     list_all wf_pubkey (la_writable (tsm_loaded_addresses m)) \<and>
     list_all wf_pubkey (la_readonly (tsm_loaded_addresses m)) \<and>
     pred_option (\<lambda>d. wf_pubkey (trd_program_id d)) (tsm_return_data m)"

lemma inner_instructions_list:
  "map (inner_instructions_from_pb \<circ> inner_instructions_to_pb) xs = xs"
  using inner_instructions.dec_enc_list [OF list_all_True, of xs] by simp

lemma reward_list: "map (reward_from_pb \<circ> reward_to_pb) xs = xs"
  using reward.dec_enc_list [OF list_all_True, of xs] by simp

lemma token_balance_list:
  "map (token_balance_from_pb S \<circ> token_balance_to_pb) xs = map (canonical_balance S) xs"
  by (simp add: token_balance_from_to_pb comp_def)

context solana_sdk
begin

lemma status_roundtrip: "status_to_err S st = Inr err \<Longrightarrow> err_to_status S err = Inr st"
  by (cases st) (auto simp: status_to_err_def err_to_status_def result_simps bincode_reads_back)

lemma addresses_roundtrip:
  "list_all wf_pubkey ks \<Longrightarrow> addresses_from_pb S kind (map pubkey_bytes ks) = Inr ks"
  by (induction ks)
    (simp_all add: addresses_from_pb_def pubkey_from_bytes result_simps)

lemma meta_roundtrip:
  assumes "wf_meta m" "meta_to_pb S m = Inr p"
  shows "meta_from_pb S p = Inr (canonical_meta S m)"
proof -
  obtain err where err: "status_to_err S (tsm_status m) = Inr err"
    and p: "p = \<lparr>ptsm_err = err, ptsm_fee = tsm_fee m, ptsm_pre_balances = tsm_pre_balances m,
        ptsm_post_balances = tsm_post_balances m,
        ptsm_inner_instructions =
          map inner_instructions_to_pb (list_or_default (tsm_inner_instructions m)),
        ptsm_inner_instructions_none = (tsm_inner_instructions m = None),
        ptsm_log_messages = list_or_default (tsm_log_messages m),
        ptsm_log_messages_none = (tsm_log_messages m = None),
        ptsm_pre_token_balances = map token_balance_to_pb (list_or_default (tsm_pre_token_balances m)),
        ptsm_post_token_balances = map token_balance_to_pb (list_or_default (tsm_post_token_balances m)),
        ptsm_rewards = map reward_to_pb (list_or_default (tsm_rewards m)),
        ptsm_loaded_writable_addresses = map pubkey_bytes (la_writable (tsm_loaded_addresses m)),
        ptsm_loaded_readonly_addresses = map pubkey_bytes (la_readonly (tsm_loaded_addresses m)),
        ptsm_return_data = map_option return_data_to_pb (tsm_return_data m),
        ptsm_return_data_none = (tsm_return_data m = None),
        ptsm_compute_units_consumed = tsm_compute_units_consumed m\<rparr>"
    using assms(2) by (auto simp: meta_to_pb_def result_simps)
  have [simp]: "err_to_status S err = Inr (tsm_status m)" by (rule status_roundtrip) (rule err)
  show ?thesis
    using assms(1)
    by (cases "tsm_return_data m"; cases "tsm_inner_instructions m"; cases "tsm_log_messages m")
      (simp_all add: p meta_from_pb_def canonical_meta_def wf_meta_def addresses_roundtrip
        inner_instructions_list reward_list token_balance_list return_data_from_to_pb
        list_or_default_def)
qed

end

end
