(* ===== verification/Convert_Block.thy ===== *)
theory Convert_Block
  imports Convert_Meta
begin

section \<open>Confirmed transactions, blocks and lookups by address (proto/src/convert.rs)\<close>

text \<open>
  The top of the conversions: a transaction with its metadata, a block of them, the entry of
  the by-address index and the entry summary.
\<close>

subsection \<open>Transactions with metadata\<close>

record VersionedTransactionWithStatusMeta =
  vtm_transaction :: VersionedTransaction
  vtm_meta :: TransactionStatusMeta

datatype TransactionWithStatusMeta =
    MissingMetadata Transaction
  | Complete VersionedTransactionWithStatusMeta

record PbConfirmedTransaction =
  pct_transaction :: "PbTransaction option"
  pct_meta :: "PbTransactionStatusMeta option"

definition versioned_with_meta_to_pb ::
  "sdk \<Rightarrow> VersionedTransactionWithStatusMeta \<Rightarrow> panic + PbConfirmedTransaction" where
  "versioned_with_meta_to_pb S value =
     and_then (meta_to_pb S (vtm_meta value)) (\<lambda>meta. Ok
       \<lparr>pct_transaction = Some (versioned_transaction_to_pb (vtm_transaction value)),
        pct_meta = Some meta\<rparr>)"

definition confirmed_transaction_to_pb ::
  "sdk \<Rightarrow> TransactionWithStatusMeta \<Rightarrow> panic + PbConfirmedTransaction" where
  "confirmed_transaction_to_pb S tx_with_meta =
     (case tx_with_meta of
        MissingMetadata transaction \<Rightarrow>
          Ok \<lparr>pct_transaction = Some (transaction_to_pb transaction), pct_meta = None\<rparr>
      | Complete v \<Rightarrow> versioned_with_meta_to_pb S v)"

definition confirmed_transaction_from_pb ::
  "sdk \<Rightarrow> PbConfirmedTransaction \<Rightarrow> failure + TransactionWithStatusMeta" where
  "confirmed_transaction_from_pb S value =
     and_then
       (case pct_meta value of
          None \<Rightarrow> Ok None
        | Some m \<Rightarrow> and_then (meta_from_pb S m) (\<lambda>m'. Ok (Some m'))) (\<lambda>meta.
     and_then (panics (unwrap ''transaction is required'' (pct_transaction value))) (\<lambda>pb.
     and_then (panics (transaction_from_pb S pb)) (\<lambda>transaction.
       case meta of
         Some m \<Rightarrow> Ok (Complete \<lparr>vtm_transaction = transaction, vtm_meta = m\<rparr>)
       | None \<Rightarrow>
           and_then
             (panics (unwrap ''meta is required for versioned transactions''
                (into_legacy_transaction S transaction)))
             (\<lambda>t. Ok (MissingMetadata t)))))"

subsection \<open>Blocks\<close>

record PbUnixTimestamp =
  put_timestamp :: i64

record PbBlockHeight =
  pbh_block_height :: u64

record VersionedConfirmedBlock =
  vcb_previous_blockhash :: string
  vcb_blockhash :: string
  vcb_parent_slot :: u64
  vcb_transactions :: "VersionedTransactionWithStatusMeta list"
  vcb_rewards :: "Reward list"
  vcb_num_partitions :: "u64 option"
  vcb_block_time :: "i64 option"
  vcb_block_height :: "u64 option"

record ConfirmedBlock =
  cb_previous_blockhash :: string
  cb_blockhash :: string
  cb_parent_slot :: u64
  cb_transactions :: "TransactionWithStatusMeta list"
  cb_rewards :: "Reward list"
  cb_num_partitions :: "u64 option"
  cb_block_time :: "i64 option"
  cb_block_height :: "u64 option"

record PbConfirmedBlock =
  pcb_previous_blockhash :: string
  pcb_blockhash :: string
  pcb_parent_slot :: u64
  pcb_transactions :: "PbConfirmedTransaction list"
  pcb_rewards :: "PbReward list"
  pcb_num_partitions :: "PbNumPartitions option"
  pcb_block_time :: "PbUnixTimestamp option"
  pcb_block_height :: "PbBlockHeight option"

definition block_to_pb :: "sdk \<Rightarrow> VersionedConfirmedBlock \<Rightarrow> panic + PbConfirmedBlock" where
  "block_to_pb S confirmed_block =
     and_then (try_map (versioned_with_meta_to_pb S) (vcb_transactions confirmed_block)) (\<lambda>transactions. Ok
       \<lparr>pcb_previous_blockhash = vcb_previous_blockhash confirmed_block,
        pcb_blockhash = vcb_blockhash confirmed_block,
        pcb_parent_slot = vcb_parent_slot confirmed_block,
        pcb_transactions = transactions,
        pcb_rewards = map reward_to_pb (vcb_rewards confirmed_block),
        pcb_num_partitions = map_option num_partitions_to_pb (vcb_num_partitions confirmed_block),
        pcb_block_time = map_option (\<lambda>t. \<lparr>put_timestamp = t\<rparr>) (vcb_block_time confirmed_block),
        pcb_block_height = map_option (\<lambda>h. \<lparr>pbh_block_height = h\<rparr>) (vcb_block_height confirmed_block)\<rparr>)"

definition block_from_pb :: "sdk \<Rightarrow> PbConfirmedBlock \<Rightarrow> failure + ConfirmedBlock" where
  "block_from_pb S confirmed_block =
     and_then (try_map (confirmed_transaction_from_pb S) (pcb_transactions confirmed_block)) (\<lambda>transactions. Ok
       \<lparr>cb_previous_blockhash = pcb_previous_blockhash confirmed_block,
        cb_blockhash = pcb_blockhash confirmed_block,
        cb_parent_slot = pcb_parent_slot confirmed_block,
        cb_transactions = transactions,
        cb_rewards = map reward_from_pb (pcb_rewards confirmed_block),
        cb_num_partitions = map_option pnp_num_partitions (pcb_num_partitions confirmed_block),
        cb_block_time = map_option put_timestamp (pcb_block_time confirmed_block),
        cb_block_height = map_option pbh_block_height (pcb_block_height confirmed_block)\<rparr>)"

subsection \<open>The by-address index\<close>

record TransactionByAddrInfo =
  tba_signature :: signature
  tba_err :: "TransactionError option"
  tba_index :: u32
  tba_memo :: "string option"
  tba_block_time :: "i64 option"

record PbMemo =
  pmemo_memo :: string

record PbTransactionByAddrInfo =
  ptba_signature :: bytes
  ptba_err :: "PbTransactionError option"
  ptba_index :: u32
  ptba_memo :: "PbMemo option"
  ptba_block_time :: "PbUnixTimestamp option"

definition by_addr_to_pb :: "TransactionByAddrInfo \<Rightarrow> PbTransactionByAddrInfo" where
  "by_addr_to_pb by_addr =
     \<lparr>ptba_signature = signature_bytes (tba_signature by_addr),
      ptba_err = map_option transaction_error_to_pb (tba_err by_addr),
      ptba_index = tba_index by_addr,
      ptba_memo = map_option (\<lambda>m. \<lparr>pmemo_memo = m\<rparr>) (tba_memo by_addr),
      ptba_block_time = map_option (\<lambda>t. \<lparr>put_timestamp = t\<rparr>) (tba_block_time by_addr)\<rparr>"

definition by_addr_try_from :: "sdk \<Rightarrow> PbTransactionByAddrInfo \<Rightarrow> string + TransactionByAddrInfo" where
  "by_addr_try_from S p =
     and_then
       (case ptba_err p of
          None \<Rightarrow> Ok None
        | Some e \<Rightarrow> and_then (transaction_error_try_from e) (\<lambda>e'. Ok (Some e'))) (\<lambda>err.
     and_then (map_err (\<lambda>_. ''Invalid Signature'') (signature_try_from S (ptba_signature p))) (\<lambda>signature.
       Ok \<lparr>tba_signature = signature, tba_err = err, tba_index = ptba_index p,
           tba_memo = map_option pmemo_memo (ptba_memo p),
           tba_block_time = map_option put_timestamp (ptba_block_time p)\<rparr>))"

definition by_addr_list_try_from ::
  "sdk \<Rightarrow> PbTransactionByAddrInfo list \<Rightarrow> string + TransactionByAddrInfo list" where
  "by_addr_list_try_from S tx_by_addrs = try_map (by_addr_try_from S) tx_by_addrs"

subsection \<open>Entry summaries\<close>

record EntrySummary =
  es_num_hashes :: u64
  es_hash :: hash
  es_num_transactions :: u64
  es_starting_transaction_index :: u64

record PbEntry =
  pe_index :: u32
  pe_num_hashes :: u64
  pe_hash :: bytes
  pe_num_transactions :: u64
  pe_starting_transaction_index :: u32

definition entry_to_pb :: "u64 \<times> EntrySummary \<Rightarrow> PbEntry" where
  "entry_to_pb ie =
     (case ie of (index, entry_summary) \<Rightarrow>
       \<lparr>pe_index = ucast index,
        pe_num_hashes = es_num_hashes entry_summary,
        pe_hash = hash_bytes (es_hash entry_summary),
        pe_num_transactions = es_num_transactions entry_summary,
        pe_starting_transaction_index = ucast (es_starting_transaction_index entry_summary)\<rparr>)"

definition entry_from_pb :: "PbEntry \<Rightarrow> panic + EntrySummary" where
  "entry_from_pb entry =
     and_then (hash_or_panic (pe_hash entry)) (\<lambda>h. Ok
       \<lparr>es_num_hashes = pe_num_hashes entry,
        es_hash = h,
        es_num_transactions = pe_num_transactions entry,
        es_starting_transaction_index = ucast (pe_starting_transaction_index entry)\<rparr>)"

subsection \<open>Round trips\<close>

definition wf_versioned_with_meta :: "VersionedTransactionWithStatusMeta \<Rightarrow> bool" where
  "wf_versioned_with_meta v \<longleftrightarrow> wf_transaction (vtm_transaction v) \<and> wf_meta (vtm_meta v)"

definition wf_confirmed :: "TransactionWithStatusMeta \<Rightarrow> bool" where
  "wf_confirmed t =
     (case t of
        MissingMetadata x \<Rightarrow> wf_transaction (versioned_of x)
      | Complete v \<Rightarrow> wf_versioned_with_meta v)"

definition canonical_with_meta ::
  "sdk \<Rightarrow> VersionedTransactionWithStatusMeta \<Rightarrow> VersionedTransactionWithStatusMeta" where
  "canonical_with_meta S v = v\<lparr>vtm_meta := canonical_meta S (vtm_meta v)\<rparr>"

definition canonical_confirmed :: "sdk \<Rightarrow> TransactionWithStatusMeta \<Rightarrow> TransactionWithStatusMeta" where
  "canonical_confirmed S t =
     (case t of MissingMetadata x \<Rightarrow> MissingMetadata x | Complete v \<Rightarrow> Complete (canonical_with_meta S v))"

definition canonical_block :: "sdk \<Rightarrow> VersionedConfirmedBlock \<Rightarrow> ConfirmedBlock" where
  "canonical_block S b =
     \<lparr>cb_previous_blockhash = vcb_previous_blockhash b,
      cb_blockhash = vcb_blockhash b,
      cb_parent_slot = vcb_parent_slot b,
      cb_transactions = map (\<lambda>v. Complete (canonical_with_meta S v)) (vcb_transactions b),
      cb_rewards = vcb_rewards b,
      cb_num_partitions = vcb_num_partitions b,
      cb_block_time = vcb_block_time b,
      cb_block_height = vcb_block_height b\<rparr>"

context solana_sdk
begin

lemma versioned_with_meta_roundtrip:
  assumes "wf_versioned_with_meta v" "versioned_with_meta_to_pb S v = Inr p"
  shows "confirmed_transaction_from_pb S p = Inr (Complete (canonical_with_meta S v))"
  using assms
  by (auto simp: versioned_with_meta_to_pb_def confirmed_transaction_from_pb_def result_simps
      wf_versioned_with_meta_def meta_roundtrip transaction_from_to_pb canonical_with_meta_def)

lemma confirmed_roundtrip:
  assumes "wf_confirmed t" "confirmed_transaction_to_pb S t = Inr p"
  shows "confirmed_transaction_from_pb S p = Inr (canonical_confirmed S t)"
proof (cases t)
  case (MissingMetadata x)
  with assms show ?thesis
    by (auto simp: confirmed_transaction_to_pb_def confirmed_transaction_from_pb_def wf_confirmed_def
        canonical_confirmed_def transaction_to_pb_versioned transaction_from_to_pb into_legacy)
next
  case (Complete v)
  with assms show ?thesis
    by (simp add: confirmed_transaction_to_pb_def wf_confirmed_def canonical_confirmed_def
        versioned_with_meta_roundtrip)
qed

lemma versioned_list_roundtrip:
  assumes "list_all wf_versioned_with_meta vs" "try_map (versioned_with_meta_to_pb S) vs = Inr ps"
  shows "try_map (confirmed_transaction_from_pb S) ps =
    Inr (map (\<lambda>v. Complete (canonical_with_meta S v)) vs)"
  using assms
  by (induction vs arbitrary: ps) (auto simp: result_simps versioned_with_meta_roundtrip)

lemma block_from_to_pb:
  assumes "list_all wf_versioned_with_meta (vcb_transactions b)" "block_to_pb S b = Inr p"
  shows "block_from_pb S p = Inr (canonical_block S b)"
  using assms
  by (auto simp: block_to_pb_def block_from_pb_def result_simps versioned_list_roundtrip
      canonical_block_def reward.dec_enc num_partitions_to_pb_def option.map_comp comp_def option.map_ident)

lemma by_addr_from_to_pb:
  assumes "wf_signature (tba_signature i)" "pred_option (\<lambda>e. forget_message e = e) (tba_err i)"
  shows "by_addr_try_from S (by_addr_to_pb i) = Inr i"
  using assms
  by (cases "tba_err i")
    (simp_all add: by_addr_try_from_def by_addr_to_pb_def tx_error.dec_enc signature_from_bytes
      option.map_comp comp_def option.map_ident)

end

lemma entry_from_to_pb:
  "wf_hash (es_hash e) \<Longrightarrow>
     entry_from_pb (entry_to_pb (i, e)) =
       Inr (e\<lparr>es_starting_transaction_index := take_bit 32 (es_starting_transaction_index e)\<rparr>)"
  by (simp add: entry_from_pb_def entry_to_pb_def hash_or_panic_bytes ucast_u64_u32_u64)

text \<open>
  C8. A block whose keys, hashes and signatures have their native lengths, once encoded, is
  decoded with the same header, rewards and partitions and the same transactions in the same
  order; of each transaction's metadata only what the message form cannot hold changes
  (missing token balances and rewards become empty lists, a token amount is normalised).
\<close>

theorem block_roundtrip:
  assumes "solana_sdk S" "list_all wf_versioned_with_meta (vcb_transactions b)"
    and "block_to_pb S b = Inr p"
  shows "block_from_pb S p = Inr (canonical_block S b)"
  using assms by (rule solana_sdk.block_from_to_pb)

definition example_meta :: TransactionStatusMeta where
  "example_meta =
     \<lparr>tsm_status = Inl TE_AccountNotFound, tsm_fee = 5000, tsm_pre_balances = [1, 2],
      tsm_post_balances = [3, 4], tsm_inner_instructions = None, tsm_log_messages = Some [''log''],
      tsm_pre_token_balances = None, tsm_post_token_balances = Some [], tsm_rewards = None,
      tsm_loaded_addresses = \<lparr>la_writable = [Pubkey (replicate 32 7)], la_readonly = []\<rparr>,
      tsm_return_data = None, tsm_compute_units_consumed = Some 150\<rparr>"

definition example_transaction :: VersionedTransaction where
  "example_transaction =
     \<lparr>vt_signatures = [Signature (replicate 64 1)],
      vt_message = V0
        \<lparr>vm_header = \<lparr>mh_num_required_signatures = 1, mh_num_readonly_signed_accounts = 0,
           mh_num_readonly_unsigned_accounts = 1\<rparr>,
         vm_account_keys = [Pubkey (replicate 32 2)], vm_recent_blockhash = Hash (replicate 32 3),
         vm_instructions = [\<lparr>ci_program_id_index = 255, ci_accounts = [0], ci_data = [9, 9]\<rparr>],
         vm_address_table_lookups = []\<rparr>\<rparr>"

definition example_block :: VersionedConfirmedBlock where
  "example_block =
     \<lparr>vcb_previous_blockhash = ''p'', vcb_blockhash = ''b'', vcb_parent_slot = 41,
      vcb_transactions = [\<lparr>vtm_transaction = example_transaction, vtm_meta = example_meta\<rparr>],
      vcb_rewards = [\<lparr>r_pubkey = ''r'', r_lamports = 12, r_post_balance = 20,
        r_reward_type = Some Voting, r_commission = Some 8\<rparr>],
      vcb_num_partitions = Some 4, vcb_block_time = None, vcb_block_height = Some 40\<rparr>"

theorem block_roundtrip_witness:
  "\<exists>p. block_to_pb array_sdk example_block = Inr p \<and>
     block_from_pb array_sdk p = Inr (canonical_block array_sdk example_block)"
proof -
  have "\<exists>p. block_to_pb array_sdk example_block = Inr p"
    by (simp add: block_to_pb_def example_block_def versioned_with_meta_to_pb_def meta_to_pb_def
        example_meta_def status_to_err_def array_sdk_def byte_serialize_def has_details_def)
  then obtain p where p: "block_to_pb array_sdk example_block = Inr p" ..
  moreover have "list_all wf_versioned_with_meta (vcb_transactions example_block)"
    by (simp add: example_block_def wf_versioned_with_meta_def example_transaction_def
        example_meta_def wf_transaction_def wf_message_def wf_meta_def wf_signature_def
        wf_pubkey_def wf_hash_def)
  ultimately have "block_from_pb array_sdk p = Inr (canonical_block array_sdk example_block)"
    by (intro block_roundtrip array_sdk.solana_sdk_axioms)
  with p show ?thesis by blast
qed

text \<open>
  C37. The index of the entry's first transaction is stored as a \<open>u32\<close>: an entry summary comes
  back from its message exactly when that index fits, and is cut to its low 32 bits otherwise.
\<close>

theorem entry_roundtrip_iff:
  assumes "wf_hash (es_hash e)"
  shows "entry_from_pb (entry_to_pb (i, e)) =
      Ok (e\<lparr>es_starting_transaction_index := take_bit 32 (es_starting_transaction_index e)\<rparr>) \<and>
    (entry_from_pb (entry_to_pb (i, e)) = Ok e \<longleftrightarrow> unat (es_starting_transaction_index e) < 2 ^ 32)"
proof -
  let ?n = "es_starting_transaction_index e"
  have decoded: "entry_from_pb (entry_to_pb (i, e)) = Ok (e\<lparr>es_starting_transaction_index := take_bit 32 ?n\<rparr>)"
    using assms by (rule entry_from_to_pb)
  have "take_bit 32 ?n = ?n \<longleftrightarrow> unat ?n < 2 ^ 32"
    by (simp add: word_unat_eq_iff unsigned_take_bit_eq take_bit_nat_eq_self_iff)
  moreover have "e\<lparr>es_starting_transaction_index := x\<rparr> = e \<longleftrightarrow> x = ?n" for x
    by (cases e) auto
  ultimately show ?thesis by (simp add: decoded)
qed

theorem entry_roundtrip_iff_witness:
  "entry_from_pb (entry_to_pb (0, \<lparr>es_num_hashes = 1, es_hash = Hash (replicate 32 0),
      es_num_transactions = 2, es_starting_transaction_index = 4294967297\<rparr>)) =
    Ok \<lparr>es_num_hashes = 1, es_hash = Hash (replicate 32 0), es_num_transactions = 2,
      es_starting_transaction_index = 1\<rparr>"
  using entry_roundtrip_iff [of "\<lparr>es_num_hashes = 1, es_hash = Hash (replicate 32 0),
      es_num_transactions = 2, es_starting_transaction_index = 4294967297\<rparr>" 0]
  by (simp add: wf_hash_def take_bit_eq_mod)

end
