(* ===== verification/Geyser_Messages.thy ===== *)
theory Geyser_Messages
  imports Convert_Block
begin

section \<open>The messages of the service (proto/proto/geyser.proto)\<close>

text \<open>
  The messages streamed to subscribers, with the fields of the proto file: a message field is
  an \<open>option\<close>, an enum field its number. A streamed item is a message or a gRPC status.
\<close>

record Timestamp =
  ts_seconds :: i64
  ts_nanos :: i32

record PartialAccountUpdate =
  pau_slot :: u64
  pau_pubkey :: bytes
  pau_owner :: bytes
  pau_is_startup :: bool
  pau_seq :: u64
  pau_tx_signature :: "string option"
  pau_replica_version :: u32

record AccountUpdate =
  au_slot :: u64
  au_pubkey :: bytes
  au_lamports :: u64
  au_owner :: bytes
  au_is_executable :: bool
  au_rent_epoch :: u64
  au_data :: bytes
  au_seq :: u64
  au_is_startup :: bool
  au_tx_signature :: "string option"
  au_replica_version :: u32

datatype SlotUpdateStatus =
    SUS_Confirmed | SUS_Processed | SUS_Rooted | SUS_FirstShredReceived | SUS_Completed
  | SUS_CreatedBank | SUS_Dead

primrec slot_update_status_as_i32 :: "SlotUpdateStatus \<Rightarrow> i32" where
  "slot_update_status_as_i32 SUS_Confirmed = 0"
| "slot_update_status_as_i32 SUS_Processed = 1"
| "slot_update_status_as_i32 SUS_Rooted = 2"
| "slot_update_status_as_i32 SUS_FirstShredReceived = 3"
| "slot_update_status_as_i32 SUS_Completed = 4"
| "slot_update_status_as_i32 SUS_CreatedBank = 5"
| "slot_update_status_as_i32 SUS_Dead = 6"

record SlotUpdate =
  su_slot :: u64
  su_parent_slot :: "u64 option"
  su_status :: i32

record TimestampedSlotUpdate =
  tsu_ts :: "Timestamp option"
  tsu_slot_update :: "SlotUpdate option"

record TimestampedAccountUpdate =
  tau_ts :: "Timestamp option"
  tau_account_update :: "AccountUpdate option"

datatype MaybePartialMsg = Msg_PartialAccountUpdate PartialAccountUpdate | Msg_Hb

record MaybePartialAccountUpdate =
  mpau_msg :: "MaybePartialMsg option"

record BlockUpdate =
  bu_slot :: u64
  bu_blockhash :: string
  bu_rewards :: "PbReward list"
  bu_block_time :: "Timestamp option"
  bu_block_height :: "u64 option"
  bu_executed_transaction_count :: "u64 option"
  bu_entry_count :: "u64 option"

record TimestampedBlockUpdate =
  tbu_ts :: "Timestamp option"
  tbu_block_update :: "BlockUpdate option"

record TransactionUpdate =
  tu_slot :: u64
  tu_signature :: string
  tu_is_vote :: bool
  tu_tx_idx :: u64
  tu_tx :: "PbConfirmedTransaction option"

record TimestampedTransactionUpdate =
  ttu_ts :: "Timestamp option"
  ttu_transaction :: "TransactionUpdate option"

record SlotEntryUpdate =
  seu_slot :: u64
  seu_index :: u64
  seu_executed_transaction_count :: u64

record TimestampedSlotEntryUpdate =
  tseu_ts :: u32
  tseu_entry_update :: "SlotEntryUpdate option"

subsection \<open>Statuses and streamed items\<close>

datatype status_code = InvalidArgument | FailedPrecondition | Internal | Unauthenticated

datatype Status = Status status_code string

datatype stream_msg =
    AccountMsg TimestampedAccountUpdate
  | PartialMsg MaybePartialAccountUpdate
  | SlotMsg TimestampedSlotUpdate
  | SlotEntryMsg TimestampedSlotEntryUpdate
  | TransactionMsg TimestampedTransactionUpdate
  | BlockMsg TimestampedBlockUpdate

type_synonym item = "Status + stream_msg"

end
