(* ===== verification/Subscriptions.thy ===== *)
theory Subscriptions
  imports Channels Geyser_Messages
begin

section \<open>Subscriptions (server/src/server.rs)\<close>

text \<open>
  The subscription records the event loop keeps, the events that add and close them, the
  service errors, and the three ways a record is sent something: an update, a heartbeat, an
  error status. The type \<open>'s\<close> stands for tokio's \<open>Sender\<close>; its six message types are the
  constructors of \<open>stream_msg\<close>.
\<close>

datatype RecvError = RecvError

datatype GeyserServiceError =
    GeyserStreamMessageError RecvError
  | NotificationReceiverFull
  | NotificationReceiverDisconnected

type_synonym 'a GeyserServiceResult = "GeyserServiceError + 'a"

type_synonym ('w, 's) sender_fn = "('w, 's, item) try_send"

record 's AccountUpdateSubscription =
  aus_notification_sender :: 's
  aus_accounts :: "bytes set"

record 's PartialAccountUpdateSubscription =
  paus_subscription_tx :: 's
  paus_skip_votes :: bool

record 's SlotUpdateSubscription =
  sus_subscription_tx :: 's

record 's SlotEntryUpdateSubscription =
  seus_subscription_tx :: 's

record 's BlockUpdateSubscription =
  bus_notification_sender :: 's

record 's TransactionUpdateSubscription =
  tus_notification_sender :: 's

datatype 's SubscriptionAddedEvent =
    Added_AccountUpdateSubscription uuid 's "bytes set"
  | Added_ProgramUpdateSubscription uuid 's "bytes set"
  | Added_PartialAccountUpdateSubscription uuid 's bool
  | Added_SlotUpdateSubscription uuid 's
  | Added_SlotEntryUpdateSubscription uuid 's
  | Added_TransactionUpdateSubscription uuid 's
  | Added_BlockUpdateSubscription uuid 's

text \<open>The text of an added event, for the log; the id is rendered by the uuid crate.\<close>

definition subscription_added_fmt :: "(uuid \<Rightarrow> string) \<Rightarrow> 's SubscriptionAddedEvent \<Rightarrow> string" where
  "subscription_added_fmt show_uuid self =
     (case (case self of
         Added_AccountUpdateSubscription uuid _ _ \<Rightarrow> (''subscribe_account_update'', uuid)
       | Added_PartialAccountUpdateSubscription uuid _ _ \<Rightarrow> (''subscribe_partial_account_update'', uuid)
       | Added_SlotUpdateSubscription uuid _ \<Rightarrow> (''subscribe_slot_update'', uuid)
       | Added_SlotEntryUpdateSubscription uuid _ \<Rightarrow> (''subscribe_slot_entry_update'', uuid)
       | Added_ProgramUpdateSubscription uuid _ _ \<Rightarrow> (''program_update_subscribe'', uuid)
       | Added_TransactionUpdateSubscription uuid _ \<Rightarrow> (''transaction_update_subscribe'', uuid)
       | Added_BlockUpdateSubscription uuid _ \<Rightarrow> (''block_update_subscribe'', uuid)) of
       (sub_name, sub_id) \<Rightarrow>
         ''subscription type: '' @ sub_name @ '', subscription id: '' @ show_uuid sub_id @ [CHR 0x0A])"

datatype SubscriptionClosedEvent =
    Closed_AccountUpdateSubscription uuid
  | Closed_ProgramUpdateSubscription uuid
  | Closed_PartialAccountUpdateSubscription uuid
  | Closed_SlotUpdateSubscription uuid
  | Closed_SlotEntryUpdateSubscription uuid
  | Closed_TransactionUpdateSubscription uuid
  | Closed_BlockUpdateSubscription uuid

subsection \<open>Streaming errors, updates and heartbeats\<close>

primrec map_try_send_error :: "TrySendError \<Rightarrow> GeyserServiceError" where
  "map_try_send_error Full = NotificationReceiverFull"
| "map_try_send_error Closed = NotificationReceiverDisconnected"

definition account_stream_error ::
  "('w, 's) sender_fn \<Rightarrow> 's AccountUpdateSubscription \<Rightarrow> Status \<Rightarrow> 'w \<Rightarrow> 'w \<times> unit GeyserServiceResult" where
  "account_stream_error ts self status w =
     (case ts w (aus_notification_sender self) (Err status) of
        (w', r) \<Rightarrow> (w', map_err map_try_send_error r))"

definition partial_stream_error ::
  "('w, 's) sender_fn \<Rightarrow> 's PartialAccountUpdateSubscription \<Rightarrow> Status \<Rightarrow> 'w \<Rightarrow> 'w \<times> unit GeyserServiceResult" where
  "partial_stream_error ts self status w =
     (case ts w (paus_subscription_tx self) (Err status) of
        (w', r) \<Rightarrow> (w', map_err map_try_send_error r))"

definition slot_stream_error ::
  "('w, 's) sender_fn \<Rightarrow> 's SlotUpdateSubscription \<Rightarrow> Status \<Rightarrow> 'w \<Rightarrow> 'w \<times> unit GeyserServiceResult" where
  "slot_stream_error ts self status w =
     (case ts w (sus_subscription_tx self) (Err status) of
        (w', r) \<Rightarrow> (w', map_err map_try_send_error r))"

definition slot_entry_stream_error ::
  "('w, 's) sender_fn \<Rightarrow> 's SlotEntryUpdateSubscription \<Rightarrow> Status \<Rightarrow> 'w \<Rightarrow> 'w \<times> unit GeyserServiceResult" where
  "slot_entry_stream_error ts self status w =
     (case ts w (seus_subscription_tx self) (Err status) of
        (w', r) \<Rightarrow> (w', map_err map_try_send_error r))"

definition block_stream_error ::
  "('w, 's) sender_fn \<Rightarrow> 's BlockUpdateSubscription \<Rightarrow> Status \<Rightarrow> 'w \<Rightarrow> 'w \<times> unit GeyserServiceResult" where
  "block_stream_error ts self status w =
     (case ts w (bus_notification_sender self) (Err status) of
        (w', r) \<Rightarrow> (w', map_err map_try_send_error r))"

definition transaction_stream_error ::
  "('w, 's) sender_fn \<Rightarrow> 's TransactionUpdateSubscription \<Rightarrow> Status \<Rightarrow> 'w \<Rightarrow> 'w \<times> unit GeyserServiceResult" where
  "transaction_stream_error ts self status w =
     (case ts w (tus_notification_sender self) (Err status) of
        (w', r) \<Rightarrow> (w', map_err map_try_send_error r))"

text \<open>
  The vote program's id comes from \<open>solana_program\<close>, cached in a \<open>OnceCell\<close>: an argument.
\<close>

definition stream_update ::
  "bytes \<Rightarrow> ('w, 's) sender_fn \<Rightarrow> 's PartialAccountUpdateSubscription \<Rightarrow> PartialAccountUpdate \<Rightarrow>
    'w \<Rightarrow> 'w \<times> unit GeyserServiceResult" where
  "stream_update vote_id ts self update w =
     (if paus_skip_votes self \<and> pau_owner update = vote_id then (w, Ok ())
      else
        case ts w (paus_subscription_tx self)
               (Ok (PartialMsg \<lparr>mpau_msg = Some (Msg_PartialAccountUpdate update)\<rparr>)) of
          (w', r) \<Rightarrow> (w', map_err map_try_send_error r))"

definition send_heartbeat ::
  "('w, 's) sender_fn \<Rightarrow> 's PartialAccountUpdateSubscription \<Rightarrow> 'w \<Rightarrow> 'w \<times> unit GeyserServiceResult" where
  "send_heartbeat ts self w =
     (case ts w (paus_subscription_tx self) (Ok (PartialMsg \<lparr>mpau_msg = Some Msg_Hb\<rparr>)) of
        (w', r) \<Rightarrow> (w', map_err map_try_send_error r))"

lemma map_err_disconnected [simp]:
  "map_err map_try_send_error r = Inl NotificationReceiverDisconnected \<longleftrightarrow> r = Err Closed"
proof (cases r)
  case (Inl e)
  then show ?thesis by (cases e) simp_all
qed simp

subsection \<open>Dropping broken connections\<close>

definition broken_connection :: Status where
  "broken_connection = Status FailedPrecondition ''broken connection''"

definition drop_subscriptions ::
  "('v \<Rightarrow> Status \<Rightarrow> 'w \<Rightarrow> 'w \<times> unit GeyserServiceResult) \<Rightarrow>
    uuid list \<Rightarrow> 'w \<times> (uuid, 'v) hashmap \<Rightarrow> 'w \<times> (uuid, 'v) hashmap" where
  "drop_subscriptions stream_error subscription_ids =
     for_each (\<lambda>sub_id (w, subscriptions).
       case hm_remove sub_id subscriptions of
         (Some sub, subscriptions') \<Rightarrow> (fst (stream_error sub broken_connection w), subscriptions')
       | (None, subscriptions') \<Rightarrow> (w, subscriptions')) subscription_ids"

text \<open>
  What \<open>drop_subscriptions\<close> needs of \<open>ErrorStatusStreamer\<close>: the status goes to the one channel
  the record owns.
\<close>

locale error_status_streamer =
  fixes ts :: "('w, 's) sender_fn"
    and stream_error :: "'v \<Rightarrow> Status \<Rightarrow> 'w \<Rightarrow> 'w \<times> unit GeyserServiceResult"
    and sender_of :: "'v \<Rightarrow> 's"
  assumes stream_error_sends: "fst (stream_error sub st w) = fst (ts w (sender_of sub) (Err st))"
begin

lemma drop_subscriptions_Cons:
  "drop_subscriptions stream_error (u # us) (w, m) =
     drop_subscriptions stream_error us
       (case map_of m u of None \<Rightarrow> w | Some sub \<Rightarrow> fst (ts w (sender_of sub) (Err broken_connection)),
        AList.delete u m)"
  by (simp add: drop_subscriptions_def hm_remove_def stream_error_sends split: option.splits)

lemma drop_subscriptions_entries:
  "snd (drop_subscriptions stream_error us (w, m)) = filter (\<lambda>(k, v). k \<notin> set us) m"
proof (induction us arbitrary: w m)
  case Nil
  show ?case by (simp add: drop_subscriptions_def)
next
  case (Cons u us)
  show ?case
    unfolding drop_subscriptions_Cons Cons.IH
    by (auto simp: AList.delete_eq filter_filter intro: filter_cong)
qed

text \<open>A status sent on a channel that is gone changes nothing.\<close>

lemma drop_subscriptions_closed:
  assumes "\<And>u sub w' m. u \<in> set us \<Longrightarrow> map_of m0 u = Some sub \<Longrightarrow> ts w (sender_of sub) m = (w, Err Closed)"
  shows "fst (drop_subscriptions stream_error us (w, m0)) = w"
  using assms
proof (induction us arbitrary: m0)
  case Nil
  show ?case by (simp add: drop_subscriptions_def)
next
  case (Cons u us)
  have "(case map_of m0 u of None \<Rightarrow> w | Some sub \<Rightarrow> fst (ts w (sender_of sub) (Err broken_connection))) = w"
    by (cases "map_of m0 u") (simp_all add: Cons.prems [of u])
  moreover have "fst (drop_subscriptions stream_error us (w, AList.delete u m0)) = w"
  proof (rule Cons.IH)
    fix v sub m
    assume "v \<in> set us" and v: "map_of (AList.delete u m0) v = Some sub"
    from v have "map_of m0 v = Some sub" by (simp add: delete_conv' fun_upd_def split: if_splits)
    with \<open>v \<in> set us\<close> show "ts w (sender_of sub) m = (w, Err Closed)" by (simp add: Cons.prems [of v])
  qed
  ultimately show ?case by (simp add: drop_subscriptions_Cons)
qed

end

interpretation account_streamer: error_status_streamer ts "account_stream_error ts" aus_notification_sender
  for ts :: "('w, 's) sender_fn"
  by unfold_locales (simp add: account_stream_error_def split: prod.splits)

interpretation partial_streamer: error_status_streamer ts "partial_stream_error ts" paus_subscription_tx
  for ts :: "('w, 's) sender_fn"
  by unfold_locales (simp add: partial_stream_error_def split: prod.splits)

interpretation slot_streamer: error_status_streamer ts "slot_stream_error ts" sus_subscription_tx
  for ts :: "('w, 's) sender_fn"
  by unfold_locales (simp add: slot_stream_error_def split: prod.splits)

interpretation slot_entry_streamer: error_status_streamer ts "slot_entry_stream_error ts" seus_subscription_tx
  for ts :: "('w, 's) sender_fn"
  by unfold_locales (simp add: slot_entry_stream_error_def split: prod.splits)

interpretation block_streamer: error_status_streamer ts "block_stream_error ts" bus_notification_sender
  for ts :: "('w, 's) sender_fn"
  by unfold_locales (simp add: block_stream_error_def split: prod.splits)

interpretation transaction_streamer: error_status_streamer ts "transaction_stream_error ts" tus_notification_sender
  for ts :: "('w, 's) sender_fn"
  by unfold_locales (simp add: transaction_stream_error_def split: prod.splits)

end
