(* ===== verification/Subscription_Stream.thy ===== *)
theory Subscription_Stream
  imports Subscriptions "HOL-Library.Multiset"
begin

section \<open>Subscription streams (server/src/subscription\_stream.rs)\<close>

text \<open>
  What a subscriber reads from. The stream wraps the receiving end of the subscriber's channel,
  and tells the event loop when it is dropped: \<open>new\<close> spawns a task that waits on a oneshot
  channel and then sends the closed event. The tokio runtime and its channels are the arguments
  collected in \<open>stream_env\<close>; \<open>'o\<close> is the sender of a oneshot channel and \<open>'s\<close> names a
  subscriber's channel, so its receiver too.
\<close>

datatype 'a Poll = Ready 'a | Pending

record ('w, 's, 'o) stream_env =
  oneshot_channel :: "'w \<Rightarrow> 'w \<times> 'o"
  spawn_closed_task :: "'w \<Rightarrow> 'o \<Rightarrow> SubscriptionClosedEvent \<Rightarrow> 'w"
  oneshot_send :: "'w \<Rightarrow> 'o \<Rightarrow> 'w \<times> (unit + unit)"
  closed_try_send :: "'w \<Rightarrow> SubscriptionClosedEvent \<Rightarrow> 'w \<times> (TrySendError + unit)"
  receiver_poll_next :: "'w \<Rightarrow> 's \<Rightarrow> 'w \<times> item option Poll"

record ('s, 'o) SubscriptionStream =
  ss_inner :: 's
  ss_stream_closed_signal :: "'o option"
  ss_stream_id :: uuid
  ss_name :: string

definition subscription_stream_new ::
  "('w, 's, 'o, 'z) stream_env_scheme \<Rightarrow> 's \<Rightarrow> uuid \<Rightarrow> SubscriptionClosedEvent \<Rightarrow> string \<Rightarrow> 'w \<Rightarrow>
    'w \<times> ('s, 'o) SubscriptionStream" where
  "subscription_stream_new env stream_rx stream_id event stream_name w =
     (case oneshot_channel env w of
        (w1, stream_closed_signal) \<Rightarrow>
          (spawn_closed_task env w1 stream_closed_signal event,
           \<lparr>ss_inner = stream_rx,
            ss_stream_closed_signal = Some stream_closed_signal,
            ss_stream_id = stream_id,
            ss_name = stream_name\<rparr>))"

text \<open>The body of the spawned task once its wait is over; a send that fails is only logged.\<close>

definition closed_task :: "('w, 's, 'o, 'z) stream_env_scheme \<Rightarrow> SubscriptionClosedEvent \<Rightarrow> 'w \<Rightarrow> 'w" where
  "closed_task env event w = fst (closed_try_send env w event)"

definition poll_next ::
  "('w, 's, 'o, 'z) stream_env_scheme \<Rightarrow> ('s, 'o) SubscriptionStream \<Rightarrow> 'w \<Rightarrow> 'w \<times> item option Poll" where
  "poll_next env self w = receiver_poll_next env w (ss_inner self)"

definition drop_stream ::
  "('w, 's, 'o, 'z) stream_env_scheme \<Rightarrow> ('s, 'o) SubscriptionStream \<Rightarrow> 'w \<Rightarrow>
    'w \<times> (panic + ('s, 'o) SubscriptionStream)" where
  "drop_stream env self w =
     (case ss_stream_closed_signal self of
        None \<Rightarrow> (w, Err (Panic (ss_name self @ '' stream_disconnected_tx cannot be None'')))
      | Some stream_closed_signal \<Rightarrow>
          (case oneshot_send env w stream_closed_signal of
             (w', _) \<Rightarrow> (w', Ok (self\<lparr>ss_stream_closed_signal := None\<rparr>))))"

subsection \<open>What the runtime promises\<close>

text \<open>
  A oneshot channel is new; the spawned task waits on it; sending on it makes the task ready.
  The observations: the tasks spawned, each with the channel it waits on and its event, and the
  channels that have been sent on.
\<close>

locale stream_runtime =
  fixes env :: "('w, 's, 'o, 'z) stream_env_scheme"
    and tasks :: "'w \<Rightarrow> ('o \<times> SubscriptionClosedEvent) list"
    and signalled :: "'w \<Rightarrow> 'o set"
  assumes oneshot_tasks: "tasks (fst (oneshot_channel env w)) = tasks w"
    and oneshot_signalled: "signalled (fst (oneshot_channel env w)) = signalled w"
    and oneshot_fresh:
      "snd (oneshot_channel env w) \<notin> signalled w \<union> fst ` set (tasks w)"
    and spawn_tasks: "tasks (spawn_closed_task env w sig ev) = tasks w @ [(sig, ev)]"
    and spawn_signalled: "signalled (spawn_closed_task env w sig ev) = signalled w"
    and send_tasks: "tasks (fst (oneshot_send env w sig)) = tasks w"
    and send_signalled: "signalled (fst (oneshot_send env w sig)) = insert sig (signalled w)"
begin

definition ready :: "'w \<Rightarrow> SubscriptionClosedEvent list" where
  "ready w = map snd (filter (\<lambda>t. fst t \<in> signalled w) (tasks w))"

lemma ready_new: "ready (fst (subscription_stream_new env rx i ev n w)) = ready w"
proof -
  obtain w1 sig where w1: "oneshot_channel env w = (w1, sig)" by fastforce
  then have "tasks w1 = tasks w" "signalled w1 = signalled w" "sig \<notin> signalled w"
    using oneshot_tasks [of w] oneshot_signalled [of w] oneshot_fresh [of w] by simp_all
  then show ?thesis
    by (simp add: subscription_stream_new_def w1 ready_def spawn_tasks spawn_signalled)
qed

lemma new_signal:
  "subscription_stream_new env rx i ev n w = (w', s) \<Longrightarrow>
     \<exists>sig. ss_stream_closed_signal s = Some sig \<and> tasks w' = tasks w @ [(sig, ev)] \<and>
       sig \<notin> signalled w \<and> sig \<notin> fst ` set (tasks w) \<and> signalled w' = signalled w"
  using oneshot_fresh [of w] oneshot_tasks [of w] oneshot_signalled [of w]
  by (auto simp: subscription_stream_new_def spawn_tasks spawn_signalled split: prod.splits)

text \<open>Dropping a stream whose task still waits makes one more task ready: that one.\<close>

lemma ready_drop:
  assumes sig: "ss_stream_closed_signal s = Some sig"
    and task: "distinct (map fst (tasks w))" "(sig, ev) \<in> set (tasks w)" "sig \<notin> signalled w"
  shows "\<exists>w'. drop_stream env s w = (w', Ok (s\<lparr>ss_stream_closed_signal := None\<rparr>)) \<and>
    mset (ready w') = add_mset ev (mset (ready w))"
proof -
  obtain w' r where w': "oneshot_send env w sig = (w', r)" by fastforce
  then have eqs: "tasks w' = tasks w" "signalled w' = insert sig (signalled w)"
    using send_tasks [of w sig] send_signalled [of w sig] by simp_all
  obtain xs ys where xs: "tasks w = xs @ (sig, ev) # ys" using task(2) by (meson split_list)
  then have "sig \<notin> fst ` set xs" "sig \<notin> fst ` set ys" using task(1) by auto
  then have "filter (\<lambda>t. fst t = sig \<or> fst t \<in> signalled w) xs = filter (\<lambda>t. fst t \<in> signalled w) xs"
    "filter (\<lambda>t. fst t = sig \<or> fst t \<in> signalled w) ys = filter (\<lambda>t. fst t \<in> signalled w) ys"
    by (auto intro!: filter_cong)
  then have "mset (ready w') = add_mset ev (mset (ready w))"
    using task(3) by (simp add: ready_def eqs xs)
  then show ?thesis by (simp add: drop_stream_def sig w')
qed

lemma signal_drop:
  assumes "ss_stream_closed_signal s = Some sig" "tasks w1 = tasks w @ [(sig, ev)]"
    "sig \<notin> signalled w" "sig \<notin> fst ` set (tasks w)" "signalled w1 = signalled w"
  shows "\<exists>w2 s'. drop_stream env s w1 = (w2, Ok s') \<and> ready w2 = ready w @ [ev] \<and>
    drop_stream env s' w2 = (w2, Err (Panic (ss_name s @ '' stream_disconnected_tx cannot be None'')))"
proof -
  obtain w2 r where w2: "oneshot_send env w1 sig = (w2, r)" by fastforce
  then have eqs: "tasks w2 = tasks w @ [(sig, ev)]" "signalled w2 = insert sig (signalled w)"
    using send_tasks [of w1 sig] send_signalled [of w1 sig] assms by simp_all
  have "filter (\<lambda>t. fst t = sig \<or> fst t \<in> signalled w) (tasks w) = filter (\<lambda>t. fst t \<in> signalled w) (tasks w)"
    using assms(4) by (auto intro!: filter_cong)
  then have "ready w2 = ready w @ [ev]" by (simp add: ready_def eqs)
  then show ?thesis by (simp add: drop_stream_def assms(1) w2)
qed

lemma new_then_drop:
  assumes "subscription_stream_new env rx i ev n w = (w1, s)"
  shows "\<exists>w2 s'. drop_stream env s w1 = (w2, Ok s') \<and> ready w2 = ready w @ [ev] \<and>
    drop_stream env s' w2 = (w2, Err (Panic (n @ '' stream_disconnected_tx cannot be None'')))"
proof -
  have "ss_name s = n" using assms by (auto simp: subscription_stream_new_def split: prod.splits)
  with new_signal [OF assms] signal_drop [of s] show ?thesis by blast
qed

end

end
