(* ===== verification/Event_Loop.thy ===== *)
theory Event_Loop
  imports Subscriptions
begin

section \<open>The event loop (server/src/server.rs)\<close>

text \<open>
  The thread behind the service: its seven maps of subscriptions, one handler per kind of
  event, and the body of its \<open>loop { select! { .. } }\<close>. Which ready channel \<open>select!\<close> takes is
  not determined, so the sequence of events is an argument. A handler acts on the channels
  \<open>'w\<close> and returns the ids of the subscriptions whose channel is gone.
\<close>

record 's loop_state =
  account_update_subscriptions :: "(uuid, 's AccountUpdateSubscription) hashmap"
  program_update_subscriptions :: "(uuid, 's AccountUpdateSubscription) hashmap"
  partial_account_update_subscriptions :: "(uuid, 's PartialAccountUpdateSubscription) hashmap"
  slot_update_subscriptions :: "(uuid, 's SlotUpdateSubscription) hashmap"
  slot_entry_update_subscriptions :: "(uuid, 's SlotEntryUpdateSubscription) hashmap"
  transaction_update_subscriptions :: "(uuid, 's TransactionUpdateSubscription) hashmap"
  block_update_subscriptions :: "(uuid, 's BlockUpdateSubscription) hashmap"

definition empty_loop_state :: "'s loop_state" where
  "empty_loop_state =
     \<lparr>account_update_subscriptions = [],
      program_update_subscriptions = [],
      partial_account_update_subscriptions = [],
      slot_update_subscriptions = [],
      slot_entry_update_subscriptions = [],
      transaction_update_subscriptions = [],
      block_update_subscriptions = []\<rparr>"

subsection \<open>Handlers\<close>

definition handle_block_update_event ::
  "('w, 's) sender_fn \<Rightarrow> RecvError + TimestampedBlockUpdate \<Rightarrow>
    (uuid, 's BlockUpdateSubscription) hashmap \<Rightarrow> 'w \<Rightarrow> 'w \<times> uuid list GeyserServiceResult" where
  "handle_block_update_event ts maybe_block_update subscriptions w =
     (case maybe_block_update of
        Inl e \<Rightarrow> (w, Err (GeyserStreamMessageError e))
      | Inr block_update \<Rightarrow>
          (case filter_map_st (\<lambda>(uuid, sub) w.
                  case ts w (bus_notification_sender sub) (Ok (BlockMsg block_update)) of
                    (w', r) \<Rightarrow> (w', if r = Err Closed then Some uuid else None))
                subscriptions w of
             (w', ids) \<Rightarrow> (w', Ok ids)))"

definition handle_transaction_update_event ::
  "('w, 's) sender_fn \<Rightarrow> RecvError + TimestampedTransactionUpdate \<Rightarrow>
    (uuid, 's TransactionUpdateSubscription) hashmap \<Rightarrow> 'w \<Rightarrow> 'w \<times> uuid list GeyserServiceResult" where
  "handle_transaction_update_event ts maybe_transaction_update subscriptions w =
     (case maybe_transaction_update of
        Inl e \<Rightarrow> (w, Err (GeyserStreamMessageError e))
      | Inr transaction_update \<Rightarrow>
          (case filter_map_st (\<lambda>(uuid, sub) w.
                  case ts w (tus_notification_sender sub) (Ok (TransactionMsg transaction_update)) of
                    (w', r) \<Rightarrow> (w', if r = Err Closed then Some uuid else None))
                subscriptions w of
             (w', ids) \<Rightarrow> (w', Ok ids)))"

definition handle_slot_update_event ::
  "('w, 's) sender_fn \<Rightarrow> RecvError + TimestampedSlotUpdate \<Rightarrow>
    (uuid, 's SlotUpdateSubscription) hashmap \<Rightarrow> 'w \<Rightarrow> 'w \<times> uuid list GeyserServiceResult" where
  "handle_slot_update_event ts maybe_slot_update subscriptions w =
     (case maybe_slot_update of
        Inl e \<Rightarrow> (w, Err (GeyserStreamMessageError e))
      | Inr slot_update \<Rightarrow>
          (case filter_map_st (\<lambda>(uuid, sub) w.
                  case ts w (sus_subscription_tx sub) (Ok (SlotMsg slot_update)) of
                    (w', r) \<Rightarrow> (w', if r = Err Closed then Some uuid else None))
                subscriptions w of
             (w', ids) \<Rightarrow> (w', Ok ids)))"

definition handle_slot_entry_update_event ::
  "('w, 's) sender_fn \<Rightarrow> RecvError + TimestampedSlotEntryUpdate \<Rightarrow>
    (uuid, 's SlotEntryUpdateSubscription) hashmap \<Rightarrow> 'w \<Rightarrow> 'w \<times> uuid list GeyserServiceResult" where
  "handle_slot_entry_update_event ts maybe_slot_entry_update subscriptions w =
     (case maybe_slot_entry_update of
        Inl e \<Rightarrow> (w, Err (GeyserStreamMessageError e))
      | Inr slot_entry_update \<Rightarrow>
          (case filter_map_st (\<lambda>(uuid, sub) w.
                  case ts w (seus_subscription_tx sub) (Ok (SlotEntryMsg slot_entry_update)) of
                    (w', r) \<Rightarrow> (w', if r = Err Closed then Some uuid else None))
                subscriptions w of
             (w', ids) \<Rightarrow> (w', Ok ids)))"

text \<open>
  The iterators over the three maps are lazy: their sends happen when the chain is collected,
  first the account, then the partial, then the program subscriptions.
\<close>

definition partial_account_update_of :: "AccountUpdate \<Rightarrow> PartialAccountUpdate" where
  "partial_account_update_of update =
     \<lparr>pau_slot = au_slot update,
      pau_pubkey = au_pubkey update,
      pau_owner = au_owner update,
      pau_is_startup = au_is_startup update,
      pau_seq = au_seq update,
      pau_tx_signature = au_tx_signature update,
      pau_replica_version = au_replica_version update\<rparr>"

definition handle_account_update_event ::
  "bytes \<Rightarrow> ('w, 's) sender_fn \<Rightarrow> RecvError + TimestampedAccountUpdate \<Rightarrow>
    (uuid, 's AccountUpdateSubscription) hashmap \<Rightarrow>
    (uuid, 's PartialAccountUpdateSubscription) hashmap \<Rightarrow>
    (uuid, 's AccountUpdateSubscription) hashmap \<Rightarrow>
    'w \<Rightarrow> 'w \<times> (panic + uuid list GeyserServiceResult)" where
  "handle_account_update_event vote_id ts maybe_account_update account_subs partial_subs program_subs w =
     (case maybe_account_update of
        Inl e \<Rightarrow> (w, Ok (Err (GeyserStreamMessageError e)))
      | Inr account_update \<Rightarrow>
          (case tau_account_update account_update of
             None \<Rightarrow> (w, Err (Panic ''''))
           | Some update \<Rightarrow>
               (case filter_map_st (\<lambda>(uuid, sub) w.
                       if au_pubkey update \<in> aus_accounts sub then
                         (case ts w (aus_notification_sender sub) (Ok (AccountMsg account_update)) of
                            (w', r) \<Rightarrow> (w', if r = Err Closed then Some uuid else None))
                       else (w, None)) account_subs w of
                  (w1, failed_account_update_sends) \<Rightarrow>
                case filter_map_st (\<lambda>(uuid, sub) w.
                       case stream_update vote_id ts sub (partial_account_update_of update) w of
                         (w', r) \<Rightarrow>
                           (w', if r = Err NotificationReceiverDisconnected then Some uuid else None))
                     partial_subs w1 of
                  (w2, failed_partial_account_update_sends) \<Rightarrow>
                case filter_map_st (\<lambda>(uuid, sub) w.
                       if au_owner update \<in> aus_accounts sub then
                         (case ts w (aus_notification_sender sub) (Ok (AccountMsg account_update)) of
                            (w', r) \<Rightarrow> (w', if r = Err Closed then Some uuid else None))
                       else (w, None)) program_subs w2 of
                  (w3, failed_program_update_sends) \<Rightarrow>
                    (w3, Ok (Ok (failed_account_update_sends
                                 @ failed_partial_account_update_sends
                                 @ failed_program_update_sends))))))"

definition send_heartbeats ::
  "('w, 's) sender_fn \<Rightarrow> (uuid, 's PartialAccountUpdateSubscription) hashmap \<Rightarrow> 'w \<Rightarrow> 'w \<times> uuid list" where
  "send_heartbeats ts subscriptions w =
     for_each (\<lambda>(sub_id, sub) (w, failed_subscription_ids).
         case send_heartbeat ts sub w of
           (w', r) \<Rightarrow>
             (w', if r = Err NotificationReceiverDisconnected
                  then failed_subscription_ids @ [sub_id] else failed_subscription_ids))
       subscriptions (w, [])"

definition handle_subscription_added ::
  "RecvError + 's SubscriptionAddedEvent \<Rightarrow> 's loop_state \<Rightarrow> 's loop_state GeyserServiceResult" where
  "handle_subscription_added maybe_subscription_added st =
     (case maybe_subscription_added of
        Inl e \<Rightarrow> Err (GeyserStreamMessageError e)
      | Inr subscription_added \<Rightarrow> Ok
         (case subscription_added of
            Added_AccountUpdateSubscription uuid subscription_tx accounts \<Rightarrow>
              st\<lparr>account_update_subscriptions := hm_insert uuid
                   \<lparr>aus_notification_sender = subscription_tx, aus_accounts = accounts\<rparr>
                   (account_update_subscriptions st)\<rparr>
          | Added_PartialAccountUpdateSubscription uuid subscription_tx skip_votes \<Rightarrow>
              st\<lparr>partial_account_update_subscriptions := hm_insert uuid
                   \<lparr>paus_subscription_tx = subscription_tx, paus_skip_votes = skip_votes\<rparr>
                   (partial_account_update_subscriptions st)\<rparr>
          | Added_SlotUpdateSubscription uuid subscription_tx \<Rightarrow>
              st\<lparr>slot_update_subscriptions := hm_insert uuid
                   \<lparr>sus_subscription_tx = subscription_tx\<rparr> (slot_update_subscriptions st)\<rparr>
          | Added_SlotEntryUpdateSubscription uuid subscription_tx \<Rightarrow>
              st\<lparr>slot_entry_update_subscriptions := hm_insert uuid
                   \<lparr>seus_subscription_tx = subscription_tx\<rparr> (slot_entry_update_subscriptions st)\<rparr>
          | Added_ProgramUpdateSubscription uuid notification_sender programs \<Rightarrow>
              st\<lparr>program_update_subscriptions := hm_insert uuid
                   \<lparr>aus_notification_sender = notification_sender, aus_accounts = programs\<rparr>
                   (program_update_subscriptions st)\<rparr>
          | Added_TransactionUpdateSubscription uuid notification_sender \<Rightarrow>
              st\<lparr>transaction_update_subscriptions := hm_insert uuid
                   \<lparr>tus_notification_sender = notification_sender\<rparr>
                   (transaction_update_subscriptions st)\<rparr>
          | Added_BlockUpdateSubscription uuid notification_sender \<Rightarrow>
              st\<lparr>block_update_subscriptions := hm_insert uuid
                   \<lparr>bus_notification_sender = notification_sender\<rparr>
                   (block_update_subscriptions st)\<rparr>))"

definition handle_subscription_closed ::
  "RecvError + SubscriptionClosedEvent \<Rightarrow> 's loop_state \<Rightarrow> 's loop_state GeyserServiceResult" where
  "handle_subscription_closed maybe_subscription_closed st =
     (case maybe_subscription_closed of
        Inl e \<Rightarrow> Err (GeyserStreamMessageError e)
      | Inr subscription_closed \<Rightarrow> Ok
         (case subscription_closed of
            Closed_AccountUpdateSubscription subscription_id \<Rightarrow>
              st\<lparr>account_update_subscriptions :=
                   snd (hm_remove subscription_id (account_update_subscriptions st))\<rparr>
          | Closed_PartialAccountUpdateSubscription subscription_id \<Rightarrow>
              st\<lparr>partial_account_update_subscriptions :=
                   snd (hm_remove subscription_id (partial_account_update_subscriptions st))\<rparr>
          | Closed_SlotUpdateSubscription subscription_id \<Rightarrow>
              st\<lparr>slot_update_subscriptions :=
                   snd (hm_remove subscription_id (slot_update_subscriptions st))\<rparr>
          | Closed_SlotEntryUpdateSubscription subscription_id \<Rightarrow>
              st\<lparr>slot_entry_update_subscriptions :=
                   snd (hm_remove subscription_id (slot_entry_update_subscriptions st))\<rparr>
          | Closed_ProgramUpdateSubscription subscription_id \<Rightarrow>
              st\<lparr>program_update_subscriptions :=
                   snd (hm_remove subscription_id (program_update_subscriptions st))\<rparr>
          | Closed_TransactionUpdateSubscription subscription_id \<Rightarrow>
              st\<lparr>transaction_update_subscriptions :=
                   snd (hm_remove subscription_id (transaction_update_subscriptions st))\<rparr>
          | Closed_BlockUpdateSubscription subscription_id \<Rightarrow>
              st\<lparr>block_update_subscriptions :=
                   snd (hm_remove subscription_id (block_update_subscriptions st))\<rparr>))"

subsection \<open>One iteration of the loop\<close>

datatype 's loop_event =
    Heartbeat_tick
  | Subscription_added "RecvError + 's SubscriptionAddedEvent"
  | Subscription_closed "RecvError + SubscriptionClosedEvent"
  | Account_update "RecvError + TimestampedAccountUpdate"
  | Slot_update "RecvError + TimestampedSlotUpdate"
  | Slot_entry_update "RecvError + TimestampedSlotEntryUpdate"
  | Block_update "RecvError + TimestampedBlockUpdate"
  | Transaction_update "RecvError + TimestampedTransactionUpdate"

datatype 's loop_outcome =
    Continue "'s loop_state"
  | Returned GeyserServiceError
  | Panicked panic

definition loop_iteration ::
  "bytes \<Rightarrow> ('w, 's) sender_fn \<Rightarrow> 's loop_event \<Rightarrow> 'w \<Rightarrow> 's loop_state \<Rightarrow> 'w \<times> 's loop_outcome" where
  "loop_iteration vote_id ts ev w st =
     (case ev of
        Heartbeat_tick \<Rightarrow>
          (case send_heartbeats ts (partial_account_update_subscriptions st) w of
             (w', failed) \<Rightarrow>
             (case drop_subscriptions (partial_stream_error ts) failed
                     (w', partial_account_update_subscriptions st) of
                (w'', subs) \<Rightarrow> (w'', Continue (st\<lparr>partial_account_update_subscriptions := subs\<rparr>))))
      | Subscription_added maybe \<Rightarrow>
          (case handle_subscription_added maybe st of
             Inl e \<Rightarrow> (w, Returned e)
           | Inr st' \<Rightarrow> (w, Continue st'))
      | Subscription_closed maybe \<Rightarrow>
          (case handle_subscription_closed maybe st of
             Inl e \<Rightarrow> (w, Returned e)
           | Inr st' \<Rightarrow> (w, Continue st'))
      | Account_update maybe \<Rightarrow>
          (case handle_account_update_event vote_id ts maybe (account_update_subscriptions st)
                  (partial_account_update_subscriptions st) (program_update_subscriptions st) w of
             (w', Inl p) \<Rightarrow> (w', Panicked p)
           | (w', Inr (Inl e)) \<Rightarrow> (w', Returned e)
           | (w', Inr (Inr failed)) \<Rightarrow>
             (case drop_subscriptions (account_stream_error ts) failed
                     (w', account_update_subscriptions st) of
                (w1, subs1) \<Rightarrow>
              case drop_subscriptions (partial_stream_error ts) failed
                     (w1, partial_account_update_subscriptions st) of
                (w2, subs2) \<Rightarrow>
              case drop_subscriptions (account_stream_error ts) failed
                     (w2, program_update_subscriptions st) of
                (w3, subs3) \<Rightarrow>
                  (w3, Continue (st\<lparr>account_update_subscriptions := subs1,
                                    partial_account_update_subscriptions := subs2,
                                    program_update_subscriptions := subs3\<rparr>))))
      | Slot_update maybe \<Rightarrow>
          (case handle_slot_update_event ts maybe (slot_update_subscriptions st) w of
             (w', Inl e) \<Rightarrow> (w', Returned e)
           | (w', Inr failed) \<Rightarrow>
             (case drop_subscriptions (slot_stream_error ts) failed
                     (w', slot_update_subscriptions st) of
                (w'', subs) \<Rightarrow> (w'', Continue (st\<lparr>slot_update_subscriptions := subs\<rparr>))))
      | Slot_entry_update maybe \<Rightarrow>
          (case handle_slot_entry_update_event ts maybe (slot_entry_update_subscriptions st) w of
             (w', Inl e) \<Rightarrow> (w', Returned e)
           | (w', Inr failed) \<Rightarrow>
             (case drop_subscriptions (slot_entry_stream_error ts) failed
                     (w', slot_entry_update_subscriptions st) of
                (w'', subs) \<Rightarrow> (w'', Continue (st\<lparr>slot_entry_update_subscriptions := subs\<rparr>))))
      | Block_update maybe \<Rightarrow>
          (case handle_block_update_event ts maybe (block_update_subscriptions st) w of
             (w', Inl e) \<Rightarrow> (w', Returned e)
           | (w', Inr failed) \<Rightarrow>
             (case drop_subscriptions (block_stream_error ts) failed
                     (w', block_update_subscriptions st) of
                (w'', subs) \<Rightarrow> (w'', Continue (st\<lparr>block_update_subscriptions := subs\<rparr>))))
      | Transaction_update maybe \<Rightarrow>
          (case handle_transaction_update_event ts maybe (transaction_update_subscriptions st) w of
             (w', Inl e) \<Rightarrow> (w', Returned e)
           | (w', Inr failed) \<Rightarrow>
             (case drop_subscriptions (transaction_stream_error ts) failed
                     (w', transaction_update_subscriptions st) of
                (w'', subs) \<Rightarrow> (w'', Continue (st\<lparr>transaction_update_subscriptions := subs\<rparr>)))))"

text \<open>The loop runs until an iteration returns or panics; the rest of the events is not taken.\<close>

fun event_loop ::
  "bytes \<Rightarrow> ('w, 's) sender_fn \<Rightarrow> 's loop_event list \<Rightarrow> 'w \<Rightarrow> 's loop_state \<Rightarrow> 'w \<times> 's loop_outcome" where
  "event_loop vote_id ts [] w st = (w, Continue st)"
| "event_loop vote_id ts (ev # evs) w st =
     (case loop_iteration vote_id ts ev w st of
        (w', Continue st') \<Rightarrow> event_loop vote_id ts evs w' st'
      | (w', out) \<Rightarrow> (w', out))"

end
