(* ===== verification/Event_Loop_Spec.thy ===== *)
theory Event_Loop_Spec
  imports Event_Loop
begin

section \<open>What the event loop promises\<close>

text \<open>
  The abstract view of the loop: a list of subscribers, each an id, a topic and a channel, and
  a function that says what an event means for a topic. The seven maps are the concrete form
  of the list, the handlers of the function; the lemmas reduce a loop iteration that publishes
  something to one pass of \<open>send_all\<close> over the subscribers.
\<close>

datatype topic =
    On_account "bytes set"
  | On_program "bytes set"
  | On_partial bool
  | On_slot
  | On_slot_entry
  | On_transaction
  | On_block

type_synonym 's subscriber = "uuid \<times> topic \<times> 's"

primrec account_entry :: "uuid \<times> 's AccountUpdateSubscription \<Rightarrow> 's subscriber" where
  "account_entry (u, sub) = (u, On_account (aus_accounts sub), aus_notification_sender sub)"

primrec program_entry :: "uuid \<times> 's AccountUpdateSubscription \<Rightarrow> 's subscriber" where
  "program_entry (u, sub) = (u, On_program (aus_accounts sub), aus_notification_sender sub)"

primrec partial_entry :: "uuid \<times> 's PartialAccountUpdateSubscription \<Rightarrow> 's subscriber" where
  "partial_entry (u, sub) = (u, On_partial (paus_skip_votes sub), paus_subscription_tx sub)"

primrec slot_entry :: "uuid \<times> 's SlotUpdateSubscription \<Rightarrow> 's subscriber" where
  "slot_entry (u, sub) = (u, On_slot, sus_subscription_tx sub)"

primrec slot_entry_entry :: "uuid \<times> 's SlotEntryUpdateSubscription \<Rightarrow> 's subscriber" where
  "slot_entry_entry (u, sub) = (u, On_slot_entry, seus_subscription_tx sub)"

primrec transaction_entry :: "uuid \<times> 's TransactionUpdateSubscription \<Rightarrow> 's subscriber" where
  "transaction_entry (u, sub) = (u, On_transaction, tus_notification_sender sub)"

primrec block_entry :: "uuid \<times> 's BlockUpdateSubscription \<Rightarrow> 's subscriber" where
  "block_entry (u, sub) = (u, On_block, bus_notification_sender sub)"

definition subscribers :: "'s loop_state \<Rightarrow> 's subscriber list" where
  "subscribers st =
     map account_entry (account_update_subscriptions st)
     @ map partial_entry (partial_account_update_subscriptions st)
     @ map program_entry (program_update_subscriptions st)
     @ map slot_entry (slot_update_subscriptions st)
     @ map slot_entry_entry (slot_entry_update_subscriptions st)
     @ map transaction_entry (transaction_update_subscriptions st)
     @ map block_entry (block_update_subscriptions st)"

text \<open>
  The invariant: no id and no channel occurs twice, over all seven maps. The service makes a
  fresh uuid and a fresh channel for every subscription.
\<close>

definition loop_inv :: "'s loop_state \<Rightarrow> bool" where
  "loop_inv st \<longleftrightarrow>
     distinct (map fst (subscribers st)) \<and> distinct (map (snd \<circ> snd) (subscribers st))"

fun payload :: "bytes \<Rightarrow> 's loop_event \<Rightarrow> topic \<Rightarrow> stream_msg option" where
  "payload vote_id Heartbeat_tick (On_partial _) = Some (PartialMsg \<lparr>mpau_msg = Some Msg_Hb\<rparr>)"
| "payload vote_id (Account_update (Inr ev)) t =
     (case tau_account_update ev of
        None \<Rightarrow> None
      | Some u \<Rightarrow>
          (case t of
             On_account accounts \<Rightarrow> if au_pubkey u \<in> accounts then Some (AccountMsg ev) else None
           | On_program programs \<Rightarrow> if au_owner u \<in> programs then Some (AccountMsg ev) else None
           | On_partial skip_votes \<Rightarrow>
               if skip_votes \<and> au_owner u = vote_id then None
               else Some (PartialMsg
                 \<lparr>mpau_msg = Some (Msg_PartialAccountUpdate (partial_account_update_of u))\<rparr>)
           | _ \<Rightarrow> None))"
| "payload vote_id (Slot_update (Inr ev)) On_slot = Some (SlotMsg ev)"
| "payload vote_id (Slot_entry_update (Inr ev)) On_slot_entry = Some (SlotEntryMsg ev)"
| "payload vote_id (Block_update (Inr ev)) On_block = Some (BlockMsg ev)"
| "payload vote_id (Transaction_update (Inr ev)) On_transaction = Some (TransactionMsg ev)"
| "payload vote_id _ _ = None"

text \<open>The events that carry something to publish, and those that end the loop.\<close>

fun publishes :: "'s loop_event \<Rightarrow> bool" where
  "publishes Heartbeat_tick = True"
| "publishes (Account_update (Inr ev)) = (tau_account_update ev \<noteq> None)"
| "publishes (Slot_update (Inr _)) = True"
| "publishes (Slot_entry_update (Inr _)) = True"
| "publishes (Block_update (Inr _)) = True"
| "publishes (Transaction_update (Inr _)) = True"
| "publishes _ = False"

fun disconnected :: "'s loop_event \<Rightarrow> bool" where
  "disconnected (Subscription_added (Inl _)) = True"
| "disconnected (Subscription_closed (Inl _)) = True"
| "disconnected (Account_update (Inl _)) = True"
| "disconnected (Slot_update (Inl _)) = True"
| "disconnected (Slot_entry_update (Inl _)) = True"
| "disconnected (Block_update (Inl _)) = True"
| "disconnected (Transaction_update (Inl _)) = True"
| "disconnected _ = False"

fun subscriber_of :: "'s SubscriptionAddedEvent \<Rightarrow> 's subscriber" where
  "subscriber_of (Added_AccountUpdateSubscription u s accounts) = (u, On_account accounts, s)"
| "subscriber_of (Added_ProgramUpdateSubscription u s programs) = (u, On_program programs, s)"
| "subscriber_of (Added_PartialAccountUpdateSubscription u s skip_votes) = (u, On_partial skip_votes, s)"
| "subscriber_of (Added_SlotUpdateSubscription u s) = (u, On_slot, s)"
| "subscriber_of (Added_SlotEntryUpdateSubscription u s) = (u, On_slot_entry, s)"
| "subscriber_of (Added_TransactionUpdateSubscription u s) = (u, On_transaction, s)"
| "subscriber_of (Added_BlockUpdateSubscription u s) = (u, On_block, s)"

fun closes :: "SubscriptionClosedEvent \<Rightarrow> uuid \<Rightarrow> topic \<Rightarrow> bool" where
  "closes (Closed_AccountUpdateSubscription u) v t = (u = v \<and> (case t of On_account _ \<Rightarrow> True | _ \<Rightarrow> False))"
| "closes (Closed_ProgramUpdateSubscription u) v t = (u = v \<and> (case t of On_program _ \<Rightarrow> True | _ \<Rightarrow> False))"
| "closes (Closed_PartialAccountUpdateSubscription u) v t = (u = v \<and> (case t of On_partial _ \<Rightarrow> True | _ \<Rightarrow> False))"
| "closes (Closed_SlotUpdateSubscription u) v t = (u = v \<and> t = On_slot)"
| "closes (Closed_SlotEntryUpdateSubscription u) v t = (u = v \<and> t = On_slot_entry)"
| "closes (Closed_TransactionUpdateSubscription u) v t = (u = v \<and> t = On_transaction)"
| "closes (Closed_BlockUpdateSubscription u) v t = (u = v \<and> t = On_block)"

text \<open>
  The only panic of the loop is the \<open>unwrap\<close> of an account event without an account. What a
  run of events adds, and whether an event closes a given subscription.
\<close>

fun event_panics :: "'s loop_event \<Rightarrow> bool" where
  "event_panics (Account_update (Inr ev)) = (tau_account_update ev = None)"
| "event_panics _ = False"

fun added_of :: "'s loop_event \<Rightarrow> 's subscriber list" where
  "added_of (Subscription_added (Inr a)) = [subscriber_of a]"
| "added_of _ = []"

fun closes_event :: "'s loop_event \<Rightarrow> 's subscriber \<Rightarrow> bool" where
  "closes_event (Subscription_closed (Inr c)) e = closes c (fst e) (fst (snd e))"
| "closes_event _ _ = False"

text \<open>
  The ids and the channels of a run are fresh: the service draws a new uuid and makes a new
  channel for each subscription.
\<close>

definition fresh_run :: "'s loop_event list \<Rightarrow> 's loop_state \<Rightarrow> bool" where
  "fresh_run evs st \<longleftrightarrow>
     distinct (map fst (subscribers st @ concat (map added_of evs))) \<and>
     distinct (map (snd \<circ> snd) (subscribers st @ concat (map added_of evs)))"

definition delivery ::
  "bytes \<Rightarrow> 's loop_event \<Rightarrow> 's subscriber \<Rightarrow> ('s, item) send_entry" where
  "delivery vote_id ev sub = (case sub of (u, t, s) \<Rightarrow> (u, s, map_option Ok (payload vote_id ev t)))"

named_theorems entry_simps \<open>the entries of the seven maps\<close>

lemma fst_entries [entry_simps]:
  "fst (account_entry p) = fst p" "fst (program_entry q) = fst q" "fst (partial_entry r) = fst r"
  "fst (slot_entry a) = fst a" "fst (slot_entry_entry b) = fst b"
  "fst (transaction_entry c) = fst c" "fst (block_entry d) = fst d"
  by (simp_all add: account_entry_def program_entry_def partial_entry_def slot_entry_def
      slot_entry_entry_def transaction_entry_def block_entry_def split: prod.splits)

subsection \<open>Every handler is a pass of \<open>send_all\<close>\<close>

lemma handle_block_send_all:
  "handle_block_update_event ts (Inr ev) m w =
     (case send_all ts (map (delivery vote_id (Block_update (Inr ev))) (map block_entry m)) w of
        (w', ids) \<Rightarrow> (w', Ok ids))"
  unfolding handle_block_update_event_def map_map sum.case
  by (subst filter_map_st_send_all [where g = "delivery vote_id (Block_update (Inr ev)) \<circ> block_entry"])
    (auto simp: delivery_def send_entry_def)

lemma handle_transaction_send_all:
  "handle_transaction_update_event ts (Inr ev) m w =
     (case send_all ts (map (delivery vote_id (Transaction_update (Inr ev))) (map transaction_entry m)) w of
        (w', ids) \<Rightarrow> (w', Ok ids))"
  unfolding handle_transaction_update_event_def map_map sum.case
  by (subst filter_map_st_send_all
        [where g = "delivery vote_id (Transaction_update (Inr ev)) \<circ> transaction_entry"])
    (auto simp: delivery_def send_entry_def)

lemma handle_slot_send_all:
  "handle_slot_update_event ts (Inr ev) m w =
     (case send_all ts (map (delivery vote_id (Slot_update (Inr ev))) (map slot_entry m)) w of
        (w', ids) \<Rightarrow> (w', Ok ids))"
  unfolding handle_slot_update_event_def map_map sum.case
  by (subst filter_map_st_send_all [where g = "delivery vote_id (Slot_update (Inr ev)) \<circ> slot_entry"])
    (auto simp: delivery_def send_entry_def)

lemma handle_slot_entry_send_all:
  "handle_slot_entry_update_event ts (Inr ev) m w =
     (case send_all ts (map (delivery vote_id (Slot_entry_update (Inr ev))) (map slot_entry_entry m)) w of
        (w', ids) \<Rightarrow> (w', Ok ids))"
  unfolding handle_slot_entry_update_event_def map_map sum.case
  by (subst filter_map_st_send_all
        [where g = "delivery vote_id (Slot_entry_update (Inr ev)) \<circ> slot_entry_entry"])
    (auto simp: delivery_def send_entry_def)

lemma handle_account_send_all:
  assumes "tau_account_update ev = Some u"
  shows "handle_account_update_event vote_id (ts :: ('w, 's) sender_fn) (Inr ev) acc part prog w =
     (case send_all ts (map (delivery vote_id (Account_update (Inr ev)))
             (map account_entry acc @ map partial_entry part @ map program_entry prog)) w of
        (w', ids) \<Rightarrow> (w', Ok (Ok ids)))"
proof -
  let ?d = "delivery vote_id (Account_update (Inr ev)) :: 's subscriber \<Rightarrow> ('s, item) send_entry"
  have 1: "filter_map_st (\<lambda>(uuid, sub) w.
        if au_pubkey u \<in> aus_accounts sub then
          (case ts w (aus_notification_sender sub) (Ok (AccountMsg ev)) of
             (w', r) \<Rightarrow> (w', if r = Err Closed then Some uuid else None))
        else (w, None)) acc w = send_all ts (map ?d (map account_entry acc)) w" for w
    unfolding map_map
    by (rule filter_map_st_send_all) (auto simp: assms delivery_def send_entry_def)
  have 2: "filter_map_st (\<lambda>(uuid, sub) w.
        case stream_update vote_id ts sub (partial_account_update_of u) w of
          (w', r) \<Rightarrow> (w', if r = Err NotificationReceiverDisconnected then Some uuid else None))
        part w = send_all ts (map ?d (map partial_entry part)) w" for w
    unfolding map_map
    by (rule filter_map_st_send_all)
      (auto simp: assms delivery_def send_entry_def stream_update_def partial_account_update_of_def
        split: prod.splits)
  have 3: "filter_map_st (\<lambda>(uuid, sub) w.
        if au_owner u \<in> aus_accounts sub then
          (case ts w (aus_notification_sender sub) (Ok (AccountMsg ev)) of
             (w', r) \<Rightarrow> (w', if r = Err Closed then Some uuid else None))
        else (w, None)) prog w = send_all ts (map ?d (map program_entry prog)) w" for w
    unfolding map_map
    by (rule filter_map_st_send_all) (auto simp: assms delivery_def send_entry_def)
  show ?thesis
    by (simp add: handle_account_update_event_def assms 1 2 3 send_all_append split: prod.splits)
qed

lemma send_heartbeats_acc:
  "for_each (\<lambda>(sub_id, sub) (w, failed).
         case send_heartbeat ts sub w of
           (w', r) \<Rightarrow>
             (w', if r = Err NotificationReceiverDisconnected then failed @ [sub_id] else failed))
       m (w, fs) =
     (case send_all ts (map (delivery vote_id Heartbeat_tick) (map partial_entry m)) w of
        (w', ids) \<Rightarrow> (w', fs @ ids))"
proof (induction m arbitrary: w fs)
  case (Cons p m)
  obtain u sub where p: "p = (u, sub)" by (cases p)
  obtain w' r where hb: "send_heartbeat ts sub w = (w', r)" by fastforce
  then have "send_entry ts (delivery vote_id Heartbeat_tick (partial_entry p)) w =
      (w', if r = Err NotificationReceiverDisconnected then Some u else None)"
    by (auto simp: p send_entry_def delivery_def send_heartbeat_def split: prod.splits)
  with hb show ?case by (simp add: p Cons.IH send_all_Cons split: prod.splits)
qed simp

lemma send_heartbeats_send_all:
  "send_heartbeats ts m w =
     send_all ts (map (delivery vote_id Heartbeat_tick) (map partial_entry m)) w"
  unfolding send_heartbeats_def send_heartbeats_acc [where vote_id = vote_id]
  by (simp split: prod.splits)

lemma topic_entries [entry_simps]:
  "fst (snd (account_entry p)) = On_account (aus_accounts (snd p))"
  "fst (snd (program_entry q)) = On_program (aus_accounts (snd q))"
  "fst (snd (partial_entry r)) = On_partial (paus_skip_votes (snd r))"
  "fst (snd (slot_entry a)) = On_slot" "fst (snd (slot_entry_entry b)) = On_slot_entry"
  "fst (snd (transaction_entry c)) = On_transaction" "fst (snd (block_entry d)) = On_block"
  by (simp_all add: account_entry_def program_entry_def partial_entry_def slot_entry_def
      slot_entry_entry_def transaction_entry_def block_entry_def split: prod.splits)

lemma sender_entries [entry_simps]:
  "snd (snd (account_entry p)) = aus_notification_sender (snd p)"
  "snd (snd (program_entry q)) = aus_notification_sender (snd q)"
  "snd (snd (partial_entry r)) = paus_subscription_tx (snd r)"
  "snd (snd (slot_entry a)) = sus_subscription_tx (snd a)"
  "snd (snd (slot_entry_entry b)) = seus_subscription_tx (snd b)"
  "snd (snd (transaction_entry c)) = tus_notification_sender (snd c)"
  "snd (snd (block_entry d)) = bus_notification_sender (snd d)"
  by (simp_all add: account_entry_def program_entry_def partial_entry_def slot_entry_def
      slot_entry_entry_def transaction_entry_def block_entry_def split: prod.splits)

end
