(* ===== verification/Event_Loop_Refine.thy ===== *)
theory Event_Loop_Refine
  imports Event_Loop_Spec "HOL-Library.Multiset"
begin

section \<open>The event loop refines its specification\<close>

text \<open>
  On channels that keep their contract, an iteration of the loop does to the list of subscribers
  and to the channels what the specification says. The properties of the loop follow.
\<close>

subsection \<open>Dropping the subscribers whose channel is gone\<close>

lemma delivery_alt:
  "delivery vote_id ev e = (fst e, snd (snd e), map_option Ok (payload vote_id ev (fst (snd e))))"
  by (simp add: delivery_def split: prod.splits)

lemma send_all_silent:
  assumes "\<And>p. p \<in> set m \<Longrightarrow> payload vote_id ev (fst (snd (entry p))) = None"
  shows "send_all ts (map (delivery vote_id ev) (map entry m)) w = (w, [])"
  using assms by (induction m) (simp_all add: send_all_Cons send_entry_def delivery_alt)

text \<open>The server on channels that keep the contract.\<close>

locale server_channels = bounded_channels ts queued capacity is_open
  for ts :: "('w, 's) sender_fn" and queued capacity is_open
begin

definition gone :: "bytes \<Rightarrow> 's loop_event \<Rightarrow> 'w \<Rightarrow> 's subscriber \<Rightarrow> bool" where
  "gone vote_id ev w e \<longleftrightarrow>
     payload vote_id ev (fst (snd e)) \<noteq> None \<and> \<not> is_open w (snd (snd e))"

lemma deliveries_failed:
  "snd (send_all ts (map (delivery vote_id ev) es) w) = map fst (filter (gone vote_id ev w) es)"
  by (simp add: send_all_failed filter_map comp_def delivery_alt gone_def [abs_def])

lemma drop_failed:
  assumes "error_status_streamer ts stream_error sender_of"
    and "\<And>u sub. u \<in> set us \<Longrightarrow> map_of m u = Some sub \<Longrightarrow> \<not> is_open w (sender_of sub)"
  shows "drop_subscriptions stream_error us (w, m) = (w, filter (\<lambda>p. fst p \<notin> set us) m)"
proof (rule prod_eqI)
  show "fst (drop_subscriptions stream_error us (w, m)) = fst (w, filter (\<lambda>p. fst p \<notin> set us) m)"
    by (simp, rule error_status_streamer.drop_subscriptions_closed [OF assms(1)])
      (simp add: assms(2) send_closed)
  show "snd (drop_subscriptions stream_error us (w, m)) = snd (w, filter (\<lambda>p. fst p \<notin> set us) m)"
    by (simp add: error_status_streamer.drop_subscriptions_entries [OF assms(1)] split_def)
qed

text \<open>
  The same for a map whose entries are part of a list of distinct ids, all of whose failed ids
  are dropped.
\<close>

lemma drop_gone:
  assumes str: "error_status_streamer ts stream_error sender_of"
    and ent: "\<And>p. fst (entry p) = fst p" "\<And>p. snd (snd (entry p)) = sender_of (snd p)"
    and es: "distinct (map fst es)" "set (map entry m) \<subseteq> set es" "is_open w' = is_open w"
  shows "drop_subscriptions stream_error (map fst (filter (gone vote_id ev w) es)) (w', m) =
    (w', filter (\<lambda>p. \<not> gone vote_id ev w (entry p)) m)"
proof -
  have iff: "fst p \<in> fst ` set (filter (gone vote_id ev w) es) \<longleftrightarrow> gone vote_id ev w (entry p)"
    if "p \<in> set m" for p
  proof -
    from that es(2) have "entry p \<in> set es" by auto
    with es(1) show ?thesis
      unfolding ent(1) [of p, symmetric] by (auto simp: distinct_map dest: inj_onD)
  qed
  have "drop_subscriptions stream_error (map fst (filter (gone vote_id ev w) es)) (w', m) =
    (w', filter (\<lambda>p. fst p \<notin> set (map fst (filter (gone vote_id ev w) es))) m)"
  proof (rule drop_failed [OF str])
    fix u sub
    assume u: "u \<in> set (map fst (filter (gone vote_id ev w) es))" and "map_of m u = Some sub"
    then have "(u, sub) \<in> set m" by (simp add: map_of_SomeD)
    from iff [OF this] u have "gone vote_id ev w (entry (u, sub))" by auto
    then show "\<not> is_open w' (sender_of sub)" by (simp add: gone_def ent(2) es(3))
  qed
  also have "filter (\<lambda>p. fst p \<notin> set (map fst (filter (gone vote_id ev w) es))) m =
      filter (\<lambda>p. \<not> gone vote_id ev w (entry p)) m"
    by (rule filter_cong) (simp_all only: set_map iff)
  finally show ?thesis .
qed

lemma section_dropped:
  assumes "error_status_streamer ts stream_error sender_of"
    and "\<And>p. fst (entry p) = fst p" "\<And>p. snd (snd (entry p)) = sender_of (snd p)"
    and "distinct (map fst (map entry m))"
    and sent: "send_all ts (map (delivery vote_id ev) (map entry m)) w = (w', failed)"
  shows "drop_subscriptions stream_error failed (w', m) =
    (w', filter (\<lambda>p. \<not> gone vote_id ev w (entry p)) m)"
proof -
  have "failed = map fst (filter (gone vote_id ev w) (map entry m))"
    using deliveries_failed [of vote_id ev "map entry m" w] by (simp only: sent snd_conv)
  moreover have "is_open w' = is_open w"
    using send_all_open [of "map (delivery vote_id ev) (map entry m)" w] by (simp only: sent fst_conv)
  ultimately show ?thesis
    by (simp only:) (rule drop_gone [OF assms(1-4)], simp_all)
qed

lemma silent_kept:
  assumes "\<And>p. p \<in> set m \<Longrightarrow> payload vote_id ev (fst (snd (entry p))) = None"
  shows "filter (\<lambda>e. \<not> gone vote_id ev w e) (map entry m) = map entry m"
  using assms by (auto simp: gone_def intro: filter_True)

lemma kept_map:
  "filter (\<lambda>e. \<not> gone vote_id ev w e) (map entry m) =
     map entry (filter (\<lambda>p. \<not> gone vote_id ev w (entry p)) m)"
  by (simp add: filter_map comp_def)

lemma distinct_sections:
  assumes "distinct (map fst (a @ b @ c @ d @ e @ f @ g))"
  shows "distinct (map fst b)" "distinct (map fst d)" "distinct (map fst e)"
    "distinct (map fst f)" "distinct (map fst g)" "distinct (map fst (a @ b @ c))"
proof -
  have "distinct (map fst (a @ b @ c) @ map fst (d @ e @ f @ g))"
    using assms by (simp only: append_assoc map_append)
  then show "distinct (map fst (a @ b @ c))" by (simp only: distinct_append)
qed (use assms in \<open>simp_all only: map_append distinct_append\<close>)

lemma loop_inv_sections:
  assumes "loop_inv st"
  shows "distinct (map fst (map partial_entry (partial_account_update_subscriptions st)))"
    "distinct (map fst (map slot_entry (slot_update_subscriptions st)))"
    "distinct (map fst (map slot_entry_entry (slot_entry_update_subscriptions st)))"
    "distinct (map fst (map transaction_entry (transaction_update_subscriptions st)))"
    "distinct (map fst (map block_entry (block_update_subscriptions st)))"
    "distinct (map fst (map account_entry (account_update_subscriptions st)
        @ map partial_entry (partial_account_update_subscriptions st)
        @ map program_entry (program_update_subscriptions st)))"
  using assms unfolding loop_inv_def subscribers_def by (auto dest: distinct_sections simp del: map_append map_map)

lemmas section_simps = subscribers_def send_all_append send_all_silent silent_kept entry_simps

lemma heartbeat_iteration:
  assumes "loop_inv st"
  shows "\<exists>st'. loop_iteration vote_id ts Heartbeat_tick w st =
      (fst (send_all ts (map (delivery vote_id Heartbeat_tick) (subscribers st)) w), Continue st') \<and>
    subscribers st' = filter (\<lambda>e. \<not> gone vote_id Heartbeat_tick w e) (subscribers st)"
proof -
  let ?m = "partial_account_update_subscriptions st"
  obtain w' failed where sent:
    "send_all ts (map (delivery vote_id Heartbeat_tick) (map partial_entry ?m)) w = (w', failed)"
    by fastforce
  have "drop_subscriptions (partial_stream_error ts) failed (w', ?m) =
      (w', filter (\<lambda>p. \<not> gone vote_id Heartbeat_tick w (partial_entry p)) ?m)"
    by (rule section_dropped [OF partial_streamer.error_status_streamer_axioms _ _
          loop_inv_sections(1) [OF assms] sent]) (simp_all add: entry_simps)
  moreover have "send_all ts (map (delivery vote_id Heartbeat_tick) (subscribers st)) w = (w', failed)"
    by (simp add: section_simps sent del: map_map)
  ultimately show ?thesis
    by (simp add: loop_iteration_def send_heartbeats_send_all [where vote_id = vote_id] sent
        section_simps kept_map [where entry = partial_entry] del: map_map)
qed

lemma slot_iteration:
  fixes u
  defines "ev \<equiv> Slot_update (Inr u)"
  assumes "loop_inv st"
  shows "\<exists>st'. loop_iteration vote_id ts ev w st =
      (fst (send_all ts (map (delivery vote_id ev) (subscribers st)) w), Continue st') \<and>
    subscribers st' = filter (\<lambda>e. \<not> gone vote_id ev w e) (subscribers st)"
proof -
  let ?m = "slot_update_subscriptions st"
  obtain w' failed where sent:
    "send_all ts (map (delivery vote_id ev) (map slot_entry ?m)) w = (w', failed)"
    by fastforce
  have "drop_subscriptions (slot_stream_error ts) failed (w', ?m) =
      (w', filter (\<lambda>p. \<not> gone vote_id ev w (slot_entry p)) ?m)"
    by (rule section_dropped [OF slot_streamer.error_status_streamer_axioms _ _
          loop_inv_sections(2) [OF assms(2)] sent]) (simp_all add: entry_simps)
  moreover have "send_all ts (map (delivery vote_id ev) (subscribers st)) w = (w', failed)"
    using sent by (simp add: section_simps ev_def del: map_map)
  ultimately show ?thesis
    using sent unfolding ev_def
    by (simp add: loop_iteration_def handle_slot_send_all [where vote_id = vote_id] section_simps
        kept_map [where entry = slot_entry] del: map_map)
qed

lemma slot_entry_iteration:
  fixes u
  defines "ev \<equiv> Slot_entry_update (Inr u)"
  assumes "loop_inv st"
  shows "\<exists>st'. loop_iteration vote_id ts ev w st =
      (fst (send_all ts (map (delivery vote_id ev) (subscribers st)) w), Continue st') \<and>
    subscribers st' = filter (\<lambda>e. \<not> gone vote_id ev w e) (subscribers st)"
proof -
  let ?m = "slot_entry_update_subscriptions st"
  obtain w' failed where sent:
    "send_all ts (map (delivery vote_id ev) (map slot_entry_entry ?m)) w = (w', failed)"
    by fastforce
  have "drop_subscriptions (slot_entry_stream_error ts) failed (w', ?m) =
      (w', filter (\<lambda>p. \<not> gone vote_id ev w (slot_entry_entry p)) ?m)"
    by (rule section_dropped [OF slot_entry_streamer.error_status_streamer_axioms _ _
          loop_inv_sections(3) [OF assms(2)] sent]) (simp_all add: entry_simps)
  moreover have "send_all ts (map (delivery vote_id ev) (subscribers st)) w = (w', failed)"
    using sent by (simp add: section_simps ev_def del: map_map)
  ultimately show ?thesis
    using sent unfolding ev_def
    by (simp add: loop_iteration_def handle_slot_entry_send_all [where vote_id = vote_id] section_simps
        kept_map [where entry = slot_entry_entry] del: map_map)
qed

lemma transaction_iteration:
  fixes u
  defines "ev \<equiv> Transaction_update (Inr u)"
  assumes "loop_inv st"
  shows "\<exists>st'. loop_iteration vote_id ts ev w st =
      (fst (send_all ts (map (delivery vote_id ev) (subscribers st)) w), Continue st') \<and>
    subscribers st' = filter (\<lambda>e. \<not> gone vote_id ev w e) (subscribers st)"
proof -
  let ?m = "transaction_update_subscriptions st"
  obtain w' failed where sent:
    "send_all ts (map (delivery vote_id ev) (map transaction_entry ?m)) w = (w', failed)"
    by fastforce
  have "drop_subscriptions (transaction_stream_error ts) failed (w', ?m) =
      (w', filter (\<lambda>p. \<not> gone vote_id ev w (transaction_entry p)) ?m)"
    by (rule section_dropped [OF transaction_streamer.error_status_streamer_axioms _ _
          loop_inv_sections(4) [OF assms(2)] sent]) (simp_all add: entry_simps)
  moreover have "send_all ts (map (delivery vote_id ev) (subscribers st)) w = (w', failed)"
    using sent by (simp add: section_simps ev_def del: map_map)
  ultimately show ?thesis
    using sent unfolding ev_def
    by (simp add: loop_iteration_def handle_transaction_send_all [where vote_id = vote_id] section_simps
        kept_map [where entry = transaction_entry] del: map_map)
qed

lemma block_iteration:
  fixes u
  defines "ev \<equiv> Block_update (Inr u)"
  assumes "loop_inv st"
  shows "\<exists>st'. loop_iteration vote_id ts ev w st =
      (fst (send_all ts (map (delivery vote_id ev) (subscribers st)) w), Continue st') \<and>
    subscribers st' = filter (\<lambda>e. \<not> gone vote_id ev w e) (subscribers st)"
proof -
  let ?m = "block_update_subscriptions st"
  obtain w' failed where sent:
    "send_all ts (map (delivery vote_id ev) (map block_entry ?m)) w = (w', failed)"
    by fastforce
  have "drop_subscriptions (block_stream_error ts) failed (w', ?m) =
      (w', filter (\<lambda>p. \<not> gone vote_id ev w (block_entry p)) ?m)"
    by (rule section_dropped [OF block_streamer.error_status_streamer_axioms _ _
          loop_inv_sections(5) [OF assms(2)] sent]) (simp_all add: entry_simps)
  moreover have "send_all ts (map (delivery vote_id ev) (subscribers st)) w = (w', failed)"
    using sent by (simp add: section_simps ev_def del: map_map)
  ultimately show ?thesis
    using sent unfolding ev_def
    by (simp add: loop_iteration_def handle_block_send_all [where vote_id = vote_id] section_simps
        kept_map [where entry = block_entry] del: map_map)
qed

lemma account_iteration:
  fixes u
  defines "ev \<equiv> Account_update (Inr u)"
  assumes "loop_inv st" and u: "tau_account_update u \<noteq> None"
  shows "\<exists>st'. loop_iteration vote_id ts ev w st =
      (fst (send_all ts (map (delivery vote_id ev) (subscribers st)) w), Continue st') \<and>
    subscribers st' = filter (\<lambda>e. \<not> gone vote_id ev w e) (subscribers st)"
proof -
  let ?acc = "account_update_subscriptions st"
  let ?part = "partial_account_update_subscriptions st"
  let ?prog = "program_update_subscriptions st"
  let ?es = "map account_entry ?acc @ map partial_entry ?part @ map program_entry ?prog"
  obtain w' failed where sent: "send_all ts (map (delivery vote_id ev) ?es) w = (w', failed)"
    by fastforce
  have failed: "failed = map fst (filter (gone vote_id ev w) ?es)"
    using deliveries_failed [of vote_id ev ?es w] by (simp only: sent snd_conv)
  have o: "is_open w' = is_open w"
    using send_all_open [of "map (delivery vote_id ev) ?es" w] by (simp only: sent fst_conv)
  note dist = loop_inv_sections(6) [OF assms(2)]
  have 1: "drop_subscriptions (account_stream_error ts) failed (w', ?acc) =
      (w', filter (\<lambda>p. \<not> gone vote_id ev w (account_entry p)) ?acc)"
    unfolding failed
    by (rule drop_gone [OF account_streamer.error_status_streamer_axioms _ _ dist _ o])
      (auto simp: entry_simps)
  have 2: "drop_subscriptions (partial_stream_error ts) failed (w', ?part) =
      (w', filter (\<lambda>p. \<not> gone vote_id ev w (partial_entry p)) ?part)"
    unfolding failed
    by (rule drop_gone [OF partial_streamer.error_status_streamer_axioms _ _ dist _ o])
      (auto simp: entry_simps)
  have 3: "drop_subscriptions (account_stream_error ts) failed (w', ?prog) =
      (w', filter (\<lambda>p. \<not> gone vote_id ev w (program_entry p)) ?prog)"
    unfolding failed
    by (rule drop_gone [OF account_streamer.error_status_streamer_axioms _ _ dist _ o])
      (auto simp: entry_simps)
  obtain up where up: "tau_account_update u = Some up" using u by blast
  have "send_all ts (map (delivery vote_id ev) (subscribers st)) w =
      send_all ts (map (delivery vote_id ev) ?es) w"
    by (simp add: section_simps ev_def up del: map_map split: prod.splits)
  with sent 1 2 3 show ?thesis
    unfolding ev_def
    by (simp add: loop_iteration_def handle_account_send_all [OF up] section_simps up
        kept_map [where entry = account_entry] kept_map [where entry = partial_entry]
        kept_map [where entry = program_entry] del: map_map map_append)
qed

text \<open>
  An iteration that publishes: every subscriber is sent what the event means for its topic, and
  those that could not be sent it because their channel is gone are dropped.
\<close>

lemma publish_iteration:
  assumes "loop_inv st" "publishes ev"
  shows "\<exists>st'. loop_iteration vote_id ts ev w st =
      (fst (send_all ts (map (delivery vote_id ev) (subscribers st)) w), Continue st') \<and>
    subscribers st' = filter (\<lambda>e. \<not> gone vote_id ev w e) (subscribers st)"
  using assms(2)
  by (cases ev rule: publishes.cases)
    (simp_all add: heartbeat_iteration slot_iteration slot_entry_iteration block_iteration
      transaction_iteration account_iteration assms(1))

end

subsection \<open>Adding and closing subscriptions\<close>

lemma update_fresh: "k \<notin> fst ` set m \<Longrightarrow> AList.update k v m = m @ [(k, v)]"
  by (induction m) auto

lemma added_subscribers:
  assumes "fst (subscriber_of a) \<notin> fst ` set (subscribers st)"
    and "handle_subscription_added (Inr a) st = Ok st'"
  shows "mset (subscribers st') = mset (subscribers st @ [subscriber_of a])"
proof -
  have fresh:
    "fst (subscriber_of a) \<notin> fst ` set (account_update_subscriptions st)"
    "fst (subscriber_of a) \<notin> fst ` set (partial_account_update_subscriptions st)"
    "fst (subscriber_of a) \<notin> fst ` set (program_update_subscriptions st)"
    "fst (subscriber_of a) \<notin> fst ` set (slot_update_subscriptions st)"
    "fst (subscriber_of a) \<notin> fst ` set (slot_entry_update_subscriptions st)"
    "fst (subscriber_of a) \<notin> fst ` set (transaction_update_subscriptions st)"
    "fst (subscriber_of a) \<notin> fst ` set (block_update_subscriptions st)"
    using assms(1) by (simp_all add: subscribers_def image_Un image_image entry_simps)
  from fresh assms(2) show ?thesis
    by (cases a)
      (auto simp: handle_subscription_added_def subscribers_def hm_insert_def update_fresh)
qed

lemma closed_subscribers:
  assumes "handle_subscription_closed (Inr c) st = Ok st'"
  shows "subscribers st' = filter (\<lambda>e. \<not> closes c (fst e) (fst (snd e))) (subscribers st)"
  using assms
  by (cases c)
    (auto simp: handle_subscription_closed_def subscribers_def hm_remove_def AList.delete_eq
      filter_map comp_def entry_simps split_def intro!: filter_cong)

lemma added_closed_subscribers:
  assumes "subscriber_of a = (u, t, s)" and "u \<notin> fst ` set (subscribers st)"
    and "closes c u t"
    and "handle_subscription_added (Inr a) st = Ok st1"
    and "handle_subscription_closed (Inr c) st1 = Ok st2"
  shows "mset (subscribers st1) = add_mset (u, t, s) (mset (subscribers st)) \<and>
    mset (subscribers st2) = mset (subscribers st)"
proof -
  have added: "mset (subscribers st1) = add_mset (u, t, s) (mset (subscribers st))"
    using added_subscribers [OF _ assms(4)] assms(1, 2) by simp
  have "\<not> closes c (fst e) (fst (snd e))" if "e \<in> set (subscribers st)" for e
    using that assms(2, 3) by (cases c) (auto simp: image_iff)
  then have "filter_mset (\<lambda>e. \<not> closes c (fst e) (fst (snd e))) (mset (subscribers st)) = mset (subscribers st)"
    by (simp add: filter_mset_eq_conv)
  then show ?thesis
    using added assms(3) by (simp add: closed_subscribers [OF assms(5)] mset_filter)
qed

lemma subscription_silent:
  "send_all ts (map (delivery vote_id (Subscription_added r)) es) w = (w, [])"
  "send_all ts (map (delivery vote_id (Subscription_closed q)) es) w = (w, [])"
  by (rule send_all_silent [where entry = "\<lambda>e. e", simplified]; simp)+

lemma distinct_filter_front:
  assumes "distinct (map f (xs @ zs))" "mset ys = mset (filter P xs)"
  shows "distinct (map f (ys @ zs))"
proof -
  have "mset (map f (ys @ zs)) = mset (map f (filter P xs @ zs))" using assms(2) by simp
  moreover have "distinct (map f (filter P xs @ zs))" using assms(1) by (auto simp: distinct_map_filter)
  ultimately show ?thesis by (metis mset_eq_imp_distinct_iff)
qed

lemma fresh_run_step:
  assumes "fresh_run (ev # evs) st"
    and "mset (subscribers st') = mset (filter P (subscribers st @ added_of ev))"
  shows "fresh_run evs st'"
  using assms(1)
    distinct_filter_front [where f = fst and zs = "concat (map added_of evs)", OF _ assms(2)]
    distinct_filter_front [where f = "snd \<circ> snd" and zs = "concat (map added_of evs)", OF _ assms(2)]
  by (simp add: fresh_run_def)

lemma fresh_run_hd: "fresh_run (ev # evs) st \<Longrightarrow> fresh_run [ev] st"
  by (auto simp: fresh_run_def)

lemma fresh_run_senders:
  "fresh_run evs st \<Longrightarrow> distinct (map (\<lambda>(u, s, p). s) (map (delivery vote_id ev) (subscribers st)))"
  by (simp add: fresh_run_def delivery_alt comp_def)

context server_channels
begin

text \<open>
  Every iteration that goes on, in one form: the subscribers are those there were and those
  added, without those closed and those that turned out to be gone; the channels have been
  sent what the event means for each topic, which for a subscription event is nothing.
\<close>

lemma iteration_step:
  assumes fresh: "fresh_run [ev] st" and "\<not> disconnected ev" "\<not> event_panics ev"
  shows "\<exists>st'. loop_iteration vote_id ts ev w st =
      (fst (send_all ts (map (delivery vote_id ev) (subscribers st)) w), Continue st') \<and>
    mset (subscribers st') =
      mset (filter (\<lambda>e. \<not> closes_event ev e \<and> \<not> gone vote_id ev w e)
        (subscribers st @ added_of ev))"
proof (cases "publishes ev")
  case True
  then have "added_of ev = []" "\<And>e. \<not> closes_event ev e"
    by (cases ev rule: publishes.cases; simp)+
  moreover have "loop_inv st" using fresh by (simp add: fresh_run_def loop_inv_def)
  ultimately show ?thesis using publish_iteration [OF _ True, of st vote_id w] by auto
next
  case False
  then consider (add) a where "ev = Subscription_added (Inr a)"
    | (close) c where "ev = Subscription_closed (Inr c)"
    using assms(2, 3) by (cases ev rule: disconnected.cases) auto
  then show ?thesis
  proof cases
    case add
    obtain st' where st': "handle_subscription_added (Inr a) st = Ok st'"
      by (simp add: handle_subscription_added_def)
    have "mset (subscribers st') = mset (subscribers st @ [subscriber_of a])"
      using fresh by (intro added_subscribers [OF _ st']) (simp add: fresh_run_def add)
    then show ?thesis
      by (simp add: add st' loop_iteration_def gone_def subscription_silent)
  next
    case close
    obtain st' where st': "handle_subscription_closed (Inr c) st = Ok st'"
      by (simp add: handle_subscription_closed_def)
    show ?thesis
      by (simp add: close st' loop_iteration_def gone_def subscription_silent
          closed_subscribers [OF st'])
  qed
qed

text \<open>
  What one iteration does to the queue of a subscriber, and that it keeps one whose channel
  lives and that no event closes.
\<close>

lemma iteration_queue:
  assumes "fresh_run evs st" "e \<in> set (subscribers st)"
    and "w' = fst (send_all ts (map (delivery vote_id ev) (subscribers st)) w)"
  shows "queued w' (snd (snd e)) = queued w (snd (snd e)) @
    (case payload vote_id ev (fst (snd e)) of
       Some m \<Rightarrow> if room w (snd (snd e)) then [Ok m] else []
     | None \<Rightarrow> [])"
proof -
  have "(fst e, snd (snd e), map_option Ok (payload vote_id ev (fst (snd e))))
      \<in> set (map (delivery vote_id ev) (subscribers st))"
    using assms(2) by (force simp: delivery_alt)
  from send_all_queued [OF fresh_run_senders [OF assms(1)] this] show ?thesis
    by (simp add: assms(3) split: option.splits)
qed

lemma run_queue:
  assumes "fresh_run evs st" "\<forall>ev \<in> set evs. \<not> disconnected ev \<and> \<not> event_panics ev \<and> \<not> closes_event ev e"
    and "e \<in> set (subscribers st)" "is_open w (snd (snd e))"
  shows "\<exists>w' st'. event_loop vote_id ts evs w st = (w', Continue st') \<and> e \<in> set (subscribers st') \<and>
    queued w' (snd (snd e)) = queued w (snd (snd e)) @
      map Ok (take (capacity w (snd (snd e)) - length (queued w (snd (snd e))))
        (List.map_filter (\<lambda>ev. payload vote_id ev (fst (snd e))) evs))"
  using assms
proof (induction evs arbitrary: w st)
  case Nil
  then show ?case by (simp add: List.map_filter_def)
next
  case (Cons ev evs)
  let ?s = "snd (snd e)"
  let ?w1 = "fst (send_all ts (map (delivery vote_id ev) (subscribers st)) w)"
  obtain st1 where it: "loop_iteration vote_id ts ev w st = (?w1, Continue st1)"
    and subs: "mset (subscribers st1) = mset (filter (\<lambda>e. \<not> closes_event ev e \<and> \<not> gone vote_id ev w e)
        (subscribers st @ added_of ev))"
    using iteration_step [OF fresh_run_hd [OF Cons.prems(1)], of vote_id w] Cons.prems(2) by auto
  have "e \<in> set (subscribers st1)"
    using Cons.prems by (subst set_mset_mset [symmetric], subst subs) (simp add: gone_def)
  moreover have "is_open ?w1 = is_open w" "capacity ?w1 = capacity w"
    by (simp_all add: send_all_open send_all_capacity)
  moreover note q = iteration_queue [OF Cons.prems(1, 3) refl, where vote_id = vote_id and ev = ev and w = w]
  ultimately show ?case
    using Cons.IH [OF fresh_run_step [OF Cons.prems(1) subs], of ?w1] Cons.prems(2, 4)
    by (cases "payload vote_id ev (fst (snd e))")
      (auto simp: it map_filter_simps room_def take_Cons' diff_Suc split: nat.splits)
qed

text \<open>A subscriber nothing is published for stays, whether its channel lives or not.\<close>

lemma run_keeps:
  assumes "fresh_run evs st" "\<forall>ev \<in> set evs. \<not> disconnected ev \<and> \<not> event_panics ev \<and> \<not> closes_event ev e"
    and "e \<in> set (subscribers st)" "\<forall>ev \<in> set evs. payload vote_id ev (fst (snd e)) = None"
  shows "\<exists>w' st'. event_loop vote_id ts evs w st = (w', Continue st') \<and> e \<in> set (subscribers st')"
  using assms
proof (induction evs arbitrary: w st)
  case (Cons ev evs)
  let ?w1 = "fst (send_all ts (map (delivery vote_id ev) (subscribers st)) w)"
  obtain st1 where it: "loop_iteration vote_id ts ev w st = (?w1, Continue st1)"
    and subs: "mset (subscribers st1) = mset (filter (\<lambda>e. \<not> closes_event ev e \<and> \<not> gone vote_id ev w e)
        (subscribers st @ added_of ev))"
    using iteration_step [OF fresh_run_hd [OF Cons.prems(1)], of vote_id w] Cons.prems(2) by auto
  have "e \<in> set (subscribers st1)"
    using Cons.prems by (subst set_mset_mset [symmetric], subst subs) (simp add: gone_def)
  with Cons.IH [OF fresh_run_step [OF Cons.prems(1) subs], of ?w1] Cons.prems(2, 4) show ?case
    by (simp add: it)
qed simp

end

subsection \<open>How an iteration ends\<close>

lemma RecvError_all [simp]: "e = RecvError"
  by (cases e) simp

lemma loop_iteration_disconnected:
  "disconnected ev \<Longrightarrow>
     loop_iteration vote_id ts ev w st = (w, Returned (GeyserStreamMessageError RecvError))"
  by (cases ev rule: disconnected.cases)
    (simp_all add: loop_iteration_def handle_subscription_added_def handle_subscription_closed_def
      handle_account_update_event_def handle_slot_update_event_def handle_slot_entry_update_event_def
      handle_block_update_event_def handle_transaction_update_event_def)

lemma loop_iteration_panics:
  "event_panics ev \<Longrightarrow> loop_iteration vote_id ts ev w st = (w, Panicked (Panic ''''))"
  by (cases ev rule: event_panics.cases) (simp_all add: loop_iteration_def handle_account_update_event_def)

lemma loop_iteration_continues:
  "\<not> disconnected ev \<Longrightarrow> \<not> event_panics ev \<Longrightarrow> \<exists>st'. snd (loop_iteration vote_id ts ev w st) = Continue st'"
  by (cases ev rule: disconnected.cases)
    (auto simp: loop_iteration_def handle_subscription_added_def handle_subscription_closed_def
      handle_account_update_event_def handle_slot_update_event_def handle_slot_entry_update_event_def
      handle_block_update_event_def handle_transaction_update_event_def split: prod.splits)

context server_channels
begin

lemma publish_effect:
  assumes "loop_inv st" "publishes ev"
  shows "\<exists>w' st'. loop_iteration vote_id ts ev w st = (w', Continue st') \<and>
    subscribers st' = filter (\<lambda>e. payload vote_id ev (fst (snd e)) = None \<or> is_open w (snd (snd e)))
      (subscribers st) \<and>
    is_open w' = is_open w \<and>
    (\<forall>s. s \<notin> set (map (snd \<circ> snd) (subscribers st)) \<longrightarrow> queued w' s = queued w s)"
proof -
  let ?w' = "fst (send_all ts (map (delivery vote_id ev) (subscribers st)) w)"
  obtain st' where "loop_iteration vote_id ts ev w st = (?w', Continue st')"
    "subscribers st' = filter (\<lambda>e. \<not> gone vote_id ev w e) (subscribers st)"
    using publish_iteration [OF assms] by blast
  moreover have "queued ?w' s = queued w s" if "s \<notin> set (map (snd \<circ> snd) (subscribers st))" for s
    using that by (intro send_all_queued_other) (auto simp: delivery_alt image_iff)
  ultimately show ?thesis by (auto simp: gone_def send_all_open)
qed

lemma run_inv:
  assumes "fresh_run evs st" "event_loop vote_id ts evs w st = (w', Continue st')"
  shows "loop_inv st'"
  using assms
proof (induction evs arbitrary: w st)
  case Nil
  then show ?case by (simp add: fresh_run_def loop_inv_def)
next
  case (Cons ev evs)
  have "\<not> disconnected ev" "\<not> event_panics ev"
    using Cons.prems(2) by (auto simp: loop_iteration_disconnected loop_iteration_panics)
  with iteration_step [OF fresh_run_hd [OF Cons.prems(1)], of vote_id w] obtain st1 where
    "loop_iteration vote_id ts ev w st =
      (fst (send_all ts (map (delivery vote_id ev) (subscribers st)) w), Continue st1)"
    "mset (subscribers st1) = mset (filter (\<lambda>e. \<not> closes_event ev e \<and> \<not> gone vote_id ev w e)
        (subscribers st @ added_of ev))" by blast
  then show ?case using Cons.IH [OF fresh_run_step [OF Cons.prems(1)]] Cons.prems(2) by simp
qed

lemma run_added_keeps:
  assumes "fresh_run ([Subscription_closed (Ok c), Subscription_added (Ok a)] @ evs) st"
    and "\<forall>ev \<in> set evs. \<not> disconnected ev \<and> \<not> event_panics ev \<and> \<not> closes_event ev (subscriber_of a) \<and>
      payload vote_id ev (fst (snd (subscriber_of a))) = None"
  shows "\<exists>w' st'. event_loop vote_id ts ([Subscription_closed (Ok c), Subscription_added (Ok a)] @ evs) w st
      = (w', Continue st') \<and> subscriber_of a \<in> set (subscribers st')"
proof -
  let ?c = "Subscription_closed (Ok c)" and ?a = "Subscription_added (Ok a)"
  have fresh: "fresh_run (?c # ?a # evs) st" using assms(1) by simp
  obtain st1 where 1: "loop_iteration vote_id ts ?c w st = (w, Continue st1)"
    and m1: "mset (subscribers st1) = mset (filter (\<lambda>e. \<not> closes_event ?c e \<and> \<not> gone vote_id ?c w e)
        (subscribers st @ added_of ?c))"
    using iteration_step [OF fresh_run_hd [OF fresh], of vote_id w] by (auto simp: subscription_silent)
  note fresh1 = fresh_run_step [OF fresh m1]
  obtain st2 where 2: "loop_iteration vote_id ts ?a w st1 = (w, Continue st2)"
    and m2: "mset (subscribers st2) = mset (filter (\<lambda>e. \<not> closes_event ?a e \<and> \<not> gone vote_id ?a w e)
        (subscribers st1 @ added_of ?a))"
    using iteration_step [OF fresh_run_hd [OF fresh1], of vote_id w] by (auto simp: subscription_silent)
  have "subscriber_of a \<in> set (subscribers st2)"
    by (subst set_mset_mset [symmetric], subst m2) (simp add: gone_def)
  with run_keeps [OF fresh_run_step [OF fresh1 m2], of "subscriber_of a" vote_id w] assms(2) show ?thesis
    by (simp add: 1 2)
qed

end

text \<open>The reference channels are such a server.\<close>

interpretation chan_server: server_channels chan_try_send chan_queued chan_capacity chan_is_open
  by unfold_locales

end
