(* ===== verification/Service.thy ===== *)
theory Service
  imports Subscription_Stream Rust_Std Event_Loop_Refine
begin

section \<open>The gRPC service (server/src/server.rs)\<close>

text \<open>
  The methods a client calls. Each makes a bounded channel, hands its sender to the event loop
  in a subscription event and returns a stream over its receiver, with the highest write slot
  seen so far in the response's header. What tokio, crossbeam, uuid and tonic provide extends
  the environment of the streams.
\<close>

definition HIGHEST_WRITE_SLOT_HEADER :: string where
  "HIGHEST_WRITE_SLOT_HEADER = ''highest-write-slot''"

record ServerTlsConfig =
  stc_cert_path :: string
  stc_key_path :: string

record GeyserServiceConfig =
  gsc_heartbeat_interval_ms :: u64
  gsc_subscriber_buffer_size :: u64
  gsc_tls_config :: "ServerTlsConfig option"
  gsc_access_token :: "string option"

text \<open>
  The service, less the sending ends of its two event channels and the handle of the loop's
  thread, which the environment stands for; the field is the value of the shared atomic.
\<close>

record GeyserService =
  gs_highest_write_slot :: u64
  gs_service_config :: GeyserServiceConfig

text \<open>
  Starting the service: the two unbounded channels to the loop, its heartbeat, and its thread,
  which starts without subscriptions. Joining waits for the thread and panics if that did.
\<close>

record ('w, 's) start_env =
  se_unbounded :: "'w \<Rightarrow> 'w"
  se_tick :: "'w \<Rightarrow> u64 \<Rightarrow> 'w"
  se_spawn_event_loop :: "'w \<Rightarrow> 's loop_state \<Rightarrow> panic + 'w"

definition geyser_service_new ::
  "('w, 's, 'z) start_env_scheme \<Rightarrow> GeyserServiceConfig \<Rightarrow> u64 \<Rightarrow> 'w \<Rightarrow> panic + 'w \<times> GeyserService" where
  "geyser_service_new se service_config highest_write_slot w =
     (let w = se_unbounded se (se_unbounded se w);
          w = se_tick se w (gsc_heartbeat_interval_ms service_config)
      in and_then (se_spawn_event_loop se w empty_loop_state) (\<lambda>w.
        Ok (w, \<lparr>gs_highest_write_slot = highest_write_slot, gs_service_config = service_config\<rparr>)))"

definition geyser_service_join :: "'s loop_outcome \<Rightarrow> (panic + unit) option" where
  "geyser_service_join out =
     (case out of
        Continue _ \<Rightarrow> None
      | Returned _ \<Rightarrow> Some (Ok ())
      | Panicked _ \<Rightarrow> Some (Err (Panic [])))"

record ('w, 's, 'o) service_env = "('w, 's, 'o) stream_env" +
  mpsc_channel :: "'w \<Rightarrow> nat \<Rightarrow> panic + 'w \<times> 's"
  uuid_new_v4 :: "'w \<Rightarrow> 'w \<times> uuid"
  added_try_send :: "'w \<Rightarrow> 's SubscriptionAddedEvent \<Rightarrow> 'w \<times> (TrySendError + unit)"
  metadata_value_from :: "u64 \<Rightarrow> string"

record 'b Response =
  resp_body :: 'b
  resp_metadata :: "(string, string) hashmap"

type_synonym ('w, 's, 'o) rpc = "'w \<times> (panic + Status + ('s, 'o) SubscriptionStream Response)"

definition get_heartbeat_interval :: "GeyserService \<Rightarrow> Status + u64" where
  "get_heartbeat_interval self = Ok (gsc_heartbeat_interval_ms (gs_service_config self))"

text \<open>The tail every method shares: wrap the receiver, set the header.\<close>

definition stream_response ::
  "('w, 's, 'o, 'z) service_env_scheme \<Rightarrow> GeyserService \<Rightarrow> 's \<Rightarrow> uuid \<Rightarrow> SubscriptionClosedEvent \<Rightarrow>
    string \<Rightarrow> 'w \<Rightarrow> ('w, 's, 'o) rpc" where
  "stream_response env self receiver uuid closed_event name w =
     (case subscription_stream_new env receiver uuid closed_event name w of
        (w', stream) \<Rightarrow>
          (w', Ok (Ok
             \<lparr>resp_body = stream,
              resp_metadata = hm_insert HIGHEST_WRITE_SLOT_HEADER
                (metadata_value_from env (gs_highest_write_slot self)) []\<rparr>)))"

definition internal_error :: Status where
  "internal_error = Status Internal ''error adding subscription''"

definition invalid_pubkey :: Status where
  "invalid_pubkey = Status InvalidArgument ''a pubkey with length != 32 was provided''"

definition subscribe_account_updates ::
  "('w, 's, 'o, 'z) service_env_scheme \<Rightarrow> GeyserService \<Rightarrow> bytes list \<Rightarrow> 'w \<Rightarrow> ('w, 's, 'o) rpc" where
  "subscribe_account_updates env self request w =
     (case mpsc_channel env w (unat (gsc_subscriber_buffer_size (gs_service_config self))) of
        Inl p \<Rightarrow> (w, Err p)
      | Inr (w1, notification_sender) \<Rightarrow>
          let accounts = set request;
              all_valid_pubkeys = (\<forall>a \<in> accounts. length a = 32)
          in if \<not> all_valid_pubkeys then (w1, Ok (Err invalid_pubkey))
             else
               (case uuid_new_v4 env w1 of
                  (w2, uuid) \<Rightarrow>
                    (case added_try_send env w2
                        (Added_AccountUpdateSubscription uuid notification_sender accounts) of
                       (w3, Inl _) \<Rightarrow> (w3, Ok (Err internal_error))
                     | (w3, Inr _) \<Rightarrow>
                         stream_response env self notification_sender uuid
                           (Closed_AccountUpdateSubscription uuid) ''subscribe_account_updates'' w3)))"

definition subscribe_program_updates ::
  "('w, 's, 'o, 'z) service_env_scheme \<Rightarrow> GeyserService \<Rightarrow> bytes list \<Rightarrow> 'w \<Rightarrow> ('w, 's, 'o) rpc" where
  "subscribe_program_updates env self request w =
     (case mpsc_channel env w (unat (gsc_subscriber_buffer_size (gs_service_config self))) of
        Inl p \<Rightarrow> (w, Err p)
      | Inr (w1, notification_sender) \<Rightarrow>
          let programs = set request;
              all_valid_pubkeys = (\<forall>a \<in> programs. length a = 32)
          in if \<not> all_valid_pubkeys then (w1, Ok (Err invalid_pubkey))
             else
               (case uuid_new_v4 env w1 of
                  (w2, uuid) \<Rightarrow>
                    (case added_try_send env w2
                        (Added_ProgramUpdateSubscription uuid notification_sender programs) of
                       (w3, Inl _) \<Rightarrow> (w3, Ok (Err internal_error))
                     | (w3, Inr _) \<Rightarrow>
                         stream_response env self notification_sender uuid
                           (Closed_ProgramUpdateSubscription uuid) ''subscribe_program_updates'' w3)))"

definition subscribe_partial_account_updates ::
  "('w, 's, 'o, 'z) service_env_scheme \<Rightarrow> GeyserService \<Rightarrow> bool \<Rightarrow> 'w \<Rightarrow> ('w, 's, 'o) rpc" where
  "subscribe_partial_account_updates env self skip_vote_accounts w =
     (case mpsc_channel env w (unat (gsc_subscriber_buffer_size (gs_service_config self))) of
        Inl p \<Rightarrow> (w, Err p)
      | Inr (w1, subscription_tx) \<Rightarrow>
          (case uuid_new_v4 env w1 of
             (w2, uuid) \<Rightarrow>
               (case added_try_send env w2
                   (Added_PartialAccountUpdateSubscription uuid subscription_tx skip_vote_accounts) of
                  (w3, Inl _) \<Rightarrow> (w3, Ok (Err internal_error))
                | (w3, Inr _) \<Rightarrow>
                    stream_response env self subscription_tx uuid
                      (Closed_PartialAccountUpdateSubscription uuid) ''subscribe_partial_account_updates'' w3)))"

definition subscribe_slot_updates ::
  "('w, 's, 'o, 'z) service_env_scheme \<Rightarrow> GeyserService \<Rightarrow> 'w \<Rightarrow> ('w, 's, 'o) rpc" where
  "subscribe_slot_updates env self w =
     (case mpsc_channel env w (unat (gsc_subscriber_buffer_size (gs_service_config self))) of
        Inl p \<Rightarrow> (w, Err p)
      | Inr (w1, subscription_tx) \<Rightarrow>
          (case uuid_new_v4 env w1 of
             (w2, uuid) \<Rightarrow>
               (case added_try_send env w2
                   (Added_SlotUpdateSubscription uuid subscription_tx) of
                  (w3, Inl _) \<Rightarrow> (w3, Ok (Err internal_error))
                | (w3, Inr _) \<Rightarrow>
                    stream_response env self subscription_tx uuid
                      (Closed_SlotUpdateSubscription uuid) ''subscribe_slot_updates'' w3)))"

definition subscribe_slot_entry_updates ::
  "('w, 's, 'o, 'z) service_env_scheme \<Rightarrow> GeyserService \<Rightarrow> 'w \<Rightarrow> ('w, 's, 'o) rpc" where
  "subscribe_slot_entry_updates env self w =
     (case mpsc_channel env w (unat (gsc_subscriber_buffer_size (gs_service_config self))) of
        Inl p \<Rightarrow> (w, Err p)
      | Inr (w1, subscription_tx) \<Rightarrow>
          (case uuid_new_v4 env w1 of
             (w2, uuid) \<Rightarrow>
               (case added_try_send env w2
                   (Added_SlotEntryUpdateSubscription uuid subscription_tx) of
                  (w3, Inl _) \<Rightarrow> (w3, Ok (Err internal_error))
                | (w3, Inr _) \<Rightarrow>
                    stream_response env self subscription_tx uuid
                      (Closed_SlotEntryUpdateSubscription uuid) ''subscribe_slot_entry_updates'' w3)))"

definition subscribe_transaction_updates ::
  "('w, 's, 'o, 'z) service_env_scheme \<Rightarrow> GeyserService \<Rightarrow> 'w \<Rightarrow> ('w, 's, 'o) rpc" where
  "subscribe_transaction_updates env self w =
     (case mpsc_channel env w (unat (gsc_subscriber_buffer_size (gs_service_config self))) of
        Inl p \<Rightarrow> (w, Err p)
      | Inr (w1, subscription_tx) \<Rightarrow>
          (case uuid_new_v4 env w1 of
             (w2, uuid) \<Rightarrow>
               (case added_try_send env w2
                   (Added_TransactionUpdateSubscription uuid subscription_tx) of
                  (w3, Inl _) \<Rightarrow> (w3, Ok (Err internal_error))
                | (w3, Inr _) \<Rightarrow>
                    stream_response env self subscription_tx uuid
                      (Closed_TransactionUpdateSubscription uuid) ''subscribe_transaction_updates'' w3)))"

definition subscribe_block_updates ::
  "('w, 's, 'o, 'z) service_env_scheme \<Rightarrow> GeyserService \<Rightarrow> 'w \<Rightarrow> ('w, 's, 'o) rpc" where
  "subscribe_block_updates env self w =
     (case mpsc_channel env w (unat (gsc_subscriber_buffer_size (gs_service_config self))) of
        Inl p \<Rightarrow> (w, Err p)
      | Inr (w1, subscription_tx) \<Rightarrow>
          (case uuid_new_v4 env w1 of
             (w2, uuid) \<Rightarrow>
               (case added_try_send env w2
                   (Added_BlockUpdateSubscription uuid subscription_tx) of
                  (w3, Inl _) \<Rightarrow> (w3, Ok (Err internal_error))
                | (w3, Inr _) \<Rightarrow>
                    stream_response env self subscription_tx uuid
                      (Closed_BlockUpdateSubscription uuid) ''subscribe_block_updates'' w3)))"

subsection \<open>What the environment promises\<close>

text \<open>
  The documented behaviour of the channels: a tokio channel needs a capacity of at least one
  and panics otherwise; sending on the unbounded channel to the loop fails only when the loop
  is gone. The observations: the subscription events waiting for the loop, and whether its
  thread still holds their receiver.
\<close>

locale service_runtime = stream_runtime env tasks signalled
  for env :: "('w, 's, 'o, 'z) service_env_scheme" and tasks signalled +
  fixes added :: "'w \<Rightarrow> 's SubscriptionAddedEvent list"
    and loop_alive :: "'w \<Rightarrow> bool"
  assumes channel_zero: "\<exists>p. mpsc_channel env w 0 = Err p"
    and channel_ok: "0 < n \<Longrightarrow> n < 2 ^ 61 \<Longrightarrow> \<exists>w' s. mpsc_channel env w n = Ok (w', s)"
    and channel_frame: "mpsc_channel env w n = Ok (w', s) \<Longrightarrow>
      added w' = added w \<and> loop_alive w' = loop_alive w \<and> tasks w' = tasks w \<and> signalled w' = signalled w"
    and uuid_frame: "uuid_new_v4 env w = (w', u) \<Longrightarrow>
      added w' = added w \<and> loop_alive w' = loop_alive w \<and> tasks w' = tasks w \<and> signalled w' = signalled w"
    and added_send: "added_try_send env w e = (w', r) \<Longrightarrow>
      is_err r = (\<not> loop_alive w) \<and>
      added w' = (if loop_alive w then added w @ [e] else added w) \<and>
      loop_alive w' = loop_alive w \<and> tasks w' = tasks w \<and> signalled w' = signalled w"
    and stream_frame:
      "added (fst (oneshot_channel env w)) = added w"
      "added (spawn_closed_task env w sig ev) = added w"

end
