(* ===== verification/Compact_Timestamp.thy ===== *)
theory Compact_Timestamp
  imports Prelude
begin

section \<open>Compact timestamps (server/src/compact_timestamp.rs)\<close>

text \<open>
  Slot entry updates carry a 32-bit count of microseconds instead of a full timestamp. A
  \<open>SystemTime\<close> is an integer number of nanoseconds since the Unix epoch (negative before
  it); the current time, which the code reads from the clock, is the argument \<open>now\<close>.
\<close>

type_synonym system_time = int

definition duration_since_us :: "u32 \<Rightarrow> u32 \<Rightarrow> u32" where
  "duration_since_us timestamp_a_us timestamp_b_us =
     (let normal_diff =
            (if timestamp_a_us > timestamp_b_us then timestamp_a_us - timestamp_b_us
             else timestamp_b_us - timestamp_a_us);
          wraparound_diff = ((- 1) - normal_diff) + 1
      in min normal_diff wraparound_diff)"

definition from_system_time :: "system_time \<Rightarrow> panic + u32" where
  "from_system_time from_time =
     (if from_time < 0 then Err (Panic []) else Ok (word_of_int (from_time div 1000)))"

definition get_current_time_us_u32 :: "system_time \<Rightarrow> panic + u32" where
  "get_current_time_us_u32 now = from_system_time now"

definition to_system_time :: "system_time \<Rightarrow> u32 \<Rightarrow> panic + system_time" where
  "to_system_time now timestamp_us =
     and_then (from_system_time now)
       (\<lambda>now_us. Ok (now - 1000 * uint (duration_since_us now_us timestamp_us)))"

subsection \<open>The distance on the 32-bit circle\<close>

text \<open>What the function is for: the shorter way round the circle of \<open>2 ^ 32\<close> microseconds.\<close>

definition circle_dist :: "int \<Rightarrow> int \<Rightarrow> int" where
  "circle_dist a b = min ((a - b) mod 2 ^ 32) ((b - a) mod 2 ^ 32)"

lemma uint_wrap_diff: "uint ((- 1 - d) + 1 :: u32) = (- uint d) mod 2 ^ 32"
proof -
  have "(- 1 - d) + 1 = - d" by simp
  then show ?thesis by (simp add: uint_word_ariths)
qed

lemma min_uint: "uint (min a b) = min (uint a) (uint (b :: u32))"
  by (simp add: min_def word_le_def)

lemma uint_duration_since_us:
  "uint (duration_since_us a b) = circle_dist (uint a) (uint b)"
proof -
  have d: "uint (x - y :: u32) = (uint x - uint y) mod 2 ^ 32" for x y
    by (simp add: uint_word_ariths)
  have n: "(- ((x - y) mod 2 ^ 32)) mod 2 ^ 32 = (y - x) mod (2 ^ 32 :: int)" for x y
    by (simp add: mod_minus_eq)
  show ?thesis
    unfolding duration_since_us_def Let_def min_uint uint_wrap_diff circle_dist_def
    by (cases "a > b") (simp_all only: if_True if_False d n min.commute)
qed

lemma circle_dist_sym: "circle_dist a b = circle_dist b a"
  by (simp add: circle_dist_def min.commute)

lemma circle_dist_mod: "circle_dist (a mod 2 ^ 32) (b mod 2 ^ 32) = circle_dist a b"
  by (simp add: circle_dist_def mod_diff_eq)

lemma circle_dist_near: "0 \<le> d \<Longrightarrow> d \<le> 2 ^ 31 \<Longrightarrow> circle_dist (b + d) b = d"
  by (cases "d = 0") (simp_all add: circle_dist_def zmod_zminus1_eq_if min_def)

lemma circle_dist_far: "2 ^ 31 \<le> d \<Longrightarrow> d < 2 ^ 32 \<Longrightarrow> circle_dist (b + d) b = 2 ^ 32 - d"
  by (simp add: circle_dist_def zmod_zminus1_eq_if min_def)

lemma circle_dist_bound: "0 \<le> circle_dist a b \<and> circle_dist a b \<le> 2 ^ 31"
proof -
  have "(b - a) mod 2 ^ 32 = (if (a - b) mod 2 ^ 32 = 0 then 0 else 2 ^ 32 - (a - b) mod (2 ^ 32 :: int))"
    using zmod_zminus1_eq_if [of "a - b" "2 ^ 32"] by simp
  moreover have "0 \<le> (a - b) mod (2 ^ 32 :: int)" by simp
  ultimately show ?thesis by (auto simp: circle_dist_def min_def)
qed

subsection \<open>Sending a time through the 32-bit stamp\<close>

lemma from_system_time_Ok: "0 \<le> t \<Longrightarrow> from_system_time t = Inr (word_of_int (t div 1000))"
  by (simp add: from_system_time_def)

lemma circle_dist_uint:
  "circle_dist (uint (word_of_int a :: u32)) (uint (word_of_int b :: u32)) = circle_dist a b"
  by (simp add: uint_word_of_int circle_dist_mod [of a b, symmetric] circle_dist_mod)

definition through_stamp :: "system_time \<Rightarrow> system_time \<Rightarrow> panic + system_time" where
  "through_stamp now t = and_then (from_system_time t) (to_system_time now)"

lemma through_stamp_eq:
  "0 \<le> t \<Longrightarrow> 0 \<le> now \<Longrightarrow>
     through_stamp now t = Inr (now - 1000 * circle_dist (now div 1000) (t div 1000))"
  by (simp add: through_stamp_def to_system_time_def from_system_time_Ok
      uint_duration_since_us circle_dist_uint)

lemma micros_truncation: "0 \<le> (t :: int) - 1000 * (t div 1000) \<and> t - 1000 * (t div 1000) < 1000"
  by (simp add: minus_mult_div_eq_mod)

lemma recent_through_stamp:
  assumes "0 \<le> t" "t \<le> now" "now div 1000 - t div 1000 \<le> 2 ^ 31"
  shows "\<exists>r. through_stamp now t = Inr r \<and> \<bar>r - t\<bar> < 1000"
proof -
  let ?d = "now div 1000 - t div 1000"
  have "0 \<le> ?d" using assms(2) by (simp add: zdiv_mono1)
  then have "circle_dist (now div 1000) (t div 1000) = ?d"
    using circle_dist_near [of ?d "t div 1000"] assms(3) by simp
  then have "through_stamp now t = Inr (now - 1000 * ?d)"
    using through_stamp_eq [of t now] assms(1,2) by simp
  moreover have "\<bar>(now - 1000 * ?d) - t\<bar> < 1000"
    using micros_truncation [of now] micros_truncation [of t] by (simp add: algebra_simps)
  ultimately show ?thesis by simp
qed

text \<open>
  C15. The distance of two stamps is the shorter way round the circle of \<open>2 ^ 32\<close>
  microseconds: it is symmetric, never more than \<open>2 ^ 31\<close>, and does not depend on which
  of the two has wrapped.
\<close>

theorem duration_since_us_correct:
  "uint (duration_since_us a b) = min ((uint a - uint b) mod 2 ^ 32) ((uint b - uint a) mod 2 ^ 32) \<and>
   duration_since_us a b = duration_since_us b a \<and>
   uint (duration_since_us a b) \<le> 2 ^ 31"
proof -
  have "uint (duration_since_us a b) = uint (duration_since_us b a)"
    by (simp add: uint_duration_since_us circle_dist_sym)
  then have "duration_since_us a b = duration_since_us b a" by (simp only: word_uint_eq_iff)
  moreover have "uint (duration_since_us a b) \<le> 2 ^ 31"
    using circle_dist_bound [of "uint a" "uint b"] by (simp add: uint_duration_since_us)
  ultimately show ?thesis
    using uint_duration_since_us [of a b, unfolded circle_dist_def] by simp
qed

text \<open>
  C16. A time at most \<open>2 ^ 31\<close> microseconds (about 35 minutes) old survives the 32-bit
  stamp: the reader gets it back to within a microsecond.
\<close>

theorem to_system_time_recent:
  assumes "0 \<le> t" "t \<le> now" "now div 1000 - t div 1000 \<le> 2 ^ 31"
  shows "\<exists>r. and_then (from_system_time t) (to_system_time now) = Inr r \<and> \<bar>r - t\<bar> < 1000"
  using recent_through_stamp [OF assms] by (simp add: through_stamp_def)

theorem to_system_time_recent_witness:
  "\<exists>r. and_then (from_system_time 1700000000000000999) (to_system_time 1700000600000000000) = Inr r \<and>
     \<bar>r - 1700000000000000999\<bar> < 1000"
  by (rule to_system_time_recent) simp_all

text \<open>
  C39. Beyond that the stamp is read wrongly although it has not wrapped: a time between
  \<open>2 ^ 31\<close> and \<open>2 ^ 32\<close> microseconds old (up to 71 minutes) comes back as if its age
  were the rest of the circle, that is as a later time than the one sent.
\<close>

theorem to_system_time_second_half:
  assumes "0 \<le> t" "0 \<le> now"
    and "2 ^ 31 < now div 1000 - t div 1000" "now div 1000 - t div 1000 < 2 ^ 32"
  shows "\<exists>r. and_then (from_system_time t) (to_system_time now) = Inr r \<and>
     r = now - 1000 * (2 ^ 32 - (now div 1000 - t div 1000)) \<and> t < r"
proof -
  let ?d = "now div 1000 - t div 1000"
  have "circle_dist (now div 1000) (t div 1000) = 2 ^ 32 - ?d"
    using circle_dist_far [of ?d "t div 1000"] assms(3,4) by simp
  then have "through_stamp now t = Inr (now - 1000 * (2 ^ 32 - ?d))"
    using through_stamp_eq [of t now] assms(1,2) by simp
  moreover have "t < now - 1000 * (2 ^ 32 - ?d)"
    using micros_truncation [of now] micros_truncation [of t] assms(3) by (simp add: algebra_simps)
  ultimately show ?thesis by (auto simp: through_stamp_def)
qed

theorem to_system_time_second_half_witness:
  "\<exists>r. and_then (from_system_time 1700000000000000000) (to_system_time 1700003000000000000) = Inr r \<and>
     r = 1700003000000000000 -
       1000 * (2 ^ 32 - (1700003000000000000 div 1000 - 1700000000000000000 div 1000)) \<and>
     1700000000000000000 < r"
  by (rule to_system_time_second_half) simp_all

end
