(* ===== verification/Plugin.thy ===== *)
theory Plugin
  imports Service Compact_Timestamp
begin

section \<open>The geyser plugin (server/src/geyser_grpc_plugin.rs)\<close>

text \<open>
  The callbacks the validator makes. Each turns what it is given into a message and tries to
  send it to the event loop over a bounded channel: a full channel loses the message, a
  disconnected one is an error. The plugin interface's structs are records of the fields the
  code reads; \<open>'t\<close> is a sanitized transaction. Clock, channels, files, server and runtime
  are the fields of \<open>plugin_env\<close>.
\<close>

subsection \<open>The plugin interface\<close>

record ReplicaAccountInfo =
  rai_pubkey :: bytes
  rai_lamports :: u64
  rai_owner :: bytes
  rai_executable :: bool
  rai_rent_epoch :: u64
  rai_data :: bytes
  rai_write_version :: u64

record ReplicaAccountInfoV2 = ReplicaAccountInfo +
  rai_txn_signature :: "signature option"

record 't ReplicaAccountInfoV3 = ReplicaAccountInfo +
  rai_txn :: "'t option"

datatype 't ReplicaAccountInfoVersions =
    RAI_V0_0_1 ReplicaAccountInfo
  | RAI_V0_0_2 ReplicaAccountInfoV2
  | RAI_V0_0_3 "'t ReplicaAccountInfoV3"

datatype SlotStatus =
    SS_Processed | SS_Rooted | SS_Confirmed | SS_FirstShredReceived | SS_Completed
  | SS_CreatedBank | SS_Dead string

record 't ReplicaTransactionInfo =
  rti_signature :: signature
  rti_is_vote :: bool
  rti_transaction :: 't
  rti_transaction_status_meta :: TransactionStatusMeta

record 't ReplicaTransactionInfoV2 = "'t ReplicaTransactionInfo" +
  rti_index :: u64

datatype 't ReplicaTransactionInfoVersions =
    RTI_V0_0_1 "'t ReplicaTransactionInfo"
  | RTI_V0_0_2 "'t ReplicaTransactionInfoV2"

record ReplicaBlockInfo =
  rbi_slot :: u64
  rbi_blockhash :: string
  rbi_rewards :: "Reward list"
  rbi_block_time :: "i64 option"
  rbi_block_height :: "u64 option"

record ReplicaBlockInfoV2 = ReplicaBlockInfo +
  rbi_executed_transaction_count :: u64

record ReplicaBlockInfoV3 = ReplicaBlockInfoV2 +
  rbi_entry_count :: u64

record ReplicaBlockInfoV4 =
  rbi4_slot :: u64
  rbi4_blockhash :: string
  rbi4_rewards :: RewardsAndNumPartitions
  rbi4_block_time :: "i64 option"
  rbi4_block_height :: "u64 option"
  rbi4_executed_transaction_count :: u64
  rbi4_entry_count :: u64

datatype ReplicaBlockInfoVersions =
    RBI_V0_0_1 ReplicaBlockInfo
  | RBI_V0_0_2 ReplicaBlockInfoV2
  | RBI_V0_0_3 ReplicaBlockInfoV3
  | RBI_V0_0_4 ReplicaBlockInfoV4

record ReplicaEntryInfo =
  rei_slot :: u64
  rei_index :: u64
  rei_executed_transaction_count :: u64

datatype ReplicaEntryInfoVersions =
    REI_V0_0_1 ReplicaEntryInfo
  | REI_V0_0_2 ReplicaEntryInfo

datatype GeyserPluginError =
    ConfigFileOpenError string
  | ConfigFileReadError string
  | AccountsUpdateError string
  | SlotStatusUpdateError string
  | TransactionUpdateError string
  | Custom string

type_synonym PluginResult = "GeyserPluginError + unit"

subsection \<open>State and environment\<close>

text \<open>
  The senders and the runtime of \<open>PluginData\<close> are in the environment; its two atomics and two
  flags are the state.
\<close>

record PluginData =
  pd_highest_write_slot :: u64
  pd_is_startup_completed :: bool
  pd_ignore_startup_updates :: bool
  pd_account_data_notifications_enabled :: bool

record GeyserGrpcPlugin =
  gp_data :: "PluginData option"

record PluginConfig =
  pc_geyser_service_config :: GeyserServiceConfig
  pc_bind_address :: string
  pc_account_update_buffer_size :: u64
  pc_slot_update_buffer_size :: u64
  pc_slot_entry_update_buffer_size :: u64
  pc_block_update_buffer_size :: u64
  pc_transaction_update_buffer_size :: u64
  pc_skip_startup_stream :: "bool option"
  pc_account_data_notifications_enabled :: "bool option"

record ('w, 't) plugin_env =
  pe_sdk :: sdk
  pe_now :: "'w \<Rightarrow> system_time"
  pe_timestamp_from :: "system_time \<Rightarrow> Timestamp"
  pe_signature_to_string :: "signature \<Rightarrow> string"
  pe_tx_signature :: "'t \<Rightarrow> signature"
  pe_to_versioned_transaction :: "'t \<Rightarrow> VersionedTransaction"
  pe_account_try_send :: "'w \<Rightarrow> TimestampedAccountUpdate \<Rightarrow> 'w \<times> (TrySendError + unit)"
  pe_slot_try_send :: "'w \<Rightarrow> TimestampedSlotUpdate \<Rightarrow> 'w \<times> (TrySendError + unit)"
  pe_slot_entry_try_send :: "'w \<Rightarrow> TimestampedSlotEntryUpdate \<Rightarrow> 'w \<times> (TrySendError + unit)"
  pe_block_try_send :: "'w \<Rightarrow> TimestampedBlockUpdate \<Rightarrow> 'w \<times> (TrySendError + unit)"
  pe_transaction_try_send :: "'w \<Rightarrow> TimestampedTransactionUpdate \<Rightarrow> 'w \<times> (TrySendError + unit)"

record ('w, 's, 'a) load_env = "('w, 's) start_env" +
  le_read_to_string :: "string \<Rightarrow> string + string"
  le_config_from_str :: "string \<Rightarrow> string + PluginConfig"
  le_parse_address :: "string \<Rightarrow> string + 'a"
  le_bounded :: "'w \<Rightarrow> u64 \<Rightarrow> 'w"
  le_runtime_new :: "'w \<Rightarrow> panic + 'w"
  le_read :: "string \<Rightarrow> string + bytes"
  le_tls_config :: "bytes \<Rightarrow> bytes \<Rightarrow> string + unit"
  le_serve :: "'w \<Rightarrow> 'a \<Rightarrow> GeyserService \<Rightarrow> string option \<Rightarrow> 'w"
  le_exit_send :: "'w \<Rightarrow> 'w \<times> (unit + unit)"
  le_shutdown_background :: "'w \<Rightarrow> 'w"

subsection \<open>Loading and unloading\<close>

definition create_plugin :: GeyserGrpcPlugin where
  "create_plugin = \<lparr>gp_data = None\<rparr>"

definition plugin_name :: string where
  "plugin_name = ''geyser-grpc-plugin''"

definition DEFAULT_SLOT_ENTRY_UPDATE_BUFFER_SIZE :: u64 where
  "DEFAULT_SLOT_ENTRY_UPDATE_BUFFER_SIZE = 1000000"

definition read_tls :: "('w, 's, 'a, 'z) load_env_scheme \<Rightarrow> ServerTlsConfig option \<Rightarrow> GeyserPluginError + unit" where
  "read_tls le tls =
     (case tls of
        None \<Rightarrow> Ok ()
      | Some tls_config \<Rightarrow>
          and_then (map_err ConfigFileOpenError (le_read le (stc_cert_path tls_config))) (\<lambda>cert.
          and_then (map_err ConfigFileOpenError (le_read le (stc_key_path tls_config))) (\<lambda>key.
          map_err Custom (le_tls_config le cert key))))"

definition initial_plugin_data :: "PluginConfig \<Rightarrow> PluginData" where
  "initial_plugin_data config =
     \<lparr>pd_highest_write_slot = 0,
      pd_is_startup_completed = False,
      pd_ignore_startup_updates =
        (case pc_skip_startup_stream config of None \<Rightarrow> False | Some b \<Rightarrow> b),
      pd_account_data_notifications_enabled =
        (case pc_account_data_notifications_enabled config of None \<Rightarrow> True | Some b \<Rightarrow> b)\<rparr>"

definition on_load ::
  "('w, 's, 'a, 'z) load_env_scheme \<Rightarrow> string \<Rightarrow> 'w \<Rightarrow> GeyserGrpcPlugin \<Rightarrow>
    'w \<times> GeyserGrpcPlugin \<times> (panic + PluginResult)" where
  "on_load le config_path w self =
     (case le_read_to_string le config_path of
        Inl e \<Rightarrow> (w, self, Ok (Err (ConfigFileOpenError e)))
      | Inr buf \<Rightarrow>
     (case le_config_from_str le buf of
        Inl e \<Rightarrow> (w, self, Ok (Err (ConfigFileReadError (''Error deserializing PluginConfig: '' @ e))))
      | Inr config \<Rightarrow>
     (case le_parse_address le (pc_bind_address config) of
        Inl e \<Rightarrow> (w, self, Ok (Err (ConfigFileReadError (''Error parsing the bind_address '' @ e))))
      | Inr addr \<Rightarrow>
       let w1 = foldl (le_bounded le) w
             [pc_account_update_buffer_size config, pc_slot_update_buffer_size config,
              pc_slot_entry_update_buffer_size config, pc_block_update_buffer_size config,
              pc_transaction_update_buffer_size config] in
     (case geyser_service_new le (pc_geyser_service_config config) 0 w1 of
        Inl p \<Rightarrow> (w1, self, Err p)
      | Inr (w2, svc) \<Rightarrow>
     (case le_runtime_new le w2 of
        Inl p \<Rightarrow> (w2, self, Err p)
      | Inr w3 \<Rightarrow>
     (case read_tls le (gsc_tls_config (pc_geyser_service_config config)) of
        Inl e \<Rightarrow> (w3, self, Ok (Err e))
      | Inr _ \<Rightarrow>
          (le_serve le w3 addr svc (gsc_access_token (pc_geyser_service_config config)),
           self\<lparr>gp_data := Some (initial_plugin_data config)\<rparr>,
           Ok (Ok ()))))))))"

definition on_unload ::
  "('w, 's, 'a, 'z) load_env_scheme \<Rightarrow> 'w \<Rightarrow> GeyserGrpcPlugin \<Rightarrow> 'w \<times> GeyserGrpcPlugin \<times> (panic + unit)" where
  "on_unload le w self =
     (case gp_data self of
        None \<Rightarrow> (w, self, Err (Panic ''plugin not initialized''))
      | Some data \<Rightarrow>
          (case le_exit_send le w of
             (w', Inl _) \<Rightarrow> (w', self\<lparr>gp_data := None\<rparr>,
               Err (Panic ''sending grpc server termination should succeed''))
           | (w', Inr _) \<Rightarrow> (le_shutdown_background le w', self\<lparr>gp_data := None\<rparr>, Ok ())))"

definition notify_end_of_startup :: "GeyserGrpcPlugin \<Rightarrow> GeyserGrpcPlugin \<times> (panic + PluginResult)" where
  "notify_end_of_startup self =
     (case gp_data self of
        None \<Rightarrow> (self, Err (Panic ''''))
      | Some data \<Rightarrow> (self\<lparr>gp_data := Some (data\<lparr>pd_is_startup_completed := True\<rparr>)\<rparr>, Ok (Ok ())))"

definition account_data_notifications_enabled :: "GeyserGrpcPlugin \<Rightarrow> bool" where
  "account_data_notifications_enabled self =
     (case gp_data self of None \<Rightarrow> True | Some d \<Rightarrow> pd_account_data_notifications_enabled d)"

definition transaction_notifications_enabled :: "GeyserGrpcPlugin \<Rightarrow> bool" where
  "transaction_notifications_enabled self = True"

definition entry_notifications_enabled :: "GeyserGrpcPlugin \<Rightarrow> bool" where
  "entry_notifications_enabled self = True"

subsection \<open>Accounts\<close>

definition account_update_message ::
  "('w, 't, 'z) plugin_env_scheme \<Rightarrow> 'w \<Rightarrow> 't ReplicaAccountInfoVersions \<Rightarrow> u64 \<Rightarrow> bool \<Rightarrow> TimestampedAccountUpdate" where
  "account_update_message pe w account slot is_startup =
     (case account of
        RAI_V0_0_1 account \<Rightarrow>
          \<lparr>tau_ts = Some (pe_timestamp_from pe (pe_now pe w)),
           tau_account_update = Some
             \<lparr>au_slot = slot,
              au_pubkey = rai_pubkey account,
              au_lamports = rai_lamports account,
              au_owner = rai_owner account,
              au_is_executable = rai_executable account,
              au_rent_epoch = rai_rent_epoch account,
              au_data = rai_data account,
              au_seq = rai_write_version account,
              au_is_startup = is_startup,
              au_tx_signature = None,
              au_replica_version = 1\<rparr>\<rparr>
      | RAI_V0_0_2 account \<Rightarrow>
          \<lparr>tau_ts = Some (pe_timestamp_from pe (pe_now pe w)),
           tau_account_update = Some
             \<lparr>au_slot = slot,
              au_pubkey = rai_pubkey account,
              au_lamports = rai_lamports account,
              au_owner = rai_owner account,
              au_is_executable = rai_executable account,
              au_rent_epoch = rai_rent_epoch account,
              au_data = rai_data account,
              au_seq = rai_write_version account,
              au_is_startup = is_startup,
              au_tx_signature = map_option (pe_signature_to_string pe) (rai_txn_signature account),
              au_replica_version = 2\<rparr>\<rparr>
      | RAI_V0_0_3 account \<Rightarrow>
          \<lparr>tau_ts = Some (pe_timestamp_from pe (pe_now pe w)),
           tau_account_update = Some
             \<lparr>au_slot = slot,
              au_pubkey = rai_pubkey account,
              au_lamports = rai_lamports account,
              au_owner = rai_owner account,
              au_is_executable = rai_executable account,
              au_rent_epoch = rai_rent_epoch account,
              au_data = rai_data account,
              au_seq = rai_write_version account,
              au_is_startup = is_startup,
              au_tx_signature =
                map_option (\<lambda>tx. pe_signature_to_string pe (pe_tx_signature pe tx)) (rai_txn account),
              au_replica_version = 2\<rparr>\<rparr>)"

text \<open>A full channel loses the message, a disconnected one is the callback's error.\<close>

definition send_result :: "GeyserPluginError \<Rightarrow> TrySendError + unit \<Rightarrow> PluginResult" where
  "send_result err r =
     (case r of Inr _ \<Rightarrow> Ok () | Inl Full \<Rightarrow> Ok () | Inl Closed \<Rightarrow> Err err)"

definition update_account ::
  "('w, 't, 'z) plugin_env_scheme \<Rightarrow> 't ReplicaAccountInfoVersions \<Rightarrow> u64 \<Rightarrow> bool \<Rightarrow>
    'w \<Rightarrow> GeyserGrpcPlugin \<Rightarrow> 'w \<times> GeyserGrpcPlugin \<times> (panic + PluginResult)" where
  "update_account pe account slot is_startup w self =
     (case gp_data self of
        None \<Rightarrow> (w, self, Err (Panic ''plugin must be initialized''))
      | Some data \<Rightarrow>
          if pd_ignore_startup_updates data \<and> \<not> pd_is_startup_completed data then (w, self, Ok (Ok ()))
          else
            let account_update = account_update_message pe w account slot is_startup in
            (case tau_account_update account_update of
               None \<Rightarrow> (w, self, Err (Panic ''''))
             | Some update \<Rightarrow>
                 if length (au_pubkey update) \<noteq> 32 then (w, self, Ok (Ok ()))
                 else if length (au_owner update) \<noteq> 32 then (w, self, Ok (Ok ()))
                 else
                   let self' = self\<lparr>gp_data :=
                         Some (data\<lparr>pd_highest_write_slot := max (pd_highest_write_slot data) slot\<rparr>)\<rparr>
                   in case pe_account_try_send pe w account_update of
                        (w', r) \<Rightarrow>
                          (w', self', Ok (send_result
                            (AccountsUpdateError ''account_update channel disconnected, exiting'') r))))"

subsection \<open>Slots\<close>

primrec slot_update_status_of :: "SlotStatus \<Rightarrow> SlotUpdateStatus" where
  "slot_update_status_of SS_Processed = SUS_Processed"
| "slot_update_status_of SS_Confirmed = SUS_Confirmed"
| "slot_update_status_of SS_Rooted = SUS_Rooted"
| "slot_update_status_of SS_FirstShredReceived = SUS_FirstShredReceived"
| "slot_update_status_of SS_Completed = SUS_Completed"
| "slot_update_status_of SS_CreatedBank = SUS_CreatedBank"
| "slot_update_status_of (SS_Dead _) = SUS_Dead"

definition update_slot_status ::
  "('w, 't, 'z) plugin_env_scheme \<Rightarrow> u64 \<Rightarrow> u64 option \<Rightarrow> SlotStatus \<Rightarrow> 'w \<Rightarrow> GeyserGrpcPlugin \<Rightarrow>
    'w \<times> (panic + PluginResult)" where
  "update_slot_status pe slot parent_slot status w self =
     (case gp_data self of
        None \<Rightarrow> (w, Err (Panic ''plugin must be initialized''))
      | Some data \<Rightarrow>
          (case pe_slot_try_send pe w
                  \<lparr>tsu_ts = Some (pe_timestamp_from pe (pe_now pe w)),
                   tsu_slot_update = Some
                     \<lparr>su_slot = slot,
                      su_parent_slot = parent_slot,
                      su_status = slot_update_status_as_i32 (slot_update_status_of status)\<rparr>\<rparr> of
             (w', r) \<Rightarrow>
               (w', Ok (send_result
                 (SlotStatusUpdateError ''slot_update channel disconnected, exiting'') r))))"

subsection \<open>Transactions\<close>

text \<open>Encoding the metadata panics when bincode cannot write the transaction's error.\<close>

definition transaction_update_message ::
  "('w, 't, 'z) plugin_env_scheme \<Rightarrow> 'w \<Rightarrow> 't ReplicaTransactionInfoVersions \<Rightarrow> u64 \<Rightarrow>
    panic + TimestampedTransactionUpdate" where
  "transaction_update_message pe w transaction slot =
     (case transaction of
        RTI_V0_0_1 tx \<Rightarrow>
          and_then (meta_to_pb (pe_sdk pe) (rti_transaction_status_meta tx)) (\<lambda>meta. Ok
            \<lparr>ttu_ts = Some (pe_timestamp_from pe (pe_now pe w)),
             ttu_transaction = Some
               \<lparr>tu_slot = slot,
                tu_signature = pe_signature_to_string pe (rti_signature tx),
                tu_is_vote = rti_is_vote tx,
                tu_tx_idx = u64_MAX,
                tu_tx = Some
                  \<lparr>pct_transaction = Some (versioned_transaction_to_pb
                     (pe_to_versioned_transaction pe (rti_transaction tx))),
                   pct_meta = Some meta\<rparr>\<rparr>\<rparr>)
      | RTI_V0_0_2 tx \<Rightarrow>
          and_then (meta_to_pb (pe_sdk pe) (rti_transaction_status_meta tx)) (\<lambda>meta. Ok
            \<lparr>ttu_ts = Some (pe_timestamp_from pe (pe_now pe w)),
             ttu_transaction = Some
               \<lparr>tu_slot = slot,
                tu_signature = pe_signature_to_string pe (rti_signature tx),
                tu_is_vote = rti_is_vote tx,
                tu_tx_idx = rti_index tx,
                tu_tx = Some
                  \<lparr>pct_transaction = Some (versioned_transaction_to_pb
                     (pe_to_versioned_transaction pe (rti_transaction tx))),
                   pct_meta = Some meta\<rparr>\<rparr>\<rparr>))"

definition notify_transaction ::
  "('w, 't, 'z) plugin_env_scheme \<Rightarrow> 't ReplicaTransactionInfoVersions \<Rightarrow> u64 \<Rightarrow> 'w \<Rightarrow> GeyserGrpcPlugin \<Rightarrow>
    'w \<times> (panic + PluginResult)" where
  "notify_transaction pe transaction slot w self =
     (case gp_data self of
        None \<Rightarrow> (w, Err (Panic ''plugin must be initialized''))
      | Some data \<Rightarrow>
          (case transaction_update_message pe w transaction slot of
             Inl p \<Rightarrow> (w, Err p)
           | Inr transaction_update \<Rightarrow>
               (case pe_transaction_try_send pe w transaction_update of
                  (w', r) \<Rightarrow>
                    (w', Ok (send_result
                      (TransactionUpdateError
                        ''transaction_update_sender channel disconnected, exiting'') r)))))"

subsection \<open>Blocks\<close>

definition block_time_to_timestamp :: "i64 \<Rightarrow> Timestamp" where
  "block_time_to_timestamp t = \<lparr>ts_seconds = t, ts_nanos = 0\<rparr>"

definition block_update_message ::
  "('w, 't, 'z) plugin_env_scheme \<Rightarrow> 'w \<Rightarrow> ReplicaBlockInfoVersions \<Rightarrow> TimestampedBlockUpdate" where
  "block_update_message pe w block_info =
     (case block_info of
        RBI_V0_0_1 block \<Rightarrow>
          \<lparr>tbu_ts = Some (pe_timestamp_from pe (pe_now pe w)),
           tbu_block_update = Some
             \<lparr>bu_slot = rbi_slot block,
              bu_blockhash = rbi_blockhash block,
              bu_rewards = map reward_to_pb (rbi_rewards block),
              bu_block_time = map_option block_time_to_timestamp (rbi_block_time block),
              bu_block_height = rbi_block_height block,
              bu_executed_transaction_count = None,
              bu_entry_count = None\<rparr>\<rparr>
      | RBI_V0_0_2 block \<Rightarrow>
          \<lparr>tbu_ts = Some (pe_timestamp_from pe (pe_now pe w)),
           tbu_block_update = Some
             \<lparr>bu_slot = rbi_slot block,
              bu_blockhash = rbi_blockhash block,
              bu_rewards = map reward_to_pb (rbi_rewards block),
              bu_block_time = map_option block_time_to_timestamp (rbi_block_time block),
              bu_block_height = rbi_block_height block,
              bu_executed_transaction_count = Some (rbi_executed_transaction_count block),
              bu_entry_count = None\<rparr>\<rparr>
      | RBI_V0_0_3 block \<Rightarrow>
          \<lparr>tbu_ts = Some (pe_timestamp_from pe (pe_now pe w)),
           tbu_block_update = Some
             \<lparr>bu_slot = rbi_slot block,
              bu_blockhash = rbi_blockhash block,
              bu_rewards = map reward_to_pb (rbi_rewards block),
              bu_block_time = map_option block_time_to_timestamp (rbi_block_time block),
              bu_block_height = rbi_block_height block,
              bu_executed_transaction_count = Some (rbi_executed_transaction_count block),
              bu_entry_count = Some (rbi_entry_count block)\<rparr>\<rparr>
      | RBI_V0_0_4 block \<Rightarrow>
          \<lparr>tbu_ts = Some (pe_timestamp_from pe (pe_now pe w)),
           tbu_block_update = Some
             \<lparr>bu_slot = rbi4_slot block,
              bu_blockhash = rbi4_blockhash block,
              bu_rewards = map reward_to_pb (rnp_rewards (rbi4_rewards block)),
              bu_block_time = map_option block_time_to_timestamp (rbi4_block_time block),
              bu_block_height = rbi4_block_height block,
              bu_executed_transaction_count = Some (rbi4_executed_transaction_count block),
              bu_entry_count = Some (rbi4_entry_count block)\<rparr>\<rparr>)"

definition notify_block_metadata ::
  "('w, 't, 'z) plugin_env_scheme \<Rightarrow> ReplicaBlockInfoVersions \<Rightarrow> 'w \<Rightarrow> GeyserGrpcPlugin \<Rightarrow>
    'w \<times> (panic + PluginResult)" where
  "notify_block_metadata pe block_info w self =
     (case gp_data self of
        None \<Rightarrow> (w, Err (Panic ''plugin must be initialized''))
      | Some data \<Rightarrow>
          (case pe_block_try_send pe w (block_update_message pe w block_info) of
             (w', r) \<Rightarrow>
               (w', Ok (send_result
                 (Custom ''block_update_sender channel disconnected, exiting'') r))))"

subsection \<open>Entries\<close>

definition get_slot_and_index_from_replica_entry_info_versions ::
  "ReplicaEntryInfoVersions \<Rightarrow> SlotEntryUpdate" where
  "get_slot_and_index_from_replica_entry_info_versions entry =
     (case entry of
        REI_V0_0_1 entry_info \<Rightarrow>
          \<lparr>seu_slot = rei_slot entry_info,
           seu_index = rei_index entry_info,
           seu_executed_transaction_count = rei_executed_transaction_count entry_info\<rparr>
      | REI_V0_0_2 entry_info \<Rightarrow>
          \<lparr>seu_slot = rei_slot entry_info,
           seu_index = rei_index entry_info,
           seu_executed_transaction_count = rei_executed_transaction_count entry_info\<rparr>)"

definition notify_entry ::
  "('w, 't, 'z) plugin_env_scheme \<Rightarrow> ReplicaEntryInfoVersions \<Rightarrow> 'w \<Rightarrow> GeyserGrpcPlugin \<Rightarrow>
    'w \<times> (panic + PluginResult)" where
  "notify_entry pe entry w self =
     (case gp_data self of
        None \<Rightarrow> (w, Err (Panic ''plugin must be initialized''))
      | Some data \<Rightarrow>
          (case get_current_time_us_u32 (pe_now pe w) of
             Inl p \<Rightarrow> (w, Err p)
           | Inr ts \<Rightarrow>
               (case pe_slot_entry_try_send pe w
                       \<lparr>tseu_ts = ts,
                        tseu_entry_update =
                          Some (get_slot_and_index_from_replica_entry_info_versions entry)\<rparr> of
                  (w', r) \<Rightarrow>
                    (w', Ok (send_result
                      (SlotStatusUpdateError ''slot_entry_update channel disconnected, exiting'') r)))))"

end
