(* ===== verification/Event_Loop_Properties.thy ===== *)
theory Event_Loop_Properties
  imports Event_Loop_Refine
begin

section \<open>The properties of the event loop\<close>

text \<open>
  The properties hold for every implementation of the channels that keeps the contract; the
  witnesses run the loop on the reference channels.
\<close>

subsection \<open>A small server to run\<close>

definition example_vote_id :: bytes where
  "example_vote_id = replicate 32 7"

definition example_world :: "(nat, item) chan_store" where
  "example_world = (\<lambda>s. if s < 3 then new_chan 1 else (new_chan 1)\<lparr>ch_open := False\<rparr>)"

definition example_block_update :: TimestampedBlockUpdate where
  "example_block_update = \<lparr>tbu_ts = None, tbu_block_update = None\<rparr>"

definition example_state :: "nat loop_state" where
  "example_state = empty_loop_state
     \<lparr>block_update_subscriptions := [(1, \<lparr>bus_notification_sender = 0\<rparr>), (2, \<lparr>bus_notification_sender = 3\<rparr>)],
      partial_account_update_subscriptions := [(3, \<lparr>paus_subscription_tx = 1, paus_skip_votes = True\<rparr>)]\<rparr>"

lemmas example_simps = example_vote_id_def example_world_def example_block_def example_state_def
  empty_loop_state_def new_chan_def subscribers_def fresh_run_def loop_inv_def

text \<open>
  C6. Delivery. Whatever run of events the loop takes (publications, ticks, new and closed
  subscriptions, in any interleaving), a subscriber whose channel lives and that is not itself
  closed is never dropped and receives exactly the messages its topic calls for, in order and
  without duplicates, until its channel is full; what does not fit is skipped.\<close>

theorem event_loop_delivers:
  assumes "bounded_channels ts queued capacity is_open"
    and "fresh_run evs st"
    and "\<forall>ev \<in> set evs. \<not> disconnected ev \<and> \<not> event_panics ev \<and> \<not> closes_event ev (u, t, s)"
    and "(u, t, s) \<in> set (subscribers st)" "is_open w s"
  shows "\<exists>w' st'. event_loop vote_id ts evs w st = (w', Continue st') \<and>
    (u, t, s) \<in> set (subscribers st') \<and>
    queued w' s = queued w s @
      map Ok (take (capacity w s - length (queued w s))
        (List.map_filter (\<lambda>ev. payload vote_id ev t) evs))"
  using server_channels.run_queue [OF server_channels.intro [OF assms(1)] assms(2-4), of w vote_id]
    assms(5) by simp

theorem event_loop_delivers_witness:
  "\<exists>w' st'. event_loop example_vote_id chan_try_send
      [Heartbeat_tick, Block_update (Ok example_block_update), Block_update (Ok example_block_update)]
      example_world example_state = (w', Continue st') \<and>
    (1, On_block, 0) \<in> set (subscribers st') \<and>
    chan_queued w' 0 = [Ok (BlockMsg example_block_update)]"
  using event_loop_delivers [OF chans.bounded_channels_axioms, of
      "[Heartbeat_tick, Block_update (Ok example_block_update), Block_update (Ok example_block_update)]"
      example_state 1 On_block 0 example_world example_vote_id]
  by (simp add: example_simps map_filter_simps)

text \<open>
  C7. A publication drops exactly the subscribers that were to be sent something and whose
  channel is gone; it touches no other channel, opens and closes none.\<close>

theorem publish_drops_exactly_the_closed:
  assumes "bounded_channels ts queued capacity is_open" and "loop_inv st" and "publishes ev"
  shows "\<exists>w' st'. loop_iteration vote_id ts ev w st = (w', Continue st') \<and>
    subscribers st' = filter (\<lambda>(u, t, s). payload vote_id ev t = None \<or> is_open w s) (subscribers st) \<and>
    is_open w' = is_open w \<and>
    (\<forall>s. s \<notin> set (map (snd \<circ> snd) (subscribers st)) \<longrightarrow> queued w' s = queued w s)"
  using server_channels.publish_effect [OF server_channels.intro [OF assms(1)] assms(2, 3), of vote_id w]
  by (simp add: split_def)

theorem publish_drops_exactly_the_closed_witness:
  "\<exists>w' st'. loop_iteration example_vote_id chan_try_send (Block_update (Ok example_block_update))
      example_world example_state = (w', Continue st') \<and>
    subscribers st' = [(3, On_partial True, 1), (1, On_block, 0)]"
  using publish_drops_exactly_the_closed [OF chans.bounded_channels_axioms, of
      example_state "Block_update (Ok example_block_update)" example_vote_id example_world]
  by (auto simp: example_simps)

text \<open>
  The loop keeps its maps consistent: no id and no channel occurs twice over the seven maps,
  however a run of events ends.\<close>

theorem event_loop_inv:
  assumes "bounded_channels ts queued capacity is_open" and "fresh_run evs st"
    and "event_loop vote_id ts evs w st = (w', Continue st')"
  shows "loop_inv st'"
  using server_channels.run_inv [OF server_channels.intro [OF assms(1)] assms(2, 3)] .

theorem event_loop_inv_witness:
  "loop_inv (case event_loop example_vote_id chan_try_send
      [Subscription_added (Ok (Added_SlotUpdateSubscription 9 2)), Block_update (Ok example_block_update)]
      example_world example_state of (_, Continue st') \<Rightarrow> st' | _ \<Rightarrow> example_state)"
proof -
  let ?evs = "[Subscription_added (Ok (Added_SlotUpdateSubscription 9 2)), Block_update (Ok example_block_update)]"
  have fresh: "fresh_run ?evs example_state" by (simp add: example_simps)
  have "loop_inv st'"
    if "event_loop example_vote_id chan_try_send ?evs example_world example_state = (w', Continue st')"
    for w' st'
    by (rule event_loop_inv [OF chans.bounded_channels_axioms fresh that])
  moreover have "loop_inv example_state" by (simp add: example_simps)
  ultimately show ?thesis by (auto split: prod.splits loop_outcome.splits)
qed

text \<open>
  C17. How an iteration ends: the loop returns exactly on an event from a disconnected channel,
  with the service error that says so, panics exactly on an account event that carries no
  account, and goes on otherwise.\<close>

theorem loop_iteration_outcome:
  "snd (loop_iteration vote_id ts ev w st) =
     (if disconnected ev then Returned (GeyserStreamMessageError RecvError)
      else if event_panics ev then Panicked (Panic '''')
      else Continue (case snd (loop_iteration vote_id ts ev w st) of Continue st' \<Rightarrow> st' | _ \<Rightarrow> st))"
  using loop_iteration_continues [of ev vote_id ts w st]
  by (auto simp: loop_iteration_disconnected loop_iteration_panics)

text \<open>
  Adding a fresh subscription and closing it gives back the subscribers there were; in
  between, the new subscriber is among them. The closed event needs the kind and the id of the
  added one.\<close>

theorem added_then_closed:
  assumes "subscriber_of a = (u, t, s)" and "u \<notin> fst ` set (subscribers st)"
    and "closes c u t"
    and "handle_subscription_added (Inr a) st = Ok st1"
    and "handle_subscription_closed (Inr c) st1 = Ok st2"
  shows "mset (subscribers st1) = add_mset (u, t, s) (mset (subscribers st)) \<and>
    mset (subscribers st2) = mset (subscribers st)"
  by (rule added_closed_subscribers [OF assms])

theorem added_then_closed_witness:
  "\<exists>st1 st2. handle_subscription_added (Ok (Added_SlotUpdateSubscription 9 2)) example_state = Ok st1 \<and>
    handle_subscription_closed (Ok (Closed_SlotUpdateSubscription 9)) st1 = Ok st2 \<and>
    mset (subscribers st1) = add_mset (9, On_slot, 2) (mset (subscribers example_state)) \<and>
    mset (subscribers st2) = mset (subscribers example_state)"
proof -
  obtain st1 where 1: "handle_subscription_added (Ok (Added_SlotUpdateSubscription 9 2)) example_state = Ok st1"
    by (simp add: handle_subscription_added_def)
  obtain st2 where 2: "handle_subscription_closed (Ok (Closed_SlotUpdateSubscription 9)) st1 = Ok st2"
    by (simp add: handle_subscription_closed_def)
  from added_then_closed [OF _ _ _ 1 2, of 9 On_slot 2] 1 2 show ?thesis
    by (simp add: example_simps)
qed

text \<open>
  C38. The event that closes a subscription can overtake the one that adds it, since the two
  come over different channels: then the subscription stays, although its stream is gone, until
  something is published for its topic.\<close>

theorem closed_before_added_stays:
  assumes "bounded_channels ts queued capacity is_open"
    and "subscriber_of a = (u, t, s)" and "closes c u t"
    and "fresh_run ([Subscription_closed (Ok c), Subscription_added (Ok a)] @ evs) st"
    and "\<forall>ev \<in> set evs. \<not> disconnected ev \<and> \<not> event_panics ev \<and> \<not> closes_event ev (u, t, s) \<and>
      payload vote_id ev t = None"
  shows "\<exists>w' st'. event_loop vote_id ts ([Subscription_closed (Ok c), Subscription_added (Ok a)] @ evs) w st
      = (w', Continue st') \<and> (u, t, s) \<in> set (subscribers st')"
  using server_channels.run_added_keeps [OF server_channels.intro [OF assms(1)] assms(4), of vote_id w]
    assms(2, 5) by simp

theorem closed_before_added_stays_witness:
  "\<exists>w' st'. event_loop example_vote_id chan_try_send
      ([Subscription_closed (Ok (Closed_SlotUpdateSubscription 9)),
        Subscription_added (Ok (Added_SlotUpdateSubscription 9 5))]
       @ [Block_update (Ok example_block_update), Heartbeat_tick]) example_world example_state
      = (w', Continue st') \<and> (9, On_slot, 5) \<in> set (subscribers st') \<and> \<not> chan_is_open example_world 5"
  using closed_before_added_stays [OF chans.bounded_channels_axioms, of
      "Added_SlotUpdateSubscription 9 5" 9 On_slot 5 "Closed_SlotUpdateSubscription 9"
      "[Block_update (Ok example_block_update), Heartbeat_tick]" example_state example_vote_id example_world]
  by (simp add: example_simps)

end
