(* ===== verification/Plugin_Spec.thy ===== *)
theory Plugin_Spec
  imports Plugin Event_Loop_Properties
begin

section \<open>What the plugin promises\<close>

text \<open>
  Runs of callbacks, in any order the validator makes them: what reaches the event loop, and
  what becomes of the highest write slot. A panic unwinds into the validator, so a run stops
  there.
\<close>

datatype 't callback =
    CB_end_of_startup
  | CB_account "'t ReplicaAccountInfoVersions" u64 bool
  | CB_slot u64 "u64 option" SlotStatus
  | CB_transaction "'t ReplicaTransactionInfoVersions" u64
  | CB_block ReplicaBlockInfoVersions
  | CB_entry ReplicaEntryInfoVersions

definition unchanged :: "GeyserGrpcPlugin \<Rightarrow> 'w \<times> 'r \<Rightarrow> 'w \<times> GeyserGrpcPlugin \<times> 'r" where
  "unchanged self r = (fst r, self, snd r)"

primrec run_callback ::
  "('w, 't, 'z) plugin_env_scheme \<Rightarrow> 't callback \<Rightarrow> 'w \<Rightarrow> GeyserGrpcPlugin \<Rightarrow>
    'w \<times> GeyserGrpcPlugin \<times> (panic + PluginResult)" where
  "run_callback pe CB_end_of_startup w self = (w, notify_end_of_startup self)"
| "run_callback pe (CB_account a slot is_startup) w self = update_account pe a slot is_startup w self"
| "run_callback pe (CB_slot slot parent status) w self =
     unchanged self (update_slot_status pe slot parent status w self)"
| "run_callback pe (CB_transaction t slot) w self = unchanged self (notify_transaction pe t slot w self)"
| "run_callback pe (CB_block b) w self = unchanged self (notify_block_metadata pe b w self)"
| "run_callback pe (CB_entry e) w self = unchanged self (notify_entry pe e w self)"

fun run_callbacks ::
  "('w, 't, 'z) plugin_env_scheme \<Rightarrow> 't callback list \<Rightarrow> 'w \<Rightarrow> GeyserGrpcPlugin \<Rightarrow>
    'w \<times> GeyserGrpcPlugin \<times> panic option" where
  "run_callbacks pe [] w self = (w, self, None)"
| "run_callbacks pe (cb # cbs) w self =
     (case run_callback pe cb w self of
        (w', self', Inl p) \<Rightarrow> (w', self', Some p)
      | (w', self', Inr _) \<Rightarrow> run_callbacks pe cbs w' self')"

text \<open>The documented behaviour of the channels to the loop: what was sent is what was accepted.\<close>

locale plugin_channels =
  fixes pe :: "('w, 't, 'z) plugin_env_scheme"
    and account_sent :: "'w \<Rightarrow> TimestampedAccountUpdate list"
  assumes account_send: "pe_account_try_send pe w m = (w', r) \<Longrightarrow>
      account_sent w' = account_sent w @ (if is_err r then [] else [m])"
    and other_sends:
      "pe_slot_try_send pe w m1 = (w', r) \<Longrightarrow> account_sent w' = account_sent w"
      "pe_slot_entry_try_send pe w m2 = (w', r) \<Longrightarrow> account_sent w' = account_sent w"
      "pe_block_try_send pe w m3 = (w', r) \<Longrightarrow> account_sent w' = account_sent w"
      "pe_transaction_try_send pe w m4 = (w', r) \<Longrightarrow> account_sent w' = account_sent w"

text \<open>What the loop and the clients rely on of an account message.\<close>

definition good_account :: "GeyserGrpcPlugin \<Rightarrow> TimestampedAccountUpdate \<Rightarrow> bool" where
  "good_account self m \<longleftrightarrow>
     (case tau_account_update m of
        None \<Rightarrow> False
      | Some u \<Rightarrow> length (au_pubkey u) = 32 \<and> length (au_owner u) = 32 \<and>
          (case gp_data self of None \<Rightarrow> False | Some d \<Rightarrow> au_slot u \<le> pd_highest_write_slot d))"

definition highest :: "GeyserGrpcPlugin \<Rightarrow> u64" where
  "highest self = (case gp_data self of None \<Rightarrow> 0 | Some d \<Rightarrow> pd_highest_write_slot d)"

lemma account_update_message_slot:
  "\<exists>u. tau_account_update (account_update_message pe w a slot s) = Some u \<and> au_slot u = slot"
  by (cases a) (simp_all add: account_update_message_def)

lemma notify_end_of_startup_highest:
  "gp_data self = Some d \<Longrightarrow>
     notify_end_of_startup self =
       (self\<lparr>gp_data := Some (d\<lparr>pd_is_startup_completed := True\<rparr>)\<rparr>, Ok (Ok ()))"
  by (simp add: notify_end_of_startup_def)

text \<open>The accepted account updates: those that pass the startup filter and the length checks.\<close>

primrec valid_account :: "'t ReplicaAccountInfoVersions \<Rightarrow> bool" where
  "valid_account (RAI_V0_0_1 a) = (length (rai_pubkey a) = 32 \<and> length (rai_owner a) = 32)"
| "valid_account (RAI_V0_0_2 a) = (length (rai_pubkey a) = 32 \<and> length (rai_owner a) = 32)"
| "valid_account (RAI_V0_0_3 a) = (length (rai_pubkey a) = 32 \<and> length (rai_owner a) = 32)"

definition streaming :: "PluginData \<Rightarrow> bool" where
  "streaming d \<longleftrightarrow> (pd_ignore_startup_updates d \<longrightarrow> pd_is_startup_completed d)"

primrec account_slots :: "'t callback \<Rightarrow> u64 list" where
  "account_slots CB_end_of_startup = []"
| "account_slots (CB_account a slot is_startup) = (if valid_account a then [slot] else [])"
| "account_slots (CB_slot slot parent status) = []"
| "account_slots (CB_transaction t slot) = []"
| "account_slots (CB_block b) = []"
| "account_slots (CB_entry e) = []"

lemma update_account_cases:
  assumes "gp_data self = Some d"
  shows "update_account pe a slot is_startup w self =
    (if streaming d \<and> valid_account a then
       (fst (pe_account_try_send pe w (account_update_message pe w a slot is_startup)),
        self\<lparr>gp_data := Some (d\<lparr>pd_highest_write_slot := max (pd_highest_write_slot d) slot\<rparr>)\<rparr>,
        Ok (send_result (AccountsUpdateError ''account_update channel disconnected, exiting'')
          (snd (pe_account_try_send pe w (account_update_message pe w a slot is_startup)))))
     else (w, self, Ok (Ok ())))"
  using assms
  by (cases a)
    (auto simp: update_account_def streaming_def account_update_message_def Let_def
      split: prod.splits)

context plugin_channels
begin

lemma callback_step:
  assumes "run_callback pe cb w self = (w', self', r)" "gp_data self = Some d"
  shows "\<exists>d'. gp_data self' = Some d' \<and> pd_highest_write_slot d \<le> pd_highest_write_slot d' \<and>
    (\<exists>ms. account_sent w' = account_sent w @ ms \<and> (\<forall>m \<in> set ms. good_account self' m))"
proof (cases cb)
  case CB_end_of_startup
  then show ?thesis using assms by (auto simp: notify_end_of_startup_def)
next
  case (CB_account a slot is_startup)
  let ?m = "account_update_message pe w a slot is_startup"
  obtain w1 q where send: "pe_account_try_send pe w ?m = (w1, q)" by fastforce
  show ?thesis
  proof (cases "streaming d \<and> valid_account a")
    case True
    have "length (au_pubkey u) = 32 \<and> length (au_owner u) = 32 \<and> au_slot u = slot"
      if "tau_account_update ?m = Some u" for u
      using True that by (cases a) (auto simp: account_update_message_def)
    moreover obtain u where "tau_account_update ?m = Some u"
      using account_update_message_slot [of pe w a slot is_startup] by blast
    ultimately show ?thesis
      using assms True account_send [OF send]
      by (auto simp: CB_account update_account_cases send good_account_def split: if_splits)
  next
    case False
    then show ?thesis using assms by (auto simp: CB_account update_account_cases split: if_splits)
  qed
qed (use assms in \<open>auto dest!: other_sends simp: unchanged_def update_slot_status_def notify_transaction_def
    notify_block_metadata_def notify_entry_def split: sum.splits prod.splits\<close>)

lemma run_good:
  assumes "run_callbacks pe cbs w self = (w', self', out)" "gp_data self = Some d"
  shows "\<exists>d'. gp_data self' = Some d' \<and> pd_highest_write_slot d \<le> pd_highest_write_slot d' \<and>
    (\<exists>ms. account_sent w' = account_sent w @ ms \<and> (\<forall>m \<in> set ms. good_account self' m))"
  using assms
proof (induction cbs arbitrary: w self d)
  case Nil
  then show ?case by simp
next
  case (Cons cb cbs)
  obtain w1 self1 r where step: "run_callback pe cb w self = (w1, self1, r)" by (metis prod_cases3)
  from callback_step [OF this Cons.prems(2)] obtain d1 ms where
    1: "gp_data self1 = Some d1" "pd_highest_write_slot d \<le> pd_highest_write_slot d1"
      "account_sent w1 = account_sent w @ ms" "\<forall>m \<in> set ms. good_account self1 m" by blast
  show ?case
  proof (cases r)
    case (Inl p)
    with 1 step Cons.prems(1) show ?thesis by auto
  next
    case (Inr x)
    then have "run_callbacks pe cbs w1 self1 = (w', self', out)" using step Cons.prems(1) by simp
    from Cons.IH [OF this 1(1)] obtain d2 ms2 where
      2: "gp_data self' = Some d2" "pd_highest_write_slot d1 \<le> pd_highest_write_slot d2"
        "account_sent w' = account_sent w1 @ ms2" "\<forall>m \<in> set ms2. good_account self' m" by blast
    have "\<forall>m \<in> set ms. good_account self' m"
      using 1(1, 4) 2(1, 2) by (fastforce simp: good_account_def split: option.splits)
    with 1 2 show ?thesis by auto
  qed
qed

end

text \<open>What a callback does to the state, whatever the channels do.\<close>

lemma callback_state:
  assumes "run_callback pe cb w self = (w', self', r)" "gp_data self = Some d" "streaming d"
  shows "\<exists>d'. gp_data self' = Some d' \<and> streaming d' \<and>
    pd_highest_write_slot d' = fold max (account_slots cb) (pd_highest_write_slot d)"
  using assms
  by (cases cb)
    (auto simp: notify_end_of_startup_def update_account_cases unchanged_def update_slot_status_def
      notify_transaction_def notify_block_metadata_def notify_entry_def streaming_def max.commute
      split: sum.splits prod.splits if_splits)

lemma run_state:
  assumes "run_callbacks pe cbs w self = (w', self', None)" "gp_data self = Some d" "streaming d"
  shows "\<exists>d'. gp_data self' = Some d' \<and> streaming d' \<and>
    pd_highest_write_slot d' = fold max (concat (map account_slots cbs)) (pd_highest_write_slot d)"
  using assms
proof (induction cbs arbitrary: w self d)
  case (Cons cb cbs)
  obtain w1 self1 r where step: "run_callback pe cb w self = (w1, self1, r)" by (metis prod_cases3)
  from callback_state [OF this Cons.prems(2, 3)] obtain d1 where
    "gp_data self1 = Some d1" "streaming d1"
    "pd_highest_write_slot d1 = fold max (account_slots cb) (pd_highest_write_slot d)" by blast
  moreover obtain x where "r = Inr x" using step Cons.prems(1) by (cases r) auto
  ultimately show ?case using Cons.IH [of w1 self1 d1] Cons.prems(1) step by simp
qed simp

lemma callback_startup:
  assumes "run_callback pe cb w self = (w', self', r)" "gp_data self = Some d" "\<not> streaming d"
    and "cb \<noteq> CB_end_of_startup"
  shows "self' = self"
  using assms
  by (cases cb)
    (auto simp: update_account_cases unchanged_def update_slot_status_def
      notify_transaction_def notify_block_metadata_def notify_entry_def
      split: sum.splits prod.splits)

text \<open>The account callbacks of a startup that is skipped leave no trace; the others act as ever.\<close>

primrec is_account :: "'t callback \<Rightarrow> bool" where
  "is_account CB_end_of_startup \<longleftrightarrow> False"
| "is_account (CB_account a slot is_startup) \<longleftrightarrow> True"
| "is_account (CB_slot slot parent status) \<longleftrightarrow> False"
| "is_account (CB_transaction t slot) \<longleftrightarrow> False"
| "is_account (CB_block b) \<longleftrightarrow> False"
| "is_account (CB_entry e) \<longleftrightarrow> False"

lemma account_callback_skipped:
  assumes "is_account cb" "gp_data self = Some d" "\<not> streaming d"
  shows "run_callback pe cb w self = (w, self, Ok (Ok ()))"
  using assms by (cases cb) (simp_all add: update_account_cases)

lemma startup_accounts_filtered:
  assumes "gp_data self = Some d" "\<not> streaming d" "CB_end_of_startup \<notin> set cbs"
  shows "run_callbacks pe cbs w self = run_callbacks pe (filter (\<lambda>cb. \<not> is_account cb) cbs) w self"
  using assms(3)
proof (induction cbs arbitrary: w)
  case (Cons cb cbs)
  show ?case
  proof (cases "is_account cb")
    case True
    with Cons show ?thesis by (simp add: account_callback_skipped [OF True assms(1,2)])
  next
    case False
    obtain w1 self1 r where step: "run_callback pe cb w self = (w1, self1, r)" by (metis prod_cases3)
    from callback_startup [OF this assms(1,2)] Cons.prems have "self1 = self" by auto
    with False Cons step show ?thesis by (cases r) simp_all
  qed
qed simp

lemma callback_uninitialised:
  assumes "gp_data self = None"
  shows "\<exists>msg. run_callback pe cb w self = (w, self, Err (Panic msg))"
  using assms
  by (cases cb)
    (simp_all add: notify_end_of_startup_def update_account_def unchanged_def update_slot_status_def
      notify_transaction_def notify_block_metadata_def notify_entry_def)

context plugin_channels
begin

lemma startup_silent:
  assumes "run_callbacks pe cbs w self = (w', self', out)" "gp_data self = Some d" "\<not> streaming d"
    and "CB_end_of_startup \<notin> set cbs"
  shows "self' = self \<and> account_sent w' = account_sent w"
  using assms
proof (induction cbs arbitrary: w)
  case (Cons cb cbs)
  obtain w1 self1 r where step: "run_callback pe cb w self = (w1, self1, r)" by (metis prod_cases3)
  from callback_startup [OF this Cons.prems(2, 3)] Cons.prems(4) have self1: "self1 = self" by auto
  have "account_sent w1 = account_sent w"
    using step Cons.prems
    by (cases cb)
      (auto dest!: other_sends simp: update_account_cases unchanged_def update_slot_status_def
        notify_transaction_def notify_block_metadata_def notify_entry_def
        split: sum.splits prod.splits)
  with Cons.IH [of w1] Cons.prems step self1 show ?case by (cases r) auto
qed simp

end

end
