(* ===== verification/Plugin_Properties.thy ===== *)
theory Plugin_Properties
  imports Plugin_Spec
begin

section \<open>The properties of the plugin\<close>

text \<open>
  A reference environment meets the contract: the channel to the loop is a list with a
  capacity, time stands still, and a transaction is signed by its first signature.
\<close>

record ref_validator =
  rv_account :: "TimestampedAccountUpdate list"
  rv_capacity :: nat

definition ref_plugin_env :: "(ref_validator, VersionedTransaction) plugin_env" where
  "ref_plugin_env =
     \<lparr>pe_sdk = array_sdk,
      pe_now = (\<lambda>w. 0),
      pe_timestamp_from = (\<lambda>t. \<lparr>ts_seconds = word_of_int (t div 1000000000),
        ts_nanos = word_of_int (t mod 1000000000)\<rparr>),
      pe_signature_to_string = (\<lambda>s. concat (map u8_to_string (signature_bytes s))),
      pe_tx_signature = (\<lambda>t. hd (vt_signatures t)),
      pe_to_versioned_transaction = (\<lambda>t. t),
      pe_account_try_send = (\<lambda>w m.
        if length (rv_account w) < rv_capacity w then (w\<lparr>rv_account := rv_account w @ [m]\<rparr>, Ok ())
        else (w, Err Full)),
      pe_slot_try_send = (\<lambda>w m. (w, Ok ())),
      pe_slot_entry_try_send = (\<lambda>w m. (w, Ok ())),
      pe_block_try_send = (\<lambda>w m. (w, Ok ())),
      pe_transaction_try_send = (\<lambda>w m. (w, Ok ()))\<rparr>"

interpretation ref_plugin: plugin_channels ref_plugin_env rv_account
  by unfold_locales (auto simp: ref_plugin_env_def split: if_splits)

definition example_account :: "u8 \<Rightarrow> 't ReplicaAccountInfoVersions" where
  "example_account k = RAI_V0_0_1
     \<lparr>rai_pubkey = replicate 32 k, rai_lamports = 1, rai_owner = replicate 32 0,
      rai_executable = False, rai_rent_epoch = 0, rai_data = [], rai_write_version = 1\<rparr>"

definition example_plugin :: "bool \<Rightarrow> GeyserGrpcPlugin" where
  "example_plugin skip = \<lparr>gp_data = Some
     \<lparr>pd_highest_write_slot = 0, pd_is_startup_completed = False,
      pd_ignore_startup_updates = skip, pd_account_data_notifications_enabled = True\<rparr>\<rparr>"

definition example_validator :: ref_validator where
  "example_validator = \<lparr>rv_account = [], rv_capacity = 2\<rparr>"

lemmas example_plugin_simps = example_account_def example_plugin_def example_validator_def

text \<open>
  C13. Whatever callbacks the validator makes, in whatever order, every account message the
  plugin hands to the event loop carries an account with a key and an owner of 32 bytes, so it
  cannot make the loop panic, and its slot is at most the highest write slot the service
  announces by then.\<close>

theorem plugin_sends_good_accounts:
  assumes "plugin_channels pe account_sent"
    and "run_callbacks pe cbs w self = (w', self', out)" and "gp_data self \<noteq> None"
  shows "\<exists>ms. account_sent w' = account_sent w @ ms \<and>
    (\<forall>m \<in> set ms. \<not> event_panics (Account_update (Ok m)) \<and>
      (\<exists>u. tau_account_update m = Some u \<and> length (au_pubkey u) = 32 \<and> length (au_owner u) = 32 \<and>
        au_slot u \<le> highest self'))"
proof -
  obtain d where "gp_data self = Some d" using assms(3) by blast
  from plugin_channels.run_good [OF assms(1, 2) this] show ?thesis
    by (fastforce simp: good_account_def highest_def split: option.splits)
qed

theorem plugin_sends_good_accounts_witness:
  "\<exists>w' self' out ms. run_callbacks ref_plugin_env [CB_account (example_account 7) 5 False]
      example_validator (example_plugin False) = (w', self', out) \<and> rv_account w' = ms \<and> length ms = 1 \<and>
    (\<forall>m \<in> set ms. \<not> event_panics (Account_update (Ok m)))"
proof -
  obtain w' self' out where run: "run_callbacks ref_plugin_env [CB_account (example_account 7) 5 False]
      example_validator (example_plugin False) = (w', self', out)" by (metis prod_cases3)
  have "rv_account example_validator = []" "gp_data (example_plugin False) \<noteq> None"
    by (simp_all add: example_plugin_simps)
  with plugin_sends_good_accounts [OF ref_plugin.plugin_channels_axioms run]
  have "\<forall>m \<in> set (rv_account w'). \<not> event_panics (Account_update (Ok m))" by auto
  moreover have "length (rv_account w') = 1"
    using run by (auto simp: example_plugin_simps update_account_def account_update_message_def
        ref_plugin_env_def)
  ultimately show ?thesis using run by blast
qed

text \<open>
  C12. Once the plugin streams (startup is over, or its updates are not skipped), a run without
  a panic leaves as the highest write slot exactly the maximum of what it was and of the slots
  of the well-formed account updates, those lost to a full channel included.\<close>

theorem highest_write_slot_exact:
  assumes "run_callbacks pe cbs w self = (w', self', None)"
    and "gp_data self = Some d" and "streaming d"
  shows "highest self' = fold max (concat (map account_slots cbs)) (highest self)"
  using run_state [OF assms] assms(2) by (auto simp: highest_def)

theorem highest_write_slot_exact_witness:
  "highest (fst (snd (run_callbacks ref_plugin_env
      [CB_account (example_account 7) 5 False, CB_account (example_account 8) 9 False,
       CB_account (example_account 9) 6 False] example_validator (example_plugin False)))) = 9"
proof -
  let ?cbs = "[CB_account (example_account 7) 5 False, CB_account (example_account 8) 9 False,
       CB_account (example_account 9) 6 False]"
  obtain d where d: "gp_data (example_plugin False) = Some d" "streaming d"
    by (simp add: example_plugin_simps streaming_def)
  obtain w' self' where run: "run_callbacks ref_plugin_env ?cbs example_validator (example_plugin False)
      = (w', self', None)"
    by (simp add: example_plugin_simps update_account_cases streaming_def)
  from highest_write_slot_exact [OF run d] run show ?thesis
    by (simp add: example_plugin_simps highest_def)
qed

text \<open>
  C20. The account updates of a skipped startup leave no trace. With \<open>skip_startup_stream\<close> and
  until the validator says that startup is over, none of them reaches the loop or changes the
  plugin, the highest write slot included; slots, transactions, blocks and entries are not held
  back: the run is the one without the account callbacks.\<close>

theorem startup_updates_skipped:
  assumes "plugin_channels pe account_sent"
    and "run_callbacks pe cbs w self = (w', self', out)"
    and "gp_data self = Some d" and "pd_ignore_startup_updates d" and "\<not> pd_is_startup_completed d"
    and "CB_end_of_startup \<notin> set cbs"
  shows "self' = self \<and> account_sent w' = account_sent w \<and>
    run_callbacks pe (filter (\<lambda>cb. \<not> is_account cb) cbs) w self = (w', self', out)"
proof -
  have d: "\<not> streaming d" using assms(4,5) by (simp add: streaming_def)
  from plugin_channels.startup_silent [OF assms(1-3) d assms(6)]
    startup_accounts_filtered [OF assms(3) d assms(6), of pe w] assms(2)
  show ?thesis by simp
qed

theorem startup_updates_skipped_witness:
  "\<exists>w' out. run_callbacks ref_plugin_env
        [CB_account (example_account 7) 5 True, CB_slot 5 None SS_Processed, CB_account (example_account 8) 5 True]
      example_validator (example_plugin True) = (w', example_plugin True, out) \<and>
    run_callbacks ref_plugin_env [CB_slot 5 None SS_Processed]
      example_validator (example_plugin True) = (w', example_plugin True, out) \<and> rv_account w' = []"
proof -
  let ?cbs = "[CB_account (example_account 7) 5 True, CB_slot 5 None SS_Processed, CB_account (example_account 8) 5 True]"
  obtain w' self' out where run: "run_callbacks ref_plugin_env ?cbs
      example_validator (example_plugin True) = (w', self', out)" by (metis prod_cases3)
  obtain d where d: "gp_data (example_plugin True) = Some d" "pd_ignore_startup_updates d"
      "\<not> pd_is_startup_completed d"
    by (simp add: example_plugin_simps)
  from startup_updates_skipped [OF ref_plugin.plugin_channels_axioms run d] run show ?thesis
    by (simp add: example_validator_def)
qed

text \<open>
  Before the plugin is loaded, and after it is unloaded, every callback panics and touches
  nothing.\<close>

theorem uninitialised_callbacks_panic:
  assumes "gp_data self = None \<or> self = fst (snd (on_unload le w0 self0))"
  shows "\<exists>msg. run_callback pe cb w self = (w, self, Err (Panic msg))"
proof -
  have "gp_data (fst (snd (on_unload le w0 self0))) = None"
    by (auto simp: on_unload_def split: option.splits sum.splits prod.splits)
  with assms have "gp_data self = None" by auto
  then show ?thesis by (rule callback_uninitialised)
qed

theorem uninitialised_callbacks_panic_witness:
  "\<exists>msg. run_callback ref_plugin_env (CB_account (example_account 7) 5 False) example_validator
      \<lparr>gp_data = None\<rparr> = (example_validator, \<lparr>gp_data = None\<rparr>, Err (Panic msg))"
  by (rule uninitialised_callbacks_panic) simp

text \<open>
  C26. Loading succeeds or leaves the plugin as it was. A loaded plugin has seen no write yet and
  streams from the start exactly unless the configuration asks to skip the startup.\<close>

theorem on_load_outcome:
  "case on_load le path w self of
     (w', self', r) \<Rightarrow>
       if r = Ok (Ok ()) then
         (\<exists>d config. gp_data self' = Some d \<and> pd_highest_write_slot d = 0 \<and>
           (\<exists>buf. le_read_to_string le path = Ok buf \<and> le_config_from_str le buf = Ok config) \<and>
           (streaming d = (pc_skip_startup_stream config \<noteq> Some True)))
       else self' = self"
  by (auto simp: on_load_def initial_plugin_data_def streaming_def Let_def split: sum.splits option.splits prod.splits)

end
