(* ===== verification/Client_Types.thy ===== *)
theory Client_Types
  imports Geyser_Messages
begin

section \<open>The client's types (client/src/types.rs)\<close>

text \<open>
  What the consumer hands to the application, made from the proto messages. A key that is not
  32 bytes long and a status number that is none panic. The trait
  \<open>AccountUpdateNotification\<close> is a record of the four accessors; the locale states their laws.
\<close>

record ClientAccountUpdate =
  cau_pubkey :: pubkey
  cau_owner :: pubkey
  cau_data :: bytes
  cau_tx_signature :: "string option"
  cau_slot :: u64
  cau_lamports :: u64
  cau_rent_epoch :: u64
  cau_seq :: u64
  cau_replica_version :: u32
  cau_is_executable :: bool
  cau_is_startup :: bool

record ClientPartialAccountUpdate =
  cpau_pubkey :: pubkey
  cpau_tx_signature :: "string option"
  cpau_slot :: u64
  cpau_seq :: u64
  cpau_is_startup :: bool

datatype ClientSlotUpdateStatus =
    CS_Confirmed | CS_Processed | CS_Rooted | CS_FirstShredReceived | CS_Completed
  | CS_CreatedBank | CS_Dead

record ClientSlotUpdate =
  csu_parent_slot :: "u64 option"
  csu_slot :: u64
  csu_status :: ClientSlotUpdateStatus

record ClientSlotEntryUpdate =
  cseu_slot :: u64
  cseu_index :: u64

subsection \<open>Conversions\<close>

definition client_account_update_from :: "sdk \<Rightarrow> AccountUpdate \<Rightarrow> panic + ClientAccountUpdate" where
  "client_account_update_from S proto =
     and_then (unwrap_result [] (pubkey_try_from S (au_pubkey proto))) (\<lambda>pubkey.
     and_then (unwrap_result [] (pubkey_try_from S (au_owner proto))) (\<lambda>owner. Ok
       \<lparr>cau_pubkey = pubkey,
        cau_owner = owner,
        cau_data = au_data proto,
        cau_tx_signature = au_tx_signature proto,
        cau_slot = au_slot proto,
        cau_lamports = au_lamports proto,
        cau_rent_epoch = au_rent_epoch proto,
        cau_seq = au_seq proto,
        cau_replica_version = au_replica_version proto,
        cau_is_executable = au_is_executable proto,
        cau_is_startup = au_is_startup proto\<rparr>))"

definition client_partial_update_from ::
  "sdk \<Rightarrow> PartialAccountUpdate \<Rightarrow> panic + ClientPartialAccountUpdate" where
  "client_partial_update_from S proto =
     and_then (unwrap_result [] (pubkey_try_from S (pau_pubkey proto))) (\<lambda>pubkey. Ok
       \<lparr>cpau_pubkey = pubkey,
        cpau_tx_signature = pau_tx_signature proto,
        cpau_slot = pau_slot proto,
        cpau_seq = pau_seq proto,
        cpau_is_startup = pau_is_startup proto\<rparr>)"

primrec client_slot_status_from :: "SlotUpdateStatus \<Rightarrow> ClientSlotUpdateStatus" where
  "client_slot_status_from SUS_Confirmed = CS_Confirmed"
| "client_slot_status_from SUS_Processed = CS_Processed"
| "client_slot_status_from SUS_Rooted = CS_Rooted"
| "client_slot_status_from SUS_FirstShredReceived = CS_FirstShredReceived"
| "client_slot_status_from SUS_Completed = CS_Completed"
| "client_slot_status_from SUS_CreatedBank = CS_CreatedBank"
| "client_slot_status_from SUS_Dead = CS_Dead"

text \<open>The enum's numbers read back, as the proto file gives them.\<close>

definition slot_update_status_try_from :: "i32 \<Rightarrow> SlotUpdateStatus option" where
  "slot_update_status_try_from n =
     map_of (map (\<lambda>s. (slot_update_status_as_i32 s, s))
       [SUS_Confirmed, SUS_Processed, SUS_Rooted, SUS_FirstShredReceived, SUS_Completed,
        SUS_CreatedBank, SUS_Dead]) n"

definition client_slot_update_from :: "SlotUpdate \<Rightarrow> panic + ClientSlotUpdate" where
  "client_slot_update_from proto =
     and_then (unwrap [] (slot_update_status_try_from (su_status proto))) (\<lambda>status. Ok
       \<lparr>csu_parent_slot = su_parent_slot proto,
        csu_slot = su_slot proto,
        csu_status = client_slot_status_from status\<rparr>)"

definition client_slot_entry_update_from :: "SlotEntryUpdate \<Rightarrow> ClientSlotEntryUpdate" where
  "client_slot_entry_update_from proto =
     \<lparr>cseu_slot = seu_slot proto, cseu_index = seu_index proto\<rparr>"

lemma slot_update_status_read_back [simp]:
  "slot_update_status_try_from (slot_update_status_as_i32 s) = Some s"
  by (cases s) (simp_all add: slot_update_status_try_from_def)

lemma client_account_update_from_ok:
  assumes "solana_sdk S" "length (au_pubkey u) = 32" "length (au_owner u) = 32"
    and "client_account_update_from S u = Ok c"
  shows "pubkey_bytes (cau_pubkey c) = au_pubkey u \<and> pubkey_bytes (cau_owner c) = au_owner u \<and>
    cau_slot c = au_slot u \<and> cau_seq c = au_seq u"
  using assms(4) solana_sdk.pubkey_bytes_from [OF assms(1)]
  by (auto simp: client_account_update_from_def result_simps)

subsection \<open>The accessors\<close>

record 'a notification =
  n_pubkey :: "'a \<Rightarrow> pubkey"
  n_set_seq :: "u64 \<Rightarrow> 'a \<Rightarrow> 'a"
  n_seq :: "'a \<Rightarrow> u64"
  n_slot :: "'a \<Rightarrow> u64"

definition account_notification :: "ClientAccountUpdate notification" where
  "account_notification =
     \<lparr>n_pubkey = cau_pubkey, n_set_seq = (\<lambda>seq self. self\<lparr>cau_seq := seq\<rparr>), n_seq = cau_seq,
      n_slot = cau_slot\<rparr>"

definition partial_notification :: "ClientPartialAccountUpdate notification" where
  "partial_notification =
     \<lparr>n_pubkey = cpau_pubkey, n_set_seq = (\<lambda>seq self. self\<lparr>cpau_seq := seq\<rparr>), n_seq = cpau_seq,
      n_slot = cpau_slot\<rparr>"

locale account_update_notification =
  fixes N :: "'a notification"
  assumes seq_set_seq [simp]: "n_seq N (n_set_seq N s a) = s"
    and pubkey_set_seq [simp]: "n_pubkey N (n_set_seq N s a) = n_pubkey N a"
    and slot_set_seq [simp]: "n_slot N (n_set_seq N s a) = n_slot N a"
    and set_seq_twice [simp]: "n_set_seq N s (n_set_seq N r a) = n_set_seq N s a"
begin

text \<open>The account and slot an update is about; numbering an update does not change it.\<close>

definition key :: "'a \<Rightarrow> u64 \<times> pubkey" where
  "key a = (n_slot N a, n_pubkey N a)"

lemma key_set_seq [simp]: "key (n_set_seq N s a) = key a"
  by (simp add: key_def)

end

interpretation accounts: account_update_notification account_notification
  by unfold_locales (simp_all add: account_notification_def)

interpretation partials: account_update_notification partial_notification
  by unfold_locales (simp_all add: partial_notification_def)

lemma account_notification_simps [simp]:
  "n_pubkey account_notification u = cau_pubkey u"
  "n_set_seq account_notification n u = u\<lparr>cau_seq := n\<rparr>"
  "n_seq account_notification u = cau_seq u"
  "n_slot account_notification u = cau_slot u"
  by (simp_all add: account_notification_def)

definition account_key :: "ClientAccountUpdate \<Rightarrow> u64 \<times> pubkey" where
  "account_key u = (cau_slot u, cau_pubkey u)"

lemma accounts_key [simp]: "accounts.key = account_key"
  by (simp add: fun_eq_iff accounts.key_def account_key_def)

end
