(* ===== verification/Client_Consumer.thy ===== *)
theory Client_Consumer
  imports Client_Types Rust_Std
begin

section \<open>The consumer (client/src/geyser\_consumer.rs)\<close>

text \<open>
  The client's side of a subscription: account updates are checked for age and order and
  renumbered per slot and account; heartbeats are watched; anything wrong ends the loop with an
  error. The cache of write sequences is an \<open>LruCache\<close> of the \<open>lru\<close> crate, an argument: looking
  a slot up inserts a default and may push the least recently used slot out, and the reference
  it returns is written back.
\<close>

datatype GeyserConsumerError =
    ConsumerChannelDisconnected
  | GrpcError Status
  | MalformedResponse string
  | MissedHeartbeat
  | StaleAccountUpdate u64 u64
  | OutOfOrderSeqAccountUpdate u64 u64 u64 u64
  | StreamClosed

definition ACCOUNT_WRITE_SEQS_CACHE_SIZE :: nat where
  "ACCOUNT_WRITE_SEQS_CACHE_SIZE = 5000"

record AccountWriteSeq =
  aws_global_seq :: u64
  aws_slot_seq :: u64

type_synonym slot_seqs = "(pubkey, AccountWriteSeq) hashmap"

record 'c lru =
  lru_new :: "nat \<Rightarrow> 'c"
  lru_get_or_insert :: "'c \<Rightarrow> u64 \<Rightarrow> slot_seqs \<Rightarrow> 'c \<times> slot_seqs"
  lru_write :: "'c \<Rightarrow> u64 \<Rightarrow> slot_seqs \<Rightarrow> 'c"

text \<open>
  One update. The value returned with the cache is the update as left behind: it is renumbered
  only on success, while the entry of its account is made even when it is out of order.
\<close>

definition process_update ::
  "'c lru \<Rightarrow> 'a notification \<Rightarrow> 'a \<Rightarrow> 'c \<Rightarrow> u64 \<Rightarrow> u64 \<Rightarrow> u64 \<Rightarrow> 'c \<times> 'a \<times> (GeyserConsumerError + unit)" where
  "process_update L N update cache highest_rooted_slot max_rooted_slot_distance oldest_write_slot =
     (let update_slot = n_slot N update in
      if update_slot < oldest_write_slot then
        (cache, update, Err (StaleAccountUpdate update_slot highest_rooted_slot))
      else if update_slot < unwrap_or_default (checked_sub highest_rooted_slot max_rooted_slot_distance) then
        (cache, update, Err (StaleAccountUpdate update_slot highest_rooted_slot))
      else
        (case lru_get_or_insert L cache update_slot [] of
           (cache', update_seqs) \<Rightarrow>
             let account_write_seq =
                   (case map_of update_seqs (n_pubkey N update) of
                      Some s \<Rightarrow> s
                    | None \<Rightarrow> \<lparr>aws_global_seq = n_seq N update, aws_slot_seq = 0\<rparr>)
             in if n_seq N update < aws_global_seq account_write_seq then
                  (lru_write L cache' update_slot
                     (hm_insert (n_pubkey N update) account_write_seq update_seqs),
                   update,
                   Err (OutOfOrderSeqAccountUpdate update_slot highest_rooted_slot (n_seq N update)
                     (aws_global_seq account_write_seq)))
                else
                  (lru_write L cache' update_slot
                     (hm_insert (n_pubkey N update)
                        (account_write_seq\<lparr>aws_slot_seq := aws_slot_seq account_write_seq + 1\<rparr>) update_seqs),
                   n_set_seq N (aws_slot_seq account_write_seq) update,
                   Ok ())))"

definition process_account_update ::
  "sdk \<Rightarrow> 'c lru \<Rightarrow> Status + TimestampedAccountUpdate option \<Rightarrow> 'c \<Rightarrow> u64 \<Rightarrow> u64 \<Rightarrow> u64 \<Rightarrow>
    'c \<times> (panic + GeyserConsumerError + ClientAccountUpdate option)" where
  "process_account_update S L maybe_message cache highest_rooted_slot oldest_write_slot max_rooted_slot_distance =
     (case maybe_message of
        Inr (Some maybe_update) \<Rightarrow>
          (case and_then (unwrap [] (tau_account_update maybe_update)) (client_account_update_from S) of
             Inl p \<Rightarrow> (cache, Err p)
           | Inr update \<Rightarrow>
               (case process_update L account_notification update cache highest_rooted_slot
                       max_rooted_slot_distance oldest_write_slot of
                  (cache', update', Inl e) \<Rightarrow> (cache', Ok (Err e))
                | (cache', update', Inr _) \<Rightarrow> (cache', Ok (Ok (Some update')))))
      | Inr None \<Rightarrow> (cache, Ok (Err StreamClosed))
      | Inl e \<Rightarrow> (cache, Ok (Err (GrpcError e))))"

text \<open>An instant is an integer number of nanoseconds; \<open>now\<close> is the clock.\<close>

definition process_partial_account_update ::
  "sdk \<Rightarrow> 'c lru \<Rightarrow> int \<Rightarrow> Status + MaybePartialAccountUpdate option \<Rightarrow> 'c \<Rightarrow> u64 \<Rightarrow> int \<Rightarrow> u64 \<Rightarrow> u64 \<Rightarrow>
    'c \<times> int \<times> (panic + GeyserConsumerError + ClientPartialAccountUpdate option)" where
  "process_partial_account_update S L now maybe_message cache highest_rooted_slot last_heartbeat
       oldest_write_slot max_rooted_slot_distance =
     (case maybe_message of
        Inr (Some maybe_update) \<Rightarrow>
          (case mpau_msg maybe_update of
             Some (Msg_PartialAccountUpdate update) \<Rightarrow>
               (case client_partial_update_from S update of
                  Inl p \<Rightarrow> (cache, last_heartbeat, Err p)
                | Inr update \<Rightarrow>
                    (case process_update L partial_notification update cache highest_rooted_slot
                            max_rooted_slot_distance oldest_write_slot of
                       (cache', update', Inl e) \<Rightarrow> (cache', last_heartbeat, Ok (Err e))
                     | (cache', update', Inr _) \<Rightarrow> (cache', last_heartbeat, Ok (Ok (Some update')))))
           | Some Msg_Hb \<Rightarrow> (cache, now, Ok (Ok None))
           | None \<Rightarrow> (cache, last_heartbeat,
               Err (Panic ''internal error: entered unreachable code: msg must be Some'')))
      | Inr None \<Rightarrow> (cache, last_heartbeat, Ok (Err StreamClosed))
      | Inl e \<Rightarrow> (cache, last_heartbeat, Ok (Err (GrpcError e))))"

subsection \<open>The header\<close>

text \<open>\<open>to_str\<close> of a metadata value fails on bytes that are not visible ASCII: an argument.\<close>

definition CLIENT_HIGHEST_WRITE_SLOT_HEADER :: string where
  "CLIENT_HIGHEST_WRITE_SLOT_HEADER = ''highest-write-slot''"

definition extract_highest_write_slot_header ::
  "('v \<Rightarrow> string + string) \<Rightarrow> (string, 'v) hashmap \<Rightarrow> GeyserConsumerError + u64" where
  "extract_highest_write_slot_header to_str metadata =
     (case map_of metadata CLIENT_HIGHEST_WRITE_SLOT_HEADER of
        Some v \<Rightarrow>
          and_then (map_err (\<lambda>e. MalformedResponse
              (''error deserializing '' @ CLIENT_HIGHEST_WRITE_SLOT_HEADER @ '' header: '' @ e)) (to_str v))
            (\<lambda>s. map_err (\<lambda>e. MalformedResponse
              (''error parsing '' @ CLIENT_HIGHEST_WRITE_SLOT_HEADER @ '' header: '' @ show_parse_int_error e))
              (u64_from_str s))
      | None \<Rightarrow> Err (MalformedResponse (''missing '' @ CLIENT_HIGHEST_WRITE_SLOT_HEADER @ '' header'')))"

subsection \<open>The loops\<close>

text \<open>
  One turn of a loop: whether the exit signal is up when the condition is read, the rooted slot
  and the clock during the turn, and which branch of \<open>select!\<close> fires. A loop ends with a
  result or a panic, or is still running when the turns end. Sending to the application is an
  argument (\<open>UnboundedSender::send\<close>), as is making an interval timer, which panics on a period
  of zero.
\<close>

datatype 'm branch = Message "Status + 'm option" | Tick

record 'm turn =
  tn_exit :: bool
  tn_rooted_slot :: u64
  tn_now :: int
  tn_branch :: "'m branch"

datatype outcome = Finished "GeyserConsumerError + unit" | Aborted panic | Running

fun consume_account_loop ::
  "sdk \<Rightarrow> 'c lru \<Rightarrow> ('w \<Rightarrow> ClientAccountUpdate \<Rightarrow> 'w \<times> (unit + unit)) \<Rightarrow> u64 \<Rightarrow> u64 \<Rightarrow>
    TimestampedAccountUpdate turn list \<Rightarrow> 'c \<Rightarrow> u64 \<Rightarrow> 'w \<Rightarrow> 'w \<times> outcome" where
  "consume_account_loop S L send oldest dist [] cache latest w = (w, Running)"
| "consume_account_loop S L send oldest dist (t # ts) cache latest w =
     (if tn_exit t then (w, Finished (Ok ()))
      else
        (case tn_branch t of
           Message maybe_message \<Rightarrow>
             (case process_account_update S L maybe_message cache (tn_rooted_slot t) oldest dist of
                (cache', Inl p) \<Rightarrow> (w, Aborted p)
              | (cache', Inr (Inl e)) \<Rightarrow> (w, Finished (Err e))
              | (cache', Inr (Inr None)) \<Rightarrow> consume_account_loop S L send oldest dist ts cache' latest w
              | (cache', Inr (Inr (Some u))) \<Rightarrow>
                  (case send w u of
                     (w', Inl _) \<Rightarrow> (w', Finished (Err ConsumerChannelDisconnected))
                   | (w', Inr _) \<Rightarrow>
                       consume_account_loop S L send oldest dist ts cache' (max latest (cau_slot u)) w'))
         | Tick \<Rightarrow> consume_account_loop S L send oldest dist ts cache latest w))"

definition consume_account_updates ::
  "sdk \<Rightarrow> 'c lru \<Rightarrow> ('v \<Rightarrow> string + string) \<Rightarrow> (u64 \<Rightarrow> panic + unit) \<Rightarrow>
    ('w \<Rightarrow> ClientAccountUpdate \<Rightarrow> 'w \<times> (unit + unit)) \<Rightarrow> Status + (string, 'v) hashmap \<Rightarrow> u64 \<Rightarrow>
    TimestampedAccountUpdate turn list \<Rightarrow> 'w \<Rightarrow> 'w \<times> outcome" where
  "consume_account_updates S L to_str interval send resp max_rooted_slot_distance turns w =
     (case resp of
        Inl e \<Rightarrow> (w, Finished (Err (GrpcError e)))
      | Inr metadata \<Rightarrow>
          (case extract_highest_write_slot_header to_str metadata of
             Inl e \<Rightarrow> (w, Finished (Err e))
           | Inr oldest_write_slot \<Rightarrow>
               (case interval 1000 of
                  Inl p \<Rightarrow> (w, Aborted p)
                | Inr _ \<Rightarrow>
                    consume_account_loop S L send oldest_write_slot max_rooted_slot_distance turns
                      (lru_new L ACCOUNT_WRITE_SEQS_CACHE_SIZE) 0 w)))"

text \<open>\<open>duration_since\<close> is zero for an earlier instant.\<close>

definition heartbeat_expired :: "int \<Rightarrow> int \<Rightarrow> u64 \<Rightarrow> bool" where
  "heartbeat_expired now last_heartbeat heartbeat_expiration_ms \<longleftrightarrow>
     max 0 (now - last_heartbeat) > uint heartbeat_expiration_ms * 1000000"

fun consume_partial_loop ::
  "sdk \<Rightarrow> 'c lru \<Rightarrow> ('w \<Rightarrow> ClientPartialAccountUpdate \<Rightarrow> 'w \<times> (unit + unit)) \<Rightarrow> u64 \<Rightarrow> u64 \<Rightarrow> u64 \<Rightarrow>
    MaybePartialAccountUpdate turn list \<Rightarrow> 'c \<Rightarrow> int \<Rightarrow> u64 \<Rightarrow> 'w \<Rightarrow> 'w \<times> outcome" where
  "consume_partial_loop S L send expiration oldest dist [] cache last_heartbeat latest w = (w, Running)"
| "consume_partial_loop S L send expiration oldest dist (t # ts) cache last_heartbeat latest w =
     (if tn_exit t then (w, Finished (Ok ()))
      else
        (case tn_branch t of
           Tick \<Rightarrow>
             if heartbeat_expired (tn_now t) last_heartbeat expiration
             then (w, Finished (Err MissedHeartbeat))
             else consume_partial_loop S L send expiration oldest dist ts cache last_heartbeat latest w
         | Message maybe_message \<Rightarrow>
             (case process_partial_account_update S L (tn_now t) maybe_message cache (tn_rooted_slot t)
                     last_heartbeat oldest dist of
                (cache', hb', Inl p) \<Rightarrow> (w, Aborted p)
              | (cache', hb', Inr (Inl e)) \<Rightarrow> (w, Finished (Err e))
              | (cache', hb', Inr (Inr None)) \<Rightarrow>
                  consume_partial_loop S L send expiration oldest dist ts cache' hb' latest w
              | (cache', hb', Inr (Inr (Some u))) \<Rightarrow>
                  (case send w u of
                     (w', Inl _) \<Rightarrow> (w', Finished (Err ConsumerChannelDisconnected))
                   | (w', Inr _) \<Rightarrow>
                       consume_partial_loop S L send expiration oldest dist ts cache' hb'
                         (max latest (cpau_slot u)) w'))))"

text \<open>The product of interval and number of heartbeats is taken in \<open>u64\<close>, wrapping as in a release build.\<close>

definition consume_partial_account_updates ::
  "sdk \<Rightarrow> 'c lru \<Rightarrow> ('v \<Rightarrow> string + string) \<Rightarrow> (u64 \<Rightarrow> panic + unit) \<Rightarrow>
    ('w \<Rightarrow> ClientPartialAccountUpdate \<Rightarrow> 'w \<times> (unit + unit)) \<Rightarrow> Status + u64 \<Rightarrow>
    Status + (string, 'v) hashmap \<Rightarrow> int \<Rightarrow> u64 \<Rightarrow> u64 \<Rightarrow>
    MaybePartialAccountUpdate turn list \<Rightarrow> 'w \<Rightarrow> 'w \<times> outcome" where
  "consume_partial_account_updates S L to_str interval send heartbeat_resp resp now
       max_rooted_slot_distance max_allowable_missed_heartbeats turns w =
     (case heartbeat_resp of
        Inl e \<Rightarrow> (w, Finished (Err (GrpcError e)))
      | Inr expected_heartbeat_interval_ms \<Rightarrow>
     (case resp of
        Inl e \<Rightarrow> (w, Finished (Err (GrpcError e)))
      | Inr metadata \<Rightarrow>
     (case extract_highest_write_slot_header to_str metadata of
        Inl e \<Rightarrow> (w, Finished (Err e))
      | Inr oldest_write_slot \<Rightarrow>
     (case interval expected_heartbeat_interval_ms of
        Inl p \<Rightarrow> (w, Aborted p)
      | Inr _ \<Rightarrow>
          consume_partial_loop S L send
            (expected_heartbeat_interval_ms * max_allowable_missed_heartbeats)
            oldest_write_slot max_rooted_slot_distance turns
            (lru_new L ACCOUNT_WRITE_SEQS_CACHE_SIZE) now 0 w))))"

fun consume_slot_loop ::
  "('w \<Rightarrow> ClientSlotUpdate \<Rightarrow> 'w \<times> (unit + unit)) \<Rightarrow>
    (bool \<times> (Status + TimestampedSlotUpdate option)) list \<Rightarrow> 'w \<Rightarrow> 'w \<times> outcome" where
  "consume_slot_loop send [] w = (w, Running)"
| "consume_slot_loop send ((exit, message) # ts) w =
     (if exit then (w, Finished (Ok ()))
      else
        (case message of
           Inr (Some slot_update) \<Rightarrow>
             (case and_then (unwrap [] (tsu_slot_update slot_update)) client_slot_update_from of
                Inl p \<Rightarrow> (w, Aborted p)
              | Inr u \<Rightarrow>
                  (case send w u of
                     (w', Inl _) \<Rightarrow> (w', Finished (Err ConsumerChannelDisconnected))
                   | (w', Inr _) \<Rightarrow> consume_slot_loop send ts w'))
         | Inr None \<Rightarrow> (w, Finished (Err StreamClosed))
         | Inl e \<Rightarrow> (w, Finished (Err (GrpcError e)))))"

definition consume_slot_updates ::
  "('w \<Rightarrow> ClientSlotUpdate \<Rightarrow> 'w \<times> (unit + unit)) \<Rightarrow> Status + unit \<Rightarrow>
    (bool \<times> (Status + TimestampedSlotUpdate option)) list \<Rightarrow> 'w \<Rightarrow> 'w \<times> outcome" where
  "consume_slot_updates send resp turns w =
     (case resp of Inl e \<Rightarrow> (w, Finished (Err (GrpcError e))) | Inr _ \<Rightarrow> consume_slot_loop send turns w)"

fun consume_slot_entry_loop ::
  "('w \<Rightarrow> ClientSlotEntryUpdate \<Rightarrow> 'w \<times> (unit + unit)) \<Rightarrow>
    (bool \<times> (Status + TimestampedSlotEntryUpdate option)) list \<Rightarrow> 'w \<Rightarrow> 'w \<times> outcome" where
  "consume_slot_entry_loop send [] w = (w, Running)"
| "consume_slot_entry_loop send ((exit, message) # ts) w =
     (if exit then (w, Finished (Ok ()))
      else
        (case message of
           Inr (Some slot_update) \<Rightarrow>
             (case unwrap [] (tseu_entry_update slot_update) of
                Inl p \<Rightarrow> (w, Aborted p)
              | Inr entry \<Rightarrow>
                  (case send w (client_slot_entry_update_from entry) of
                     (w', Inl _) \<Rightarrow> (w', Finished (Err ConsumerChannelDisconnected))
                   | (w', Inr _) \<Rightarrow> consume_slot_entry_loop send ts w'))
         | Inr None \<Rightarrow> (w, Finished (Err StreamClosed))
         | Inl e \<Rightarrow> (w, Finished (Err (GrpcError e)))))"

definition consume_slot_entry_updates ::
  "('w \<Rightarrow> ClientSlotEntryUpdate \<Rightarrow> 'w \<times> (unit + unit)) \<Rightarrow> Status + unit \<Rightarrow>
    (bool \<times> (Status + TimestampedSlotEntryUpdate option)) list \<Rightarrow> 'w \<Rightarrow> 'w \<times> outcome" where
  "consume_slot_entry_updates send resp turns w =
     (case resp of Inl e \<Rightarrow> (w, Finished (Err (GrpcError e))) | Inr _ \<Rightarrow> consume_slot_entry_loop send turns w)"

end
