(* ===== verification/Client_Spec.thy ===== *)
theory Client_Spec
  imports Client_Consumer
begin

section \<open>What the consumer promises\<close>

text \<open>
  The cache's contract and a reference cache; the abstract counter that numbers the updates of
  each account within each slot, and the refinement: as long as no slot has been pushed out of
  the cache, the updates that \<open>process_update\<close> lets through carry the counter's numbers.
\<close>

locale lru_cache =
  fixes L :: "'c lru"
    and peek :: "'c \<Rightarrow> u64 \<Rightarrow> slot_seqs option"
    and cap :: "'c \<Rightarrow> nat"
  assumes new_empty: "peek (lru_new L n) = Map.empty"
    and new_cap: "cap (lru_new L n) = n"
    and get_value: "lru_get_or_insert L c k d = (c', v) \<Longrightarrow> v = (case peek c k of None \<Rightarrow> d | Some v \<Rightarrow> v)"
    and get_kept: "lru_get_or_insert L c k d = (c', v) \<Longrightarrow> peek c' k = Some v"
    and get_others: "lru_get_or_insert L c k d = (c', v) \<Longrightarrow> k' \<noteq> k \<Longrightarrow> peek c' k' \<in> {peek c k', None}"
    and get_room: "lru_get_or_insert L c k d = (c', v) \<Longrightarrow>
      peek c k \<noteq> None \<or> card (dom (peek c)) < cap c \<Longrightarrow> peek c' = (peek c)(k \<mapsto> v)"
    and get_cap: "lru_get_or_insert L c k d = (c', v) \<Longrightarrow> cap c' = cap c"
    and write_value: "peek c k \<noteq> None \<Longrightarrow> peek (lru_write L c k v) = (peek c)(k \<mapsto> v)"
    and write_cap: "cap (lru_write L c k v) = cap c"

subsection \<open>A reference cache\<close>

record list_lru =
  ll_cap :: nat
  ll_entries :: "(u64 \<times> slot_seqs) list"

definition list_get_or_insert :: "list_lru \<Rightarrow> u64 \<Rightarrow> slot_seqs \<Rightarrow> list_lru \<times> slot_seqs" where
  "list_get_or_insert c k d =
     (let es = ll_entries c in
      case map_of es k of
        Some v \<Rightarrow> (c\<lparr>ll_entries := (k, v) # AList.delete k es\<rparr>, v)
      | None \<Rightarrow>
          let es' = (if length (remdups (map fst es)) < ll_cap c \<or> es = [] then es
                     else AList.delete (fst (last es)) es)
          in (c\<lparr>ll_entries := (k, d) # es'\<rparr>, d))"

definition list_lru_ops :: "list_lru lru" where
  "list_lru_ops =
     \<lparr>lru_new = (\<lambda>n. \<lparr>ll_cap = n, ll_entries = []\<rparr>),
      lru_get_or_insert = list_get_or_insert,
      lru_write = (\<lambda>c k v. c\<lparr>ll_entries := AList.update k v (ll_entries c)\<rparr>)\<rparr>"

lemma card_dom_map_of: "card (dom (map_of es)) = length (remdups (map fst es))"
  by (simp add: dom_map_of_conv_image_fst length_remdups_card_conv)

interpretation list_lru: lru_cache list_lru_ops "\<lambda>c. map_of (ll_entries c)" ll_cap
  by unfold_locales
    (auto simp: list_lru_ops_def list_get_or_insert_def Let_def card_dom_map_of update_conv'
      AList.delete_conv' fun_eq_iff split: option.splits if_splits)

subsection \<open>One update\<close>

definition stale :: "u64 \<Rightarrow> u64 \<Rightarrow> u64 \<Rightarrow> u64 \<Rightarrow> bool" where
  "stale slot rooted dist oldest \<longleftrightarrow> slot < oldest \<or> unat slot < unat rooted - unat dist"

lemma stale_checks:
  "slot < oldest \<or> slot < unwrap_or_default (checked_sub rooted dist) \<longleftrightarrow> stale slot rooted dist oldest"
  by (simp add: stale_def word_less_nat_alt unat_saturating)

locale update_processor = lru_cache L peek cap + account_update_notification N
  for L :: "'c lru" and peek cap and N :: "'a notification"
begin

definition entry :: "'c \<Rightarrow> u64 \<times> pubkey \<Rightarrow> AccountWriteSeq option" where
  "entry c k = (case peek c (fst k) of None \<Rightarrow> None | Some m \<Rightarrow> map_of m (snd k))"

definition current :: "'c \<Rightarrow> 'a \<Rightarrow> AccountWriteSeq" where
  "current c u = (case entry c (key u) of
      Some s \<Rightarrow> s
    | None \<Rightarrow> \<lparr>aws_global_seq = n_seq N u, aws_slot_seq = 0\<rparr>)"

text \<open>The cache has room for one more slot, or knows it already.\<close>

definition room :: "'c \<Rightarrow> u64 \<Rightarrow> bool" where
  "room c slot \<longleftrightarrow> peek c slot \<noteq> None \<or> card (dom (peek c)) < cap c"

lemma get_current:
  assumes "lru_get_or_insert L c (n_slot N u) [] = (c', m)"
  shows "(case map_of m (n_pubkey N u) of
      Some s \<Rightarrow> s
    | None \<Rightarrow> \<lparr>aws_global_seq = n_seq N u, aws_slot_seq = 0\<rparr>) = current c u"
  using get_value [OF assms] by (simp add: current_def entry_def key_def split: option.splits)

lemma write_entry:
  assumes "lru_get_or_insert L c (n_slot N u) [] = (c', m)" "room c (n_slot N u)"
    and "c'' = lru_write L c' (n_slot N u) (hm_insert (n_pubkey N u) s m)"
  shows "entry c'' = (entry c)(key u \<mapsto> s)" "dom (peek c'') = insert (n_slot N u) (dom (peek c))"
    "cap c'' = cap c"
proof -
  have c': "peek c' = (peek c)(n_slot N u \<mapsto> m)"
    using get_room [OF assms(1)] assms(2) by (simp add: room_def)
  then have c'': "peek c'' = (peek c)(n_slot N u \<mapsto> hm_insert (n_pubkey N u) s m)"
    using write_value [of c' "n_slot N u"] assms(3) by simp
  have m: "m = (case peek c (n_slot N u) of None \<Rightarrow> [] | Some v \<Rightarrow> v)" by (rule get_value [OF assms(1)])
  show "entry c'' = (entry c)(key u \<mapsto> s)"
    by (rule ext) (auto simp: entry_def c'' key_def m split: option.splits)
  show "dom (peek c'') = insert (n_slot N u) (dom (peek c))" by (simp add: c'')
  show "cap c'' = cap c" using assms(3) get_cap [OF assms(1)] by (simp add: write_cap)
qed

text \<open>Every case of \<open>process_update\<close>, on the entries.\<close>

lemma process_update_stale:
  "stale (n_slot N u) rooted dist oldest \<Longrightarrow>
     process_update L N u c rooted dist oldest = (c, u, Err (StaleAccountUpdate (n_slot N u) rooted))"
  unfolding stale_checks [symmetric] by (auto simp: process_update_def Let_def)

lemma process_update_fresh:
  assumes "\<not> stale (n_slot N u) rooted dist oldest"
  shows "snd (process_update L N u c rooted dist oldest) =
    (if n_seq N u < aws_global_seq (current c u)
     then (u, Err (OutOfOrderSeqAccountUpdate (n_slot N u) rooted (n_seq N u) (aws_global_seq (current c u))))
     else (n_set_seq N (aws_slot_seq (current c u)) u, Ok ()))"
proof -
  obtain c' m where get: "lru_get_or_insert L c (n_slot N u) [] = (c', m)" by fastforce
  show ?thesis
    using assms unfolding stale_checks [symmetric]
    by (simp add: process_update_def get get_current [OF get] Let_def)
qed

lemma process_update_cache:
  assumes "\<not> stale (n_slot N u) rooted dist oldest" "room c (n_slot N u)"
    and "aws_global_seq (current c u) \<le> n_seq N u"
    and "c'' = fst (process_update L N u c rooted dist oldest)"
  shows "entry c'' = (entry c)(key u \<mapsto> (current c u)\<lparr>aws_slot_seq := aws_slot_seq (current c u) + 1\<rparr>)"
    "dom (peek c'') = insert (n_slot N u) (dom (peek c))" "cap c'' = cap c"
proof -
  obtain c' m where get: "lru_get_or_insert L c (n_slot N u) [] = (c', m)" by fastforce
  have c'': "c'' = lru_write L c' (n_slot N u) (hm_insert (n_pubkey N u)
      ((current c u)\<lparr>aws_slot_seq := aws_slot_seq (current c u) + 1\<rparr>) m)"
  proof -
    have "(n_slot N u < oldest) = False"
      "(n_slot N u < unwrap_or_default (checked_sub rooted dist)) = False"
      "(n_seq N u < aws_global_seq (current c u)) = False"
      using assms(1, 3) unfolding stale_checks [symmetric] by auto
    then show ?thesis
      by (simp add: assms(4) process_update_def get get_current [OF get] Let_def)
  qed
  from write_entry [OF get assms(2) c'']
  show "entry c'' = (entry c)(key u \<mapsto> (current c u)\<lparr>aws_slot_seq := aws_slot_seq (current c u) + 1\<rparr>)"
    "dom (peek c'') = insert (n_slot N u) (dom (peek c))" "cap c'' = cap c" by simp_all
qed

end

subsection \<open>Many updates\<close>

text \<open>
  The loop's use of it: updates with the rooted slot of their turn, until the first error. The
  results are the updates let through.
\<close>

fun process_updates ::
  "'c lru \<Rightarrow> 'a notification \<Rightarrow> u64 \<Rightarrow> u64 \<Rightarrow> (u64 \<times> 'a) list \<Rightarrow> 'c \<Rightarrow> 'c \<times> 'a list \<times> GeyserConsumerError option" where
  "process_updates L N dist oldest [] c = (c, [], None)"
| "process_updates L N dist oldest ((rooted, u) # us) c =
     (case process_update L N u c rooted dist oldest of
        (c', u', Inl e) \<Rightarrow> (c', [], Some e)
      | (c', u', Inr _) \<Rightarrow>
          (case process_updates L N dist oldest us c' of (c'', outs, err) \<Rightarrow> (c'', u' # outs, err)))"

text \<open>
  The abstract machine: what is known of each account in each slot is the sequence number of
  the first update and how many there have been.
\<close>

context account_update_notification
begin

fun accepted :: "u64 \<Rightarrow> u64 \<Rightarrow> (u64 \<times> pubkey \<Rightarrow> (u64 \<times> u64) option) \<Rightarrow> (u64 \<times> 'a) list \<Rightarrow> bool" where
  "accepted dist oldest g [] = True"
| "accepted dist oldest g ((rooted, u) # us) =
     (case (case g (key u) of None \<Rightarrow> (n_seq N u, 0) | Some s \<Rightarrow> s) of
        (first, n) \<Rightarrow>
          \<not> stale (n_slot N u) rooted dist oldest \<and> first \<le> n_seq N u \<and>
          accepted dist oldest (g(key u \<mapsto> (first, n + 1))) us)"

text \<open>In closed form: nothing stale, and nothing numbered below the first update of its account and slot.\<close>

definition not_below_first :: "(u64 \<times> pubkey \<Rightarrow> (u64 \<times> u64) option) \<Rightarrow> 'a list \<Rightarrow> 'a \<Rightarrow> bool" where
  "not_below_first g us u \<longleftrightarrow>
     (case g (key u) of
        Some (first, n) \<Rightarrow> first \<le> n_seq N u
      | None \<Rightarrow> n_seq N (hd (filter (\<lambda>v. key v = key u) us)) \<le> n_seq N u)"

lemma accepted_iff:
  "accepted dist oldest g us \<longleftrightarrow>
     (\<forall>(rooted, u) \<in> set us. \<not> stale (n_slot N u) rooted dist oldest \<and> not_below_first g (map snd us) u)"
proof (induction us arbitrary: g)
  case (Cons ru us)
  obtain rooted u where ru: "ru = (rooted, u)" by (cases ru)
  obtain first n where fn: "(case g (key u) of None \<Rightarrow> (n_seq N u, 0) | Some s \<Rightarrow> s) = (first, n)"
    by fastforce
  let ?g = "g(key u \<mapsto> (first, n + 1))"
  have head: "not_below_first ?g (map snd us) u \<longleftrightarrow> first \<le> n_seq N u"
    by (simp add: not_below_first_def)
  have tail: "not_below_first g (u # map snd us) v \<longleftrightarrow> not_below_first ?g (map snd us) v" for v
    using fn by (auto simp: not_below_first_def split: option.splits)
  show ?case by (simp add: ru fn Cons.IH tail head del: fun_upd_apply)
qed simp

fun numbered :: "(u64 \<times> pubkey \<Rightarrow> u64) \<Rightarrow> 'a list \<Rightarrow> 'a list" where
  "numbered f [] = []"
| "numbered f (u # us) = n_set_seq N (f (key u)) u # numbered (f(key u := f (key u) + 1)) us"

lemma length_numbered [simp]: "length (numbered f us) = length us"
  by (induction us arbitrary: f) simp_all

lemma numbered_nth:
  "i < length us \<Longrightarrow> numbered f us ! i =
     n_set_seq N (f (key (us ! i)) + of_nat (count_list (map key (take i us)) (key (us ! i)))) (us ! i)"
proof (induction us arbitrary: f i)
  case (Cons u us)
  then show ?case by (cases i) (auto simp: algebra_simps)
qed simp

end

context update_processor
begin

definition seqs :: "'c \<Rightarrow> u64 \<times> pubkey \<Rightarrow> (u64 \<times> u64) option" where
  "seqs c k = map_option (\<lambda>s. (aws_global_seq s, aws_slot_seq s)) (entry c k)"

definition next_number :: "'c \<Rightarrow> u64 \<times> pubkey \<Rightarrow> u64" where
  "next_number c k = (case entry c k of None \<Rightarrow> 0 | Some s \<Rightarrow> aws_slot_seq s)"

lemma current_seqs:
  "(case seqs c (key u) of None \<Rightarrow> (n_seq N u, 0) | Some s \<Rightarrow> s) =
     (aws_global_seq (current c u), aws_slot_seq (current c u))"
  by (simp add: seqs_def current_def split: option.splits)

lemma current_number: "next_number c (key u) = aws_slot_seq (current c u)"
  by (simp add: next_number_def current_def split: option.splits)

lemma room_of_card:
  assumes "finite (dom (peek c))" "finite slots" "slot \<in> slots" "card (dom (peek c) \<union> slots) \<le> cap c"
  shows "room c slot"
proof (cases "slot \<in> dom (peek c)")
  case False
  then have "dom (peek c) \<subset> dom (peek c) \<union> slots" using assms(3) by auto
  then have "card (dom (peek c)) < card (dom (peek c) \<union> slots)"
    using assms(1, 2) by (intro psubset_card_mono) simp_all
  with assms(4) show ?thesis by (simp add: room_def)
qed (auto simp: room_def)

text \<open>The refinement.\<close>

lemma process_updates_refines:
  assumes "finite (dom (peek c))" "card (dom (peek c) \<union> (n_slot N \<circ> snd) ` set us) \<le> cap c"
  shows "snd (snd (process_updates L N dist oldest us c)) = None \<longleftrightarrow> accepted dist oldest (seqs c) us"
    and "snd (snd (process_updates L N dist oldest us c)) = None \<Longrightarrow>
      fst (snd (process_updates L N dist oldest us c)) = numbered (next_number c) (map snd us)"
proof -
  have "(snd (snd (process_updates L N dist oldest us c)) = None \<longleftrightarrow> accepted dist oldest (seqs c) us) \<and>
    (snd (snd (process_updates L N dist oldest us c)) = None \<longrightarrow>
      fst (snd (process_updates L N dist oldest us c)) = numbered (next_number c) (map snd us))"
    using assms
  proof (induction us arbitrary: c)
    case (Cons ru us)
    obtain rooted u where ru: "ru = (rooted, u)" by (cases ru)
    obtain c1 u1 r where step: "process_update L N u c rooted dist oldest = (c1, u1, r)" by (metis prod_cases3)
    consider (stale) "stale (n_slot N u) rooted dist oldest"
      | (low) "\<not> stale (n_slot N u) rooted dist oldest" "n_seq N u < aws_global_seq (current c u)"
      | (ok) "\<not> stale (n_slot N u) rooted dist oldest" "aws_global_seq (current c u) \<le> n_seq N u"
      by fastforce
    then show ?case
    proof cases
      case stale
      then show ?thesis by (simp add: ru process_update_stale split: prod.splits)
    next
      case low
      then have "r = Err (OutOfOrderSeqAccountUpdate (n_slot N u) rooted (n_seq N u) (aws_global_seq (current c u)))"
        using process_update_fresh [OF low(1), of c] step by simp
      then show ?thesis using low by (auto simp: ru step current_seqs)
    next
      case ok
      then have r: "r = Ok ()" "u1 = n_set_seq N (aws_slot_seq (current c u)) u"
        using process_update_fresh [OF ok(1), of c] step by (auto dest: leD split: if_splits)
      have room: "room c (n_slot N u)"
        using Cons.prems by (intro room_of_card [where slots = "(n_slot N \<circ> snd) ` set (ru # us)"]) (simp_all add: ru)
      have c1: "c1 = fst (process_update L N u c rooted dist oldest)" by (simp add: step)
      note cache = process_update_cache [OF ok(1) room ok(2) c1]
      have "dom (peek c1) \<union> (n_slot N \<circ> snd) ` set us = dom (peek c) \<union> (n_slot N \<circ> snd) ` set (ru # us)"
        by (auto simp: cache(2) ru)
      then have IH: "(snd (snd (process_updates L N dist oldest us c1)) = None \<longleftrightarrow> accepted dist oldest (seqs c1) us) \<and>
        (snd (snd (process_updates L N dist oldest us c1)) = None \<longrightarrow>
          fst (snd (process_updates L N dist oldest us c1)) = numbered (next_number c1) (map snd us))"
        using Cons.prems cache(2, 3) by (intro Cons.IH) (simp_all add: ru)
      have "seqs c1 = (seqs c)(key u \<mapsto> (aws_global_seq (current c u), aws_slot_seq (current c u) + 1))"
        "next_number c1 = (next_number c)(key u := aws_slot_seq (current c u) + 1)"
        by (auto simp: fun_eq_iff seqs_def next_number_def cache(1))
      with IH ok show ?thesis
        by (auto simp: ru step r current_seqs current_number split: prod.splits)
    qed
  qed simp
  then show "snd (snd (process_updates L N dist oldest us c)) = None \<longleftrightarrow> accepted dist oldest (seqs c) us"
    and "snd (snd (process_updates L N dist oldest us c)) = None \<Longrightarrow>
      fst (snd (process_updates L N dist oldest us c)) = numbered (next_number c) (map snd us)" by blast+
qed

end

interpretation account_processor: update_processor list_lru_ops "\<lambda>c. map_of (ll_entries c)" ll_cap account_notification
  by unfold_locales

interpretation partial_processor: update_processor list_lru_ops "\<lambda>c. map_of (ll_entries c)" ll_cap partial_notification
  by unfold_locales

subsection \<open>The loop of account updates\<close>

text \<open>
  The turns that bring something decodable, and an application that takes what it is sent.
\<close>

definition decoded :: "sdk \<Rightarrow> TimestampedAccountUpdate turn \<Rightarrow> (u64 \<times> ClientAccountUpdate) option" where
  "decoded S t =
     (case tn_branch t of
        Message (Inr (Some m)) \<Rightarrow>
          (case and_then (unwrap [] (tau_account_update m)) (client_account_update_from S) of
             Inl p \<Rightarrow> None
           | Inr u \<Rightarrow> Some (tn_rooted_slot t, u))
      | _ \<Rightarrow> None)"

definition regular :: "sdk \<Rightarrow> TimestampedAccountUpdate turn \<Rightarrow> bool" where
  "regular S t \<longleftrightarrow> \<not> tn_exit t \<and> (tn_branch t = Tick \<or> decoded S t \<noteq> None)"

locale application =
  fixes send :: "'w \<Rightarrow> ClientAccountUpdate \<Rightarrow> 'w \<times> (unit + unit)"
    and delivered :: "'w \<Rightarrow> ClientAccountUpdate list"
  assumes send_delivers: "send w u = (w', r) \<Longrightarrow> delivered w' = delivered w @ [u] \<and> r = Ok ()"
begin

lemma consume_account_loop_refines:
  assumes "\<forall>t \<in> set ts. regular S t"
    and "process_updates L account_notification dist oldest (List.map_filter (decoded S) ts) c = (c', outs, err)"
  shows "\<exists>w'. consume_account_loop S L send oldest dist ts c latest w =
      (w', case err of None \<Rightarrow> Running | Some e \<Rightarrow> Finished (Err e)) \<and>
    delivered w' = delivered w @ outs"
  using assms
proof (induction ts arbitrary: c c' outs err latest w)
  case Nil
  then show ?case by (auto simp: map_filter_simps)
next
  case (Cons t ts)
  show ?case
  proof (cases "decoded S t")
    case None
    then have "tn_branch t = Tick" "\<not> tn_exit t" using Cons.prems(1) by (auto simp: regular_def)
    with None Cons.IH [of c c' outs err latest w] Cons.prems show ?thesis by (simp add: map_filter_simps)
  next
    case (Some ru)
    then obtain m u where t: "tn_branch t = Message (Ok (Some m))" "\<not> tn_exit t"
      and u: "and_then (unwrap [] (tau_account_update m)) (client_account_update_from S) = Ok u"
      and ru: "ru = (tn_rooted_slot t, u)"
      using Cons.prems(1)
      by (auto simp: regular_def decoded_def split: branch.splits sum.splits option.splits)
    obtain c1 u1 r where step: "process_update L account_notification u c (tn_rooted_slot t) dist oldest = (c1, u1, r)"
      by (metis prod_cases3)
    show ?thesis
    proof (cases r)
      case (Inl e)
      then show ?thesis
        using Cons.prems(2) by (auto simp: Some ru step map_filter_simps t process_account_update_def u)
    next
      case (Inr x)
      obtain c2 outs2 err2 where rest:
        "process_updates L account_notification dist oldest (List.map_filter (decoded S) ts) c1 = (c2, outs2, err2)"
        by (metis prod_cases3)
      then have outs: "outs = u1 # outs2" "err = err2"
        using Cons.prems(2) Inr by (simp_all add: Some ru step map_filter_simps)
      obtain w1 q where sent: "send w u1 = (w1, q)" by fastforce
      from send_delivers [OF this] have w1: "delivered w1 = delivered w @ [u1]" "q = Ok ()" by simp_all
      from Cons.IH [OF _ rest, of "max latest (cau_slot u1)" w1] Cons.prems(1) w1 sent outs show ?thesis
        by (auto simp: t process_account_update_def u step Inr)
    qed
  qed
qed

end

text \<open>An application that keeps what it is sent.\<close>

definition list_send ::
  "ClientAccountUpdate list \<Rightarrow> ClientAccountUpdate \<Rightarrow> ClientAccountUpdate list \<times> (unit + unit)" where
  "list_send w u = (w @ [u], Ok ())"

interpretation list_application: application list_send "\<lambda>w. w"
  by unfold_locales (auto simp: list_send_def)

end
