(* ===== verification/Service_Spec.thy ===== *)
theory Service_Spec
  imports Service
begin

section \<open>What the service promises\<close>

text \<open>
  The seven methods follow one scheme; the lemmas reduce each to it and describe the scheme
  completely: when it panics, which requests it refuses and with which status, and what an
  accepted request leaves with the event loop and with the runtime. A reference runtime meets
  the contracts.
\<close>

datatype request =
    Req_accounts "bytes list"
  | Req_programs "bytes list"
  | Req_partial bool
  | Req_slots
  | Req_slot_entries
  | Req_transactions
  | Req_blocks

primrec call :: "('w, 's, 'o, 'z) service_env_scheme \<Rightarrow> GeyserService \<Rightarrow> request \<Rightarrow> 'w \<Rightarrow> ('w, 's, 'o) rpc" where
  "call env self (Req_accounts ks) = subscribe_account_updates env self ks"
| "call env self (Req_programs ks) = subscribe_program_updates env self ks"
| "call env self (Req_partial b) = subscribe_partial_account_updates env self b"
| "call env self Req_slots = subscribe_slot_updates env self"
| "call env self Req_slot_entries = subscribe_slot_entry_updates env self"
| "call env self Req_transactions = subscribe_transaction_updates env self"
| "call env self Req_blocks = subscribe_block_updates env self"

primrec topic_of :: "request \<Rightarrow> topic" where
  "topic_of (Req_accounts ks) = On_account (set ks)"
| "topic_of (Req_programs ks) = On_program (set ks)"
| "topic_of (Req_partial b) = On_partial b"
| "topic_of Req_slots = On_slot"
| "topic_of Req_slot_entries = On_slot_entry"
| "topic_of Req_transactions = On_transaction"
| "topic_of Req_blocks = On_block"

fun valid_request :: "request \<Rightarrow> bool" where
  "valid_request (Req_accounts ks) = (\<forall>k \<in> set ks. length k = 32)"
| "valid_request (Req_programs ks) = (\<forall>k \<in> set ks. length k = 32)"
| "valid_request _ = True"

primrec added_event :: "topic \<Rightarrow> uuid \<Rightarrow> 's \<Rightarrow> 's SubscriptionAddedEvent" where
  "added_event (On_account a) u s = Added_AccountUpdateSubscription u s a"
| "added_event (On_program a) u s = Added_ProgramUpdateSubscription u s a"
| "added_event (On_partial b) u s = Added_PartialAccountUpdateSubscription u s b"
| "added_event On_slot u s = Added_SlotUpdateSubscription u s"
| "added_event On_slot_entry u s = Added_SlotEntryUpdateSubscription u s"
| "added_event On_transaction u s = Added_TransactionUpdateSubscription u s"
| "added_event On_block u s = Added_BlockUpdateSubscription u s"

primrec closed_event :: "topic \<Rightarrow> uuid \<Rightarrow> SubscriptionClosedEvent" where
  "closed_event (On_account a) u = Closed_AccountUpdateSubscription u"
| "closed_event (On_program a) u = Closed_ProgramUpdateSubscription u"
| "closed_event (On_partial b) u = Closed_PartialAccountUpdateSubscription u"
| "closed_event On_slot u = Closed_SlotUpdateSubscription u"
| "closed_event On_slot_entry u = Closed_SlotEntryUpdateSubscription u"
| "closed_event On_transaction u = Closed_TransactionUpdateSubscription u"
| "closed_event On_block u = Closed_BlockUpdateSubscription u"

lemma subscriber_of_added_event [simp]: "subscriber_of (added_event t u s) = (u, t, s)"
  by (cases t) simp_all

lemma closes_closed_event [simp]: "closes (closed_event t u) v t \<longleftrightarrow> u = v"
  by (cases t) simp_all

text \<open>The common scheme.\<close>

definition open_subscription ::
  "('w, 's, 'o, 'z) service_env_scheme \<Rightarrow> GeyserService \<Rightarrow> bool \<Rightarrow> topic \<Rightarrow> string \<Rightarrow> 'w \<Rightarrow> ('w, 's, 'o) rpc" where
  "open_subscription env self valid t name w =
     (case mpsc_channel env w (unat (gsc_subscriber_buffer_size (gs_service_config self))) of
        Inl p \<Rightarrow> (w, Err p)
      | Inr (w1, s) \<Rightarrow>
          if \<not> valid then (w1, Ok (Err invalid_pubkey))
          else
            (case uuid_new_v4 env w1 of
               (w2, u) \<Rightarrow>
                 (case added_try_send env w2 (added_event t u s) of
                    (w3, Inl _) \<Rightarrow> (w3, Ok (Err internal_error))
                  | (w3, Inr _) \<Rightarrow> stream_response env self s u (closed_event t u) name w3)))"

primrec name_of :: "request \<Rightarrow> string" where
  "name_of (Req_accounts ks) = ''subscribe_account_updates''"
| "name_of (Req_programs ks) = ''subscribe_program_updates''"
| "name_of (Req_partial b) = ''subscribe_partial_account_updates''"
| "name_of Req_slots = ''subscribe_slot_updates''"
| "name_of Req_slot_entries = ''subscribe_slot_entry_updates''"
| "name_of Req_transactions = ''subscribe_transaction_updates''"
| "name_of Req_blocks = ''subscribe_block_updates''"

lemma call_open_subscription:
  "call env self req w =
     open_subscription env self (valid_request req) (topic_of req) (name_of req) w"
  by (cases req)
    (simp_all add: open_subscription_def Let_def subscribe_account_updates_def
      subscribe_program_updates_def subscribe_partial_account_updates_def subscribe_slot_updates_def
      subscribe_slot_entry_updates_def subscribe_transaction_updates_def subscribe_block_updates_def
      split: sum.splits prod.splits)

context service_runtime
begin

lemma open_subscription_refused:
  assumes "0 < gsc_subscriber_buffer_size (gs_service_config self)"
    and "unat (gsc_subscriber_buffer_size (gs_service_config self)) < 2 ^ 61"
    and "\<not> valid \<or> \<not> loop_alive w"
  shows "\<exists>w'. open_subscription env self valid t name w =
      (w', Ok (Err (if valid then internal_error else invalid_pubkey))) \<and>
    added w' = added w \<and> tasks w' = tasks w \<and> signalled w' = signalled w"
proof -
  have "0 < unat (gsc_subscriber_buffer_size (gs_service_config self))"
    using assms(1) by (simp add: word_less_nat_alt)
  from channel_ok [OF this assms(2)] obtain w1 s where
    1: "mpsc_channel env w (unat (gsc_subscriber_buffer_size (gs_service_config self))) = Ok (w1, s)"
    by blast
  obtain w2 u where 2: "uuid_new_v4 env w1 = (w2, u)" by fastforce
  obtain w3 r where 3: "added_try_send env w2 (added_event t u s) = (w3, r)" by fastforce
  note frames = channel_frame [OF 1] uuid_frame [OF 2] added_send [OF 3]
  show ?thesis
  proof (cases valid)
    case True
    with assms(3) frames obtain e where "r = Inl e" by (cases r) auto
    with True frames assms(3) show ?thesis by (simp add: open_subscription_def 1 2 3)
  next
    case False
    with frames show ?thesis by (simp add: open_subscription_def 1)
  qed
qed

lemma open_subscription_accepted:
  assumes "0 < gsc_subscriber_buffer_size (gs_service_config self)"
    and "unat (gsc_subscriber_buffer_size (gs_service_config self)) < 2 ^ 61"
    and "valid" "loop_alive w"
  shows "\<exists>w' resp sig u s. open_subscription env self valid t name w = (w', Ok (Ok resp)) \<and>
    added w' = added w @ [added_event t u s] \<and>
    ss_inner (resp_body resp) = s \<and> ss_stream_id (resp_body resp) = u \<and>
    ss_stream_closed_signal (resp_body resp) = Some sig \<and>
    tasks w' = tasks w @ [(sig, closed_event t u)] \<and> signalled w' = signalled w \<and>
    sig \<notin> signalled w \<and> sig \<notin> fst ` set (tasks w) \<and>
    map_of (resp_metadata resp) HIGHEST_WRITE_SLOT_HEADER =
      Some (metadata_value_from env (gs_highest_write_slot self))"
proof -
  have "0 < unat (gsc_subscriber_buffer_size (gs_service_config self))"
    using assms(1) by (simp add: word_less_nat_alt)
  from channel_ok [OF this assms(2)] obtain w1 s where
    1: "mpsc_channel env w (unat (gsc_subscriber_buffer_size (gs_service_config self))) = Ok (w1, s)"
    by blast
  obtain w2 u where 2: "uuid_new_v4 env w1 = (w2, u)" by fastforce
  obtain w3 r where 3: "added_try_send env w2 (added_event t u s) = (w3, r)" by fastforce
  note frames = channel_frame [OF 1] uuid_frame [OF 2] added_send [OF 3]
  obtain x where r: "r = Inr x" using frames assms(4) by (cases r) auto
  obtain w4 sig where 4: "oneshot_channel env w3 = (w4, sig)" by fastforce
  have frame4: "tasks w4 = tasks w" "signalled w4 = signalled w"
    "added w4 = added w @ [added_event t u s]" "sig \<notin> signalled w" "sig \<notin> fst ` set (tasks w)"
    using oneshot_tasks [of w3] oneshot_signalled [of w3] oneshot_fresh [of w3]
      stream_frame(1) [of w3] frames assms(4) by (simp_all add: 4)
  show ?thesis
    using assms(3) frame4
    by (simp add: open_subscription_def 1 2 3 r stream_response_def subscription_stream_new_def 4
        spawn_tasks spawn_signalled stream_frame)
qed

lemma lifecycle:
  assumes "0 < gsc_subscriber_buffer_size (gs_service_config self)"
    and "unat (gsc_subscriber_buffer_size (gs_service_config self)) < 2 ^ 61"
    and "valid" "loop_alive w"
  shows "\<exists>w1 w2 resp s' a c. open_subscription env self valid t name w = (w1, Ok (Ok resp)) \<and>
    added w1 = added w @ [a] \<and>
    subscriber_of a = (ss_stream_id (resp_body resp), t, ss_inner (resp_body resp)) \<and>
    map_of (resp_metadata resp) HIGHEST_WRITE_SLOT_HEADER =
      Some (metadata_value_from env (gs_highest_write_slot self)) \<and>
    drop_stream env (resp_body resp) w1 = (w2, Ok s') \<and>
    ready w2 = ready w @ [c] \<and> is_err (snd (drop_stream env s' w2)) \<and>
    closes c (ss_stream_id (resp_body resp)) t"
proof -
  obtain w1 resp sig u s where accepted:
    "open_subscription env self valid t name w = (w1, Ok (Ok resp))"
    "added w1 = added w @ [added_event t u s]"
    "ss_inner (resp_body resp) = s" "ss_stream_id (resp_body resp) = u"
    "map_of (resp_metadata resp) HIGHEST_WRITE_SLOT_HEADER =
      Some (metadata_value_from env (gs_highest_write_slot self))"
    and sig: "ss_stream_closed_signal (resp_body resp) = Some sig"
      "tasks w1 = tasks w @ [(sig, closed_event t u)]" "sig \<notin> signalled w"
      "sig \<notin> fst ` set (tasks w)" "signalled w1 = signalled w"
    using open_subscription_accepted [OF assms, of t name] by metis
  obtain w2 s' where "drop_stream env (resp_body resp) w1 = (w2, Ok s')"
    "ready w2 = ready w @ [closed_event t u]" "is_err (snd (drop_stream env s' w2))"
    using signal_drop [OF sig] by auto
  with accepted show ?thesis
    by (intro exI [of _ w1] exI [of _ w2] exI [of _ resp] exI [of _ s']
        exI [of _ "added_event t u s"] exI [of _ "closed_event t u"]) simp
qed

end

subsection \<open>A reference runtime\<close>

text \<open>
  Ids of channels and oneshots count up, the channels to the loop are lists, and the uuid is
  the number of subscriptions so far.
\<close>

record ref_world =
  rw_chans :: "(nat, item) chan_store"
  rw_next :: nat
  rw_uuids :: nat
  rw_tasks :: "(nat \<times> SubscriptionClosedEvent) list"
  rw_signalled :: "nat list"
  rw_added :: "nat SubscriptionAddedEvent list"
  rw_closed :: "SubscriptionClosedEvent list"
  rw_loop_alive :: bool

definition ref_env :: "(ref_world, nat, nat) service_env" where
  "ref_env =
     \<lparr>oneshot_channel = (\<lambda>w. (w, Suc (foldr max (map fst (rw_tasks w) @ rw_signalled w) 0))),
      spawn_closed_task = (\<lambda>w sig ev. w\<lparr>rw_tasks := rw_tasks w @ [(sig, ev)]\<rparr>),
      oneshot_send = (\<lambda>w sig. (w\<lparr>rw_signalled := sig # rw_signalled w\<rparr>, Ok ())),
      closed_try_send = (\<lambda>w ev. (w\<lparr>rw_closed := rw_closed w @ [ev]\<rparr>, Ok ())),
      receiver_poll_next = (\<lambda>w s.
        case ch_queue (rw_chans w s) of
          [] \<Rightarrow> (w, Pending)
        | m # ms \<Rightarrow> (w\<lparr>rw_chans := (rw_chans w)(s := rw_chans w s\<lparr>ch_queue := ms\<rparr>)\<rparr>, Ready (Some m))),
      mpsc_channel = (\<lambda>w n. if n = 0 then Err (Panic ''mpsc bounded channel requires buffer > 0'')
        else Ok (w\<lparr>rw_chans := (rw_chans w)(rw_next w := new_chan n), rw_next := Suc (rw_next w)\<rparr>, rw_next w)),
      uuid_new_v4 = (\<lambda>w. (w\<lparr>rw_uuids := Suc (rw_uuids w)\<rparr>, word_of_nat (rw_uuids w))),
      added_try_send = (\<lambda>w e. if rw_loop_alive w then (w\<lparr>rw_added := rw_added w @ [e]\<rparr>, Ok ())
        else (w, Err Closed)),
      metadata_value_from = u64_to_string\<rparr>"

lemma less_Suc_foldr_max: "x \<in> set xs \<Longrightarrow> x < Suc (foldr max xs (0 :: nat))"
  by (induction xs) auto

lemma Suc_foldr_max_fresh: "Suc (foldr max xs (0 :: nat)) \<notin> set xs"
  using less_Suc_foldr_max by blast

interpretation ref_streams: stream_runtime ref_env rw_tasks "\<lambda>w. set (rw_signalled w)"
proof (unfold_locales, goal_cases)
  case (3 w)
  then show ?case
    using Suc_foldr_max_fresh [of "map fst (rw_tasks w) @ rw_signalled w"] by (simp add: ref_env_def)
qed (auto simp: ref_env_def split: if_splits)

interpretation ref_runtime: service_runtime ref_env rw_tasks "\<lambda>w. set (rw_signalled w)" rw_added rw_loop_alive
  by unfold_locales (auto simp: ref_env_def split: if_splits)

end
