(* ===== verification/Client_Properties.thy ===== *)
theory Client_Properties
  imports Client_Spec Service_Spec Plugin
begin

section \<open>The properties of the client\<close>

definition example_update :: "u64 \<Rightarrow> u64 \<Rightarrow> TimestampedAccountUpdate turn" where
  "example_update slot seq =
     \<lparr>tn_exit = False, tn_rooted_slot = 10, tn_now = 0,
      tn_branch = Message (Ok (Some
        \<lparr>tau_ts = None,
         tau_account_update = Some
           \<lparr>au_slot = slot, au_pubkey = replicate 32 7, au_lamports = 1, au_owner = replicate 32 0,
            au_is_executable = False, au_rent_epoch = 0, au_data = [], au_seq = seq,
            au_is_startup = False, au_tx_signature = None, au_replica_version = 1\<rparr>\<rparr>))\<rparr>"

definition example_client_update :: "u64 \<Rightarrow> u64 \<Rightarrow> ClientAccountUpdate" where
  "example_client_update slot seq =
     \<lparr>cau_pubkey = Pubkey (replicate 32 7), cau_owner = Pubkey (replicate 32 0), cau_data = [],
      cau_tx_signature = None, cau_slot = slot, cau_lamports = 1, cau_rent_epoch = 0, cau_seq = seq,
      cau_replica_version = 1, cau_is_executable = False, cau_is_startup = False\<rparr>"

lemma decoded_example_update:
  "decoded array_sdk (example_update slot seq) = Some (10, example_client_update slot seq)"
  by (simp add: decoded_def example_update_def example_client_update_def client_account_update_from_def
      array_sdk_def array_pubkey_def)

lemma regular_example_update: "regular array_sdk (example_update slot seq)"
  by (simp add: regular_def decoded_example_update) (simp add: example_update_def)

text \<open>
  C9. The consumer keeps going exactly as long as no update is older than the header or the
  tolerated distance from the root, and none has a lower sequence number than the first update
  of its account in its slot. While it does, the application gets every update, in order, each
  with the number of updates before it of the same account in the same slot; the bound on the
  slots is the size of the cache.\<close>

theorem consumer_accepts_and_numbers:
  assumes "lru_cache L peek cap" and "application send delivered"
    and "\<forall>t \<in> set ts. regular S t"
    and "us = List.map_filter (decoded S) ts"
    and "card (cau_slot ` snd ` set us) \<le> ACCOUNT_WRITE_SEQS_CACHE_SIZE"
    and "consume_account_loop S L send oldest dist ts (lru_new L ACCOUNT_WRITE_SEQS_CACHE_SIZE) 0 w = (w', out)"
  shows "(out = Running \<longleftrightarrow>
      (\<forall>(rooted, u) \<in> set us. \<not> stale (cau_slot u) rooted dist oldest \<and>
        cau_seq (hd (filter (\<lambda>v. account_key v = account_key u) (map snd us))) \<le> cau_seq u)) \<and>
    (out = Running \<longrightarrow> length (delivered w') = length (delivered w) + length us \<and>
      (\<forall>i < length us. delivered w' ! (length (delivered w) + i) =
        (snd (us ! i))\<lparr>cau_seq := of_nat (count_list (map account_key (take i (map snd us)))
          (account_key (snd (us ! i))))\<rparr>))"
proof -
  have proc: "update_processor L peek cap account_notification"
    by (intro update_processor.intro assms(1) accounts.account_update_notification_axioms)
  let ?c = "lru_new L ACCOUNT_WRITE_SEQS_CACHE_SIZE"
  obtain c' outs err where run: "process_updates L account_notification dist oldest us ?c = (c', outs, err)"
    by (metis prod_cases3)
  have empty: "peek ?c = Map.empty" "cap ?c = ACCOUNT_WRITE_SEQS_CACHE_SIZE"
    using lru_cache.new_empty [OF assms(1)] lru_cache.new_cap [OF assms(1)] by simp_all
  have "(n_slot account_notification \<circ> snd) ` set us = cau_slot ` snd ` set us"
    by auto
  then have bound: "finite (dom (peek ?c))"
    "card (dom (peek ?c) \<union> (n_slot account_notification \<circ> snd) ` set us) \<le> cap ?c"
    using assms(5) by (simp_all add: empty)
  have "update_processor.seqs peek ?c = Map.empty" "update_processor.next_number peek ?c = (\<lambda>_. 0)"
    by (simp_all add: fun_eq_iff update_processor.seqs_def [OF proc] update_processor.next_number_def [OF proc]
        update_processor.entry_def [OF proc] empty)
  with update_processor.process_updates_refines [OF proc bound, of dist oldest] run
  have ref: "err = None \<longleftrightarrow> accounts.accepted dist oldest Map.empty us"
    "err = None \<Longrightarrow> outs = accounts.numbered (\<lambda>_. 0) (map snd us)" by simp_all
  from application.consume_account_loop_refines [OF assms(2, 3) run [unfolded assms(4)], of 0 w] assms(6)
  have out: "out = (case err of None \<Rightarrow> Running | Some e \<Rightarrow> Finished (Err e))"
    "delivered w' = delivered w @ outs" by auto
  have "out = Running \<longleftrightarrow> err = None" by (simp add: out split: option.splits)
  with ref out show ?thesis
    by (auto simp: accounts.accepted_iff accounts.not_below_first_def accounts.numbered_nth nth_append)
qed

theorem consumer_accepts_and_numbers_witness:
  "\<exists>w'. consume_account_loop array_sdk list_lru_ops list_send 0 5
      [example_update 9 5, example_update 9 9, example_update 9 7]
      (lru_new list_lru_ops ACCOUNT_WRITE_SEQS_CACHE_SIZE) 0 [] = (w', Running) \<and>
    map cau_seq w' = [0, 1, 2]"
proof -
  let ?ts = "[example_update 9 5, example_update 9 9, example_update 9 7]"
  let ?us = "List.map_filter (decoded array_sdk) ?ts"
  let ?vs = "[(10 :: u64, example_client_update 9 5), (10, example_client_update 9 9),
    (10, example_client_update 9 7)]"
  obtain w' out where run: "consume_account_loop array_sdk list_lru_ops list_send 0 5 ?ts
      (lru_new list_lru_ops ACCOUNT_WRITE_SEQS_CACHE_SIZE) 0 [] = (w', out)" by fastforce
  have us: "?us = ?vs"
    by (simp add: map_filter_simps decoded_example_update)
  have fields: "cau_slot (example_client_update a b) = a" "cau_seq (example_client_update a b) = b"
    "account_key (example_client_update a b) = (a, Pubkey (replicate 32 7))" for a b
    by (simp_all add: example_client_update_def account_key_def)
  have "\<forall>t \<in> set ?ts. regular array_sdk t" by (simp add: regular_example_update)
  moreover have "card (cau_slot ` snd ` set ?us) \<le> ACCOUNT_WRITE_SEQS_CACHE_SIZE"
    unfolding us by (simp add: fields ACCOUNT_WRITE_SEQS_CACHE_SIZE_def)
  ultimately have all: "(out = Running \<longleftrightarrow>
      (\<forall>(rooted, u) \<in> set ?us. \<not> stale (cau_slot u) rooted 5 0 \<and>
        cau_seq (hd (filter (\<lambda>v. account_key v = account_key u) (map snd ?us))) \<le> cau_seq u)) \<and>
    (out = Running \<longrightarrow> length w' = length ?us \<and>
      (\<forall>i < length ?us. w' ! i =
        (snd (?us ! i))\<lparr>cau_seq := of_nat (count_list (map account_key (take i (map snd ?us)))
          (account_key (snd (?us ! i))))\<rparr>))"
    using consumer_accepts_and_numbers [OF list_lru.lru_cache_axioms list_application.application_axioms
        _ refl _ run] by simp
  then have out: "out = Running" unfolding us by (simp add: fields stale_def)
  with all [unfolded us] have w': "length w' = 3"
    and nth: "\<forall>i < 3. w' ! i = (snd (?vs ! i))\<lparr>cau_seq := of_nat (count_list
        (map account_key (take i (map snd ?vs))) (account_key (snd (?vs ! i))))\<rparr>"
    by simp_all
  from w' obtain a b c where abc: "w' = [a, b, c]" by (auto simp: numeral_3_eq_3 length_Suc_conv)
  have "cau_seq a = 0" using nth [rule_format, of 0] by (simp add: abc)
  moreover have "cau_seq b = 1" using nth [rule_format, of 1] by (simp add: abc fields)
  moreover have "cau_seq c = 2" using nth [rule_format, of 2] by (simp add: abc fields)
  ultimately have "map cau_seq w' = [0, 1, 2]" by (simp add: abc)
  with run [unfolded out] show ?thesis by (intro exI conjI)
qed

text \<open>
  A single update older than the header's slot, or further behind the root than tolerated,
  is not skipped: it ends the consumption with an error, and the application gets nothing more.\<close>

theorem late_update_ends_consumption:
  assumes "regular S t" and "decoded S t = Some (rooted, u)"
    and "stale (cau_slot u) rooted dist oldest"
  shows "consume_account_loop S L send oldest dist (t # ts) c latest w =
    (w, Finished (Err (StaleAccountUpdate (cau_slot u) rooted)))"
proof -
  have upd: "process_update L account_notification u c rooted dist oldest =
      (c, u, Err (StaleAccountUpdate (cau_slot u) rooted))"
    using assms(3) unfolding stale_checks [symmetric] by (auto simp: process_update_def Let_def)
  from assms(1, 2) upd show ?thesis
    by (auto simp: regular_def decoded_def process_account_update_def
        split: branch.splits sum.splits option.splits)
qed

theorem late_update_ends_consumption_witness:
  "consume_account_loop array_sdk list_lru_ops list_send 8 5 [example_update 7 5, example_update 9 9]
      (lru_new list_lru_ops 5000) 0 [] = ([], Finished (Err (StaleAccountUpdate 7 10)))"
proof -
  have slot: "cau_slot (example_client_update 7 5) = 7" by (simp add: example_client_update_def)
  have "stale (cau_slot (example_client_update 7 5)) 10 5 8" by (simp add: slot stale_def)
  from late_update_ends_consumption [OF regular_example_update decoded_example_update this] show ?thesis
    by (simp only: slot)
qed

text \<open>
  C19. The highest write slot survives the header: whatever a client subscribes to, the slot it
  reads from the response's metadata is the one the service held.\<close>

theorem header_roundtrip:
  assumes "metadata_value_from env = u64_to_string" and "\<And>s. to_str s = Ok s"
    and "call env self req w = (w', Ok (Ok resp))"
  shows "extract_highest_write_slot_header to_str (resp_metadata resp) = Ok (gs_highest_write_slot self)"
proof -
  have "resp_metadata resp = [(HIGHEST_WRITE_SLOT_HEADER, u64_to_string (gs_highest_write_slot self))]"
    using assms(3)
    by (auto simp: call_open_subscription open_subscription_def stream_response_def assms(1)
        hm_insert_def split: sum.splits prod.splits if_splits)
  then show ?thesis
    by (simp add: extract_highest_write_slot_header_def HIGHEST_WRITE_SLOT_HEADER_def
        CLIENT_HIGHEST_WRITE_SLOT_HEADER_def assms(2) u64_from_to_string)
qed

theorem header_roundtrip_witness:
  "\<exists>w' resp. call ref_env
      \<lparr>gs_highest_write_slot = 42,
       gs_service_config = \<lparr>gsc_heartbeat_interval_ms = 1, gsc_subscriber_buffer_size = 10,
         gsc_tls_config = None, gsc_access_token = None\<rparr>\<rparr> Req_slots
      \<lparr>rw_chans = (\<lambda>s. new_chan 0), rw_next = 0, rw_uuids = 0, rw_tasks = [], rw_signalled = [],
       rw_added = [], rw_closed = [], rw_loop_alive = True\<rparr> = (w', Ok (Ok resp)) \<and>
    extract_highest_write_slot_header Ok (resp_metadata resp) = Ok 42"
proof -
  let ?self = "\<lparr>gs_highest_write_slot = 42,
       gs_service_config = \<lparr>gsc_heartbeat_interval_ms = 1, gsc_subscriber_buffer_size = 10,
         gsc_tls_config = None, gsc_access_token = None\<rparr>\<rparr>"
  let ?w = "\<lparr>rw_chans = (\<lambda>s. new_chan 0), rw_next = 0, rw_uuids = 0, rw_tasks = [], rw_signalled = [],
       rw_added = [], rw_closed = [], rw_loop_alive = True\<rparr>"
  obtain w' resp where c: "call ref_env ?self Req_slots ?w = (w', Ok (Ok resp))"
    by (simp add: subscribe_slot_updates_def stream_response_def subscription_stream_new_def ref_env_def)
  moreover have "metadata_value_from ref_env = u64_to_string" by (simp add: ref_env_def)
  from header_roundtrip [OF this refl c]
  have "extract_highest_write_slot_header Ok (resp_metadata resp) = Ok 42" by simp
  ultimately show ?thesis by blast
qed

text \<open>
  A turn in which no update arrives: the timer fires, or a heartbeat comes.
\<close>

definition heartbeat_message :: "MaybePartialAccountUpdate branch" where
  "heartbeat_message = Message (Ok (Some \<lparr>mpau_msg = Some Msg_Hb\<rparr>))"

definition without_updates :: "MaybePartialAccountUpdate turn \<Rightarrow> bool" where
  "without_updates t \<longleftrightarrow> \<not> tn_exit t \<and> (tn_branch t = Tick \<or> tn_branch t = heartbeat_message)"

text \<open>The instants of the heartbeats among turns without updates, after the one to begin with.\<close>

definition last_beat :: "int \<Rightarrow> MaybePartialAccountUpdate turn list \<Rightarrow> int" where
  "last_beat now ts = last (now # map tn_now (filter (\<lambda>t. tn_branch t = heartbeat_message) ts))"

lemma last_beat_simps [simp]:
  "last_beat now [] = now"
  "tn_branch t = Tick \<Longrightarrow> last_beat now (t # ts) = last_beat now ts"
  "tn_branch t = heartbeat_message \<Longrightarrow> last_beat now (t # ts) = last_beat (tn_now t) ts"
  by (simp_all add: last_beat_def heartbeat_message_def)

definition late_tick :: "int \<Rightarrow> int \<Rightarrow> MaybePartialAccountUpdate turn list \<Rightarrow> bool" where
  "late_tick allowance now ts \<longleftrightarrow>
     (\<exists>xs t ys. ts = xs @ t # ys \<and> tn_branch t = Tick \<and> tn_now t - last_beat now xs > allowance)"

lemma late_tick_simps [simp]:
  "\<not> late_tick a now []"
  "tn_branch t = Tick \<Longrightarrow> late_tick a now (t # ts) \<longleftrightarrow> tn_now t - now > a \<or> late_tick a now ts"
  "tn_branch t = heartbeat_message \<Longrightarrow> late_tick a now (t # ts) \<longleftrightarrow> late_tick a (tn_now t) ts"
proof -
  show "\<not> late_tick a now []" by (simp add: late_tick_def)
  have split: "(\<exists>xs x ys. t # ts = xs @ x # ys \<and> P xs x) \<longleftrightarrow>
      P [] t \<or> (\<exists>xs x ys. ts = xs @ x # ys \<and> P (t # xs) x)" for P
    by (auto simp: Cons_eq_append_conv)
  show "late_tick a now (t # ts) \<longleftrightarrow> tn_now t - now > a \<or> late_tick a now ts" if "tn_branch t = Tick"
    unfolding late_tick_def split using that by simp
  show "late_tick a now (t # ts) \<longleftrightarrow> late_tick a (tn_now t) ts" if "tn_branch t = heartbeat_message"
    unfolding late_tick_def split using that by (simp add: heartbeat_message_def)
qed

lemma partial_loop_without_updates:
  assumes "\<forall>t \<in> set ts. without_updates t"
  shows "consume_partial_loop S L send expiration oldest dist ts c beat latest w =
    (w, if late_tick (uint expiration * 1000000) beat ts then Finished (Err MissedHeartbeat) else Running)"
  using assms
proof (induction ts arbitrary: beat)
  case (Cons t ts)
  have expired: "heartbeat_expired (tn_now t) beat expiration \<longleftrightarrow>
      tn_now t - beat > uint expiration * 1000000"
    by (auto simp: heartbeat_expired_def less_max_iff_disj)
  from Cons.prems consider "\<not> tn_exit t" "tn_branch t = Tick" | "\<not> tn_exit t" "tn_branch t = heartbeat_message"
    by (auto simp: without_updates_def)
  then show ?case
  proof cases
    case 1
    with Cons expired show ?thesis by simp
  next
    case 2
    then have "process_partial_account_update S L (tn_now t) (Ok (Some \<lparr>mpau_msg = Some Msg_Hb\<rparr>)) c
        (tn_rooted_slot t) beat oldest dist = (c, tn_now t, Ok (Ok None))"
      by (simp add: process_partial_account_update_def)
    with 2 Cons show ?thesis by (simp add: heartbeat_message_def)
  qed
qed simp

text \<open>
  C23. A silent server is noticed. A consumer of partial updates that gets heartbeats but no
  updates ends with a missed heartbeat exactly when the timer fires at an instant that lies more
  milliseconds after the last heartbeat, or after the start when there was none, than the
  heartbeat interval of the server times the number of heartbeats that may be missed; otherwise it
  goes on, and nothing reaches the application.\<close>

theorem silent_server_detected:
  assumes "\<forall>t \<in> set ts. without_updates t"
    and "extract_highest_write_slot_header to_str metadata = Ok oldest"
    and "interval interval_ms = Ok ()"
    and "uint interval_ms * uint missed < 2 ^ 64"
  shows "consume_partial_account_updates S L to_str interval send (Ok interval_ms) (Ok metadata) now
      dist missed ts w =
    (w, if \<exists>xs t ys. ts = xs @ t # ys \<and> tn_branch t = Tick \<and>
            tn_now t - last (now # map tn_now (filter (\<lambda>t. tn_branch t = heartbeat_message) xs))
              > uint interval_ms * uint missed * 1000000
        then Finished (Err MissedHeartbeat) else Running)"
proof -
  have "uint (interval_ms * missed) = uint interval_ms * uint missed"
    using assms(4) by (simp add: uint_word_ariths)
  with assms(2,3) show ?thesis
    unfolding last_beat_def [symmetric] late_tick_def [symmetric]
    by (simp add: consume_partial_account_updates_def partial_loop_without_updates [OF assms(1)])
qed

definition quiet_turn :: "int \<Rightarrow> MaybePartialAccountUpdate branch \<Rightarrow> MaybePartialAccountUpdate turn" where
  "quiet_turn now b = \<lparr>tn_exit = False, tn_rooted_slot = 10, tn_now = now, tn_branch = b\<rparr>"

theorem silent_server_detected_witness:
  "consume_partial_account_updates array_sdk list_lru_ops Ok (\<lambda>ms. Ok ()) (\<lambda>w u. (w, Ok ())) (Ok 1000)
      (Ok [(CLIENT_HIGHEST_WRITE_SLOT_HEADER, u64_to_string 8)]) 0 5 3
      [quiet_turn 1000000000 Tick, quiet_turn 2000000000 heartbeat_message,
       quiet_turn 5000000000 Tick, quiet_turn 5000000001 Tick] () =
    ((), Finished (Err MissedHeartbeat)) \<and>
   consume_partial_account_updates array_sdk list_lru_ops Ok (\<lambda>ms. Ok ()) (\<lambda>w u. (w, Ok ())) (Ok 1000)
      (Ok [(CLIENT_HIGHEST_WRITE_SLOT_HEADER, u64_to_string 8)]) 0 5 3
      [quiet_turn 1000000000 Tick, quiet_turn 2000000000 heartbeat_message,
       quiet_turn 5000000000 Tick] () = ((), Running)"
proof -
  have header: "extract_highest_write_slot_header Ok [(CLIENT_HIGHEST_WRITE_SLOT_HEADER, u64_to_string 8)] = Ok 8"
    by (simp add: extract_highest_write_slot_header_def)
  have turns: "tn_branch (quiet_turn a b) = b" "tn_now (quiet_turn a b) = a" "\<not> tn_exit (quiet_turn a b)" for a b
    by (simp_all add: quiet_turn_def)
  have run: "consume_partial_account_updates array_sdk list_lru_ops Ok (\<lambda>ms. Ok ()) (\<lambda>w u. (w, Ok ()))
      (Ok 1000) (Ok [(CLIENT_HIGHEST_WRITE_SLOT_HEADER, u64_to_string 8)]) 0 5 3 ts () =
    ((), if late_tick 3000000000 0 ts then Finished (Err MissedHeartbeat) else Running)"
    if "\<forall>t \<in> set ts. without_updates t" for ts
    unfolding late_tick_def last_beat_def
    by (subst silent_server_detected [OF that header]) simp_all
  show ?thesis by (intro conjI; subst run) (simp_all add: without_updates_def turns)
qed

end
