(* ===== verification/Service_Properties.thy ===== *)
theory Service_Properties
  imports Service_Spec Event_Loop_Properties
begin

section \<open>The properties of the service\<close>

definition example_service :: GeyserService where
  "example_service =
     \<lparr>gs_highest_write_slot = 42,
      gs_service_config =
        \<lparr>gsc_heartbeat_interval_ms = 1000, gsc_subscriber_buffer_size = 10,
         gsc_tls_config = None, gsc_access_token = None\<rparr>\<rparr>"

definition example_ref_world :: ref_world where
  "example_ref_world =
     \<lparr>rw_chans = (\<lambda>s. new_chan 0), rw_next = 0, rw_uuids = 0, rw_tasks = [], rw_signalled = [],
      rw_added = [], rw_closed = [], rw_loop_alive = True\<rparr>"

text \<open>
  C18. Refusals. A request with a key that does not have 32 bytes is refused as an invalid
  argument, and any other, when the event loop is gone, as an internal error; either way the
  loop is told nothing and no task is left behind.\<close>

theorem subscribe_refused:
  assumes "service_runtime env tasks signalled added loop_alive"
    and "0 < gsc_subscriber_buffer_size (gs_service_config self)"
    and "unat (gsc_subscriber_buffer_size (gs_service_config self)) < 2 ^ 61"
    and "\<not> valid_request req \<or> \<not> loop_alive w"
  shows "\<exists>w'. call env self req w =
      (w', Ok (Err (if valid_request req then internal_error else invalid_pubkey))) \<and>
    added w' = added w \<and> tasks w' = tasks w"
  using service_runtime.open_subscription_refused [OF assms, of "topic_of req" "name_of req"]
  unfolding call_open_subscription by blast

theorem subscribe_refused_witness:
  "\<exists>w'. call ref_env example_service (Req_accounts [replicate 32 0, replicate 31 0]) example_ref_world =
      (w', Ok (Err invalid_pubkey)) \<and> rw_added w' = [] \<and> rw_tasks w' = []"
  using subscribe_refused [OF ref_runtime.service_runtime_axioms, of example_service
      "Req_accounts [replicate 32 0, replicate 31 0]" example_ref_world]
  by (simp add: example_service_def example_ref_world_def)

text \<open>
  C10. The life of a subscription. An accepted request tells the loop, once, of a subscription
  to the requested topic whose channel is the one the returned stream reads and whose id is the
  stream's, and the response carries the highest write slot. Dropping the stream makes ready
  one closed event, dropping it again panics, and the loop that handles the added event and
  then that closed event has the subscribers it had.\<close>

theorem subscription_lifecycle:
  assumes "service_runtime env tasks signalled added loop_alive"
    and "0 < gsc_subscriber_buffer_size (gs_service_config self)"
    and "unat (gsc_subscriber_buffer_size (gs_service_config self)) < 2 ^ 61"
    and "valid_request req" and "loop_alive w"
  shows "\<exists>w1 w2 resp s' a c. call env self req w = (w1, Ok (Ok resp)) \<and>
    added w1 = added w @ [a] \<and>
    subscriber_of a = (ss_stream_id (resp_body resp), topic_of req, ss_inner (resp_body resp)) \<and>
    map_of (resp_metadata resp) HIGHEST_WRITE_SLOT_HEADER =
      Some (metadata_value_from env (gs_highest_write_slot self)) \<and>
    drop_stream env (resp_body resp) w1 = (w2, Ok s') \<and>
    map snd (filter (\<lambda>t. fst t \<in> signalled w2) (tasks w2)) =
      map snd (filter (\<lambda>t. fst t \<in> signalled w) (tasks w)) @ [c] \<and>
    is_err (snd (drop_stream env s' w2)) \<and>
    (\<forall>st st1 st2. ss_stream_id (resp_body resp) \<notin> fst ` set (subscribers st) \<longrightarrow>
      handle_subscription_added (Inr a) st = Ok st1 \<longrightarrow>
      handle_subscription_closed (Inr c) st1 = Ok st2 \<longrightarrow>
      mset (subscribers st2) = mset (subscribers st))"
proof -
  obtain w1 w2 resp s' a c where life: "call env self req w = (w1, Ok (Ok resp))"
    "added w1 = added w @ [a]"
    "subscriber_of a = (ss_stream_id (resp_body resp), topic_of req, ss_inner (resp_body resp))"
    "map_of (resp_metadata resp) HIGHEST_WRITE_SLOT_HEADER =
      Some (metadata_value_from env (gs_highest_write_slot self))"
    "drop_stream env (resp_body resp) w1 = (w2, Ok s')"
    "map snd (filter (\<lambda>t. fst t \<in> signalled w2) (tasks w2)) =
      map snd (filter (\<lambda>t. fst t \<in> signalled w) (tasks w)) @ [c]"
    "is_err (snd (drop_stream env s' w2))" "closes c (ss_stream_id (resp_body resp)) (topic_of req)"
    using service_runtime.lifecycle [OF assms, of "topic_of req" "name_of req"]
    unfolding call_open_subscription
      stream_runtime.ready_def [OF service_runtime.axioms(1) [OF assms(1)]] by blast
  then show ?thesis using added_closed_subscribers [OF life(3) _ life(8)] by blast
qed

theorem subscription_lifecycle_witness:
  "\<exists>w1 w2 resp s' a c. call ref_env example_service (Req_accounts [replicate 32 7]) example_ref_world =
      (w1, Ok (Ok resp)) \<and>
    subscriber_of a = (ss_stream_id (resp_body resp), On_account {replicate 32 7}, ss_inner (resp_body resp)) \<and>
    rw_added w1 = [a] \<and> map_of (resp_metadata resp) HIGHEST_WRITE_SLOT_HEADER = Some ''42'' \<and>
    drop_stream ref_env (resp_body resp) w1 = (w2, Ok s') \<and>
    map snd (filter (\<lambda>t. fst t \<in> set (rw_signalled w2)) (rw_tasks w2)) = [c]"
proof -
  have header: "metadata_value_from ref_env 42 = ''42''"
    by (simp add: ref_env_def) code_simp
  have "valid_request (Req_accounts [replicate 32 7])" by simp
  from subscription_lifecycle [OF ref_runtime.service_runtime_axioms _ _ this, of example_service example_ref_world]
  show ?thesis
    apply (simp add: example_service_def example_ref_world_def header [simplified example_service_def])
    apply (elim exE conjE)
    apply (intro exI conjI; assumption)
    done
qed

text \<open>
  With a configured buffer size of zero every subscription panics, whatever it asks for.\<close>

theorem zero_buffer_panics:
  assumes "service_runtime env tasks signalled added loop_alive"
    and "gsc_subscriber_buffer_size (gs_service_config self) = 0"
  shows "\<exists>p. call env self req w = (w, Err p)"
  using service_runtime.channel_zero [OF assms(1), of w]
  by (auto simp: call_open_subscription open_subscription_def assms(2))

theorem zero_buffer_panics_witness:
  "\<exists>p. call ref_env
      \<lparr>gs_highest_write_slot = 0,
       gs_service_config = \<lparr>gsc_heartbeat_interval_ms = 1, gsc_subscriber_buffer_size = 0,
         gsc_tls_config = None, gsc_access_token = None\<rparr>\<rparr> Req_slots example_ref_world =
      (example_ref_world, Err p)"
  by (rule zero_buffer_panics [OF ref_runtime.service_runtime_axioms]) simp

end
