(* ===== verification/Server_System.thy ===== *)
theory Server_System
  imports Service_Properties "HOL-Library.Sublist"
begin

section \<open>The server as a transition system\<close>

text \<open>
  The event loop, the subscribers' reading and their hanging up interleave freely: a step is an
  iteration of the loop, a poll of a stream that yields an item, or the receiving end of a
  channel going away. What a subscriber sees of any such run is what a bounded mailbox sees
  that skips what does not fit.
\<close>

datatype 's label =
    Takes "'s loop_event"
  | Reads 's item
  | Hangs_up 's

inductive server_step ::
  "bytes \<Rightarrow> ('w, 's) sender_fn \<Rightarrow> ('w, 's, 'o, 'z) stream_env_scheme \<Rightarrow> ('w \<Rightarrow> 's \<Rightarrow> 'w) \<Rightarrow>
    'w \<Rightarrow> 's loop_state \<Rightarrow> 's label \<Rightarrow> 'w \<Rightarrow> 's loop_state \<Rightarrow> bool"
  for vote_id ts env hangup where
  takes: "loop_iteration vote_id ts ev w st = (w', Continue st') \<Longrightarrow>
    server_step vote_id ts env hangup w st (Takes ev) w' st'"
| reads: "poll_next env stream w = (w', Ready (Some m)) \<Longrightarrow>
    server_step vote_id ts env hangup w st (Reads (ss_inner stream) m) w' st"
| hangs_up: "server_step vote_id ts env hangup w st (Hangs_up s) (hangup w s) st"

inductive_cases takesE: "server_step vote_id ts env hangup w st (Takes ev) w' st'"

inductive server_run ::
  "bytes \<Rightarrow> ('w, 's) sender_fn \<Rightarrow> ('w, 's, 'o, 'z) stream_env_scheme \<Rightarrow> ('w \<Rightarrow> 's \<Rightarrow> 'w) \<Rightarrow>
    'w \<Rightarrow> 's loop_state \<Rightarrow> 's label list \<Rightarrow> 'w \<Rightarrow> 's loop_state \<Rightarrow> bool"
  for vote_id ts env hangup where
  stop: "server_run vote_id ts env hangup w st [] w st"
| go: "server_step vote_id ts env hangup w st l w1 st1 \<Longrightarrow>
    server_run vote_id ts env hangup w1 st1 ls w' st' \<Longrightarrow>
    server_run vote_id ts env hangup w st (l # ls) w' st'"

inductive_simps server_run_Nil [simp]: "server_run vote_id ts env hangup w st [] w' st'"
inductive_simps server_run_Cons: "server_run vote_id ts env hangup w st (l # ls) w' st'"

text \<open>A run in which nothing else happens is a run of the event loop.\<close>

lemma server_step_Takes:
  "server_step vote_id ts env hangup w st (Takes ev) w' st' \<longleftrightarrow>
    loop_iteration vote_id ts ev w st = (w', Continue st')"
  by (auto elim: takesE intro: server_step.takes)

lemma server_run_Takes:
  "server_run vote_id ts env hangup w st (map Takes evs) w' st' \<longleftrightarrow>
    event_loop vote_id ts evs w st = (w', Continue st')"
proof (induction evs arbitrary: w st)
  case (Cons ev evs)
  show ?case
    by (cases "loop_iteration vote_id ts ev w st"; cases "snd (loop_iteration vote_id ts ev w st)")
      (auto simp: server_run_Cons server_step_Takes Cons.IH)
qed auto

text \<open>What a run takes from the loop's channels and what a subscriber reads in it.\<close>

fun taken :: "'s label list \<Rightarrow> 's loop_event list" where
  "taken [] = []"
| "taken (Takes ev # ls) = ev # taken ls"
| "taken (_ # ls) = taken ls"

fun items_read :: "'s \<Rightarrow> 's label list \<Rightarrow> item list" where
  "items_read s [] = []"
| "items_read s (Reads s' m # ls) = (if s' = s then m # items_read s ls else items_read s ls)"
| "items_read s (_ # ls) = items_read s ls"

subsection \<open>The mailbox\<close>

record mailbox =
  mb_waiting :: "item list"
  mb_read :: "item list"
  mb_missed :: "item list"

fun mailbox_step :: "bytes \<Rightarrow> nat \<Rightarrow> topic \<Rightarrow> 's \<Rightarrow> 's label \<Rightarrow> mailbox \<Rightarrow> mailbox" where
  "mailbox_step vote_id cap t s (Takes ev) b =
     (case payload vote_id ev t of
        None \<Rightarrow> b
      | Some m \<Rightarrow>
          if length (mb_waiting b) < cap then b\<lparr>mb_waiting := mb_waiting b @ [Ok m]\<rparr>
          else b\<lparr>mb_missed := mb_missed b @ [Ok m]\<rparr>)"
| "mailbox_step vote_id cap t s (Reads s' m) b =
     (if s' = s then b\<lparr>mb_waiting := tl (mb_waiting b), mb_read := mb_read b @ [hd (mb_waiting b)]\<rparr> else b)"
| "mailbox_step vote_id cap t s (Hangs_up s') b = b"

definition mailbox_run :: "bytes \<Rightarrow> nat \<Rightarrow> topic \<Rightarrow> 's \<Rightarrow> 's label list \<Rightarrow> mailbox \<Rightarrow> mailbox" where
  "mailbox_run vote_id cap t s ls b = fold (mailbox_step vote_id cap t s) ls b"

lemma mailbox_run_simps [simp]:
  "mailbox_run vote_id cap t s [] b = b"
  "mailbox_run vote_id cap t s (l # ls) b =
     mailbox_run vote_id cap t s ls (mailbox_step vote_id cap t s l b)"
  by (simp_all add: mailbox_run_def)

text \<open>
  A run reads from the mailbox only what waits in it. Everything that was sent is either read,
  waiting or missed, and nothing is reordered.
\<close>

fun reads_available :: "bytes \<Rightarrow> nat \<Rightarrow> topic \<Rightarrow> 's \<Rightarrow> 's label list \<Rightarrow> mailbox \<Rightarrow> bool" where
  "reads_available vote_id cap t s [] b = True"
| "reads_available vote_id cap t s (l # ls) b =
     ((\<forall>m. l = Reads s m \<longrightarrow> mb_waiting b \<noteq> [] \<and> m = hd (mb_waiting b)) \<and>
      reads_available vote_id cap t s ls (mailbox_step vote_id cap t s l b))"

definition published :: "bytes \<Rightarrow> topic \<Rightarrow> 's label list \<Rightarrow> item list" where
  "published vote_id t ls = map Ok (List.map_filter (\<lambda>ev. payload vote_id ev t) (taken ls))"

lemma published_simps [simp]:
  "published vote_id t [] = []"
  "published vote_id t (Takes ev # ls) =
     (case payload vote_id ev t of None \<Rightarrow> published vote_id t ls | Some m \<Rightarrow> Ok m # published vote_id t ls)"
  "published vote_id t (Reads s m # ls) = published vote_id t ls"
  "published vote_id t (Hangs_up s # ls) = published vote_id t ls"
  by (simp_all add: published_def map_filter_simps split: option.splits)

lemma taken_append: "taken (ls @ ls') = taken ls @ taken ls'"
  by (induction ls rule: taken.induct) simp_all

lemma mailbox_run_append:
  "mailbox_run vote_id cap t s (ls @ ls') b = mailbox_run vote_id cap t s ls' (mailbox_run vote_id cap t s ls b)"
  by (simp add: mailbox_run_def)

lemma reads_available_append:
  "reads_available vote_id cap t s (ls @ ls') b \<longleftrightarrow> reads_available vote_id cap t s ls b \<and>
    reads_available vote_id cap t s ls' (mailbox_run vote_id cap t s ls b)"
  by (induction ls arbitrary: b) simp_all

lemma items_read_append: "items_read s (ls @ ls') = items_read s ls @ items_read s ls'"
  by (induction s ls rule: items_read.induct) simp_all

lemma published_append: "published vote_id t (ls @ ls') = published vote_id t ls @ published vote_id t ls'"
  by (simp add: published_def taken_append map_filter_def)

lemma mailbox_run_read:
  "reads_available vote_id cap t s ls b \<Longrightarrow>
    mb_read (mailbox_run vote_id cap t s ls b) = mb_read b @ items_read s ls"
proof (induction ls arbitrary: b)
  case (Cons l ls)
  then show ?case by (cases l) (auto split: option.splits)
qed simp

lemma subseq_skip: "subseq xs (ys @ zs) \<Longrightarrow> subseq xs (ys @ z # zs)"
  by (rule subseq_order.trans, assumption) (intro list_emb_append_mono subseq_order.refl list_emb_Cons)

lemma mailbox_run_subseq:
  assumes "reads_available vote_id cap t s ls b"
  shows "subseq (mb_read (mailbox_run vote_id cap t s ls b) @ mb_waiting (mailbox_run vote_id cap t s ls b))
    ((mb_read b @ mb_waiting b) @ published vote_id t ls)"
  using assms
proof (induction ls arbitrary: b)
  case (Cons l ls)
  let ?b = "mailbox_step vote_id cap t s l b"
  have IH: "subseq (mb_read (mailbox_run vote_id cap t s ls ?b) @ mb_waiting (mailbox_run vote_id cap t s ls ?b))
      ((mb_read ?b @ mb_waiting ?b) @ published vote_id t ls)"
    by (rule Cons.IH) (use Cons.prems in simp)
  show ?case
  proof (cases l)
    case (Takes ev)
    show ?thesis
    proof (cases "payload vote_id ev t")
      case None
      with Takes IH show ?thesis by simp
    next
      case (Some m)
      then show ?thesis
        using IH subseq_skip [of _ "mb_read b @ mb_waiting b" "published vote_id t ls" "Ok m"]
        by (cases "length (mb_waiting b) < cap") (simp_all add: Takes)
    qed
  next
    case (Reads s' m)
    have "mb_read ?b @ mb_waiting ?b = mb_read b @ mb_waiting b"
      using Cons.prems by (cases "mb_waiting b") (auto simp: Reads)
    from IH [unfolded this] show ?thesis by (simp only: Reads mailbox_run_simps published_simps)
  next
    case (Hangs_up s')
    with IH show ?thesis by simp
  qed
qed simp

lemma mailbox_run_mset:
  assumes "reads_available vote_id cap t s ls b"
  shows "mset (mb_read (mailbox_run vote_id cap t s ls b) @ mb_waiting (mailbox_run vote_id cap t s ls b)
      @ mb_missed (mailbox_run vote_id cap t s ls b)) =
    mset ((mb_read b @ mb_waiting b @ mb_missed b) @ published vote_id t ls)"
  using assms
proof (induction ls arbitrary: b)
  case (Cons l ls)
  then show ?case
    by (cases l; cases "mb_waiting b") (auto split: option.splits)
qed simp

lemma mailbox_run_bounded:
  "length (mb_waiting b) \<le> cap \<Longrightarrow> length (mb_waiting (mailbox_run vote_id cap t s ls b)) \<le> cap"
proof (induction ls arbitrary: b)
  case (Cons l ls)
  have "length (mb_waiting (mailbox_step vote_id cap t s l b)) \<le> cap"
    using Cons.prems by (cases l) (auto split: option.splits)
  then show ?case by (simp add: Cons.IH)
qed simp

text \<open>With nothing missed, what was read and what waits is exactly what was published.\<close>

lemma mailbox_run_complete:
  assumes "reads_available vote_id cap t s ls b" "mb_missed (mailbox_run vote_id cap t s ls b) = []"
  shows "mb_read (mailbox_run vote_id cap t s ls b) @ mb_waiting (mailbox_run vote_id cap t s ls b) =
    mb_read b @ mb_waiting b @ published vote_id t ls"
proof -
  have "size (mset (mb_read b @ mb_waiting b @ published vote_id t ls)) \<le>
      size (mset (mb_read (mailbox_run vote_id cap t s ls b) @ mb_waiting (mailbox_run vote_id cap t s ls b)))"
    using arg_cong [OF mailbox_run_mset [OF assms(1)], of size] assms(2) by simp
  with mailbox_run_subseq [OF assms(1)] show ?thesis
    by (metis append_assoc size_mset subseq_same_length le_antisym list_emb_length)
qed


text \<open>
  A subscriber keeps up when every message, at the moment it is published, finds fewer messages
  outstanding than the capacity: those that waited at first and those published since, less those
  read. It misses a message exactly when it does not keep up.
\<close>

definition keeps_up :: "bytes \<Rightarrow> nat \<Rightarrow> topic \<Rightarrow> 's \<Rightarrow> nat \<Rightarrow> 's label list \<Rightarrow> bool" where
  "keeps_up vote_id cap t s n ls \<longleftrightarrow>
     (\<forall>ls1 ev ls2. ls = ls1 @ Takes ev # ls2 \<and> payload vote_id ev t \<noteq> None \<longrightarrow>
       n + length (published vote_id t ls1) < cap + length (items_read s ls1))"

lemma keeps_up_Cons:
  "keeps_up vote_id cap t s n (l # ls) \<longleftrightarrow>
     (\<forall>ev. l = Takes ev \<and> payload vote_id ev t \<noteq> None \<longrightarrow> n < cap) \<and>
     (\<forall>ls1 ev ls2. ls = ls1 @ Takes ev # ls2 \<and> payload vote_id ev t \<noteq> None \<longrightarrow>
       n + length (published vote_id t (l # ls1)) < cap + length (items_read s (l # ls1)))"
proof -
  have split: "(\<forall>ls1 ev ls2. l # ls = ls1 @ Takes ev # ls2 \<and> payload vote_id ev t \<noteq> None \<longrightarrow> P ls1) \<longleftrightarrow>
      (\<forall>ev. l = Takes ev \<and> payload vote_id ev t \<noteq> None \<longrightarrow> P []) \<and>
      (\<forall>ls1 ev ls2. ls = ls1 @ Takes ev # ls2 \<and> payload vote_id ev t \<noteq> None \<longrightarrow> P (l # ls1))" for P
    by (auto simp: Cons_eq_append_conv)
  show ?thesis unfolding keeps_up_def split by simp
qed

lemma keeps_up_simps [simp]:
  "keeps_up vote_id cap t s n []"
  "keeps_up vote_id cap t s n (Takes ev # ls) \<longleftrightarrow>
     (case payload vote_id ev t of
        None \<Rightarrow> keeps_up vote_id cap t s n ls
      | Some m \<Rightarrow> n < cap \<and> keeps_up vote_id cap t s (Suc n) ls)"
  "s' = s \<Longrightarrow> keeps_up vote_id cap t s (Suc n) (Reads s' m # ls) \<longleftrightarrow> keeps_up vote_id cap t s n ls"
  "s' \<noteq> s \<Longrightarrow> keeps_up vote_id cap t s n (Reads s' m # ls) \<longleftrightarrow> keeps_up vote_id cap t s n ls"
  "keeps_up vote_id cap t s n (Hangs_up s'' # ls) \<longleftrightarrow> keeps_up vote_id cap t s n ls"
  subgoal by (simp add: keeps_up_def)
  subgoal by (cases "payload vote_id ev t") (simp_all only: keeps_up_Cons, simp_all add: keeps_up_def)
  subgoal by (simp only: keeps_up_Cons) (simp add: keeps_up_def)
  subgoal by (simp only: keeps_up_Cons) (simp add: keeps_up_def)
  subgoal by (simp only: keeps_up_Cons) (simp add: keeps_up_def)
  done

lemma mailbox_run_missed:
  "\<exists>xs. mb_missed (mailbox_run vote_id cap t s ls b) = mb_missed b @ xs"
proof (induction ls arbitrary: b)
  case (Cons l ls)
  have "\<exists>ys. mb_missed (mailbox_step vote_id cap t s l b) = mb_missed b @ ys"
    by (cases l) (auto split: option.splits)
  with Cons.IH [of "mailbox_step vote_id cap t s l b"] show ?case by auto
qed simp

lemma missed_iff:
  assumes "reads_available vote_id cap t s ls b"
  shows "mb_missed (mailbox_run vote_id cap t s ls b) = mb_missed b \<longleftrightarrow>
    keeps_up vote_id cap t s (length (mb_waiting b)) ls"
  using assms
proof (induction ls arbitrary: b)
  case (Cons l ls)
  let ?b = "mailbox_step vote_id cap t s l b"
  have IH: "mb_missed (mailbox_run vote_id cap t s ls ?b) = mb_missed ?b \<longleftrightarrow>
      keeps_up vote_id cap t s (length (mb_waiting ?b)) ls"
    by (rule Cons.IH) (use Cons.prems in simp)
  show ?case
  proof (cases l)
    case (Takes ev)
    show ?thesis
    proof (cases "payload vote_id ev t")
      case None
      with Takes IH show ?thesis by simp
    next
      case (Some m)
      show ?thesis
      proof (cases "length (mb_waiting b) < cap")
        case True
        with Takes Some IH show ?thesis by simp
      next
        case False
        with Takes Some have "mb_missed ?b = mb_missed b @ [Ok m]" by simp
        with mailbox_run_missed [of vote_id cap t s ls ?b]
        have "mb_missed (mailbox_run vote_id cap t s ls ?b) \<noteq> mb_missed b" by auto
        with Takes Some False show ?thesis by simp
      qed
    qed
  next
    case (Reads s' m)
    with Cons.prems IH show ?thesis by (cases "s' = s"; cases "mb_waiting b") auto
  next
    case (Hangs_up s')
    with IH show ?thesis by simp
  qed
qed simp

text \<open>What a subscriber reads of a mailbox that is empty but for what waits.\<close>

lemma mailbox_reads_in_order:
  assumes "reads_available vote_id cap t s ls \<lparr>mb_waiting = q, mb_read = [], mb_missed = []\<rparr>"
    and "mb_waiting (mailbox_run vote_id cap t s ls \<lparr>mb_waiting = q, mb_read = [], mb_missed = []\<rparr>) = q'"
  shows "subseq (items_read s ls @ q') (q @ published vote_id t ls) \<and>
    (items_read s ls @ q' = q @ published vote_id t ls \<longleftrightarrow> keeps_up vote_id cap t s (length q) ls)"
proof -
  let ?b = "mailbox_run vote_id cap t s ls \<lparr>mb_waiting = q, mb_read = [], mb_missed = []\<rparr>"
  have read: "mb_read ?b = items_read s ls" by (simp add: mailbox_run_read [OF assms(1)])
  have all: "size (mset (items_read s ls @ q' @ mb_missed ?b)) = size (mset (q @ published vote_id t ls))"
    using mailbox_run_mset [OF assms(1)] by (simp add: read assms(2))
  have "mb_missed ?b = [] \<longleftrightarrow> items_read s ls @ q' = q @ published vote_id t ls"
  proof
    assume "mb_missed ?b = []"
    then show "items_read s ls @ q' = q @ published vote_id t ls"
      using mailbox_run_complete [OF assms(1)] by (simp add: read assms(2))
  next
    assume "items_read s ls @ q' = q @ published vote_id t ls"
    then have "length (items_read s ls @ q') = length (q @ published vote_id t ls)" by (rule arg_cong)
    with all have "length (mb_missed ?b) = 0" unfolding size_mset length_append by linarith
    then show "mb_missed ?b = []" by simp
  qed
  with mailbox_run_subseq [OF assms(1)] missed_iff [OF assms(1)] show ?thesis
    by (simp add: read assms(2))
qed

lemma send_all_frame:
  assumes "\<And>w s m. obs (fst (ts w s m)) = obs w"
  shows "obs (fst (send_all ts es w)) = obs w"
proof (induction es arbitrary: w)
  case (Cons e es)
  have "obs (fst (send_entry ts e w)) = obs w"
    using assms by (cases e) (auto simp: send_entry_def split: option.splits prod.splits, metis fst_conv)
  with Cons.IH show ?case by (simp add: fst_send_all_Cons)
qed simp

context server_channels
begin

lemma takes_effect:
  assumes "loop_iteration vote_id ts ev w st = (w', Continue st')" "fresh_run (ev # evs) st"
  shows "w' = fst (send_all ts (map (delivery vote_id ev) (subscribers st)) w)"
    and "mset (subscribers st') = mset (filter (\<lambda>e. \<not> closes_event ev e \<and> \<not> gone vote_id ev w e)
      (subscribers st @ added_of ev))"
    and "fresh_run evs st'"
proof -
  have ok: "\<not> disconnected ev" "\<not> event_panics ev"
    using assms(1) by (auto simp: loop_iteration_disconnected loop_iteration_panics)
  from iteration_step [OF fresh_run_hd [OF assms(2)] ok, of vote_id w] assms(1)
  show 1: "w' = fst (send_all ts (map (delivery vote_id ev) (subscribers st)) w)"
    and 2: "mset (subscribers st') = mset (filter (\<lambda>e. \<not> closes_event ev e \<and> \<not> gone vote_id ev w e)
      (subscribers st @ added_of ev))"
    by auto
  show "fresh_run evs st'" by (rule fresh_run_step [OF assms(2) 2])
qed

end

subsection \<open>Channels with a reading end\<close>

text \<open>
  What a poll of a stream and the end of a receiver do to the channels: an item that is ready
  is the first that waits, and a receiver that is gone closes its own channel only.
\<close>

locale receiving_channels = server_channels ts queued capacity is_open
  for ts :: "('w, 's) sender_fn" and queued capacity is_open +
  fixes env :: "('w, 's, 'o, 'z) stream_env_scheme" and hangup :: "'w \<Rightarrow> 's \<Rightarrow> 'w"
  assumes poll_first: "receiver_poll_next env w s = (w', Ready (Some m)) \<Longrightarrow> queued w s = m # queued w' s"
    and poll_other: "receiver_poll_next env w s = (w', r) \<Longrightarrow> s' \<noteq> s \<Longrightarrow> queued w' s' = queued w s'"
    and poll_capacity: "receiver_poll_next env w s = (w', r) \<Longrightarrow> capacity w' = capacity w"
    and poll_open: "receiver_poll_next env w s = (w', r) \<Longrightarrow> is_open w' = is_open w"
    and hangup_open: "is_open (hangup w s) = (is_open w)(s := False)"
    and hangup_other: "s' \<noteq> s \<Longrightarrow> queued (hangup w s) s' = queued w s'"
    and hangup_capacity: "capacity (hangup w s) = capacity w"
begin

text \<open>What sends, polls and hang-ups keep, a step keeps.\<close>

lemma server_step_frame:
  assumes "server_step vote_id ts env hangup w st l w' st'" "fresh_run (taken [l]) st"
    and "\<And>w s m. obs (fst (ts w s m)) = obs w" "\<And>w s. obs (fst (receiver_poll_next env w s)) = obs w"
    and "\<And>w s. obs (hangup w s) = obs w"
  shows "obs w' = obs w"
  using assms(1)
proof cases
  case (takes ev)
  with assms(2) takes_effect(1) [OF takes(2), of "[]"] show ?thesis
    by (simp add: send_all_frame [of obs, OF assms(3)])
next
  case (reads stream m)
  with assms(4) [of w "ss_inner stream"] show ?thesis by (simp add: poll_next_def)
qed (simp add: assms(5))

text \<open>
  A channel that is still open after a step was open before, and what is read of it and waits
  in it is what waited before and perhaps what was published for its subscriber.
\<close>

lemma server_step_open:
  assumes "server_step vote_id ts env hangup w st l w' st'" "fresh_run (taken [l]) st" "is_open w' s"
  shows "is_open w s"
  using assms(1)
proof cases
  case (takes ev)
  with assms(2,3) takes_effect(1) [OF takes(2), of "[]"] show ?thesis by (simp add: send_all_open)
next
  case (reads stream m)
  then have "receiver_poll_next env w (ss_inner stream) = (w', Ready (Some m))" by (simp add: poll_next_def)
  from poll_open [OF this] assms(3) show ?thesis by simp
next
  case (hangs_up s')
  with assms(3) show ?thesis by (simp add: hangup_open split: if_splits)
qed

lemma server_step_queue:
  assumes "server_step vote_id ts env hangup w st l w' st'" "fresh_run (taken [l]) st" "is_open w' s"
    and topic: "\<forall>(u', t', s') \<in> set (subscribers st). s' = s \<longrightarrow> t' = t"
  shows "subseq (items_read s [l] @ queued w' s) (queued w s @ published vote_id t [l])"
  using assms(1)
proof cases
  case (takes ev)
  have fresh: "fresh_run (ev # []) st" using assms(2) takes(1) by simp
  note w' = takes_effect(1) [OF takes(2) fresh]
  have "queued w' s = queued w s \<or> (\<exists>m. payload vote_id ev t = Some m \<and> queued w' s = queued w s @ [Ok m])"
  proof (cases "s \<in> (snd \<circ> snd) ` set (subscribers st)")
    case True
    then obtain u where e: "(u, t, s) \<in> set (subscribers st)" using topic by force
    from iteration_queue [OF fresh e w'] show ?thesis by (auto split: option.splits)
  next
    case False
    then have "s \<notin> (\<lambda>(u, s, p). s) ` set (map (delivery vote_id ev) (subscribers st))"
      by (force simp: delivery_alt)
    from send_all_queued_other [OF this] show ?thesis by (simp add: w')
  qed
  then show ?thesis by (auto simp: takes(1) split: option.splits)
next
  case (reads stream m)
  then have p: "receiver_poll_next env w (ss_inner stream) = (w', Ready (Some m))" by (simp add: poll_next_def)
  show ?thesis
  proof (cases "s = ss_inner stream")
    case True
    with poll_first [OF p] reads(1) show ?thesis by simp
  next
    case False
    with poll_other [OF p, of s] reads(1) show ?thesis by simp
  qed
next
  case (hangs_up s')
  with assms(3) have "s' \<noteq> s" by (auto simp: hangup_open)
  with hangs_up show ?thesis by (simp add: hangup_other)
qed

text \<open>A subscriber stays unless an event closes it or its channel is gone.\<close>

lemma server_step_stays:
  assumes "server_step vote_id ts env hangup w st l w' st'" "fresh_run (taken [l]) st" "is_open w s"
    and "(u, t, s) \<in> set (subscribers st @ concat (map added_of (taken [l])))"
    and "\<forall>ev. l = Takes ev \<longrightarrow> \<not> closes_event ev (u, t, s)"
  shows "(u, t, s) \<in> set (subscribers st')"
  using assms(1)
proof cases
  case (takes ev)
  have fresh: "fresh_run (ev # []) st" using assms(2) takes(1) by simp
  note eff = takes_effect(2) [OF takes(2) fresh]
  have "(u, t, s) \<in> set (filter (\<lambda>e. \<not> closes_event ev e \<and> \<not> gone vote_id ev w e) (subscribers st @ added_of ev))"
    using assms(3-5) takes(1) by (simp add: gone_def)
  then show ?thesis by (subst set_mset_mset [symmetric], subst eff) simp
qed (use assms(4) in simp_all)

text \<open>A step as the subscriber \<open>(u, t, s)\<close> sees it, who does not hang up.\<close>

lemma step_mailbox:
  assumes "server_step vote_id ts env hangup w st l w' st'"
    and "fresh_run (taken (l # ls)) st" "\<forall>ev. l = Takes ev \<longrightarrow> \<not> closes_event ev (u, t, s)"
    and "(u, t, s) \<in> set (subscribers st)" "is_open w s" "l \<noteq> Hangs_up s" "mb_waiting b = queued w s"
  shows "fresh_run (taken ls) st' \<and> (u, t, s) \<in> set (subscribers st') \<and> is_open w' s \<and>
    capacity w' s = capacity w s \<and>
    mb_waiting (mailbox_step vote_id (capacity w s) t s l b) = queued w' s \<and>
    (\<forall>m. l = Reads s m \<longrightarrow> mb_waiting b \<noteq> [] \<and> m = hd (mb_waiting b))"
  using assms(1)
proof cases
  case (takes ev)
  have fresh: "fresh_run (ev # taken ls) st" using assms(2) takes(1) by simp
  note eff = takes_effect [OF takes(2) fresh]
  have "(u, t, s) \<in> set (subscribers st')"
    using assms(3-5) takes(1) by (subst set_mset_mset [symmetric], subst eff(2)) (simp add: gone_def)
  moreover have "queued w' s = queued w s @ (case payload vote_id ev t of
      Some m \<Rightarrow> if room w s then [Ok m] else [] | None \<Rightarrow> [])"
    using iteration_queue [OF fresh assms(4) eff(1)] by (simp cong: option.case_cong)
  moreover have "is_open w' = is_open w" "capacity w' = capacity w"
    by (simp_all add: eff(1) send_all_open send_all_capacity)
  ultimately show ?thesis
    using eff(3) assms(5, 7) takes(1) by (simp add: room_def split: option.splits)
next
  case (reads stream m)
  let ?p = "receiver_poll_next env w (ss_inner stream)"
  have p: "?p = (w', Ready (Some m))" using reads by (simp add: poll_next_def)
  show ?thesis
    using assms(2, 4, 5, 7) reads poll_first [OF p] poll_other [OF p, of s] poll_capacity [OF p] poll_open [OF p]
    by auto
next
  case (hangs_up s')
  then show ?thesis
    using assms(2, 4-7) by (simp add: hangup_open hangup_other hangup_capacity)
qed

lemma run_mailbox:
  assumes "server_run vote_id ts env hangup w st ls w' st'"
    and "fresh_run (taken ls) st" "\<forall>ev \<in> set (taken ls). \<not> closes_event ev (u, t, s)"
    and "(u, t, s) \<in> set (subscribers st)" "is_open w s" "Hangs_up s \<notin> set ls" "mb_waiting b = queued w s"
  shows "(u, t, s) \<in> set (subscribers st') \<and> is_open w' s \<and>
    mb_waiting (mailbox_run vote_id (capacity w s) t s ls b) = queued w' s \<and>
    reads_available vote_id (capacity w s) t s ls b"
  using assms
proof (induction arbitrary: b rule: server_run.induct)
  case (go w st l w1 st1 ls w' st')
  let ?b = "mailbox_step vote_id (capacity w s) t s l b"
  have step: "fresh_run (taken ls) st1 \<and> (u, t, s) \<in> set (subscribers st1) \<and> is_open w1 s \<and>
    capacity w1 s = capacity w s \<and> mb_waiting ?b = queued w1 s \<and>
    (\<forall>m. l = Reads s m \<longrightarrow> mb_waiting b \<noteq> [] \<and> m = hd (mb_waiting b))"
    by (rule step_mailbox [OF go.hyps(1) go.prems(1)]) (use go.prems in auto)
  have "\<forall>ev \<in> set (taken ls). \<not> closes_event ev (u, t, s)"
    using go.prems(2) by (cases l) simp_all
  with step go.IH [of ?b] go.prems(5) show ?case by simp
qed simp

end


subsection \<open>The reference server\<close>

definition ref_try_send :: "(ref_world, nat) sender_fn" where
  "ref_try_send w s m = (case chan_try_send (rw_chans w) s m of (c, r) \<Rightarrow> (w\<lparr>rw_chans := c\<rparr>, r))"

definition ref_hangup :: "ref_world \<Rightarrow> nat \<Rightarrow> ref_world" where
  "ref_hangup w s = w\<lparr>rw_chans := (rw_chans w)(s := rw_chans w s\<lparr>ch_open := False\<rparr>)\<rparr>"

interpretation ref_server: receiving_channels ref_try_send "\<lambda>w. chan_queued (rw_chans w)"
    "\<lambda>w. chan_capacity (rw_chans w)" "\<lambda>w. chan_is_open (rw_chans w)" ref_env ref_hangup
  by unfold_locales
    (auto simp: ref_try_send_def chan_try_send_def ref_hangup_def ref_env_def fun_eq_iff split: list.splits if_splits)

subsection \<open>What a subscriber sees\<close>

text \<open>
  The server refines a mailbox. However the iterations of the loop, the reads of all
  streams and the hang-ups of other subscribers interleave, a subscriber that neither closes nor
  hangs up stays subscribed, and what it has read and what waits for it is what a bounded
  mailbox holds that is handed the messages of its topic and skips those that do not fit.\<close>

theorem server_refines_mailbox:
  assumes "receiving_channels ts queued capacity is_open env hangup"
    and "server_run vote_id ts env hangup w st ls w' st'"
    and "fresh_run (taken ls) st" "\<forall>ev \<in> set (taken ls). \<not> closes_event ev (u, t, s)"
    and "(u, t, s) \<in> set (subscribers st)" "is_open w s" "Hangs_up s \<notin> set ls"
  shows "(u, t, s) \<in> set (subscribers st') \<and> is_open w' s \<and>
    (let b = mailbox_run vote_id (capacity w s) t s ls \<lparr>mb_waiting = queued w s, mb_read = [], mb_missed = []\<rparr>
     in queued w' s = mb_waiting b \<and> items_read s ls = mb_read b)"
proof -
  let ?b = "\<lparr>mb_waiting = queued w s, mb_read = [], mb_missed = []\<rparr>"
  note run = receiving_channels.run_mailbox [OF assms, of ?b, simplified mailbox.simps, OF refl]
  with mailbox_run_read [of vote_id "capacity w s" t s ls ?b] show ?thesis by simp
qed

text \<open>
  Nothing is reordered, duplicated or made up, and nothing is lost but on a full channel. In any
  such run what the subscriber has read, followed by what still waits, is a subsequence of what
  waited at first followed by the messages published for its topic; and it is all of them exactly
  when the subscriber keeps up.\<close>

theorem subscriber_reads_in_order:
  assumes "receiving_channels ts queued capacity is_open env hangup"
    and "server_run vote_id ts env hangup w st ls w' st'"
    and "fresh_run (taken ls) st" "\<forall>ev \<in> set (taken ls). \<not> closes_event ev (u, t, s)"
    and "(u, t, s) \<in> set (subscribers st)" "is_open w s" "Hangs_up s \<notin> set ls"
  shows "subseq (items_read s ls @ queued w' s) (queued w s @ published vote_id t ls) \<and>
    (items_read s ls @ queued w' s = queued w s @ published vote_id t ls \<longleftrightarrow>
      keeps_up vote_id (capacity w s) t s (length (queued w s)) ls)"
  by (rule mailbox_reads_in_order [of vote_id "capacity w s"])
    (use receiving_channels.run_mailbox [OF assms, of "\<lparr>mb_waiting = queued w s, mb_read = [], mb_missed = []\<rparr>"]
      in simp_all)

text \<open>
  A subscriber to blocks whose channel holds one message: it reads the first block before the
  second is published, so it misses nothing.
\<close>

definition example_ls :: "nat label list" where
  "example_ls = [Takes (Block_update (Ok example_block_update)),
     Reads 0 (Ok (BlockMsg example_block_update)), Takes (Block_update (Ok example_block_update))]"

definition example_system :: ref_world where
  "example_system = example_ref_world\<lparr>rw_chans := example_world\<rparr>"

lemma example_run:
  "\<exists>w' st'. server_run example_vote_id ref_try_send ref_env ref_hangup example_system example_state
    example_ls w' st'"
proof -
  let ?ev = "Block_update (Ok example_block_update) :: nat loop_event"
  let ?run = "server_run example_vote_id ref_try_send ref_env ref_hangup"
  have step: "\<exists>w' st'. loop_iteration example_vote_id ref_try_send ?ev w st = (w', Continue st')" for w st
  proof -
    have "\<exists>st'. snd (loop_iteration example_vote_id ref_try_send ?ev w st) = Continue st'"
      by (rule loop_iteration_continues) simp_all
    then show ?thesis by (metis prod.collapse)
  qed
  obtain w1 st1 where 1: "loop_iteration example_vote_id ref_try_send ?ev example_system example_state = (w1, Continue st1)"
    using step by blast
  then have run1: "?run example_system example_state [Takes ?ev] w1 st1"
    by (auto simp: server_run_Cons intro: server_step.takes)
  have "chan_queued (rw_chans w1) 0 = [Ok (BlockMsg example_block_update)]"
    using ref_server.run_mailbox [OF run1, of 1 On_block 0 "\<lparr>mb_waiting = [], mb_read = [], mb_missed = []\<rparr>"]
    by (simp add: example_simps example_system_def)
  then have 2: "poll_next ref_env \<lparr>ss_inner = 0, ss_stream_closed_signal = None, ss_stream_id = 1, ss_name = []\<rparr> w1 =
      (w1\<lparr>rw_chans := (rw_chans w1)(0 := rw_chans w1 0\<lparr>ch_queue := []\<rparr>)\<rparr>,
       Ready (Some (Ok (BlockMsg example_block_update))))" (is "_ = (?w2, _)")
    by (simp add: poll_next_def ref_env_def)
  obtain w3 st3 where 3: "loop_iteration example_vote_id ref_try_send ?ev ?w2 st1 = (w3, Continue st3)"
    using step by blast
  have "?run example_system example_state example_ls w3 st3"
    unfolding example_ls_def
    by (rule server_run.go [OF server_step.takes [OF 1]])
      (rule server_run.go [OF server_step.reads [OF 2, simplified]],
        rule server_run.go [OF server_step.takes [OF 3]], rule server_run.stop)
  then show ?thesis by blast
qed

lemmas example_ls_simps = example_ls_def example_system_def example_simps

theorem server_refines_mailbox_witness:
  "\<exists>w' st'. server_run example_vote_id ref_try_send ref_env ref_hangup example_system example_state example_ls w' st' \<and>
    (1, On_block, 0) \<in> set (subscribers st') \<and>
    chan_queued (rw_chans w') 0 = [Ok (BlockMsg example_block_update)]"
proof -
  obtain w' st' where run: "server_run example_vote_id ref_try_send ref_env ref_hangup example_system example_state example_ls w' st'"
    using example_run by blast
  from server_refines_mailbox [OF ref_server.receiving_channels_axioms run, of 1 On_block 0] run show ?thesis
    by (intro exI [of _ w'] exI [of _ st']) (simp add: example_ls_simps)
qed

theorem subscriber_reads_in_order_witness:
  "\<exists>w' :: ref_world. [Ok (BlockMsg example_block_update)] @ chan_queued (rw_chans w') 0 =
    [Ok (BlockMsg example_block_update), Ok (BlockMsg example_block_update)]"
proof -
  obtain w' st' where run: "server_run example_vote_id ref_try_send ref_env ref_hangup example_system example_state example_ls w' st'"
    using example_run by blast
  from subscriber_reads_in_order [OF ref_server.receiving_channels_axioms run, of 1 On_block 0] show ?thesis
    by - (rule exI [of _ w'], simp add: example_ls_simps)
qed


end
