(* ===== verification/Whole_Server.thy ===== *)
theory Whole_Server
  imports Server_System
begin

section \<open>The service, the loop and the subscribers together\<close>

text \<open>
  The ids and channels the event loop works on come from the service, by way of the channel of
  added events. A step of the whole server is a call of the service, an iteration of the loop,
  which takes an added event from that channel or something else from another, a poll of a
  stream, or a stream being dropped. That no id and no channel occurs twice is then no
  assumption: it holds in every reachable state.
\<close>

text \<open>
  A step of the whole: a step of the loop, of a reader or of a channel's end, where an added
  event is the first that waits in its channel; or a call of the service, a poll that yields
  nothing, a stream being dropped, which the subscribers do not see. The events on the other
  channels may be anything, so that what is shown holds for every plugin, and the service may
  have any configuration and any highest write slot. A call of the service is one step.
\<close>

inductive system_step ::
  "bytes \<Rightarrow> ('w, 's) sender_fn \<Rightarrow> ('w, 's, 'o, 'z) service_env_scheme \<Rightarrow> ('w \<Rightarrow> 's \<Rightarrow> 'w) \<Rightarrow>
    ('w \<Rightarrow> 's SubscriptionAddedEvent list) \<Rightarrow> ('w \<Rightarrow> 'w) \<Rightarrow>
    'w \<Rightarrow> 's loop_state \<Rightarrow> 's label list \<Rightarrow> 'w \<Rightarrow> 's loop_state \<Rightarrow> bool"
  for vote_id ts env hangup added take_added where
  serves: "server_step vote_id ts env hangup w st l w' st' \<Longrightarrow>
    \<nexists>maybe. l = Takes (Subscription_added maybe) \<Longrightarrow>
    system_step vote_id ts env hangup added take_added w st [l] w' st'"
| takes_added: "added w = a # rest \<Longrightarrow>
    server_step vote_id ts env hangup (take_added w) st (Takes (Subscription_added (Ok a))) w' st' \<Longrightarrow>
    system_step vote_id ts env hangup added take_added w st [Takes (Subscription_added (Ok a))] w' st'"
| subscribes: "call env self req w = (w', r) \<Longrightarrow>
    system_step vote_id ts env hangup added take_added w st [] w' st"
| polls: "poll_next env stream w = (w', r) \<Longrightarrow> \<nexists>m. r = Ready (Some m) \<Longrightarrow>
    system_step vote_id ts env hangup added take_added w st [] w' st"
| drops: "drop_stream env stream w = (w', r) \<Longrightarrow>
    system_step vote_id ts env hangup added take_added w st [] w' st"

text \<open>A run counts its steps and collects what the subscribers see.\<close>

inductive system_run ::
  "bytes \<Rightarrow> ('w, 's) sender_fn \<Rightarrow> ('w, 's, 'o, 'z) service_env_scheme \<Rightarrow> ('w \<Rightarrow> 's \<Rightarrow> 'w) \<Rightarrow>
    ('w \<Rightarrow> 's SubscriptionAddedEvent list) \<Rightarrow> ('w \<Rightarrow> 'w) \<Rightarrow>
    'w \<Rightarrow> 's loop_state \<Rightarrow> nat \<Rightarrow> 's label list \<Rightarrow> 'w \<Rightarrow> 's loop_state \<Rightarrow> bool"
  for vote_id ts env hangup added take_added where
  stop: "system_run vote_id ts env hangup added take_added w st 0 [] w st"
| go: "system_step vote_id ts env hangup added take_added w st l w1 st1 \<Longrightarrow>
    system_run vote_id ts env hangup added take_added w1 st1 n ls w' st' \<Longrightarrow>
    system_run vote_id ts env hangup added take_added w st (Suc n) (l @ ls) w' st'"

definition waiting_events :: "'s SubscriptionAddedEvent list \<Rightarrow> 's loop_event list" where
  "waiting_events as = map (Subscription_added \<circ> Inr) as"

lemma concat_added_of [simp]: "concat (map added_of (waiting_events as)) = map subscriber_of as"
  by (induction as) (simp_all add: waiting_events_def)

text \<open>
  What the runtime promises: a new channel is one that was not there, a new uuid is one that was
  not drawn as long as there is one, an added event that is sent goes to the end of its channel,
  and nothing else touches any of the three. A subscriber's channel is touched by sends, polls
  and hang-ups only.
\<close>

locale whole_server = receiving_channels ts queued capacity is_open env hangup
  for ts :: "('w, 's) sender_fn" and queued capacity is_open
    and env :: "('w, 's, 'o, 'z) service_env_scheme" and hangup +
  fixes added :: "'w \<Rightarrow> 's SubscriptionAddedEvent list"
    and take_added :: "'w \<Rightarrow> 'w"
    and issued :: "'w \<Rightarrow> uuid set"
    and made :: "'w \<Rightarrow> 's set"
  assumes channel_new: "mpsc_channel env w n = Ok (w', s) \<Longrightarrow> s \<notin> made w \<and>
      made w' = insert s (made w) \<and> issued w' = issued w \<and> added w' = added w"
    and channel_others: "mpsc_channel env w n = Ok (w', s) \<Longrightarrow> s' \<noteq> s \<Longrightarrow>
      queued w' s' = queued w s' \<and> capacity w' s' = capacity w s' \<and> is_open w' s' = is_open w s'"
    and uuid_new: "uuid_new_v4 env w = (w', u) \<Longrightarrow> (issued w \<noteq> UNIV \<longrightarrow> u \<notin> issued w) \<and>
      issued w' = insert u (issued w) \<and> made w' = made w \<and> added w' = added w"
    and added_sent: "added_try_send env w e = (w', r) \<Longrightarrow>
      added w' = (if is_err r then added w else added w @ [e]) \<and> issued w' = issued w \<and> made w' = made w"
    and added_taken: "added (take_added w) = tl (added w)" "issued (take_added w) = issued w"
      "made (take_added w) = made w"
    and others_keep:
      "added (fst (oneshot_channel env w)) = added w" "issued (fst (oneshot_channel env w)) = issued w"
      "made (fst (oneshot_channel env w)) = made w"
      "added (spawn_closed_task env w sig ev) = added w" "issued (spawn_closed_task env w sig ev) = issued w"
      "made (spawn_closed_task env w sig ev) = made w"
      "added (fst (oneshot_send env w sig)) = added w" "issued (fst (oneshot_send env w sig)) = issued w"
      "made (fst (oneshot_send env w sig)) = made w"
      "added (fst (receiver_poll_next env w s)) = added w" "issued (fst (receiver_poll_next env w s)) = issued w"
      "made (fst (receiver_poll_next env w s)) = made w"
      "added (fst (ts w s m)) = added w" "issued (fst (ts w s m)) = issued w" "made (fst (ts w s m)) = made w"
      "added (hangup w s) = added w" "issued (hangup w s) = issued w" "made (hangup w s) = made w"
    and channels_keep:
      "queued (fst (uuid_new_v4 env w)) = queued w" "capacity (fst (uuid_new_v4 env w)) = capacity w"
      "is_open (fst (uuid_new_v4 env w)) = is_open w"
      "queued (fst (added_try_send env w e)) = queued w" "capacity (fst (added_try_send env w e)) = capacity w"
      "is_open (fst (added_try_send env w e)) = is_open w"
      "queued (fst (oneshot_channel env w)) = queued w" "capacity (fst (oneshot_channel env w)) = capacity w"
      "is_open (fst (oneshot_channel env w)) = is_open w"
      "queued (spawn_closed_task env w sig ev) = queued w" "capacity (spawn_closed_task env w sig ev) = capacity w"
      "is_open (spawn_closed_task env w sig ev) = is_open w"
      "queued (fst (oneshot_send env w sig)) = queued w" "capacity (fst (oneshot_send env w sig)) = capacity w"
      "is_open (fst (oneshot_send env w sig)) = is_open w"
      "queued (take_added w) = queued w" "capacity (take_added w) = capacity w"
      "is_open (take_added w) = is_open w"
    and poll_nothing: "receiver_poll_next env w s = (w', p) \<Longrightarrow> \<nexists>m. p = Ready (Some m) \<Longrightarrow> queued w' = queued w"
begin

lemma send_all_keeps:
  "added (fst (send_all ts es w)) = added w" "issued (fst (send_all ts es w)) = issued w"
  "made (fst (send_all ts es w)) = made w"
  by (rule send_all_frame, rule others_keep)+

lemma stream_response_keeps:
  assumes "stream_response env self s u c n w = (w', r)"
  shows "added w' = added w" "issued w' = issued w" "made w' = made w"
    "queued w' = queued w" "capacity w' = capacity w" "is_open w' = is_open w"
proof -
  obtain w1 sig where 1: "oneshot_channel env w = (w1, sig)" by fastforce
  with assms have w': "w' = spawn_closed_task env w1 sig c" "w1 = fst (oneshot_channel env w)"
    by (auto simp: stream_response_def subscription_stream_new_def)
  show "added w' = added w" "issued w' = issued w" "made w' = made w"
    "queued w' = queued w" "capacity w' = capacity w" "is_open w' = is_open w"
    unfolding w' by (simp_all add: others_keep channels_keep)
qed

text \<open>A call leaves the channels there are alone.\<close>

lemma call_channels:
  assumes "call env self req w = (w', r)" "s \<in> made w"
  shows "queued w' s = queued w s \<and> capacity w' s = capacity w s \<and> is_open w' s = is_open w s"
proof (cases "mpsc_channel env w (unat (gsc_subscriber_buffer_size (gs_service_config self)))")
  case (Inl p)
  with assms(1) show ?thesis by (simp add: call_open_subscription open_subscription_def)
next
  case (Inr ws)
  obtain w1 s1 where 1: "mpsc_channel env w (unat (gsc_subscriber_buffer_size (gs_service_config self))) = Ok (w1, s1)"
    using Inr by (cases ws) simp
  obtain w2 u where 2: "uuid_new_v4 env w1 = (w2, u)" by fastforce
  obtain w3 q where 3: "added_try_send env w2 (added_event (topic_of req) u s1) = (w3, q)" by fastforce
  have "s \<noteq> s1" using channel_new [OF 1] assms(2) by blast
  note new = channel_others [OF 1 this]
  have w3: "queued w3 = queued w1" "capacity w3 = capacity w1" "is_open w3 = is_open w1"
    using channels_keep(1-3) [of w1] channels_keep(4-6) [of w2 "added_event (topic_of req) u s1"]
    by (simp_all add: 2 3)
  consider "w' = w1" | "w' = w3" | "stream_response env self s1 u (closed_event (topic_of req) u) (name_of req) w3 = (w', r)"
    using assms(1) unfolding call_open_subscription open_subscription_def 1 sum.case prod.case 2 3
    by (cases "valid_request req"; cases q) simp_all
  then show ?thesis
  proof cases
    case 3
    with new w3 stream_response_keeps(4-6) [OF 3] show ?thesis by simp
  qed (use new w3 in simp_all)
qed

text \<open>A call hands at most one subscription to the loop, and that one is new.\<close>

lemma call_effect:
  assumes "call env self req w = (w', r)" "issued w \<noteq> UNIV"
  obtains u where "issued w \<subseteq> issued w'" "issued w' \<subseteq> insert u (issued w)" "made w \<subseteq> made w'"
    "added w' = added w \<or> (\<exists>s t. added w' = added w @ [added_event t u s] \<and>
      u \<notin> issued w \<and> u \<in> issued w' \<and> s \<notin> made w \<and> s \<in> made w')"
proof (cases "mpsc_channel env w (unat (gsc_subscriber_buffer_size (gs_service_config self)))")
  case (Inl p)
  with assms(1) that show ?thesis by (auto simp: call_open_subscription open_subscription_def)
next
  case (Inr ws)
  obtain w1 s where 1: "mpsc_channel env w (unat (gsc_subscriber_buffer_size (gs_service_config self))) = Ok (w1, s)"
    using Inr by (cases ws) simp
  obtain w2 u where 2: "uuid_new_v4 env w1 = (w2, u)" by fastforce
  obtain w3 q where 3: "added_try_send env w2 (added_event (topic_of req) u s) = (w3, q)" by fastforce
  note frames = channel_new [OF 1] uuid_new [OF 2] added_sent [OF 3]
  show ?thesis
  proof (cases "valid_request req")
    case False
    with assms(1) frames that show ?thesis
      by (auto simp: call_open_subscription open_subscription_def 1)
  next
    case True
    have "added w' = added w3 \<and> issued w' = issued w3 \<and> made w' = made w3"
    proof (cases q)
      case (Inl e)
      with assms(1) True have "w' = w3" by (simp add: call_open_subscription open_subscription_def 1 2 3)
      then show ?thesis by simp
    next
      case (Inr x)
      with assms(1) True
      have "stream_response env self s u (closed_event (topic_of req) u) (name_of req) w3 = (w', r)"
        by (simp add: call_open_subscription open_subscription_def 1 2 3)
      from stream_response_keeps [OF this] show ?thesis by simp
    qed
    with frames assms(2) have end_state: "issued w' = insert u (issued w)" "made w' = insert s (made w)"
      "u \<notin> issued w" "s \<notin> made w"
      "added w' = (if is_err q then added w else added w @ [added_event (topic_of req) u s])"
      by simp_all
    show ?thesis
    proof (rule that [of u])
      show "added w' = added w \<or> (\<exists>s t. added w' = added w @ [added_event t u s] \<and>
        u \<notin> issued w \<and> u \<in> issued w' \<and> s \<notin> made w \<and> s \<in> made w')"
      proof (cases "is_err q")
        case False
        with end_state show ?thesis by (intro disjI2 exI [of _ s] exI [of _ "topic_of req"]) simp
      qed (simp add: end_state)
    qed (auto simp: end_state)
  qed
qed

text \<open>
  The invariant: what the loop holds and what waits for it has no id and no channel twice, all
  of them were drawn or made before, and no more ids were drawn than steps taken.
\<close>

definition pending :: "'w \<Rightarrow> 's loop_state \<Rightarrow> 's subscriber list" where
  "pending w st = subscribers st @ map subscriber_of (added w)"

definition fresh_inv :: "nat \<Rightarrow> 'w \<Rightarrow> 's loop_state \<Rightarrow> bool" where
  "fresh_inv n w st \<longleftrightarrow> fresh_run (waiting_events (added w)) st \<and>
     fst ` set (pending w st) \<subseteq> issued w \<and> (snd \<circ> snd) ` set (pending w st) \<subseteq> made w \<and>
     card (issued w) \<le> n"

lemma fresh_inv_now:
  assumes "fresh_inv n w st" "concat (map added_of evs) = []"
  shows "fresh_run evs st"
  using assms(1) unfolding fresh_inv_def fresh_run_def assms(2) by simp

lemma fresh_run_pending:
  "fresh_run (waiting_events (added w)) st \<longleftrightarrow>
    distinct (map fst (pending w st)) \<and> distinct (map (snd \<circ> snd) (pending w st))"
  by (simp add: fresh_run_def pending_def)

lemma fresh_inv_frame:
  assumes "fresh_inv n w st" "added w' = added w" "issued w' = issued w" "made w' = made w"
  shows "fresh_inv (Suc n) w' st"
  using assms by (simp add: fresh_inv_def pending_def)

lemma fresh_inv_call:
  assumes inv: "fresh_inv n w st" and "n < 2 ^ 128" and "call env self req w = (w', r)"
  shows "fresh_inv (Suc n) w' st"
proof -
  have "issued w \<noteq> UNIV" using inv assms(2) by (auto simp: fresh_inv_def card_word)
  from call_effect [OF assms(3) this] obtain u where u: "issued w \<subseteq> issued w'"
    "issued w' \<subseteq> insert u (issued w)" "made w \<subseteq> made w'"
    and cases: "added w' = added w \<or> (\<exists>s t. added w' = added w @ [added_event t u s] \<and>
      u \<notin> issued w \<and> u \<in> issued w' \<and> s \<notin> made w \<and> s \<in> made w')" .
  have "card (issued w') \<le> card (insert u (issued w))" using u(2) by (intro card_mono) simp_all
  also have "\<dots> \<le> Suc (card (issued w))" by (rule card_insert_le_m1) simp_all
  finally have card: "card (issued w') \<le> Suc n" using inv by (simp add: fresh_inv_def)
  have old: "fst ` set (pending w st) \<subseteq> issued w" "(snd \<circ> snd) ` set (pending w st) \<subseteq> made w"
    "fresh_run (waiting_events (added w)) st"
    using inv by (simp_all add: fresh_inv_def)
  from cases show ?thesis
  proof (elim disjE exE conjE)
    assume "added w' = added w"
    then have "pending w' st = pending w st" "added w' = added w" by (simp_all add: pending_def)
    with old card subset_trans [OF old(1) u(1)] subset_trans [OF old(2) u(3)] show ?thesis
      by (simp add: fresh_inv_def)
  next
    fix s t
    assume new: "added w' = added w @ [added_event t u s]" "u \<notin> issued w" "u \<in> issued w'"
      "s \<notin> made w" "s \<in> made w'"
    have P: "pending w' st = pending w st @ [(u, t, s)]" by (simp add: pending_def new(1))
    have "u \<notin> fst ` set (pending w st)" "s \<notin> (snd \<circ> snd) ` set (pending w st)"
      using old(1,2) new(2,4) by blast+
    then have "fresh_run (waiting_events (added w')) st"
      using old(3) by (simp add: fresh_run_pending P)
    moreover have "fst ` set (pending w' st) \<subseteq> issued w'" "(snd \<circ> snd) ` set (pending w' st) \<subseteq> made w'"
      using subset_trans [OF old(1) u(1)] subset_trans [OF old(2) u(3)] new(3,5) by (simp_all add: P)
    ultimately show ?thesis using card by (simp add: fresh_inv_def)
  qed
qed

lemma fresh_inv_iteration:
  assumes inv: "fresh_inv n w st" and w1: "issued w1 = issued w" "made w1 = made w"
    and ev: "waiting_events (added w) = waiting_events (added w1) \<and> added_of ev = [] \<or>
      waiting_events (added w) = ev # waiting_events (added w1)"
    and it: "loop_iteration vote_id ts ev w1 st = (w', Continue st')"
  shows "fresh_inv (Suc n) w' st'"
proof -
  have waiting: "map subscriber_of (added w) = added_of ev @ map subscriber_of (added w1)"
    using ev by (auto simp flip: concat_added_of)
  have "fresh_run (ev # waiting_events (added w1)) st"
    using inv by (simp add: fresh_inv_def fresh_run_def waiting)
  note eff = takes_effect [OF it this]
  have keeps: "added w' = added w1" "issued w' = issued w" "made w' = made w"
    by (simp_all add: eff(1) send_all_keeps w1)
  have "set (subscribers st') \<subseteq> set (subscribers st @ added_of ev)"
    using arg_cong [OF eff(2), of set_mset] by auto
  then have sub: "set (pending w' st') \<subseteq> set (pending w st)"
    by (auto simp: pending_def keeps waiting)
  show ?thesis
    unfolding fresh_inv_def keeps
  proof (intro conjI)
    show "fresh_run (waiting_events (added w1)) st'" by (rule eff(3))
    show "fst ` set (pending w' st') \<subseteq> issued w"
      by (rule subset_trans [OF image_mono [OF sub]]) (use inv in \<open>simp add: fresh_inv_def\<close>)
    show "(snd \<circ> snd) ` set (pending w' st') \<subseteq> made w"
      by (rule subset_trans [OF image_mono [OF sub]]) (use inv in \<open>simp add: fresh_inv_def\<close>)
    show "card (issued w) \<le> Suc n" using inv by (simp add: fresh_inv_def)
  qed
qed

lemma fresh_inv_server_step:
  assumes "server_step vote_id ts env hangup w1 st l w' st'"
    and inv: "fresh_inv n w st" and w1: "issued w1 = issued w" "made w1 = made w"
    and l: "waiting_events (added w) = waiting_events (added w1) \<and> concat (map added_of (taken [l])) = [] \<or>
      waiting_events (added w) = taken [l] @ waiting_events (added w1)"
  shows "fresh_inv (Suc n) w' st'"
  using assms(1)
proof cases
  case (takes ev)
  show ?thesis
    by (rule fresh_inv_iteration [OF inv w1 _ takes(2)]) (use l takes(1) in simp)
next
  case (reads stream m)
  then have "added w1 = added w" using l by (simp add: waiting_events_def inj_map_eq_map inj_def)
  with reads w1 others_keep(10-12) [of w1 "ss_inner stream"] fresh_inv_frame [OF inv] show ?thesis
    by (simp add: poll_next_def)
next
  case (hangs_up s)
  then have "added w1 = added w" using l by (simp add: waiting_events_def inj_map_eq_map inj_def)
  with hangs_up w1 fresh_inv_frame [OF inv] show ?thesis by (simp add: others_keep)
qed

lemma taken_not_added:
  assumes "\<nexists>maybe. l = Takes (Subscription_added maybe)"
  shows "concat (map added_of (taken [l])) = []"
proof (cases l)
  case (Takes ev)
  with assms show ?thesis by (cases ev) auto
qed simp_all

lemma drop_stream_world:
  "drop_stream env stream w = (w', r) \<Longrightarrow> w' = w \<or> (\<exists>sig. w' = fst (oneshot_send env w sig))"
  by (cases "ss_stream_closed_signal stream") (auto simp: drop_stream_def split: prod.splits, metis fst_conv)

lemma fresh_inv_step:
  assumes "system_step vote_id ts env hangup added take_added w st ls w' st'" "fresh_inv n w st" "n < 2 ^ 128"
  shows "fresh_inv (Suc n) w' st'"
  using assms(1)
proof cases
  case (serves l)
  show ?thesis
    by (rule fresh_inv_server_step [OF serves(2) assms(2)]) (simp_all add: taken_not_added [OF serves(3)])
next
  case (takes_added a rest)
  show ?thesis
    by (rule fresh_inv_server_step [OF takes_added(3) assms(2) added_taken(2,3)])
      (simp add: added_taken(1) waiting_events_def takes_added(2))
next
  case (subscribes self req r)
  with assms fresh_inv_call show ?thesis by blast
next
  case (polls stream r)
  then show ?thesis
    using others_keep(10-12) [of w "ss_inner stream"] fresh_inv_frame [OF assms(2)]
    by (simp add: poll_next_def)
next
  case (drops stream r)
  from drop_stream_world [OF drops(3)] have "added w' = added w" "issued w' = issued w" "made w' = made w"
    by (elim disjE exE; simp add: others_keep)+
  from fresh_inv_frame [OF assms(2) this] show ?thesis by (simp add: drops(2))
qed

lemma fresh_inv_run:
  assumes "system_run vote_id ts env hangup added take_added w st n ls w' st'"
    and "fresh_inv k w st" "k + n \<le> 2 ^ 128"
  shows "fresh_inv (k + n) w' st'"
  using assms
proof (induction arbitrary: k rule: system_run.induct)
  case (go w st l w1 st1 n ls w' st')
  from fresh_inv_step [OF go.hyps(1) go.prems(1)] go.prems(2) have "fresh_inv (Suc k) w1 st1" by simp
  from go.IH [OF this] go.prems(2) show ?case by simp
qed simp

lemma fresh_inv_start:
  assumes "added w = []" "issued w = {}"
  shows "fresh_inv 0 w empty_loop_state"
  using assms
  by (simp add: fresh_inv_def pending_def fresh_run_def waiting_events_def subscribers_def empty_loop_state_def)

text \<open>What a step of the whole is for a subscriber.\<close>

lemma system_step_mailbox:
  assumes "system_step vote_id ts env hangup added take_added w st ls w' st'" and inv: "fresh_inv n w st"
    and "\<forall>ev \<in> set (taken ls). \<not> closes_event ev (u, t, s)"
    and "(u, t, s) \<in> set (subscribers st)" "is_open w s" "Hangs_up s \<notin> set ls" "mb_waiting b = queued w s"
  shows "(u, t, s) \<in> set (subscribers st') \<and> is_open w' s \<and> capacity w' s = capacity w s \<and>
    mb_waiting (mailbox_run vote_id (capacity w s) t s ls b) = queued w' s \<and>
    reads_available vote_id (capacity w s) t s ls b"
  using assms(1)
proof cases
  case (serves l)
  have "fresh_run (taken [l]) st" by (rule fresh_inv_now [OF inv taken_not_added [OF serves(3)]])
  then show ?thesis
    using step_mailbox [OF serves(2), of "[]" u t s b] assms(3-7) serves(1)
    by (cases l) simp_all
next
  case (takes_added a rest)
  let ?ev = "Subscription_added (Ok a)"
  have "fresh_run (taken [Takes ?ev]) st"
    using inv takes_added(2) by (auto simp: fresh_inv_def fresh_run_def)
  then show ?thesis
    using step_mailbox [OF takes_added(3), of "[]" u t s b] assms(3-7) takes_added(1)
    by (simp add: channels_keep)
next
  case (subscribes self req r)
  have "s \<in> made w" using inv assms(4) by (force simp: fresh_inv_def pending_def)
  from call_channels [OF subscribes(3) this] assms(4,5,7) subscribes(1,2) show ?thesis by simp
next
  case (polls stream r)
  let ?p = "receiver_poll_next env w (ss_inner stream)"
  have p: "?p = (w', r)" using polls(3) by (simp add: poll_next_def)
  from poll_nothing [OF p polls(4)] poll_capacity [OF p] poll_open [OF p] assms(4,5,7) polls(1,2)
  show ?thesis by simp
next
  case (drops stream r)
  from drop_stream_world [OF drops(3)] have "queued w' = queued w" "capacity w' = capacity w" "is_open w' = is_open w"
    by (elim disjE exE; simp add: channels_keep)+
  with assms(4,5,7) drops(1,2) show ?thesis by simp
qed

lemma system_run_mailbox:
  assumes "system_run vote_id ts env hangup added take_added w st n ls w' st'"
    and "fresh_inv k w st" "k + n \<le> 2 ^ 128" "\<forall>ev \<in> set (taken ls). \<not> closes_event ev (u, t, s)"
    and "(u, t, s) \<in> set (subscribers st)" "is_open w s" "Hangs_up s \<notin> set ls" "mb_waiting b = queued w s"
  shows "(u, t, s) \<in> set (subscribers st') \<and> is_open w' s \<and>
    mb_waiting (mailbox_run vote_id (capacity w s) t s ls b) = queued w' s \<and>
    reads_available vote_id (capacity w s) t s ls b"
  using assms
proof (induction arbitrary: k b rule: system_run.induct)
  case (go w st l w1 st1 n ls w' st')
  let ?b = "mailbox_run vote_id (capacity w s) t s l b"
  have open_l: "\<forall>ev \<in> set (taken l). \<not> closes_event ev (u, t, s)"
    "\<forall>ev \<in> set (taken ls). \<not> closes_event ev (u, t, s)"
    using go.prems(3) by (simp_all add: taken_append)
  have step: "(u, t, s) \<in> set (subscribers st1) \<and> is_open w1 s \<and> capacity w1 s = capacity w s \<and>
    mb_waiting ?b = queued w1 s \<and> reads_available vote_id (capacity w s) t s l b"
    by (rule system_step_mailbox [OF go.hyps(1) go.prems(1) open_l(1)]) (use go.prems in auto)
  have "fresh_inv (Suc k) w1 st1" using fresh_inv_step [OF go.hyps(1) go.prems(1)] go.prems(2) by simp
  from go.IH [OF this _ open_l(2), of ?b] step go.prems(2,6) show ?case
    by (simp add: mailbox_run_append reads_available_append)
qed simp

lemma reachable_mailbox:
  assumes "added w0 = []" "issued w0 = {}" "k + n \<le> 2 ^ 128"
    and "system_run vote_id ts env hangup added take_added w0 empty_loop_state k ls0 w st"
    and "system_run vote_id ts env hangup added take_added w st n ls w' st'"
    and "\<forall>ev \<in> set (taken ls). \<not> closes_event ev (u, t, s)"
    and "(u, t, s) \<in> set (subscribers st)" "is_open w s" "Hangs_up s \<notin> set ls"
  shows "(u, t, s) \<in> set (subscribers st') \<and> is_open w' s \<and>
    mb_waiting (mailbox_run vote_id (capacity w s) t s ls \<lparr>mb_waiting = queued w s, mb_read = [], mb_missed = []\<rparr>)
      = queued w' s \<and>
    reads_available vote_id (capacity w s) t s ls \<lparr>mb_waiting = queued w s, mb_read = [], mb_missed = []\<rparr>"
proof -
  have "fresh_inv k w st" using fresh_inv_run [OF assms(4) fresh_inv_start [OF assms(1,2)]] assms(3) by simp
  from system_run_mailbox [OF assms(5) this assms(3,6-9), of "\<lparr>mb_waiting = queued w s, mb_read = [], mb_missed = []\<rparr>"]
  show ?thesis by simp
qed

end

subsection \<open>The reference server\<close>

definition ref_take_added :: "ref_world \<Rightarrow> ref_world" where
  "ref_take_added w = w\<lparr>rw_added := tl (rw_added w)\<rparr>"

definition ref_issued :: "ref_world \<Rightarrow> uuid set" where
  "ref_issued w = word_of_nat ` {..<rw_uuids w}"

definition ref_made :: "ref_world \<Rightarrow> nat set" where
  "ref_made w = {..<rw_next w}"

lemma word_of_nat_new:
  assumes "word_of_nat ` {..<n} \<noteq> (UNIV :: 'a :: len word set)"
  shows "(word_of_nat n :: 'a word) \<notin> word_of_nat ` {..<n}"
proof
  assume "(word_of_nat n :: 'a word) \<in> word_of_nat ` {..<n}"
  then obtain m where m: "m < n" "(word_of_nat n :: 'a word) = word_of_nat m" by auto
  have "n < 2 ^ LENGTH('a)"
  proof (rule ccontr)
    assume "\<not> n < 2 ^ LENGTH('a)"
    then have "x \<in> word_of_nat ` {..<n}" for x :: "'a word"
    proof (intro image_eqI [of _ _ "unat x"])
      have "unat x < 2 ^ LENGTH('a)" by (rule unsigned_less)
      also have "\<dots> \<le> n" using \<open>\<not> n < 2 ^ LENGTH('a)\<close> by (rule leI)
      finally show "unat x \<in> {..<n}" by (rule lessThan_iff [THEN iffD2])
    qed simp
    with assms show False by blast
  qed
  with m(1) of_nat_inverse [OF m(2)] of_nat_inverse [OF refl, of m, where 'a = 'a] show False by simp
qed

lemma ref_issued_Suc:
  "ref_issued (w\<lparr>rw_uuids := Suc n\<rparr>) = insert (word_of_nat n) (ref_issued (w\<lparr>rw_uuids := n\<rparr>))"
  by (simp add: ref_issued_def lessThan_Suc)

interpretation ref_whole: whole_server ref_try_send "\<lambda>w. chan_queued (rw_chans w)"
    "\<lambda>w. chan_capacity (rw_chans w)" "\<lambda>w. chan_is_open (rw_chans w)" ref_env ref_hangup
    rw_added ref_take_added ref_issued ref_made
proof (unfold_locales, goal_cases)
  case (3 w w' u)
  then show ?case
    using word_of_nat_new [of "rw_uuids w", where 'a = 128, folded ref_issued_def]
    by (auto simp: ref_env_def ref_made_def ref_issued_Suc)
qed (auto simp: ref_env_def ref_issued_def ref_made_def ref_take_added_def ref_try_send_def ref_hangup_def
    chan_try_send_def lessThan_Suc split: if_splits list.splits prod.splits)

subsection \<open>A run of the reference server\<close>

text \<open>
  Someone subscribes to blocks and the loop takes the added event; then a block is published
  and read.
\<close>

definition example_later :: "nat label list" where
  "example_later = [Takes (Block_update (Ok example_block_update)), Reads 0 (Ok (BlockMsg example_block_update))]"

abbreviation example_system_run ::
  "ref_world \<Rightarrow> nat loop_state \<Rightarrow> nat \<Rightarrow> nat label list \<Rightarrow> ref_world \<Rightarrow> nat loop_state \<Rightarrow> bool" where
  "example_system_run \<equiv> system_run example_vote_id ref_try_send ref_env ref_hangup rw_added ref_take_added"

lemma ref_call:
  assumes "valid_request req"
  obtains w1 resp where "call ref_env example_service req example_ref_world = (w1, Ok (Ok resp))"
    "ss_inner (resp_body resp) = 0" "ss_stream_id (resp_body resp) = 0"
    "ss_stream_closed_signal (resp_body resp) = Some 1"
    "rw_added w1 = [added_event (topic_of req) 0 0]" "rw_chans w1 0 = new_chan 10" "rw_signalled w1 = []"
proof -
  have "\<exists>w1 resp. call ref_env example_service req example_ref_world = (w1, Ok (Ok resp)) \<and>
    ss_inner (resp_body resp) = 0 \<and> ss_stream_id (resp_body resp) = 0 \<and>
    ss_stream_closed_signal (resp_body resp) = Some 1 \<and>
    rw_added w1 = [added_event (topic_of req) 0 0] \<and> rw_chans w1 0 = new_chan 10 \<and> rw_signalled w1 = []"
    unfolding call_open_subscription
    by (simp add: assms open_subscription_def stream_response_def subscription_stream_new_def
        ref_env_def example_service_def example_ref_world_def)
  then show thesis using that by blast
qed

lemma ref_added:
  assumes "rw_added w = [a]"
  obtains st where "system_step example_vote_id ref_try_send ref_env ref_hangup rw_added ref_take_added w empty_loop_state
      [Takes (Subscription_added (Ok a))] (ref_take_added w) st"
    "subscribers st = [subscriber_of a]"
proof -
  have "\<exists>st. loop_iteration example_vote_id ref_try_send (Subscription_added (Ok a)) (ref_take_added w) empty_loop_state
      = (ref_take_added w, Continue st) \<and> subscribers st = [subscriber_of a]"
    by (cases a) (simp_all add: loop_iteration_def handle_subscription_added_def subscribers_def
        empty_loop_state_def hm_insert_def)
  then obtain st where 2: "loop_iteration example_vote_id ref_try_send (Subscription_added (Ok a)) (ref_take_added w)
      empty_loop_state = (ref_take_added w, Continue st)" and st: "subscribers st = [subscriber_of a]" by blast
  have "system_step example_vote_id ref_try_send ref_env ref_hangup rw_added ref_take_added w empty_loop_state
      [Takes (Subscription_added (Ok a))] (ref_take_added w) st"
    using assms by (rule system_step.takes_added) (rule server_step.takes [OF 2])
  then show thesis by (rule that) (rule st)
qed

lemma ref_served:
  assumes "subscribers st = [(0, t, 0)]" "rw_chans w 0 = new_chan 10"
    and ev: "payload example_vote_id ev t = Some m" "\<not> disconnected ev" "\<not> event_panics ev" "added_of ev = []"
      "\<nexists>maybe. ev = Subscription_added maybe" "\<not> closes_event ev (0, t, 0)"
  obtains w' st' where "example_system_run w st 2 [Takes ev, Reads 0 (Ok m)] w' st'"
    "rw_signalled w' = rw_signalled w" "chan_is_open (rw_chans w') 0"
proof -
  obtain w1 st1 where 1: "loop_iteration example_vote_id ref_try_send ev w st = (w1, Continue st1)"
    using loop_iteration_continues [of ev example_vote_id ref_try_send w st] ev(2,3)
    by (cases "loop_iteration example_vote_id ref_try_send ev w st") auto
  then have step: "server_step example_vote_id ref_try_send ref_env ref_hangup w st (Takes ev) w1 st1"
    by (rule server_step.takes)
  have fresh: "fresh_run (taken [Takes ev]) st" by (simp add: assms fresh_run_def)
  have "chan_queued (rw_chans w1) 0 = [Ok m]" and op: "chan_is_open (rw_chans w1) 0"
    using ref_server.step_mailbox [OF step, of "[]" 0 t 0 "\<lparr>mb_waiting = [], mb_read = [], mb_missed = []\<rparr>"]
    by (simp_all add: assms new_chan_def fresh_run_def)
  then have "poll_next ref_env \<lparr>ss_inner = 0, ss_stream_closed_signal = None, ss_stream_id = 0, ss_name = []\<rparr> w1 =
      (w1\<lparr>rw_chans := (rw_chans w1)(0 := rw_chans w1 0\<lparr>ch_queue := []\<rparr>)\<rparr>, Ready (Some (Ok m)))" (is "_ = (?w2, _)")
    by (simp add: poll_next_def ref_env_def)
  from server_step.reads [OF this]
  have "server_step example_vote_id ref_try_send ref_env ref_hangup w1 st1 (Reads 0 (Ok m)) ?w2 st1" by simp
  then have "example_system_run w1 st1 (Suc 0) ([Reads 0 (Ok m)] @ []) ?w2 st1"
    by (intro system_run.go [OF _ system_run.stop] system_step.serves) simp_all
  then have "example_system_run w st (Suc (Suc 0)) ([Takes ev] @ [Reads 0 (Ok m)] @ []) ?w2 st1"
    by (intro system_run.go [OF system_step.serves [OF step]]) (simp_all add: ev(5))
  then have run: "example_system_run w st 2 [Takes ev, Reads 0 (Ok m)] ?w2 st1"
    by (simp add: numeral_2_eq_2)
  have "rw_signalled w1 = rw_signalled w"
    by (rule ref_server.server_step_frame [OF step fresh])
      (simp_all add: ref_try_send_def ref_env_def ref_hangup_def split: prod.splits list.splits)
  then show thesis by (intro that [OF run]) (simp_all add: op)
qed

lemma example_subscribed:
  obtains w st where "example_system_run example_ref_world empty_loop_state 2
      [Takes (Subscription_added (Ok (Added_BlockUpdateSubscription 0 0)))] w st"
    "subscribers st = [(0, On_block, 0)]" "rw_chans w 0 = new_chan 10" "rw_added w = []"
proof -
  obtain w1 resp where 1: "call ref_env example_service Req_blocks example_ref_world = (w1, Ok (Ok resp))"
    and w1: "rw_added w1 = [Added_BlockUpdateSubscription 0 0]" "rw_chans w1 0 = new_chan 10"
    using ref_call [of Req_blocks] by (metis added_event.simps(7) topic_of.simps(7) valid_request.simps(7))
  let ?ev = "Subscription_added (Ok (Added_BlockUpdateSubscription 0 0))"
  obtain st where 2: "system_step example_vote_id ref_try_send ref_env ref_hangup rw_added ref_take_added w1
      empty_loop_state [Takes ?ev] (ref_take_added w1) st" and st: "subscribers st = [(0, On_block, 0)]"
    by (rule ref_added [OF w1(1)]) simp
  from 2 have "example_system_run example_ref_world empty_loop_state (Suc (Suc 0)) ([] @ [Takes ?ev] @ []) (ref_take_added w1) st"
    by (intro system_run.go [OF system_step.subscribes [OF 1]] system_run.go [OF _ system_run.stop])
  then have run: "example_system_run example_ref_world empty_loop_state 2 [Takes ?ev] (ref_take_added w1) st"
    by (simp add: numeral_2_eq_2)
  show thesis by (rule that [OF run st]) (simp_all add: ref_take_added_def w1)
qed

lemma example_served:
  assumes "subscribers st = [(0, On_block, 0)]" "rw_chans w 0 = new_chan 10"
  obtains w' st' where "example_system_run w st 2 example_later w' st'"
    "rw_signalled w' = rw_signalled w" "chan_is_open (rw_chans w') 0"
  unfolding example_later_def
  by (rule ref_served [OF assms, of "Block_update (Ok example_block_update)"]) simp_all

lemma example_start: "rw_added example_ref_world = []" "ref_issued example_ref_world = {}"
  by (simp_all add: example_ref_world_def ref_issued_def)

subsection \<open>The properties of the whole\<close>

text \<open>
  C4. The server refines a mailbox. From its start on, however the calls of the service, the
  iterations of the loop, the reads of all streams and the dropping of others interleave, a
  subscriber that neither closes nor hangs up stays subscribed, and what it has read and what
  waits for it is what a bounded mailbox holds that is handed the messages of its topic and
  skips those that do not fit.\<close>

theorem system_refines_mailbox:
  assumes "whole_server ts queued capacity is_open env hangup added take_added issued made"
    and "added w0 = []" "issued w0 = {}" "k + n \<le> 2 ^ 128"
    and "system_run vote_id ts env hangup added take_added w0 empty_loop_state k ls0 w st"
    and "system_run vote_id ts env hangup added take_added w st n ls w' st'"
    and "\<forall>ev \<in> set (taken ls). \<not> closes_event ev (u, t, s)"
    and "(u, t, s) \<in> set (subscribers st)" "is_open w s" "Hangs_up s \<notin> set ls"
  shows "(u, t, s) \<in> set (subscribers st') \<and> is_open w' s \<and>
    (let b = mailbox_run vote_id (capacity w s) t s ls \<lparr>mb_waiting = queued w s, mb_read = [], mb_missed = []\<rparr>
     in queued w' s = mb_waiting b \<and> items_read s ls = mb_read b)"
  using whole_server.reachable_mailbox [OF assms]
    mailbox_run_read [of vote_id "capacity w s" t s ls "\<lparr>mb_waiting = queued w s, mb_read = [], mb_missed = []\<rparr>"]
  by simp

theorem system_refines_mailbox_witness:
  "\<exists>(w' :: ref_world) (st' :: nat loop_state).
    (0, On_block, 0) \<in> set (subscribers st') \<and> chan_queued (rw_chans w') 0 = [] \<and>
    items_read 0 example_later = [Ok (BlockMsg example_block_update)]"
proof -
  obtain w st where 1: "example_system_run example_ref_world empty_loop_state 2
      [Takes (Subscription_added (Ok (Added_BlockUpdateSubscription 0 0)))] w st"
    and w: "subscribers st = [(0, On_block, 0)]" "rw_chans w 0 = new_chan 10" by (rule example_subscribed)
  obtain w' st' where 2: "example_system_run w st 2 example_later w' st'" by (rule example_served [OF w])
  from system_refines_mailbox [OF ref_whole.whole_server_axioms example_start _ 1 2, of 0 On_block 0]
  show ?thesis
    by - (rule exI [of _ w'], rule exI [of _ st'], simp add: w new_chan_def example_later_def)
qed

text \<open>
  C5. Nothing is reordered, duplicated or made up, and nothing is lost but on a full channel. In
  any such run what the subscriber has read, followed by what still waits, is a subsequence of
  what waited at first followed by the messages published for its topic. It is all of them, in
  order, exactly when the subscriber keeps up: when every message, at the moment it is published,
  finds fewer messages outstanding than its channel holds, counting those that waited at first and
  those published since, less those read.\<close>

theorem system_reads_in_order:
  assumes "whole_server ts queued capacity is_open env hangup added take_added issued made"
    and "added w0 = []" "issued w0 = {}" "k + n \<le> 2 ^ 128"
    and "system_run vote_id ts env hangup added take_added w0 empty_loop_state k ls0 w st"
    and "system_run vote_id ts env hangup added take_added w st n ls w' st'"
    and "\<forall>ev \<in> set (taken ls). \<not> closes_event ev (u, t, s)"
    and "(u, t, s) \<in> set (subscribers st)" "is_open w s" "Hangs_up s \<notin> set ls"
  shows "subseq (items_read s ls @ queued w' s) (queued w s @ published vote_id t ls) \<and>
    (items_read s ls @ queued w' s = queued w s @ published vote_id t ls \<longleftrightarrow>
      (\<forall>ls1 ev ls2. ls = ls1 @ Takes ev # ls2 \<and> payload vote_id ev t \<noteq> None \<longrightarrow>
        length (queued w s) + length (published vote_id t ls1) < capacity w s + length (items_read s ls1)))"
  unfolding keeps_up_def [symmetric]
  by (rule mailbox_reads_in_order [of vote_id "capacity w s"]) (use whole_server.reachable_mailbox [OF assms] in simp_all)

theorem system_reads_in_order_witness:
  "\<exists>w' :: ref_world. items_read 0 example_later @ chan_queued (rw_chans w') 0 =
    [Ok (BlockMsg example_block_update)]"
proof -
  obtain w st where 1: "example_system_run example_ref_world empty_loop_state 2
      [Takes (Subscription_added (Ok (Added_BlockUpdateSubscription 0 0)))] w st"
    and w: "subscribers st = [(0, On_block, 0)]" "rw_chans w 0 = new_chan 10" by (rule example_subscribed)
  obtain w' st' where 2: "example_system_run w st 2 example_later w' st'" by (rule example_served [OF w])
  have "keeps_up example_vote_id (chan_capacity (rw_chans w) 0) On_block 0 (length (chan_queued (rw_chans w) 0)) example_later"
    by (simp add: example_later_def w new_chan_def)
  with system_reads_in_order [OF ref_whole.whole_server_axioms example_start _ 1 2, of 0 On_block 0,
      folded keeps_up_def]
  show ?thesis
    by - (rule exI [of _ w'], simp add: w new_chan_def example_later_def)
qed

text \<open>
  C11. The loop's maps stay consistent, with nothing assumed of the events: in every state the
  server reaches from its start, by calls of the service, iterations of the loop, polls and
  drops of streams in any order, no id and no channel occurs twice over the seven maps and the
  subscriptions that still wait for the loop, as long as at most \<open>2 ^ 128\<close> steps were taken, so
  that uuids cannot run out.\<close>

theorem reachable_loop_inv:
  assumes "whole_server ts queued capacity is_open env hangup added take_added issued made"
    and "added w0 = []" "issued w0 = {}" "n \<le> 2 ^ 128"
    and "system_run vote_id ts env hangup added take_added w0 empty_loop_state n ls w st"
  shows "loop_inv st \<and> fresh_run (map (\<lambda>a. Subscription_added (Ok a)) (added w)) st"
proof -
  have "fresh_run (waiting_events (added w)) st"
    using whole_server.fresh_inv_run [OF assms(1,5) whole_server.fresh_inv_start [OF assms(1-3)]] assms(4)
    by (simp add: whole_server.fresh_inv_def [OF assms(1)])
  then show ?thesis by (simp add: fresh_run_def loop_inv_def waiting_events_def comp_def)
qed

theorem reachable_loop_inv_witness:
  "\<exists>st :: nat loop_state. loop_inv st \<and> subscribers st = [(0, On_block, 0)]"
proof -
  obtain w st where 1: "example_system_run example_ref_world empty_loop_state 2
      [Takes (Subscription_added (Ok (Added_BlockUpdateSubscription 0 0)))] w st"
    and st: "subscribers st = [(0, On_block, 0)]" by (rule example_subscribed)
  from reachable_loop_inv [OF ref_whole.whole_server_axioms example_start _ 1] st show ?thesis by auto
qed

end
