(* ===== verification/Subscription_Life.thy ===== *)
theory Subscription_Life
  imports Whole_Server
begin

section \<open>The life of a subscription\<close>

text \<open>
  The events that close a subscription come from the tasks that wait for its stream to be
  dropped. With these tasks and the channel of closed events in the picture nothing is left
  open: whoever subscribes and keeps the stream is served.
\<close>

definition keeps :: "('w \<Rightarrow> 'a) \<Rightarrow> ('w \<Rightarrow> 'w) \<Rightarrow> bool" where
  "keeps obs f \<longleftrightarrow> (\<forall>w. obs (f w) = obs w)"

primrec closed_id :: "SubscriptionClosedEvent \<Rightarrow> uuid" where
  "closed_id (Closed_AccountUpdateSubscription u) = u"
| "closed_id (Closed_ProgramUpdateSubscription u) = u"
| "closed_id (Closed_PartialAccountUpdateSubscription u) = u"
| "closed_id (Closed_SlotUpdateSubscription u) = u"
| "closed_id (Closed_SlotEntryUpdateSubscription u) = u"
| "closed_id (Closed_TransactionUpdateSubscription u) = u"
| "closed_id (Closed_BlockUpdateSubscription u) = u"

lemma closed_id_closed_event [simp]: "closed_id (closed_event t u) = u"
  by (cases t) simp_all

lemma closes_closed_id: "closes c u t \<Longrightarrow> closed_id c = u"
  by (cases c) simp_all

subsection \<open>Steps\<close>

text \<open>
  A step is one of the whole server that takes no closed event; or the loop takes the closed
  event that waits longest; or a task whose stream was dropped sends its closed event.
\<close>

inductive life_step ::
  "bytes \<Rightarrow> ('w, 's) sender_fn \<Rightarrow> ('w, 's, 'o, 'z) service_env_scheme \<Rightarrow> ('w \<Rightarrow> 's \<Rightarrow> 'w) \<Rightarrow>
    ('w \<Rightarrow> 's SubscriptionAddedEvent list) \<Rightarrow> ('w \<Rightarrow> 'w) \<Rightarrow>
    ('w \<Rightarrow> SubscriptionClosedEvent list) \<Rightarrow> ('w \<Rightarrow> 'w) \<Rightarrow>
    ('w \<Rightarrow> ('o \<times> SubscriptionClosedEvent) list) \<Rightarrow> ('w \<Rightarrow> 'o set) \<Rightarrow>
    'w \<Rightarrow> 's loop_state \<Rightarrow> 's label list \<Rightarrow> 'w \<Rightarrow> 's loop_state \<Rightarrow> bool"
  for vote_id ts env hangup added take_added closed take_closed tasks signalled where
  goes: "system_step vote_id ts env hangup added take_added w st ls w' st' \<Longrightarrow>
    \<nexists>maybe. Takes (Subscription_closed maybe) \<in> set ls \<Longrightarrow>
    life_step vote_id ts env hangup added take_added closed take_closed tasks signalled w st ls w' st'"
| takes_closed: "closed w = c # rest \<Longrightarrow>
    server_step vote_id ts env hangup (take_closed w) st (Takes (Subscription_closed (Ok c))) w' st' \<Longrightarrow>
    life_step vote_id ts env hangup added take_added closed take_closed tasks signalled
      w st [Takes (Subscription_closed (Ok c))] w' st'"
| tells: "(sig, c) \<in> set (tasks w) \<Longrightarrow> sig \<in> signalled w \<Longrightarrow>
    life_step vote_id ts env hangup added take_added closed take_closed tasks signalled
      w st [] (closed_task env c w) st"

inductive life_run ::
  "bytes \<Rightarrow> ('w, 's) sender_fn \<Rightarrow> ('w, 's, 'o, 'z) service_env_scheme \<Rightarrow> ('w \<Rightarrow> 's \<Rightarrow> 'w) \<Rightarrow>
    ('w \<Rightarrow> 's SubscriptionAddedEvent list) \<Rightarrow> ('w \<Rightarrow> 'w) \<Rightarrow>
    ('w \<Rightarrow> SubscriptionClosedEvent list) \<Rightarrow> ('w \<Rightarrow> 'w) \<Rightarrow>
    ('w \<Rightarrow> ('o \<times> SubscriptionClosedEvent) list) \<Rightarrow> ('w \<Rightarrow> 'o set) \<Rightarrow>
    'w \<Rightarrow> 's loop_state \<Rightarrow> nat \<Rightarrow> 's label list \<Rightarrow> 'w \<Rightarrow> 's loop_state \<Rightarrow> bool"
  for vote_id ts env hangup added take_added closed take_closed tasks signalled where
  stop: "life_run vote_id ts env hangup added take_added closed take_closed tasks signalled w st 0 [] w st"
| go: "life_step vote_id ts env hangup added take_added closed take_closed tasks signalled w st l w1 st1 \<Longrightarrow>
    life_run vote_id ts env hangup added take_added closed take_closed tasks signalled w1 st1 n ls w' st' \<Longrightarrow>
    life_run vote_id ts env hangup added take_added closed take_closed tasks signalled w st (Suc n) (l @ ls) w' st'"

subsection \<open>What the runtime promises of them\<close>

text \<open>
  The closed events wait in a channel of their own, which only the tasks send to. A new
  subscriber's channel is empty and open.
\<close>

locale closing_server = whole_server ts queued capacity is_open env hangup added take_added issued made
    + stream_runtime env tasks signalled
  for ts :: "('w, 's) sender_fn" and queued capacity is_open
    and env :: "('w, 's, 'o, 'z) service_env_scheme" and hangup added take_added issued made tasks signalled +
  fixes closed :: "'w \<Rightarrow> SubscriptionClosedEvent list"
    and take_closed :: "'w \<Rightarrow> 'w"
  assumes channel_empty: "mpsc_channel env w n = Ok (w', s) \<Longrightarrow> queued w' s = [] \<and> is_open w' s \<and>
      tasks w' = tasks w \<and> signalled w' = signalled w \<and> closed w' = closed w"
    and closed_sent: "set (closed (fst (closed_try_send env w ev))) \<subseteq> insert ev (set (closed w))"
    and closed_taken: "closed (take_closed w) = tl (closed w)"
    and closed_keep:
      "keeps closed (\<lambda>w. fst (oneshot_channel env w))" "keeps closed (\<lambda>w. spawn_closed_task env w sig ev)"
      "keeps closed (\<lambda>w. fst (oneshot_send env w sig))"
    and tasks_keep:
      "keeps (\<lambda>w. (tasks w, signalled w, closed w)) (\<lambda>w. fst (uuid_new_v4 env w))"
      "keeps (\<lambda>w. (tasks w, signalled w, closed w)) (\<lambda>w. fst (added_try_send env w e))"
      "keeps (\<lambda>w. (tasks w, signalled w, closed w)) (\<lambda>w. fst (receiver_poll_next env w s))"
      "keeps (\<lambda>w. (tasks w, signalled w, closed w)) (\<lambda>w. fst (ts w s m))"
      "keeps (\<lambda>w. (tasks w, signalled w, closed w)) (\<lambda>w. hangup w s)"
      "keeps (\<lambda>w. (tasks w, signalled w, closed w)) take_added"
      "keeps (\<lambda>w. (tasks w, signalled w)) take_closed"
      "keeps (\<lambda>w. (tasks w, signalled w)) (\<lambda>w. fst (closed_try_send env w ev))"
    and closing_keeps:
      "keeps (\<lambda>w. (added w, issued w, made w, queued w, capacity w, is_open w)) take_closed"
      "keeps (\<lambda>w. (added w, issued w, made w, queued w, capacity w, is_open w)) (\<lambda>w. fst (closed_try_send env w ev))"
begin

lemma closed_keep_eqs:
  "closed (fst (oneshot_channel env w)) = closed w" "closed (spawn_closed_task env w sig ev) = closed w"
  "closed (fst (oneshot_send env w sig)) = closed w"
  using closed_keep by (simp_all add: keeps_def)

lemmas keep_eqs = closed_keep_eqs tasks_keep [unfolded keeps_def prod.inject, rule_format]
  closing_keeps [unfolded keeps_def prod.inject, rule_format]

subsection \<open>What a call leaves behind\<close>

lemma stream_response_life:
  assumes "stream_response env self s u c n w = (w', r)"
  shows "\<exists>resp sig. r = Ok (Ok resp) \<and> ss_inner (resp_body resp) = s \<and> ss_stream_id (resp_body resp) = u \<and>
    ss_stream_closed_signal (resp_body resp) = Some sig \<and> sig \<notin> signalled w' \<and>
    tasks w' = tasks w @ [(sig, c)] \<and> signalled w' = signalled w \<and> closed w' = closed w"
proof -
  obtain w1 sig where 1: "oneshot_channel env w = (w1, sig)" by fastforce
  then have w1: "w1 = fst (oneshot_channel env w)" "sig = snd (oneshot_channel env w)" by simp_all
  from assms show ?thesis
    using oneshot_fresh [of w] oneshot_tasks [of w] oneshot_signalled [of w] closed_keep_eqs(1) [of w]
    by (auto simp: stream_response_def subscription_stream_new_def 1 spawn_tasks spawn_signalled keep_eqs
        simp flip: w1)
qed

text \<open>A call is refused and spawns no task, or it is accepted and everything agrees.\<close>

lemma call_life:
  assumes "call env self req w = (w', r)" "issued w \<noteq> UNIV"
  obtains (refused) "\<nexists>resp. r = Ok (Ok resp)" "tasks w' = tasks w" "signalled w' = signalled w" "closed w' = closed w"
  | (accepted) resp u s sig where "r = Ok (Ok resp)" "ss_inner (resp_body resp) = s"
      "ss_stream_id (resp_body resp) = u" "ss_stream_closed_signal (resp_body resp) = Some sig"
      "added w' = added w @ [added_event (topic_of req) u s]" "u \<notin> issued w" "u \<in> issued w'"
      "tasks w' = tasks w @ [(sig, closed_event (topic_of req) u)]" "signalled w' = signalled w"
      "closed w' = closed w" "sig \<notin> signalled w'" "queued w' s = []" "is_open w' s"
proof (cases "mpsc_channel env w (unat (gsc_subscriber_buffer_size (gs_service_config self)))")
  case (Inl p)
  with assms(1) that(1) show ?thesis by (auto simp: call_open_subscription open_subscription_def)
next
  case (Inr ws)
  obtain w1 s where 1: "mpsc_channel env w (unat (gsc_subscriber_buffer_size (gs_service_config self))) = Ok (w1, s)"
    using Inr by (cases ws) simp
  obtain w2 u where 2: "uuid_new_v4 env w1 = (w2, u)" by fastforce
  obtain w3 q where 3: "added_try_send env w2 (added_event (topic_of req) u s) = (w3, q)" by fastforce
  have w: "w2 = fst (uuid_new_v4 env w1)" "w3 = fst (added_try_send env w2 (added_event (topic_of req) u s))"
    by (simp_all add: 2 3)
  have w3: "tasks w3 = tasks w" "signalled w3 = signalled w" "closed w3 = closed w"
    "queued w3 s = []" "is_open w3 s"
    unfolding w using channel_empty [OF 1] by (simp_all add: keep_eqs channels_keep)
  show ?thesis
  proof (cases "valid_request req")
    case False
    with assms(1) channel_empty [OF 1] that(1) show ?thesis
      by (auto simp: call_open_subscription open_subscription_def 1)
  next
    case True
    show ?thesis
    proof (cases q)
      case (Inl e)
      with assms(1) True have "w' = w3" "r = Ok (Err internal_error)"
        by (simp_all add: call_open_subscription open_subscription_def 1 2 3)
      with w3 that(1) show ?thesis by simp
    next
      case (Inr x)
      with assms(1) True have resp: "stream_response env self s u (closed_event (topic_of req) u) (name_of req) w3 = (w', r)"
        by (simp add: call_open_subscription open_subscription_def 1 2 3)
      have "added w' = added w @ [added_event (topic_of req) u s]" "u \<notin> issued w" "u \<in> issued w'"
        using channel_new [OF 1] uuid_new [OF 2] added_sent [OF 3] assms(2) stream_response_keeps(1,2) [OF resp]
        by (simp_all add: Inr)
      moreover have "queued w' s = []" "is_open w' s"
        using w3 stream_response_keeps(4,6) [OF resp] by simp_all
      ultimately show ?thesis using stream_response_life [OF resp] w3 by (metis that(2))
    qed
  qed
qed

subsection \<open>The invariant\<close>

text \<open>
  No two tasks close the same subscription, and whatever closed event waits was sent by a task
  whose stream was dropped.
\<close>

definition closed_inv :: "'w \<Rightarrow> bool" where
  "closed_inv w \<longleftrightarrow> (closed_id \<circ> snd) ` set (tasks w) \<subseteq> issued w \<and>
     distinct (map (closed_id \<circ> snd) (tasks w)) \<and>
     (\<forall>c \<in> set (closed w). \<exists>sig \<in> signalled w. (sig, c) \<in> set (tasks w))"

definition life_inv :: "nat \<Rightarrow> 'w \<Rightarrow> 's loop_state \<Rightarrow> bool" where
  "life_inv n w st \<longleftrightarrow> fresh_inv n w st \<and> closed_inv w"

lemma closed_inv_frame:
  assumes "closed_inv w" "tasks w' = tasks w" "signalled w \<subseteq> signalled w'" "closed w' = closed w"
    "issued w \<subseteq> issued w'"
  shows "closed_inv w'"
  using assms unfolding closed_inv_def by (metis (no_types, lifting) subset_trans subsetD)

lemma closed_inv_call:
  assumes "closed_inv w" "call env self req w = (w', r)" "issued w \<noteq> UNIV"
  shows "closed_inv w'"
  using assms(2,3)
proof (cases rule: call_life)
  case refused
  have "issued w \<subseteq> issued w'" by (rule call_effect [OF assms(2,3)])
  with refused show ?thesis using closed_inv_frame [OF assms(1)] by simp
next
  case (accepted resp u s sig)
  have "issued w \<subseteq> issued w'" by (rule call_effect [OF assms(2,3)])
  moreover have "u \<notin> (closed_id \<circ> snd) ` set (tasks w)"
    using assms(1) accepted(6) by (auto simp: closed_inv_def)
  ultimately show ?thesis
    using assms(1) accepted(7-10) unfolding closed_inv_def by (auto simp del: image_comp)
qed

lemma server_step_obs:
  assumes "server_step vote_id ts env hangup w st l w' st'" "fresh_run (taken [l]) st"
  shows "tasks w' = tasks w" "signalled w' = signalled w" "closed w' = closed w"
    "added w' = added w" "issued w' = issued w" "made w' = made w"
  by (rule server_step_frame [OF assms]; simp add: keep_eqs others_keep)+

lemma fresh_run_taken:
  assumes "fresh_inv n w st" "\<nexists>maybe. l = Takes (Subscription_added maybe)"
  shows "fresh_run (taken [l]) st"
  by (rule fresh_inv_now [OF assms(1) taken_not_added [OF assms(2)]])

lemma fresh_run_added:
  assumes "fresh_inv n w st" "added w = a # rest"
  shows "fresh_run (taken [Takes (Subscription_added (Ok a))]) st"
  using assms by (auto simp: fresh_inv_def fresh_run_def)

text \<open>What a step of the whole server does to the tasks.\<close>

lemma system_step_tasks:
  assumes "system_step vote_id ts env hangup added take_added w st ls w' st'" "life_inv n w st" "n < 2 ^ 128"
  shows "closed_inv w' \<and> set (tasks w) \<subseteq> set (tasks w') \<and> signalled w \<subseteq> signalled w'"
proof -
  have inv: "fresh_inv n w st" "closed_inv w" using assms(2) by (simp_all add: life_inv_def)
  then have fin: "issued w \<noteq> UNIV" using assms(3) by (auto simp: fresh_inv_def card_word)
  from assms(1) show ?thesis
  proof cases
    case (serves l)
    note obs = server_step_obs [OF serves(2) fresh_run_taken [OF inv(1) serves(3)]]
    then show ?thesis using closed_inv_frame [OF inv(2)] by simp
  next
    case (takes_added a rest)
    note obs = server_step_obs [OF takes_added(3) fresh_run_added [OF inv(1) takes_added(2)]]
    then show ?thesis using closed_inv_frame [OF inv(2)] by (simp add: keep_eqs added_taken)
  next
    case (subscribes self req r)
    from subscribes(3) fin have "set (tasks w) \<subseteq> set (tasks w') \<and> signalled w \<subseteq> signalled w'"
      by (cases rule: call_life) auto
    with closed_inv_call [OF inv(2) subscribes(3) fin] show ?thesis by simp
  next
    case (polls stream r)
    then have "w' = fst (receiver_poll_next env w (ss_inner stream))" by (simp add: poll_next_def)
    then show ?thesis using closed_inv_frame [OF inv(2)] by (simp add: keep_eqs others_keep)
  next
    case (drops stream r)
    from drop_stream_world [OF drops(3)] show ?thesis
    proof (elim disjE exE)
      fix sig assume "w' = fst (oneshot_send env w sig)"
      then show ?thesis
        using closed_inv_frame [OF inv(2), of w'] by (auto simp: send_tasks send_signalled keep_eqs others_keep)
    qed (simp add: inv(2))
  qed
qed

lemma life_step_inv:
  assumes "life_step vote_id ts env hangup added take_added closed take_closed tasks signalled w st ls w' st'"
    and inv: "life_inv n w st" "n < 2 ^ 128"
  shows "life_inv (Suc n) w' st' \<and> set (tasks w) \<subseteq> set (tasks w') \<and> signalled w \<subseteq> signalled w'"
proof -
  have fresh: "fresh_inv n w st" "closed_inv w" using inv by (simp_all add: life_inv_def)
  from assms(1) show ?thesis
  proof cases
    case goes
    from fresh_inv_step [OF goes(1) fresh(1) inv(2)] system_step_tasks [OF goes(1) inv] show ?thesis
      by (simp add: life_inv_def)
  next
    case (takes_closed c rest)
    have run: "fresh_run (taken [Takes (Subscription_closed (Ok c))]) st"
      by (rule fresh_run_taken [OF fresh(1)]) simp
    note obs = server_step_obs [OF takes_closed(3) run]
    have "fresh_inv (Suc n) w' st'"
      by (rule fresh_inv_server_step [OF takes_closed(3) fresh(1)]) (simp_all add: keep_eqs)
    moreover have "closed_inv w'"
      using fresh(2) by (auto simp: closed_inv_def obs keep_eqs closed_taken takes_closed(2))
    ultimately show ?thesis by (simp add: life_inv_def obs keep_eqs)
  next
    case (tells sig c)
    have "fresh_inv (Suc n) w' st"
      by (rule fresh_inv_frame [OF fresh(1)]) (simp_all add: tells(2) closed_task_def keep_eqs)
    moreover have "closed_inv w'"
    proof -
      have eqs: "tasks w' = tasks w" "signalled w' = signalled w" "issued w' = issued w"
        by (simp_all add: tells(2) closed_task_def keep_eqs)
      have sent: "set (closed w') \<subseteq> insert c (set (closed w))"
        using closed_sent by (simp add: tells(2) closed_task_def)
      have "\<exists>sig \<in> signalled w. (sig, c') \<in> set (tasks w)" if "c' \<in> set (closed w')" for c'
      proof (cases "c' = c")
        case False
        with sent that have "c' \<in> set (closed w)" by blast
        with fresh(2) show ?thesis by (simp add: closed_inv_def)
      qed (use tells(4,5) in blast)
      with fresh(2) show ?thesis by (simp add: closed_inv_def eqs)
    qed
    ultimately show ?thesis by (simp add: life_inv_def tells closed_task_def keep_eqs)
  qed
qed

lemma life_run_inv:
  assumes "life_run vote_id ts env hangup added take_added closed take_closed tasks signalled w st n ls w' st'"
    and "life_inv k w st" "k + n \<le> 2 ^ 128"
  shows "life_inv (k + n) w' st' \<and> set (tasks w) \<subseteq> set (tasks w') \<and> signalled w \<subseteq> signalled w'"
  using assms
proof (induction arbitrary: k rule: life_run.induct)
  case (go w st l w1 st1 n ls w' st')
  from life_step_inv [OF go.hyps(1) go.prems(1)] go.prems(2)
  have step: "life_inv (Suc k) w1 st1" "set (tasks w) \<subseteq> set (tasks w1)" "signalled w \<subseteq> signalled w1" by simp_all
  from go.IH [OF step(1)] go.prems(2) step(2,3) show ?case by auto
qed simp

lemma life_inv_start:
  assumes "added w = []" "issued w = {}" "tasks w = []" "closed w = []"
  shows "life_inv 0 w empty_loop_state"
  using assms fresh_inv_start by (simp add: life_inv_def closed_inv_def)

subsection \<open>A subscriber that keeps its stream is served\<close>

lemma pending_topic:
  assumes "fresh_inv n w st" "(u, t, s) \<in> set (pending w st)"
  shows "\<forall>(u', t', s') \<in> set (subscribers st). s' = s \<longrightarrow> t' = t"
proof clarify
  fix u' t'
  assume "(u', t', s) \<in> set (subscribers st)"
  then have "(u', t', s) \<in> set (pending w st)" by (simp add: pending_def)
  moreover have "inj_on (snd \<circ> snd) (set (pending w st))"
    using assms(1) by (simp add: fresh_inv_def fresh_run_pending distinct_map)
  ultimately show "t' = t" using inj_onD [of "snd \<circ> snd" _ "(u', t', s)" "(u, t, s)"] assms(2) by simp
qed

text \<open>No closed event that waits closes a subscription whose task was not signalled.\<close>

lemma closed_inv_spares:
  assumes "closed_inv w" "c \<in> set (closed w)" "(sig, closed_event t u) \<in> set (tasks w)" "sig \<notin> signalled w"
  shows "\<not> closes c u t"
proof
  assume "closes c u t"
  then have "closed_id c = u" by (rule closes_closed_id)
  obtain sig' where sig': "sig' \<in> signalled w" "(sig', c) \<in> set (tasks w)"
    using assms(1,2) by (auto simp: closed_inv_def)
  have "inj_on (closed_id \<circ> snd) (set (tasks w))"
    using assms(1) by (simp add: closed_inv_def distinct_map)
  from inj_onD [OF this _ sig'(2) assms(3)] \<open>closed_id c = u\<close> have "sig' = sig" by simp
  with sig'(1) assms(4) show False by simp
qed

lemma served_by_server_step:
  assumes step: "server_step vote_id ts env hangup w1 st l w' st'" "fresh_run (taken [l]) st" "is_open w' s"
    and w1: "queued w1 = queued w" "is_open w1 = is_open w"
    and waiting: "map subscriber_of (added w) = concat (map added_of (taken [l])) @ map subscriber_of (added w1)"
    and inv: "fresh_inv n w st" "(u, t, s) \<in> set (pending w st)"
    and "\<forall>ev. l = Takes ev \<longrightarrow> \<not> closes_event ev (u, t, s)"
  shows "(u, t, s) \<in> set (pending w' st') \<and> is_open w s \<and>
    subseq (items_read s [l] @ queued w' s) (queued w s @ published vote_id t [l])"
proof (intro conjI)
  show op: "is_open w s" using server_step_open [OF step] w1 by simp
  show "subseq (items_read s [l] @ queued w' s) (queued w s @ published vote_id t [l])"
    using server_step_queue [OF step pending_topic [OF inv]] by (simp add: w1)
  have "(u, t, s) \<in> set (subscribers st @ concat (map added_of (taken [l]))) \<or>
      (u, t, s) \<in> set (map subscriber_of (added w1))"
    using inv(2) unfolding pending_def waiting by auto
  then show "(u, t, s) \<in> set (pending w' st')"
  proof
    assume "(u, t, s) \<in> set (subscribers st @ concat (map added_of (taken [l])))"
    from server_step_stays [OF step(1,2) _ this assms(9)] op show ?thesis by (simp add: w1 pending_def)
  qed (simp add: pending_def server_step_obs(4) [OF step(1,2)])
qed

text \<open>A step that neither sends nor reads.\<close>

lemma served_quietly:
  assumes "queued w' s = queued w s" "is_open w' s = is_open w s" "is_open w' s"
    and "set (pending w st) \<subseteq> set (pending w' st)" "e \<in> set (pending w st)"
  shows "e \<in> set (pending w' st) \<and> is_open w s \<and>
    subseq (items_read s [] @ queued w' s) (queued w s @ published vote_id t [])"
  using assms by auto

lemma call_pending:
  assumes "call env self req w = (w', r)" "issued w \<noteq> UNIV"
  shows "set (pending w st) \<subseteq> set (pending w' st)"
proof (rule call_effect [OF assms])
  fix u
  assume "added w' = added w \<or> (\<exists>s t. added w' = added w @ [added_event t u s] \<and>
    u \<notin> issued w \<and> u \<in> issued w' \<and> s \<notin> made w \<and> s \<in> made w')"
  then show ?thesis by (elim disjE exE conjE) (simp_all add: pending_def, blast)
qed

lemma system_step_served:
  assumes "system_step vote_id ts env hangup added take_added w st ls w' st'"
    and "\<nexists>maybe. Takes (Subscription_closed maybe) \<in> set ls"
    and inv: "fresh_inv n w st" "n < 2 ^ 128" and e: "(u, t, s) \<in> set (pending w st)" and "is_open w' s"
  shows "(u, t, s) \<in> set (pending w' st') \<and> is_open w s \<and>
    subseq (items_read s ls @ queued w' s) (queued w s @ published vote_id t ls)"
  using assms(1)
proof cases
  case (serves l)
  have "\<forall>ev. l = Takes ev \<longrightarrow> \<not> closes_event ev (u, t, s)"
    using assms(2) by (auto simp: serves(1) elim: closes_event.elims)
  with served_by_server_step [OF serves(2) fresh_run_taken [OF inv(1) serves(3)] assms(6) refl refl _ inv(1) e]
  show ?thesis by (simp add: serves(1) taken_not_added [OF serves(3)])
next
  case (takes_added a rest)
  show ?thesis
    unfolding takes_added(1)
    by (rule served_by_server_step [OF takes_added(3) fresh_run_added [OF inv(1) takes_added(2)] assms(6) _ _ _ inv(1) e])
      (simp_all add: channels_keep added_taken takes_added(2))
next
  case (subscribes self req r)
  have "issued w \<noteq> UNIV" using inv by (auto simp: fresh_inv_def card_word)
  from call_pending [OF subscribes(3) this] have "set (pending w st) \<subseteq> set (pending w' st)" .
  moreover have "s \<in> made w" using inv(1) e by (force simp: fresh_inv_def)
  ultimately show ?thesis
    unfolding subscribes(1,2) using call_channels [OF subscribes(3)] e assms(6) by (intro served_quietly) simp_all
next
  case (polls stream r)
  then have p: "receiver_poll_next env w (ss_inner stream) = (w', r)" by (simp add: poll_next_def)
  then have w': "w' = fst (receiver_poll_next env w (ss_inner stream))" by simp
  show ?thesis
    unfolding polls(1,2) using poll_nothing [OF p polls(4)] poll_open [OF p] e assms(6)
    by (intro served_quietly) (simp_all add: pending_def w' others_keep)
next
  case (drops stream r)
  show ?thesis
    unfolding drops(1,2) using drop_stream_world [OF drops(3)] e assms(6)
    by (intro served_quietly) (auto simp: pending_def channels_keep others_keep)
qed

lemma life_step_served:
  assumes "life_step vote_id ts env hangup added take_added closed take_closed tasks signalled w st ls w' st'"
    and inv: "life_inv n w st" "n < 2 ^ 128" and e: "(u, t, s) \<in> set (pending w st)"
    and task: "(sig, closed_event t u) \<in> set (tasks w)" "sig \<notin> signalled w" and "is_open w' s"
  shows "(u, t, s) \<in> set (pending w' st') \<and> is_open w s \<and>
    subseq (items_read s ls @ queued w' s) (queued w s @ published vote_id t ls)"
proof -
  have fresh: "fresh_inv n w st" "closed_inv w" using inv by (simp_all add: life_inv_def)
  from assms(1) show ?thesis
  proof cases
    case goes
    show ?thesis by (rule system_step_served [OF goes fresh(1) inv(2) e assms(7)])
  next
    case (takes_closed c rest)
    have run: "fresh_run (taken [Takes (Subscription_closed (Ok c))]) st"
      by (rule fresh_run_taken [OF fresh(1)]) simp
    have "\<not> closes c u t"
      by (rule closed_inv_spares [OF fresh(2) _ task]) (simp add: takes_closed(2))
    then show ?thesis
      unfolding takes_closed(1)
      by (intro served_by_server_step [OF takes_closed(3) run assms(7) _ _ _ fresh(1) e]) (simp_all add: keep_eqs)
  next
    case (tells sig' c)
    show ?thesis
      unfolding tells(1,3) using e assms(7)
      by (intro served_quietly) (simp_all add: tells(2) closed_task_def keep_eqs pending_def)
  qed
qed

text \<open>A channel that is open at the end of a run was open all along.\<close>

lemma life_step_open:
  assumes "life_step vote_id ts env hangup added take_added closed take_closed tasks signalled w st ls w' st'"
    and inv: "fresh_inv n w st" "n < 2 ^ 128" and "s \<in> made w"
  shows "s \<in> made w' \<and> (is_open w' s \<longrightarrow> is_open w s)"
  using assms(1)
proof cases
  case goes
  from goes(1) show ?thesis
  proof cases
    case (serves l)
    note run = fresh_run_taken [OF inv(1) serves(3)]
    from server_step_open [OF serves(2) run, of s] server_step_obs(6) [OF serves(2) run] assms(4) show ?thesis by simp
  next
    case (takes_added a rest)
    note run = fresh_run_added [OF inv(1) takes_added(2)]
    from server_step_open [OF takes_added(3) run, of s] server_step_obs(6) [OF takes_added(3) run] assms(4)
    show ?thesis by (simp add: added_taken channels_keep)
  next
    case (subscribes self req r)
    have "issued w \<noteq> UNIV" using inv by (auto simp: fresh_inv_def card_word)
    from call_effect [OF subscribes(3) this] have "made w \<subseteq> made w'" .
    with call_channels [OF subscribes(3) assms(4)] assms(4) show ?thesis by auto
  next
    case (polls stream r)
    then have p: "receiver_poll_next env w (ss_inner stream) = (w', r)" by (simp add: poll_next_def)
    with others_keep(12) [of w "ss_inner stream"] poll_open [OF p] assms(4) show ?thesis by simp
  next
    case (drops stream r)
    from drop_stream_world [OF drops(3)] have "made w' = made w" "is_open w' = is_open w"
      by (elim disjE exE; simp add: others_keep channels_keep)+
    with assms(4) show ?thesis by simp
  qed
next
  case (takes_closed c rest)
  have run: "fresh_run (taken [Takes (Subscription_closed (Ok c))]) st"
    by (rule fresh_run_taken [OF inv(1)]) simp
  from server_step_open [OF takes_closed(3) run, of s] server_step_obs(6) [OF takes_closed(3) run] assms(4)
  show ?thesis by (simp add: keep_eqs)
next
  case (tells sig c)
  with assms(4) show ?thesis by (simp add: closed_task_def keep_eqs)
qed

lemma life_run_open:
  assumes "life_run vote_id ts env hangup added take_added closed take_closed tasks signalled w st n ls w' st'"
    and "life_inv k w st" "k + n \<le> 2 ^ 128" "s \<in> made w" "is_open w' s"
  shows "is_open w s"
  using assms
proof (induction arbitrary: k rule: life_run.induct)
  case (go w st l w1 st1 n ls w' st')
  have k: "k < 2 ^ 128" "fresh_inv k w st" using go.prems(1,2) by (simp_all add: life_inv_def)
  have "life_inv (Suc k) w1 st1" using life_step_inv [OF go.hyps(1) go.prems(1) k(1)] by simp
  with go.IH [of "Suc k"] life_step_open [OF go.hyps(1) k(2,1) go.prems(3)] go.prems(2,4) show ?case by simp
qed simp

lemma life_run_served:
  assumes "life_run vote_id ts env hangup added take_added closed take_closed tasks signalled w st n ls w' st'"
    and "life_inv k w st" "k + n \<le> 2 ^ 128" "(u, t, s) \<in> set (pending w st)"
    and "(sig, closed_event t u) \<in> set (tasks w)" "sig \<notin> signalled w'" "is_open w' s"
  shows "(u, t, s) \<in> set (pending w' st') \<and>
    subseq (items_read s ls @ queued w' s) (queued w s @ published vote_id t ls)"
  using assms
proof (induction arbitrary: k rule: life_run.induct)
  case (go w st l w1 st1 n ls w' st')
  have k: "k < 2 ^ 128" "Suc k + n \<le> 2 ^ 128" using go.prems(2) by simp_all
  have step: "life_inv (Suc k) w1 st1" "set (tasks w) \<subseteq> set (tasks w1)" "signalled w \<subseteq> signalled w1"
    using life_step_inv [OF go.hyps(1) go.prems(1) k(1)] by simp_all
  have task: "(sig, closed_event t u) \<in> set (tasks w1)" using go.prems(4) step(2) by blast
  have "signalled w1 \<subseteq> signalled w'" using life_run_inv [OF go.hyps(2) step(1) k(2)] by simp
  then have sig: "sig \<notin> signalled w" using go.prems(5) step(3) by blast
  have fresh: "fresh_inv k w st" using go.prems(1) by (simp add: life_inv_def)
  then have "s \<in> made w" using go.prems(3) by (force simp: fresh_inv_def)
  then have "s \<in> made w1" using life_step_open [OF go.hyps(1) fresh k(1)] by simp
  then have "is_open w1 s" by (rule life_run_open [OF go.hyps(2) step(1) k(2) _ go.prems(6)])
  from life_step_served [OF go.hyps(1) go.prems(1) k(1) go.prems(3,4) sig this]
  have now: "(u, t, s) \<in> set (pending w1 st1)"
    "subseq (items_read s l @ queued w1 s) (queued w s @ published vote_id t l)" by simp_all
  from go.IH [OF step(1) k(2) now(1) task go.prems(5,6)]
  have later: "(u, t, s) \<in> set (pending w' st')"
    "subseq (items_read s ls @ queued w' s) (queued w1 s @ published vote_id t ls)" by simp_all
  have "subseq (items_read s l @ (items_read s ls @ queued w' s)) (items_read s l @ (queued w1 s @ published vote_id t ls))"
    by (rule list_emb_append_mono [OF subseq_order.refl later(2)])
  moreover have "subseq ((items_read s l @ queued w1 s) @ published vote_id t ls)
      ((queued w s @ published vote_id t l) @ published vote_id t ls)"
    by (rule list_emb_append_mono [OF now(2) subseq_order.refl])
  ultimately have "subseq (items_read s (l @ ls) @ queued w' s) (queued w s @ published vote_id t (l @ ls))"
    unfolding items_read_append published_append append_assoc by (rule subseq_order.trans)
  with later(1) show ?case by (rule conjI)
qed simp

lemma call_served:
  assumes "added w0 = []" "issued w0 = {}" "tasks w0 = []" "closed w0 = []"
    and "life_run vote_id ts env hangup added take_added closed take_closed tasks signalled
      w0 empty_loop_state k ls0 w st"
    and "call env self req w = (w1, Ok (Ok resp))"
    and "life_run vote_id ts env hangup added take_added closed take_closed tasks signalled w1 st n ls w' st'"
    and "Suc k + n \<le> 2 ^ 128"
    and "\<forall>sig. ss_stream_closed_signal (resp_body resp) = Some sig \<longrightarrow> sig \<notin> signalled w'"
    and "is_open w' (ss_inner (resp_body resp))"
  shows "(ss_stream_id (resp_body resp), topic_of req, ss_inner (resp_body resp))
      \<in> set (subscribers st') \<union> subscriber_of ` set (added w') \<and>
    subseq (items_read (ss_inner (resp_body resp)) ls @ queued w' (ss_inner (resp_body resp)))
      (published vote_id (topic_of req) ls)"
proof -
  have k: "k < 2 ^ 128" "k \<le> 2 ^ 128" using assms(8) by simp_all
  have inv: "life_inv k w st" using life_run_inv [OF assms(5) life_inv_start [OF assms(1-4)]] k by simp
  have inv1: "life_inv (Suc k) w1 st"
    using life_step_inv [OF life_step.goes [OF system_step.subscribes [OF assms(6)]] inv k(1)] by simp
  have "issued w \<noteq> UNIV" using inv k(1) by (auto simp: life_inv_def fresh_inv_def card_word)
  with assms(6) show ?thesis
  proof (cases rule: call_life)
    case (accepted resp' u s sig)
    then have "(u, topic_of req, s) \<in> set (pending w1 st)"
      "(sig, closed_event (topic_of req) u) \<in> set (tasks w1)" by (simp_all add: pending_def)
    from life_run_served [OF assms(7) inv1 assms(8) this] accepted assms(9,10) show ?thesis
      by (simp add: pending_def)
  qed simp
qed

end

subsection \<open>The reference server\<close>

definition ref_take_closed :: "ref_world \<Rightarrow> ref_world" where
  "ref_take_closed w = w\<lparr>rw_closed := tl (rw_closed w)\<rparr>"

interpretation ref_closing: closing_server ref_try_send "\<lambda>w. chan_queued (rw_chans w)"
    "\<lambda>w. chan_capacity (rw_chans w)" "\<lambda>w. chan_is_open (rw_chans w)" ref_env ref_hangup
    rw_added ref_take_added ref_issued ref_made rw_tasks "\<lambda>w. set (rw_signalled w)" rw_closed ref_take_closed
  by unfold_locales
    (auto simp: keeps_def ref_env_def ref_take_closed_def ref_take_added_def ref_try_send_def ref_hangup_def
      ref_issued_def ref_made_def new_chan_def split: if_splits list.splits prod.splits)

lemma system_run_life:
  assumes "system_run vote_id ts env hangup added take_added w st n ls w' st'"
    and "\<nexists>maybe. Takes (Subscription_closed maybe) \<in> set ls"
  shows "life_run vote_id ts env hangup added take_added closed take_closed tasks signalled w st n ls w' st'"
  using assms
proof (induction rule: system_run.induct)
  case (go w st l w1 st1 n ls w' st')
  then show ?case by (intro life_run.go [OF life_step.goes [OF go.hyps(1)]]) simp_all
qed (rule life_run.stop)

abbreviation example_life_run ::
  "ref_world \<Rightarrow> nat loop_state \<Rightarrow> nat \<Rightarrow> nat label list \<Rightarrow> ref_world \<Rightarrow> nat loop_state \<Rightarrow> bool" where
  "example_life_run \<equiv> life_run example_vote_id ref_try_send ref_env ref_hangup rw_added ref_take_added
     rw_closed ref_take_closed rw_tasks (\<lambda>w. set (rw_signalled w))"

text \<open>Someone subscribes, the loop takes the added event, something is published and read.\<close>

lemma ref_life:
  assumes "valid_request req" "payload example_vote_id ev (topic_of req) = Some m"
    and "\<not> disconnected ev" "\<not> event_panics ev" "publishes ev"
  obtains w1 resp w' st' where "call ref_env example_service req example_ref_world = (w1, Ok (Ok resp))"
    "ss_inner (resp_body resp) = 0" "ss_stream_id (resp_body resp) = 0"
    "ss_stream_closed_signal (resp_body resp) = Some 1"
    "example_life_run w1 empty_loop_state 3
      [Takes (Subscription_added (Ok (added_event (topic_of req) 0 0))), Takes ev, Reads 0 (Ok m)] w' st'"
    "rw_signalled w' = []" "chan_is_open (rw_chans w') 0"
proof -
  obtain w1 resp where 1: "call ref_env example_service req example_ref_world = (w1, Ok (Ok resp))"
    and resp: "ss_inner (resp_body resp) = 0" "ss_stream_id (resp_body resp) = 0"
      "ss_stream_closed_signal (resp_body resp) = Some 1"
    and w1: "rw_added w1 = [added_event (topic_of req) 0 0]" "rw_chans w1 0 = new_chan 10" "rw_signalled w1 = []"
    by (rule ref_call [OF assms(1)])
  let ?ev = "Subscription_added (Ok (added_event (topic_of req) 0 0))"
  obtain st where 2: "system_step example_vote_id ref_try_send ref_env ref_hangup rw_added ref_take_added w1
      empty_loop_state [Takes ?ev] (ref_take_added w1) st" and st: "subscribers st = [(0, topic_of req, 0)]"
    by (rule ref_added [OF w1(1)]) simp
  have ev: "added_of ev = []" "\<nexists>maybe. ev = Subscription_added maybe" "\<nexists>maybe. ev = Subscription_closed maybe"
    "\<not> closes_event ev (0, topic_of req, 0)"
    using assms(5) by (cases ev; auto)+
  have chan: "rw_chans (ref_take_added w1) 0 = new_chan 10" by (simp add: ref_take_added_def w1)
  obtain w' st' where 3: "example_system_run (ref_take_added w1) st 2 [Takes ev, Reads 0 (Ok m)] w' st'"
    and w': "rw_signalled w' = rw_signalled (ref_take_added w1)" "chan_is_open (rw_chans w') 0"
    by (rule ref_served [OF st chan assms(2-4) ev(1,2,4)])
  have "example_life_run w1 empty_loop_state (Suc 2) ([Takes ?ev] @ [Takes ev, Reads 0 (Ok m)]) w' st'"
    by (rule life_run.go [OF life_step.goes [OF 2] system_run_life [OF 3]]) (use ev(3) in auto)
  then have "example_life_run w1 empty_loop_state 3 [Takes ?ev, Takes ev, Reads 0 (Ok m)] w' st'"
    by (simp add: numeral_3_eq_3 numeral_2_eq_2)
  then show thesis by (rule that [OF 1 resp]) (simp_all add: w' ref_take_added_def w1)
qed

lemma ref_life_start: "rw_tasks example_ref_world = []" "rw_closed example_ref_world = []"
  by (simp_all add: example_ref_world_def)

text \<open>
  C3. Whoever subscribes and keeps the stream is served. Take the server at any point of any
  run from its start, an accepted call, and any continuation at whose end the returned stream
  has not been dropped. Then the subscription is with the loop, or still on its way to it: it
  was neither closed nor given up, whatever events, calls, closings and other subscribers came
  in between; and what was read from the stream and what waits in it is, in order, without
  duplicates, some of what was published for the requested topic since the call.\<close>

theorem accepted_subscription_served:
  assumes "closing_server ts queued capacity is_open env hangup added take_added issued made tasks signalled
      closed take_closed"
    and "added w0 = []" "issued w0 = {}" "tasks w0 = []" "closed w0 = []"
    and "life_run vote_id ts env hangup added take_added closed take_closed tasks signalled
      w0 empty_loop_state k ls0 w st"
    and "call env self req w = (w1, Ok (Ok resp))"
    and "life_run vote_id ts env hangup added take_added closed take_closed tasks signalled w1 st n ls w' st'"
    and "Suc k + n \<le> 2 ^ 128"
    and "\<forall>sig. ss_stream_closed_signal (resp_body resp) = Some sig \<longrightarrow> sig \<notin> signalled w'"
    and "is_open w' (ss_inner (resp_body resp))"
  shows "(ss_stream_id (resp_body resp), topic_of req, ss_inner (resp_body resp))
      \<in> set (subscribers st') \<union> subscriber_of ` set (added w') \<and>
    subseq (items_read (ss_inner (resp_body resp)) ls @ queued w' (ss_inner (resp_body resp)))
      (published vote_id (topic_of req) ls)"
  using closing_server.call_served [OF assms] .

theorem accepted_subscription_served_witness:
  "\<exists>(w' :: ref_world) (st' :: nat loop_state).
    (0, On_block, 0) \<in> set (subscribers st') \<union> subscriber_of ` set (rw_added w') \<and>
    subseq (Ok (BlockMsg example_block_update) # chan_queued (rw_chans w') 0) [Ok (BlockMsg example_block_update)]"
proof -
  let ?ev = "Block_update (Ok example_block_update)"
  obtain w1 resp w' st' where 1: "call ref_env example_service Req_blocks example_ref_world = (w1, Ok (Ok resp))"
    and resp: "ss_inner (resp_body resp) = 0" "ss_stream_id (resp_body resp) = 0"
      "ss_stream_closed_signal (resp_body resp) = Some 1"
    and run: "example_life_run w1 empty_loop_state 3 [Takes (Subscription_added (Ok (added_event (topic_of Req_blocks) 0 0))),
      Takes ?ev, Reads 0 (Ok (BlockMsg example_block_update))] w' st'"
    and w': "rw_signalled w' = []" "chan_is_open (rw_chans w') 0"
    by (rule ref_life [of Req_blocks ?ev "BlockMsg example_block_update"]) simp_all
  show ?thesis
    using accepted_subscription_served [OF ref_closing.closing_server_axioms example_start ref_life_start life_run.stop 1 run]
    by - (rule exI [of _ w'], rule exI [of _ st'], simp add: resp w')
qed

end
