(* ===== verification/Access_Token.thy ===== *)
theory Access_Token
  imports Geyser_Messages
begin

section \<open>Access tokens (server/src/geyser\_grpc\_plugin.rs, client/src/interceptor.rs)\<close>

text \<open>
  The client's interceptor writes the token into the metadata of each request, the server's
  lets a request through when the metadata holds the configured token. Metadata is a map from
  names to values; whether a string is a metadata value is tonic's business, the argument
  \<open>parse_metadata\<close>. The checker is only installed when a token is configured.
\<close>

type_synonym metadata = "(string, string) hashmap"

definition access_token_checker_call :: "string \<Rightarrow> metadata \<Rightarrow> Status + metadata" where
  "access_token_checker_call access_token req =
     (case map_of req ''access-token'' of
        Some t \<Rightarrow>
          if access_token = t then Ok req
          else Err (Status Unauthenticated ''Access token is incorrect'')
      | None \<Rightarrow> Err (Status Unauthenticated ''Access token is incorrect''))"

definition grpc_interceptor_call ::
  "(string \<Rightarrow> string option) \<Rightarrow> string \<Rightarrow> metadata \<Rightarrow> panic + Status + metadata" where
  "grpc_interceptor_call parse_metadata access_token request =
     and_then (unwrap '''' (parse_metadata access_token)) (\<lambda>v.
       Ok (Ok (hm_insert ''access-token'' v request)))"

text \<open>
  C25. A request the client's interceptor let out passes the server's check exactly when both
  were configured with the same token, whatever the request's metadata held before.\<close>

theorem token_checked:
  assumes "\<And>s v. parse_metadata s = Some v \<Longrightarrow> v = s"
    and "grpc_interceptor_call parse_metadata client_token request = Ok (Ok sent)"
  shows "access_token_checker_call server_token sent =
    (if server_token = client_token then Ok sent
     else Err (Status Unauthenticated ''Access token is incorrect''))"
  using assms(2)
  by (auto simp: grpc_interceptor_call_def access_token_checker_call_def result_simps
      dest!: assms(1))

theorem token_checked_witness:
  "access_token_checker_call ''secret'' [(''access-token'', ''secret'')] = Ok [(''access-token'', ''secret'')] \<and>
   access_token_checker_call ''other'' [(''access-token'', ''secret'')] =
     Err (Status Unauthenticated ''Access token is incorrect'')"
proof -
  have "grpc_interceptor_call Some ''secret'' [] = Ok (Ok [(''access-token'', ''secret'')])"
    by (simp add: grpc_interceptor_call_def hm_insert_def)
  from token_checked [of Some, OF _ this] show ?thesis by simp
qed

end
