(* ===== verification/System_Properties.thy ===== *)
theory System_Properties
  imports Plugin_Properties Client_Properties Subscription_Life Access_Token
begin

section \<open>Properties that span components\<close>

lemma concat_map_Nil [simp]: "concat (map (\<lambda>x. []) xs) = []"
  by (induction xs) simp_all

lemma map_filter_account_payload:
  assumes "\<forall>m \<in> set ms. \<exists>u. tau_account_update m = Some u"
  shows "List.map_filter (\<lambda>ev. payload vote_id ev (On_account keys)) (map (\<lambda>m. Account_update (Ok m)) ms) =
    map AccountMsg (filter (\<lambda>m. au_pubkey (the (tau_account_update m)) \<in> keys) ms)"
  using assms by (induction ms) (auto simp: map_filter_simps)

lemma client_account_update_total:
  assumes "solana_sdk S" "length (au_pubkey u) = 32" "length (au_owner u) = 32"
  shows "\<exists>c. client_account_update_from S u = Ok c \<and> pubkey_bytes (cau_pubkey c) = au_pubkey u \<and>
    cau_slot c = au_slot u \<and> cau_seq c = au_seq u"
  using solana_sdk.pubkey_from_bytes [OF assms(1), of "Pubkey (au_pubkey u)"]
    solana_sdk.pubkey_from_bytes [OF assms(1), of "Pubkey (au_owner u)"] assms(2, 3)
  by (simp add: client_account_update_from_def wf_pubkey_def)

definition example_wide_world :: "(nat, item) chan_store" where
  "example_wide_world = (\<lambda>s. new_chan 2)"

text \<open>
  C2. From the validator to the client. Take any run of the plugin and let the event loop take
  the account messages it sent. A subscriber to some accounts whose channel has the room finds
  in it exactly the messages about those accounts, in the order the validator reported them;
  the client decodes each without a panic, to an update of one of its accounts, and none has a
  slot above the highest write slot the plugin has recorded.\<close>

theorem accounts_end_to_end:
  fixes st :: "'s loop_state"
  assumes "plugin_channels pe account_sent" and "bounded_channels ts queued capacity is_open"
    and "solana_sdk S"
    and "run_callbacks pe cbs wp self = (wp', self', outp)" and "gp_data self \<noteq> None"
    and "account_sent wp = []"
    and "loop_inv st" and "(u, On_account keys, s) \<in> set (subscribers st)" and "is_open w s"
    and "queued w s = []" and "length (account_sent wp') \<le> capacity w s"
  shows "\<exists>w' st'. event_loop vote_id ts (map (\<lambda>m. Account_update (Ok m)) (account_sent wp')) w st =
      (w', Continue st') \<and>
    queued w' s = map (Ok \<circ> AccountMsg)
      (filter (\<lambda>m. au_pubkey (the (tau_account_update m)) \<in> keys) (account_sent wp')) \<and>
    (\<forall>m. Ok (AccountMsg m) \<in> set (queued w' s) \<longrightarrow>
      (\<exists>c. and_then (unwrap [] (tau_account_update m)) (client_account_update_from S) = Ok c \<and>
        pubkey_bytes (cau_pubkey c) \<in> keys \<and> cau_slot c \<le> highest self'))"
proof -
  let ?ms = "account_sent wp'"
  let ?evs = "map (\<lambda>m. Account_update (Ok m)) ?ms :: 's loop_event list"
  obtain d where d: "gp_data self = Some d" using assms(5) by blast
  have good: "\<forall>m \<in> set ?ms. good_account self' m"
    using plugin_channels.run_good [OF assms(1, 4) d] assms(6) by auto
  then have some: "\<forall>m \<in> set ?ms. \<exists>u. tau_account_update m = Some u"
    by (auto simp: good_account_def split: option.splits)
  have "fresh_run ?evs st"
    using assms(7) by (simp add: fresh_run_def loop_inv_def comp_def)
  moreover have "\<forall>ev \<in> set ?evs. \<not> disconnected ev \<and> \<not> event_panics ev \<and> \<not> closes_event ev (u, On_account keys, s)"
    using some by auto
  ultimately obtain w' st' where run: "event_loop vote_id ts ?evs w st = (w', Continue st')"
    and q: "queued w' s = map Ok (take (capacity w s) (List.map_filter (\<lambda>ev. payload vote_id ev (On_account keys)) ?evs))"
    using server_channels.run_queue [OF server_channels.intro [OF assms(2)] _ _ assms(8), of ?evs w vote_id]
      assms(9, 10) by auto
  have "length (filter (\<lambda>m. au_pubkey (the (tau_account_update m)) \<in> keys) ?ms) \<le> capacity w s"
    using assms(11) length_filter_le order_trans by blast
  then have q': "queued w' s = map (Ok \<circ> AccountMsg) (filter (\<lambda>m. au_pubkey (the (tau_account_update m)) \<in> keys) ?ms)"
    by (simp add: q map_filter_account_payload [OF some])
  have "\<exists>c. and_then (unwrap [] (tau_account_update m)) (client_account_update_from S) = Ok c \<and>
      pubkey_bytes (cau_pubkey c) \<in> keys \<and> cau_slot c \<le> highest self'"
    if m: "Ok (AccountMsg m) \<in> set (queued w' s)" for m
  proof -
    from m have "m \<in> set ?ms" "au_pubkey (the (tau_account_update m)) \<in> keys" by (auto simp: q')
    then show ?thesis
      using good client_account_update_total [OF assms(3)]
      by (fastforce simp: good_account_def highest_def split: option.splits)
  qed
  with run q' show ?thesis by blast
qed

theorem accounts_end_to_end_witness:
  "\<exists>w' st' self'. event_loop example_vote_id chan_try_send
      (map (\<lambda>m. Account_update (Ok m)) (rv_account (fst (run_callbacks ref_plugin_env
        [CB_account (example_account 7) 5 False, CB_account (example_account 8) 6 False]
        example_validator (example_plugin False)))))
      example_wide_world
      (empty_loop_state\<lparr>account_update_subscriptions :=
        [(1, \<lparr>aus_notification_sender = (0 :: nat), aus_accounts = {replicate 32 7}\<rparr>)]\<rparr>) = (w', Continue st') \<and>
    length (chan_queued w' 0) = 1"
proof -
  let ?cbs = "[CB_account (example_account 7) 5 False, CB_account (example_account 8) 6 False]"
  let ?st = "empty_loop_state\<lparr>account_update_subscriptions :=
        [(1, \<lparr>aus_notification_sender = (0 :: nat), aus_accounts = {replicate 32 7 :: bytes}\<rparr>)]\<rparr>"
  obtain wp' self' out where run: "run_callbacks ref_plugin_env ?cbs example_validator (example_plugin False) =
      (wp', self', out)" by (metis prod_cases3)
  then have sent: "rv_account wp' = [account_update_message ref_plugin_env example_validator (example_account 7) 5 False,
      account_update_message ref_plugin_env example_validator (example_account 8) 6 False]"
    by (auto simp: example_plugin_simps update_account_def account_update_message_def ref_plugin_env_def)
  have keys: "au_pubkey (the (tau_account_update
      (account_update_message ref_plugin_env w (example_account k) slot b))) = replicate 32 k" for w k slot b
    by (simp add: account_update_message_def example_account_def)
  have state: "gp_data (example_plugin False) \<noteq> None" "rv_account example_validator = []" "loop_inv ?st"
    "(1, On_account {replicate 32 7}, 0) \<in> set (subscribers ?st)"
    by (simp_all add: example_plugin_simps example_simps)
  have chan: "chan_is_open example_wide_world 0" "chan_queued example_wide_world 0 = []"
    "length (rv_account wp') \<le> chan_capacity example_wide_world 0"
    by (simp_all add: example_wide_world_def new_chan_def sent)
  obtain w' st' where
    loop: "event_loop example_vote_id chan_try_send (map (\<lambda>m. Account_update (Ok m)) (rv_account wp'))
      example_wide_world ?st = (w', Continue st')"
    and q: "chan_queued w' 0 = map (Ok \<circ> AccountMsg)
      (filter (\<lambda>m. au_pubkey (the (tau_account_update m)) \<in> {replicate 32 7}) (rv_account wp'))"
    using accounts_end_to_end [OF ref_plugin.plugin_channels_axioms chans.bounded_channels_axioms
        array_sdk.solana_sdk_axioms run, of ?st 1 "{replicate 32 7}" 0 example_wide_world example_vote_id,
        OF state chan] by blast
  have "length (chan_queued w' 0) = 1" unfolding q sent by (simp add: keys)
  with loop show ?thesis unfolding run by auto
qed

lemma account_payload:
  "payload vote_id ev (On_account keys) = Some msg \<Longrightarrow>
    \<exists>m u. ev = Account_update (Ok m) \<and> tau_account_update m = Some u \<and> au_pubkey u \<in> keys \<and> msg = AccountMsg m"
  by (cases "(vote_id, ev, On_account keys)" rule: payload.cases) (auto split: option.splits if_splits)

lemma published_accounts:
  "i \<in> set (published vote_id (On_account keys) ls) \<Longrightarrow>
    \<exists>m u. Account_update (Ok m) \<in> set (taken ls) \<and> tau_account_update m = Some u \<and> au_pubkey u \<in> keys \<and>
      i = Ok (AccountMsg m)"
  by (auto simp: published_def map_filter_def dest!: account_payload)

text \<open>
  C1. The whole way. Take the server at any point of any run, a client's accepted request for
  the updates of some accounts, and any continuation in which the account messages the loop
  takes come from a run of the plugin, at whose end the client still has its stream. Then
  the subscription is with the loop or on its way to it, and every item the client has read is
  an account message the plugin sent, about one of the requested accounts, which the client
  decodes without a panic to an update of that account whose slot is within the plugin's
  highest write slot.\<close>

theorem subscribed_accounts_end_to_end:
  fixes w0 :: 'w and ls :: "'s label list"
  assumes "closing_server ts queued capacity is_open env hangup added take_added issued made tasks signalled
      closed take_closed"
    and "plugin_channels pe account_sent" and "solana_sdk S"
    and "added w0 = []" "issued w0 = {}" "tasks w0 = []" "closed w0 = []"
    and "life_run vote_id ts env hangup added take_added closed take_closed tasks signalled
      w0 empty_loop_state k ls0 w st"
    and "call env self (Req_accounts keys) w = (w1, Ok (Ok resp))"
    and "life_run vote_id ts env hangup added take_added closed take_closed tasks signalled w1 st n ls w' st'"
    and "Suc k + n \<le> 2 ^ 128"
    and "\<forall>sig. ss_stream_closed_signal (resp_body resp) = Some sig \<longrightarrow> sig \<notin> signalled w'"
    and "is_open w' (ss_inner (resp_body resp))"
    and "run_callbacks pe cbs wp plugin = (wp', plugin', outp)" "gp_data plugin \<noteq> None" "account_sent wp = []"
    and "\<forall>m. Account_update (Ok m) \<in> set (taken ls) \<longrightarrow> m \<in> set (account_sent wp')"
  shows "(ss_stream_id (resp_body resp), On_account (set keys), ss_inner (resp_body resp))
      \<in> set (subscribers st') \<union> subscriber_of ` set (added w') \<and>
    (\<forall>i \<in> set (items_read (ss_inner (resp_body resp)) ls). \<exists>m c. i = Ok (AccountMsg m) \<and>
      m \<in> set (account_sent wp') \<and>
      and_then (unwrap [] (tau_account_update m)) (client_account_update_from S) = Ok c \<and>
      pubkey_bytes (cau_pubkey c) \<in> set keys \<and> cau_slot c \<le> highest plugin')"
proof -
  let ?s = "ss_inner (resp_body resp)"
  note served = closing_server.call_served [OF assms(1,4-13), simplified topic_of.simps]
  obtain d where d: "gp_data plugin = Some d" using assms(15) by blast
  have good: "\<forall>m \<in> set (account_sent wp'). good_account plugin' m"
    using plugin_channels.run_good [OF assms(2,14) d] assms(16) by auto
  have "\<exists>m c. i = Ok (AccountMsg m) \<and> m \<in> set (account_sent wp') \<and>
      and_then (unwrap [] (tau_account_update m)) (client_account_update_from S) = Ok c \<and>
      pubkey_bytes (cau_pubkey c) \<in> set keys \<and> cau_slot c \<le> highest plugin'"
    if i: "i \<in> set (items_read ?s ls)" for i
  proof -
    from list_emb_set [OF conjunct2 [OF served], of i] i
    have "i \<in> set (published vote_id (On_account (set keys)) ls)" by auto
    from published_accounts [OF this] obtain m u where m: "Account_update (Ok m) \<in> set (taken ls)"
      "tau_account_update m = Some u" "au_pubkey u \<in> set keys" "i = Ok (AccountMsg m)" by blast
    with assms(17) good have "m \<in> set (account_sent wp')" "good_account plugin' m" by simp_all
    with m client_account_update_total [OF assms(3), of u] show ?thesis
      by (fastforce simp: good_account_def highest_def split: option.splits)
  qed
  with served show ?thesis by blast
qed

theorem subscribed_accounts_end_to_end_witness:
  "\<exists>m c. m \<in> set (rv_account (fst (run_callbacks ref_plugin_env
        [CB_account (example_account 7) 5 False] example_validator (example_plugin False)))) \<and>
    and_then (unwrap [] (tau_account_update m)) (client_account_update_from array_sdk) = Ok c \<and>
    pubkey_bytes (cau_pubkey c) = replicate 32 7"
proof -
  let ?cbs = "[CB_account (example_account 7) 5 False]" and ?req = "Req_accounts [replicate 32 7]"
  obtain wp' self' out where run: "run_callbacks ref_plugin_env ?cbs example_validator (example_plugin False) =
      (wp', self', out)" by (metis prod_cases3)
  obtain m where sent: "rv_account wp' = [m]" and
    m: "m = account_update_message ref_plugin_env example_validator (example_account 7) 5 False"
    using run by (auto simp: example_plugin_simps update_account_def account_update_message_def ref_plugin_env_def)
  have plugin: "gp_data (example_plugin False) \<noteq> None" "rv_account example_validator = []"
    by (simp_all add: example_plugin_simps)
  let ?ev = "Account_update (Ok m) :: nat loop_event"
  have key: "tau_account_update m \<noteq> None" "au_pubkey (the (tau_account_update m)) = replicate 32 7"
    by (simp_all add: m account_update_message_def example_account_def)
  obtain w1 resp w' st' where 1: "call ref_env example_service ?req example_ref_world = (w1, Ok (Ok resp))"
    and resp: "ss_inner (resp_body resp) = 0" "ss_stream_id (resp_body resp) = 0"
      "ss_stream_closed_signal (resp_body resp) = Some 1"
    and life: "example_life_run w1 empty_loop_state 3 [Takes (Subscription_added (Ok (added_event (topic_of ?req) 0 0))),
      Takes ?ev, Reads 0 (Ok (AccountMsg m))] w' st'"
    and w': "rw_signalled w' = []" "chan_is_open (rw_chans w') 0"
    by (rule ref_life [of ?req ?ev "AccountMsg m"]) (use key in auto)
  have "\<exists>c. and_then (unwrap [] (tau_account_update m)) (client_account_update_from array_sdk) = Ok c \<and>
      pubkey_bytes (cau_pubkey c) = replicate 32 7"
    using subscribed_accounts_end_to_end [OF ref_closing.closing_server_axioms ref_plugin.plugin_channels_axioms
        array_sdk.solana_sdk_axioms example_start ref_life_start life_run.stop 1 life _ _ _ run plugin]
    by (simp add: resp w' sent) blast
  then show ?thesis unfolding run fst_conv sent by simp
qed

primrec client_status_of :: "SlotStatus \<Rightarrow> ClientSlotUpdateStatus" where
  "client_status_of SS_Processed = CS_Processed"
| "client_status_of SS_Rooted = CS_Rooted"
| "client_status_of SS_Confirmed = CS_Confirmed"
| "client_status_of SS_FirstShredReceived = CS_FirstShredReceived"
| "client_status_of SS_Completed = CS_Completed"
| "client_status_of SS_CreatedBank = CS_CreatedBank"
| "client_status_of (SS_Dead e) = CS_Dead"

text \<open>
  C24. A slot status means the same at both ends: whatever status the validator reports, the
  client's decoding of the update the plugin sends has the same slot, parent and status.\<close>

theorem slot_status_end_to_end:
  assumes "gp_data self = Some d"
  shows "\<exists>m u. update_slot_status pe slot parent status w self =
      (fst (pe_slot_try_send pe w m), Ok (send_result
        (SlotStatusUpdateError ''slot_update channel disconnected, exiting'') (snd (pe_slot_try_send pe w m)))) \<and>
    tsu_slot_update m = Some u \<and>
    client_slot_update_from u =
      Ok \<lparr>csu_parent_slot = parent, csu_slot = slot, csu_status = client_status_of status\<rparr>"
proof -
  let ?u = "\<lparr>su_slot = slot, su_parent_slot = parent,
    su_status = slot_update_status_as_i32 (slot_update_status_of status)\<rparr>"
  let ?m = "\<lparr>tsu_ts = Some (pe_timestamp_from pe (pe_now pe w)), tsu_slot_update = Some ?u\<rparr>"
  have "client_slot_status_from (slot_update_status_of status) = client_status_of status"
    by (cases status) simp_all
  then have "client_slot_update_from ?u =
      Ok \<lparr>csu_parent_slot = parent, csu_slot = slot, csu_status = client_status_of status\<rparr>"
    by (simp add: client_slot_update_from_def)
  moreover have "update_slot_status pe slot parent status w self =
      (fst (pe_slot_try_send pe w ?m), Ok (send_result
        (SlotStatusUpdateError ''slot_update channel disconnected, exiting'') (snd (pe_slot_try_send pe w ?m))))"
    by (simp add: update_slot_status_def assms split: prod.splits)
  ultimately show ?thesis by (intro exI [of _ ?m] exI [of _ ?u]) simp
qed

theorem slot_status_end_to_end_witness:
  "\<exists>u. client_slot_update_from u =
     Ok \<lparr>csu_parent_slot = Some 4, csu_slot = 5, csu_status = CS_Dead\<rparr>"
proof -
  obtain d where "gp_data (example_plugin False) = Some d" by (simp add: example_plugin_def)
  from slot_status_end_to_end [OF this, of ref_plugin_env 5 "Some 4" "SS_Dead ''fork''" example_validator]
  show ?thesis by auto
qed

end
