(* ===== verification/Stored_Meta.thy ===== *)
theory Stored_Meta
  imports Convert_Block
begin

section \<open>The stored forms (proto/src/lib.rs)\<close>

text \<open>
  The structs that are serialised with bincode, and their conversions from and to the native
  types. A stored token amount has no text, and stored metadata has no loaded addresses: the
  conversion to it fails when there are some.
\<close>

record StoredTokenAmount =
  sta_ui_amount :: f64
  sta_decimals :: u8
  sta_amount :: string

record StoredTransactionTokenBalance =
  stb_account_index :: u8
  stb_mint :: string
  stb_ui_token_amount :: StoredTokenAmount
  stb_owner :: string
  stb_program_id :: string

record StoredTransactionStatusMeta =
  stm_status :: "TransactionError + unit"
  stm_fee :: u64
  stm_pre_balances :: "u64 list"
  stm_post_balances :: "u64 list"
  stm_inner_instructions :: "InnerInstructions list option"
  stm_log_messages :: "string list option"
  stm_pre_token_balances :: "StoredTransactionTokenBalance list option"
  stm_post_token_balances :: "StoredTransactionTokenBalance list option"
  stm_rewards :: "StoredExtendedReward list option"
  stm_return_data :: "TransactionReturnData option"
  stm_compute_units_consumed :: "u64 option"

definition stored_amount_to_ui :: "sdk \<Rightarrow> StoredTokenAmount \<Rightarrow> UiTokenAmount" where
  "stored_amount_to_ui S value =
     \<lparr>uta_ui_amount = Some (sta_ui_amount value),
      uta_decimals = sta_decimals value,
      uta_amount = sta_amount value,
      uta_ui_amount_string =
        real_number_string_trimmed S (u64_or_default (sta_amount value)) (sta_decimals value)\<rparr>"

definition ui_amount_to_stored :: "UiTokenAmount \<Rightarrow> StoredTokenAmount" where
  "ui_amount_to_stored value =
     \<lparr>sta_ui_amount = (case uta_ui_amount value of Some x \<Rightarrow> x | None \<Rightarrow> f64_default),
      sta_decimals = uta_decimals value,
      sta_amount = uta_amount value\<rparr>"

definition stored_balance_to_balance ::
  "sdk \<Rightarrow> StoredTransactionTokenBalance \<Rightarrow> TransactionTokenBalance" where
  "stored_balance_to_balance S value =
     \<lparr>ttb_account_index = stb_account_index value,
      ttb_mint = stb_mint value,
      ttb_ui_token_amount = stored_amount_to_ui S (stb_ui_token_amount value),
      ttb_owner = stb_owner value,
      ttb_program_id = stb_program_id value\<rparr>"

definition balance_to_stored_balance ::
  "TransactionTokenBalance \<Rightarrow> StoredTransactionTokenBalance" where
  "balance_to_stored_balance value =
     \<lparr>stb_account_index = ttb_account_index value,
      stb_mint = ttb_mint value,
      stb_ui_token_amount = ui_amount_to_stored (ttb_ui_token_amount value),
      stb_owner = ttb_owner value,
      stb_program_id = ttb_program_id value\<rparr>"

definition stored_meta_to_meta :: "sdk \<Rightarrow> StoredTransactionStatusMeta \<Rightarrow> TransactionStatusMeta" where
  "stored_meta_to_meta S value =
     \<lparr>tsm_status = stm_status value,
      tsm_fee = stm_fee value,
      tsm_pre_balances = stm_pre_balances value,
      tsm_post_balances = stm_post_balances value,
      tsm_inner_instructions = stm_inner_instructions value,
      tsm_log_messages = stm_log_messages value,
      tsm_pre_token_balances =
        map_option (map (stored_balance_to_balance S)) (stm_pre_token_balances value),
      tsm_post_token_balances =
        map_option (map (stored_balance_to_balance S)) (stm_post_token_balances value),
      tsm_rewards = map_option (map stored_reward_to_reward) (stm_rewards value),
      tsm_loaded_addresses = \<lparr>la_writable = [], la_readonly = []\<rparr>,
      tsm_return_data = stm_return_data value,
      tsm_compute_units_consumed = stm_compute_units_consumed value\<rparr>"

definition loaded_is_empty :: "LoadedAddresses \<Rightarrow> bool" where
  "loaded_is_empty a \<longleftrightarrow> la_writable a = [] \<and> la_readonly a = []"

definition meta_to_stored_meta ::
  "TransactionStatusMeta \<Rightarrow> bincode_error + StoredTransactionStatusMeta" where
  "meta_to_stored_meta value =
     (if \<not> loaded_is_empty (tsm_loaded_addresses value)
      then Err (Bincode_Custom ''Bincode serialization is deprecated'')
      else Ok
        \<lparr>stm_status = tsm_status value,
         stm_fee = tsm_fee value,
         stm_pre_balances = tsm_pre_balances value,
         stm_post_balances = tsm_post_balances value,
         stm_inner_instructions = tsm_inner_instructions value,
         stm_log_messages = tsm_log_messages value,
         stm_pre_token_balances =
           map_option (map balance_to_stored_balance) (tsm_pre_token_balances value),
         stm_post_token_balances =
           map_option (map balance_to_stored_balance) (tsm_post_token_balances value),
         stm_rewards = map_option (map reward_to_stored_reward) (tsm_rewards value),
         stm_return_data = tsm_return_data value,
         stm_compute_units_consumed = tsm_compute_units_consumed value\<rparr>)"

definition stored_meta_to_pb ::
  "sdk \<Rightarrow> StoredTransactionStatusMeta \<Rightarrow> panic + PbTransactionStatusMeta" where
  "stored_meta_to_pb S meta = meta_to_pb S (stored_meta_to_meta S meta)"

subsection \<open>The contracts\<close>

interpretation stored_amount: total_codec "stored_amount_to_ui S" ui_amount_to_stored "\<lambda>_. True" for S
  by unfold_locales (simp add: stored_amount_to_ui_def ui_amount_to_stored_def)

interpretation stored_balance:
    total_codec "stored_balance_to_balance S" balance_to_stored_balance "\<lambda>_. True" for S
  by unfold_locales
    (simp add: stored_balance_to_balance_def balance_to_stored_balance_def stored_amount.dec_enc)

lemma stored_balances_back:
  "map_option (map (balance_to_stored_balance \<circ> stored_balance_to_balance S)) x = x"
proof -
  have "balance_to_stored_balance \<circ> stored_balance_to_balance S = id"
    by (auto simp: stored_balance.dec_enc)
  then show ?thesis by (simp add: list.map_id0 option.map_id)
qed

lemma stored_rewards_back: "map_option (map (reward_to_stored_reward \<circ> stored_reward_to_reward)) x = x"
proof -
  have "reward_to_stored_reward \<circ> stored_reward_to_reward = id"
    by (auto simp: stored_reward.dec_enc)
  then show ?thesis by (simp add: list.map_id0 option.map_id)
qed

lemma map_option_map_map: "map_option (map f) (map_option (map g) x) = map_option (map (f \<circ> g)) x"
  by (cases x) simp_all

interpretation stored_meta: codec "stored_meta_to_meta S" meta_to_stored_meta "\<lambda>_. True" for S
  by unfold_locales
    (simp add: stored_meta_to_meta_def meta_to_stored_meta_def loaded_is_empty_def
      map_option_map_map stored_balances_back stored_rewards_back)

lemma meta_to_stored_meta_fails:
  "is_err (meta_to_stored_meta m) \<longleftrightarrow> \<not> loaded_is_empty (tsm_loaded_addresses m)"
  by (simp add: meta_to_stored_meta_def)

text \<open>
  C36. Old records survive. A stored record of a transaction's metadata, read and written again,
  is itself; sent as a message it is decoded with what it held, its token balances and rewards
  normalised; and metadata can be stored at all exactly when it has no loaded addresses, which
  the format cannot hold.\<close>

theorem stored_meta_roundtrip:
  assumes "solana_sdk S" "pred_option (\<lambda>d. wf_pubkey (trd_program_id d)) (stm_return_data m)"
    and "stored_meta_to_pb S m = Ok p"
  shows "meta_to_stored_meta (stored_meta_to_meta S m) = Ok m \<and>
    meta_from_pb S p = Ok (canonical_meta S (stored_meta_to_meta S m)) \<and>
    (is_err (meta_to_stored_meta x) \<longleftrightarrow>
      la_writable (tsm_loaded_addresses x) \<noteq> [] \<or> la_readonly (tsm_loaded_addresses x) \<noteq> [])"
proof -
  have "wf_meta (stored_meta_to_meta S m)"
    using assms(2) by (simp add: wf_meta_def stored_meta_to_meta_def)
  with solana_sdk.meta_roundtrip [OF assms(1)] assms(3) show ?thesis
    by (auto simp: stored_meta.dec_enc stored_meta_to_pb_def meta_to_stored_meta_fails loaded_is_empty_def)
qed

definition example_stored_meta :: StoredTransactionStatusMeta where
  "example_stored_meta =
     \<lparr>stm_status = Ok (), stm_fee = 5000, stm_pre_balances = [1], stm_post_balances = [2],
      stm_inner_instructions = None, stm_log_messages = None, stm_pre_token_balances = None,
      stm_post_token_balances = None, stm_rewards = None, stm_return_data = None,
      stm_compute_units_consumed = None\<rparr>"

theorem stored_meta_roundtrip_witness:
  "meta_to_stored_meta (stored_meta_to_meta array_sdk example_stored_meta) = Ok example_stored_meta \<and>
    is_err (meta_to_stored_meta example_meta)"
proof -
  obtain p where "stored_meta_to_pb array_sdk example_stored_meta = Ok p"
    by (simp add: stored_meta_to_pb_def stored_meta_to_meta_def example_stored_meta_def meta_to_pb_def
        status_to_err_def)
  from stored_meta_roundtrip [OF array_sdk.solana_sdk_axioms _ this, of example_meta] show ?thesis
    by (simp add: example_stored_meta_def example_meta_def)
qed


end
