(* ===== verification/Connect.thy ===== *)
theory Connect
  imports Client_Types
begin

section \<open>Connecting to the server (client/src/lib.rs)\<close>

text \<open>
  Both clients make an endpoint from an address, perhaps give it a TLS configuration, connect,
  and put an interceptor with the access token in front. The transport is not part of the
  repository: the arguments collected in \<open>transport\<close>.
\<close>

record ('ep, 'tls, 'ch) transport =
  tp_endpoint_from_str :: "string \<Rightarrow> string + 'ep"
  tp_tls_config :: "'ep \<Rightarrow> 'tls \<Rightarrow> string + 'ep"
  tp_connect :: "'ep \<Rightarrow> string + 'ch"

text \<open>A \<open>GeyserClient\<close> with its interceptor: the channel and the token.\<close>

record 'ch GeyserClient =
  gcl_channel :: 'ch
  gcl_access_token :: string

text \<open>The consumer; \<open>exit\<close> names the shared flag.\<close>

record ('ch, 'x) GeyserConsumer =
  gco_client :: "'ch GeyserClient"
  gco_exit :: 'x

definition geyser_consumer_new :: "'ch GeyserClient \<Rightarrow> 'x \<Rightarrow> ('ch, 'x) GeyserConsumer" where
  "geyser_consumer_new client exit = \<lparr>gco_client = client, gco_exit = exit\<rparr>"

definition connect ::
  "('ep, 'tls, 'ch, 'z) transport_scheme \<Rightarrow> string \<Rightarrow> string \<Rightarrow> 'tls option \<Rightarrow> 'x \<Rightarrow>
    panic + ('ch, 'x) GeyserConsumer" where
  "connect tp geyser_addr access_token tls_config exit =
     and_then (unwrap_result [] (tp_endpoint_from_str tp geyser_addr)) (\<lambda>endpoint.
     and_then
       (case tls_config of
          Some tls \<Rightarrow> unwrap_result ''tls_config'' (tp_tls_config tp endpoint tls)
        | None \<Rightarrow> Ok endpoint) (\<lambda>endpoint.
     and_then (unwrap_result ''failed to connect'' (tp_connect tp endpoint)) (\<lambda>ch.
       Ok (geyser_consumer_new \<lparr>gcl_channel = ch, gcl_access_token = access_token\<rparr> exit))))"

end
