(* ===== verification/Float64.thy ===== *)
theory Float64
  imports Complex_Main "HOL-Library.Log_Nat" Rust_Std
begin

section \<open>The double precision numbers of the clock skew\<close>

text \<open>
  What \<open>Duration::as_secs_f64\<close>, the change of sign and \<open>{:.3}\<close> do. A finite \<open>f64\<close> is its sign and
  its magnitude, the exact rational value. An operation gives the exact result rounded to 53 bits, to
  the nearest and to the even one of two nearest. The numbers here are zero or between a billionth
  and 2 to the 65, so that the range of the exponent never shows, and none is infinite or a NaN.
\<close>

record finite_f64 =
  ff_negative :: bool
  ff_magnitude :: rat

subsection \<open>Rounding\<close>

definition round_ties_even :: "rat \<Rightarrow> int" where
  "round_ties_even x =
     (let n = \<lfloor>x\<rfloor>; r = x - of_int n in
      if r < 1 / 2 then n else if 1 / 2 < r then n + 1 else if even n then n else n + 1)"

text \<open>The power of two just below a positive number, from the lengths of the two sides of its fraction.\<close>

definition f64_exponent :: "rat \<Rightarrow> int" where
  "f64_exponent x =
     (let (n, d) = quotient_of x; e = bitlen n - bitlen d in
      if 2 powi e \<le> x then e else e - 1)"

text \<open>The distance between two numbers of 53 bits around a positive number, and the nearest of them.\<close>

definition f64_unit :: "rat \<Rightarrow> rat" where
  "f64_unit x = 2 powi (f64_exponent x - 52)"

definition f64_round :: "rat \<Rightarrow> rat" where
  "f64_round x = (if x = 0 then 0 else of_int (round_ties_even (x / f64_unit x)) * f64_unit x)"

subsection \<open>The operations\<close>

text \<open>
  A duration is a number of nanoseconds. Its whole seconds and its nanoseconds are turned into
  numbers, the second is divided by \<open>1e9\<close>, and both are added.
\<close>

definition as_secs_f64 :: "int \<Rightarrow> finite_f64" where
  "as_secs_f64 d =
     (let secs = f64_round (of_int (d div 1000000000));
          nanos = f64_round (of_int (d mod 1000000000)) in
      \<lparr>ff_negative = False, ff_magnitude = f64_round (secs + f64_round (nanos / 1000000000))\<rparr>)"

text \<open>The product with \<open>-1.0\<close> is exact.\<close>

definition f64_times_minus_one :: "finite_f64 \<Rightarrow> finite_f64" where
  "f64_times_minus_one x = x\<lparr>ff_negative := \<not> ff_negative x\<rparr>"

text \<open>
  \<open>{:.3}\<close> rounds the exact value to thousandths, and prints the sign of a negative number, of a
  negative zero too, the whole part and three digits.
\<close>

definition show_thousandths :: "nat \<Rightarrow> string" where
  "show_thousandths k =
     show_nat (k div 1000) @ ''.'' @
       [digit_char (k div 100 mod 10), digit_char (k div 10 mod 10), digit_char (k mod 10)]"

definition format_3 :: "finite_f64 \<Rightarrow> string" where
  "format_3 x =
     (if ff_negative x then ''-'' else []) @ show_thousandths (nat (round_ties_even (ff_magnitude x * 1000)))"

subsection \<open>The error of a rounding\<close>

lemma round_ties_even_error: "\<bar>of_int (round_ties_even x) - x\<bar> \<le> 1 / 2"
proof -
  have "of_int \<lfloor>x\<rfloor> \<le> x" "x < of_int \<lfloor>x\<rfloor> + 1" by linarith+
  then show ?thesis by (auto simp: round_ties_even_def Let_def abs_le_iff field_simps)
qed

lemma round_ties_even_nonneg:
  assumes "0 \<le> x"
  shows "0 \<le> round_ties_even x"
proof -
  have "0 \<le> \<lfloor>x\<rfloor>" using assms by simp
  then show ?thesis by (simp add: round_ties_even_def Let_def)
qed

lemma bitlen_2_bounds:
  assumes "0 < n"
  shows "2 powi bitlen n \<le> 2 * rat_of_int n \<and> rat_of_int n < 2 powi bitlen n"
proof -
  have b: "2 ^ nat (bitlen n - 1) \<le> n" "n < 2 ^ nat (bitlen n)"
    using bitlen_bounds [OF assms] by simp_all
  have l: "0 < bitlen n" using assms bitlen_nonneg [of n] bitlen_eq_zero_iff [of n] by linarith
  have "rat_of_int (2 ^ nat (bitlen n - 1)) \<le> rat_of_int n" using b(1) by (simp only: of_int_le_iff)
  moreover have "(2 :: rat) powi bitlen n = 2 * rat_of_int (2 ^ nat (bitlen n - 1))"
  proof -
    have "(2 :: rat) powi bitlen n = 2 powi (bitlen n - 1) * 2"
      by (simp add: power_int_diff)
    with l show ?thesis by (simp add: power_int_def)
  qed
  moreover have "rat_of_int n < rat_of_int (2 ^ nat (bitlen n))" using b(2) by (simp only: of_int_less_iff)
  ultimately show ?thesis using l by (simp add: power_int_def)
qed

lemma f64_exponent_bounds:
  assumes "0 < x"
  shows "2 powi f64_exponent x \<le> x \<and> x < 2 powi (f64_exponent x + 1)"
proof -
  obtain n d where q: "quotient_of x = (n, d)" by (cases "quotient_of x")
  then have d: "0 < d" and x: "x = of_int n / of_int d"
    by (simp_all add: quotient_of_denom_pos quotient_of_div)
  with assms have n: "0 < n" by (simp add: zero_less_divide_iff)
  let ?a = "(2 :: rat) powi bitlen n" and ?b = "(2 :: rat) powi bitlen d"
  let ?e = "bitlen n - bitlen d"
  have pos: "0 < ?a" "0 < ?b" by simp_all
  have e: "(2 :: rat) powi ?e = ?a / ?b" "(2 :: rat) powi (?e - 1) = ?a / ?b / 2"
    "(2 :: rat) powi (?e + 1) = 2 * (?a / ?b)"
    by (simp_all add: power_int_diff power_int_add)
  note nb = bitlen_2_bounds [OF n] and db = bitlen_2_bounds [OF d]
  have "?a * rat_of_int d \<le> (2 * rat_of_int n) * ?b"
    using nb db d n by (intro mult_mono) auto
  then have lower: "?a / ?b / 2 \<le> x"
    using d pos by (simp add: x field_simps)
  have "rat_of_int n * ?b < ?a * (2 * rat_of_int d)"
    using nb db d n pos by (intro mult_less_le_imp_less) auto
  then have upper: "x < 2 * (?a / ?b)"
    using d pos by (simp add: x field_simps)
  have ex: "f64_exponent x = (if 2 powi ?e \<le> x then ?e else ?e - 1)"
    by (simp add: f64_exponent_def q)
  show ?thesis
  proof (cases "2 powi ?e \<le> x")
    case True
    with upper show ?thesis unfolding ex by (simp add: e(3))
  next
    case False
    with lower have "2 powi (?e - 1) \<le> x" "x < 2 powi (?e - 1 + 1)" unfolding e(2) by simp_all
    with False show ?thesis unfolding ex by simp
  qed
qed

lemma f64_round_error:
  assumes "0 \<le> x"
  shows "\<bar>f64_round x - x\<bar> \<le> x / 2 ^ 53"
proof (cases "x = 0")
  case False
  with assms have x: "0 < x" by simp
  let ?u = "f64_unit x"
  have u: "0 < ?u" by (simp add: f64_unit_def)
  have "?u * 2 ^ 52 = 2 powi f64_exponent x"
    by (simp add: f64_unit_def power_int_diff)
  with f64_exponent_bounds [OF x] have small: "?u * 2 ^ 52 \<le> x" by simp
  have "f64_round x - x = (of_int (round_ties_even (x / ?u)) - x / ?u) * ?u"
    using u x by (simp add: f64_round_def algebra_simps)
  then have "\<bar>f64_round x - x\<bar> = \<bar>of_int (round_ties_even (x / ?u)) - x / ?u\<bar> * ?u"
    using u by (simp add: abs_mult)
  also have "\<dots> \<le> 1 / 2 * ?u"
    using u by (intro mult_right_mono round_ties_even_error) simp
  also have "\<dots> \<le> x / 2 ^ 53" using small by simp
  finally show ?thesis .
qed (simp add: f64_round_def)

lemma f64_round_nonneg:
  assumes "0 \<le> x"
  shows "0 \<le> f64_round x"
proof -
  have "0 \<le> x / f64_unit x" using assms by (simp add: f64_unit_def)
  from round_ties_even_nonneg [OF this] show ?thesis by (simp add: f64_round_def f64_unit_def)
qed

lemma f64_round_bounds:
  assumes "0 \<le> x"
  shows "9007199254740992 * f64_round x \<le> 9007199254740993 * x"
    "9007199254740991 * x \<le> 9007199254740992 * f64_round x"
proof -
  have "f64_round x - x \<le> x / 2 ^ 53 \<and> x - f64_round x \<le> x / 2 ^ 53"
    using f64_round_error [OF assms] by (simp only: abs_le_iff minus_diff_eq)
  then show "9007199254740992 * f64_round x \<le> 9007199254740993 * x"
    "9007199254740991 * x \<le> 9007199254740992 * f64_round x"
    by (simp_all add: field_simps)
qed

text \<open>
  Three roundings one after the other, of the nanoseconds, of their quotient and of the sum, with
  the division in the numbers: the unknowns of the first lemma are the rounded and exact values.
\<close>

lemma three_roundings:
  fixes s n s' n' q m :: rat
  assumes "0 \<le> s" "0 \<le> n"
  shows "9007199254740992 * s' \<le> 9007199254740993 * s \<Longrightarrow>
      9007199254740992 * n' \<le> 9007199254740993 * n \<Longrightarrow>
      9007199254740992 * q \<le> 9007199254740993 * (n' / 1000000000) \<Longrightarrow>
      9007199254740992 * m \<le> 9007199254740993 * (s' + q) \<Longrightarrow>
      2251799813685248 * m \<le> 2251799813685249 * (s + n / 1000000000)"
    and "9007199254740991 * s \<le> 9007199254740992 * s' \<Longrightarrow>
      9007199254740991 * n \<le> 9007199254740992 * n' \<Longrightarrow>
      9007199254740991 * (n' / 1000000000) \<le> 9007199254740992 * q \<Longrightarrow>
      9007199254740991 * (s' + q) \<le> 9007199254740992 * m \<Longrightarrow>
      2251799813685247 * (s + n / 1000000000) \<le> 2251799813685248 * m"
  using assms by simp_all

lemma as_secs_f64_error:
  assumes "0 \<le> d"
  shows "\<bar>ff_magnitude (as_secs_f64 d) - of_int d / 1000000000\<bar> \<le> of_int d / 1000000000 / 2 ^ 51"
proof -
  define s where "s = rat_of_int (d div 1000000000)"
  define n where "n = rat_of_int (d mod 1000000000)"
  define s' where "s' = f64_round s"
  define n' where "n' = f64_round n"
  define q where "q = f64_round (n' / 1000000000)"
  define m where "m = f64_round (s' + q)"
  have pos: "0 \<le> s" "0 \<le> n" using assms by (simp_all add: s_def n_def pos_imp_zdiv_nonneg_iff)
  have pos': "0 \<le> s'" "0 \<le> n' / 1000000000" using pos by (simp_all add: s'_def n'_def f64_round_nonneg)
  then have pos'': "0 \<le> s' + q" by (simp add: q_def f64_round_nonneg)
  note bounds = f64_round_bounds [OF pos(1), folded s'_def] f64_round_bounds [OF pos(2), folded n'_def]
    f64_round_bounds [OF pos'(2), folded q_def] f64_round_bounds [OF pos'', folded m_def]
  have "2251799813685248 * m \<le> 2251799813685249 * (s + n / 1000000000)"
    by (rule three_roundings(1) [OF pos bounds(1,3,5,7)])
  moreover have "2251799813685247 * (s + n / 1000000000) \<le> 2251799813685248 * m"
    by (rule three_roundings(2) [OF pos bounds(2,4,6,8)])
  ultimately have "\<bar>m - (s + n / 1000000000)\<bar> \<le> (s + n / 1000000000) / 2 ^ 51"
    by (simp only: abs_le_iff minus_diff_eq) (simp add: field_simps)
  moreover have "s + n / 1000000000 = of_int d / 1000000000"
  proof -
    have "rat_of_int d = of_int (d div 1000000000 * 1000000000 + d mod 1000000000)" by simp
    also have "\<dots> = s * 1000000000 + n" unfolding s_def n_def by (simp only: of_int_add of_int_mult of_int_numeral)
    finally show ?thesis by simp
  qed
  moreover have "ff_magnitude (as_secs_f64 d) = m"
    by (simp add: as_secs_f64_def m_def q_def s'_def n'_def s_def n_def)
  ultimately show ?thesis by simp
qed

text \<open>The thousandths that are printed.\<close>

lemma format_3_thousandths:
  assumes "0 \<le> x" "0 \<le> ff_magnitude y" "\<bar>ff_magnitude y - x\<bar> \<le> x / 2 ^ 51"
  shows "\<exists>k. format_3 y = (if ff_negative y then ''-'' else []) @ show_thousandths k \<and>
    \<bar>of_nat k / 1000 - x\<bar> \<le> 1 / 2000 + x / 2 ^ 51"
proof (intro exI conjI)
  let ?r = "round_ties_even (ff_magnitude y * 1000)"
  show "format_3 y = (if ff_negative y then ''-'' else []) @ show_thousandths (nat ?r)"
    by (simp add: format_3_def)
  have "rat_of_nat (nat ?r) = of_int ?r"
    using round_ties_even_nonneg [of "ff_magnitude y * 1000"] assms(2) by simp
  with round_ties_even_error [of "ff_magnitude y * 1000"] assms(3)
  show "\<bar>of_nat (nat ?r) / 1000 - x\<bar> \<le> 1 / 2000 + x / 2 ^ 51"
    by linarith
qed

lemma as_secs_f64_nonneg: "0 \<le> d \<Longrightarrow> 0 \<le> ff_magnitude (as_secs_f64 d)"
  by (simp add: as_secs_f64_def Let_def f64_round_nonneg pos_imp_zdiv_nonneg_iff)

lemma format_3_as_secs_f64:
  assumes "0 \<le> d"
  shows "\<exists>k. format_3 (as_secs_f64 d) = show_thousandths k \<and>
      \<bar>of_nat k / 1000 - of_int d / (1000000000 :: rat)\<bar> \<le> 1 / 2000 + of_int d / 1000000000 / 2 ^ 51"
    and "\<exists>k. format_3 (f64_times_minus_one (as_secs_f64 d)) = ''-'' @ show_thousandths k \<and>
      \<bar>of_nat k / 1000 - of_int d / (1000000000 :: rat)\<bar> \<le> 1 / 2000 + of_int d / 1000000000 / 2 ^ 51"
proof -
  have x: "0 \<le> of_int d / (1000000000 :: rat)" using assms by simp
  have sign: "ff_negative (as_secs_f64 d) = False" "ff_negative (f64_times_minus_one (as_secs_f64 d)) = True"
    "ff_magnitude (f64_times_minus_one (as_secs_f64 d)) = ff_magnitude (as_secs_f64 d)"
    by (simp_all add: as_secs_f64_def f64_times_minus_one_def Let_def)
  note near = as_secs_f64_nonneg [OF assms] as_secs_f64_error [OF assms]
  show "\<exists>k. format_3 (as_secs_f64 d) = show_thousandths k \<and>
      \<bar>of_nat k / 1000 - of_int d / (1000000000 :: rat)\<bar> \<le> 1 / 2000 + of_int d / 1000000000 / 2 ^ 51"
    using format_3_thousandths [OF x near] by (simp only: sign if_False append_Nil)
  show "\<exists>k. format_3 (f64_times_minus_one (as_secs_f64 d)) = ''-'' @ show_thousandths k \<and>
      \<bar>of_nat k / 1000 - of_int d / (1000000000 :: rat)\<bar> \<le> 1 / 2000 + of_int d / 1000000000 / 2 ^ 51"
    using format_3_thousandths [of "of_int d / 1000000000" "f64_times_minus_one (as_secs_f64 d)"] x near
    by (simp only: sign if_True)
qed

end
