(* ===== verification/Cli.thy ===== *)
theory Cli
  imports Connect Compact_Timestamp Float64
begin

section \<open>The command line client (cli/src/main.rs)\<close>

text \<open>
  One command, one subscription, one loop that prints what arrives. A stream is the list of the
  results that successive calls of \<open>next\<close> or \<open>message\<close> yield; when the list ends the program
  is still waiting. What is printed is a list of lines, each with the values it shows; the skew of
  an account is the text that is printed for it.
\<close>

subsection \<open>Commands and lines\<close>

datatype Commands =
    Slots
  | Programs "string list"
  | Accounts "string list"
  | GetHeartbeatInterval
  | PartialAccounts bool
  | Transactions
  | Blocks

record Args =
  arg_url :: string
  arg_access_token :: "uuid option"
  arg_command :: Commands

datatype line =
    Args_line Args
  | Text_line string
  | Subscribing_line string "string list"
  | Slot_line u64 "u64 option" SlotUpdateStatus
  | Account_line u64 u64 pubkey string
  | Partial_line MaybePartialAccountUpdate
  | Transaction_line TimestampedTransactionUpdate
  | Block_line TimestampedBlockUpdate
  | Heartbeat_line u64
  | Error_line string Status

datatype cli_outcome = Waiting | Exited | Crashed panic

text \<open>Printing a line before going on.\<close>

primrec print_then :: "line \<Rightarrow> line list \<times> cli_outcome \<Rightarrow> line list \<times> cli_outcome" where
  "print_then l (ls, out) = (l # ls, out)"

subsection \<open>Clock skew\<close>

text \<open>
  A \<open>Duration\<close> is a number of nanoseconds that is not negative; \<open>new\<close> panics when the carry of
  the nanoseconds overflows the seconds, and \<open>checked_sub\<close> gives none below zero. The skew is a
  number of seconds, negative when the stamp lies ahead; a clock before the epoch panics.
\<close>

definition duration_new :: "u64 \<Rightarrow> u32 \<Rightarrow> panic + int" where
  "duration_new secs nanos =
     (if unat secs + unat nanos div 1000000000 \<le> unat u64_MAX
      then Ok (uint secs * 1000000000 + uint nanos)
      else Err (Panic ''overflow in Duration::new''))"

definition duration_checked_sub :: "int \<Rightarrow> int \<Rightarrow> int option" where
  "duration_checked_sub a b = (if b \<le> a then Some (a - b) else None)"

definition calc_skew :: "system_time \<Rightarrow> Timestamp \<Rightarrow> panic + finite_f64" where
  "calc_skew now ts =
     and_then (if now < 0 then Err (Panic []) else Ok now) (\<lambda>now.
     and_then (duration_new (ucast (ts_seconds ts)) (ucast (ts_nanos ts))) (\<lambda>packet_ts.
       case duration_checked_sub now packet_ts of
         Some d \<Rightarrow> Ok (as_secs_f64 d)
       | None \<Rightarrow>
           and_then (unwrap [] (duration_checked_sub packet_ts now)) (\<lambda>d.
             Ok (f64_times_minus_one (as_secs_f64 d)))))"

subsection \<open>The loops\<close>

text \<open>A message that arrives comes with the time at which it is printed.\<close>

definition account_line :: "sdk \<Rightarrow> system_time \<Rightarrow> TimestampedAccountUpdate \<Rightarrow> panic + line" where
  "account_line S now update =
     and_then (unwrap [] (tau_ts update)) (\<lambda>ts.
     and_then (unwrap [] (tau_account_update update)) (\<lambda>account_update.
     and_then (calc_skew now ts) (\<lambda>skew.
     and_then (unwrap_result [] (pubkey_try_from S (au_pubkey account_update))) (\<lambda>pubkey.
       Ok (Account_line (au_seq account_update) (au_slot account_update) pubkey (format_3 skew))))))"

fun print_account_updates ::
  "sdk \<Rightarrow> (system_time \<times> (Status + TimestampedAccountUpdate option)) list \<Rightarrow> line list \<times> cli_outcome" where
  "print_account_updates S [] = ([], Waiting)"
| "print_account_updates S ((now, response) # rest) =
     (case response of
        Inl e \<Rightarrow> ([], Crashed (Panic ''get account update''))
      | Inr None \<Rightarrow> ([Text_line ''error, exiting...''], Exited)
      | Inr (Some update) \<Rightarrow>
          (case account_line S now update of
             Inl p \<Rightarrow> ([], Crashed p)
           | Inr l \<Rightarrow> print_then l (print_account_updates S rest)))"

definition slot_line :: "TimestampedSlotUpdate \<Rightarrow> panic + line" where
  "slot_line update =
     and_then (unwrap [] (tsu_slot_update update)) (\<lambda>slot_update.
     and_then (unwrap [] (slot_update_status_try_from (su_status slot_update))) (\<lambda>status.
       Ok (Slot_line (su_slot slot_update) (su_parent_slot slot_update) status)))"

fun print_slot_updates ::
  "(Status + TimestampedSlotUpdate) option list \<Rightarrow> line list \<times> cli_outcome" where
  "print_slot_updates [] = ([], Waiting)"
| "print_slot_updates (None # rest) = ([], Exited)"
| "print_slot_updates (Some (Inl e) # rest) =
     print_then (Error_line ''subscribe_slot_updates error: '' e) (print_slot_updates rest)"
| "print_slot_updates (Some (Inr update) # rest) =
     (case slot_line update of
        Inl p \<Rightarrow> ([], Crashed p)
      | Inr l \<Rightarrow> print_then l (print_slot_updates rest))"

fun print_partial_updates ::
  "(Status + MaybePartialAccountUpdate option) list \<Rightarrow> line list \<times> cli_outcome" where
  "print_partial_updates [] = ([], Waiting)"
| "print_partial_updates (Inl e # rest) = ([], Crashed (Panic ''get partial account update''))"
| "print_partial_updates (Inr None # rest) =
     print_then (Text_line ''error receiving account update, exiting'') (print_partial_updates rest)"
| "print_partial_updates (Inr (Some u) # rest) =
     print_then (Partial_line u) (print_partial_updates rest)"

fun print_transaction_updates ::
  "(Status + TimestampedTransactionUpdate option) list \<Rightarrow> line list \<times> cli_outcome" where
  "print_transaction_updates [] = ([], Waiting)"
| "print_transaction_updates (Inl e # rest) = ([], Crashed (Panic ''get transaction update''))"
| "print_transaction_updates (Inr None # rest) =
     print_then (Text_line ''error receiving account update, exiting'') (print_transaction_updates rest)"
| "print_transaction_updates (Inr (Some u) # rest) =
     print_then (Transaction_line u) (print_transaction_updates rest)"

fun print_block_updates ::
  "(Status + TimestampedBlockUpdate option) list \<Rightarrow> line list \<times> cli_outcome" where
  "print_block_updates [] = ([], Waiting)"
| "print_block_updates (Inl e # rest) = ([], Crashed (Panic ''get block update''))"
| "print_block_updates (Inr None # rest) =
     print_then (Text_line ''error receiving block update, exiting'') (print_block_updates rest)"
| "print_block_updates (Inr (Some u) # rest) =
     print_then (Block_line u) (print_block_updates rest)"

subsection \<open>The program\<close>

text \<open>
  What the client calls of the server, through a client with its token, and of the key and uuid
  types. A request that is refused panics with the message of its \<open>expect\<close>.
\<close>

record 'ch server_api =
  sv_subscribe_slot_updates :: "'ch GeyserClient \<Rightarrow>
    Status + (Status + TimestampedSlotUpdate) option list"
  sv_subscribe_program_updates :: "'ch GeyserClient \<Rightarrow> bytes list \<Rightarrow>
    Status + (system_time \<times> (Status + TimestampedAccountUpdate option)) list"
  sv_subscribe_account_updates :: "'ch GeyserClient \<Rightarrow> bytes list \<Rightarrow>
    Status + (system_time \<times> (Status + TimestampedAccountUpdate option)) list"
  sv_get_heartbeat_interval :: "'ch GeyserClient \<Rightarrow> Status + u64"
  sv_subscribe_partial_account_updates :: "'ch GeyserClient \<Rightarrow> bool \<Rightarrow>
    Status + (Status + MaybePartialAccountUpdate option) list"
  sv_subscribe_transaction_updates :: "'ch GeyserClient \<Rightarrow>
    Status + (Status + TimestampedTransactionUpdate option) list"
  sv_subscribe_block_updates :: "'ch GeyserClient \<Rightarrow>
    Status + (Status + TimestampedBlockUpdate option) list"

definition or_crash :: "panic + 'a \<Rightarrow> ('a \<Rightarrow> line list \<times> cli_outcome) \<Rightarrow> line list \<times> cli_outcome" where
  "or_crash r f = (case r of Inl p \<Rightarrow> ([], Crashed p) | Inr a \<Rightarrow> f a)"

text \<open>The keys of a request, from the arguments.\<close>

definition request_keys :: "(string \<Rightarrow> string + pubkey) \<Rightarrow> string list \<Rightarrow> panic + bytes list" where
  "request_keys pubkey_from_str accounts =
     try_map (\<lambda>a. and_then (unwrap_result [] (pubkey_from_str a)) (\<lambda>k. Ok (pubkey_bytes k))) accounts"

definition run_command ::
  "sdk \<Rightarrow> (string \<Rightarrow> string + pubkey) \<Rightarrow> ('ch, 'z) server_api_scheme \<Rightarrow> 'ch GeyserClient \<Rightarrow> Commands \<Rightarrow>
    line list \<times> cli_outcome" where
  "run_command S pubkey_from_str sv client command =
     (case command of
        Slots \<Rightarrow>
          or_crash (unwrap_result ''subscribes to slot stream'' (sv_subscribe_slot_updates sv client))
            print_slot_updates
      | Programs accounts \<Rightarrow> print_then (Subscribing_line ''subscribing to programs: '' accounts)
          (or_crash (request_keys pubkey_from_str accounts) (\<lambda>keys.
           or_crash (unwrap_result ''subscribe to geyser'' (sv_subscribe_program_updates sv client keys))
             (print_account_updates S)))
      | Accounts accounts \<Rightarrow> print_then (Subscribing_line ''subscribing to accounts: '' accounts)
          (or_crash (request_keys pubkey_from_str accounts) (\<lambda>keys.
           or_crash (unwrap_result ''subscribe to geyser'' (sv_subscribe_account_updates sv client keys))
             (print_account_updates S)))
      | GetHeartbeatInterval \<Rightarrow>
          or_crash (unwrap_result ''gets heartbeat interval'' (sv_get_heartbeat_interval sv client))
            (\<lambda>response. ([Heartbeat_line response], Exited))
      | PartialAccounts skip_votes \<Rightarrow>
          or_crash (unwrap_result ''subscribes to partial updates''
              (sv_subscribe_partial_account_updates sv client skip_votes))
            print_partial_updates
      | Transactions \<Rightarrow>
          or_crash (unwrap_result ''subscribes to transaction updates''
              (sv_subscribe_transaction_updates sv client))
            print_transaction_updates
      | Blocks \<Rightarrow>
          or_crash (unwrap_result ''subscribes to block updates'' (sv_subscribe_block_updates sv client))
            print_block_updates)"

definition starts_with :: "string \<Rightarrow> string \<Rightarrow> bool" where
  "starts_with s p \<longleftrightarrow> take (length p) s = p"

text \<open>The one TLS configuration of this client uses the enabled roots.\<close>

definition cli_main ::
  "('ep, unit, 'ch, 'y) transport_scheme \<Rightarrow> (uuid \<Rightarrow> string) \<Rightarrow> sdk \<Rightarrow> (string \<Rightarrow> string + pubkey) \<Rightarrow>
    ('ch, 'z) server_api_scheme \<Rightarrow> Args \<Rightarrow> line list \<times> cli_outcome" where
  "cli_main tp uuid_to_string S pubkey_from_str sv args =
     print_then (Args_line args)
       (or_crash (unwrap_result [] (tp_endpoint_from_str tp (arg_url args))) (\<lambda>endpoint.
        or_crash
          (if starts_with (arg_url args) ''https''
           then unwrap_result [] (tp_tls_config tp endpoint ()) else Ok endpoint) (\<lambda>endpoint.
        or_crash (unwrap_result ''connects'' (tp_connect tp endpoint)) (\<lambda>ch.
          run_command S pubkey_from_str sv
            \<lparr>gcl_channel = ch,
             gcl_access_token =
               (case arg_access_token args of None \<Rightarrow> [] | Some u \<Rightarrow> uuid_to_string u)\<rparr>
            (arg_command args)))))"

end
