(* ===== verification/Cli_Properties.thy ===== *)
theory Cli_Properties
  imports Cli Plugin_Properties Service_Properties
begin

section \<open>The properties of the command line client\<close>

text \<open>
  When the printing loops end and what they print, the skew they show for what the plugin
  stamped, and the keys they ask the service for.
\<close>

subsection \<open>The skew\<close>

text \<open>The nanoseconds a timestamp stands for once its fields are cast to unsigned integers.\<close>

definition packet_nanos :: "Timestamp \<Rightarrow> int" where
  "packet_nanos ts = uint (ts_seconds ts) * 1000000000 + uint (ts_nanos ts)"

definition skew_nanos :: "int \<Rightarrow> finite_f64" where
  "skew_nanos d = (if d < 0 then f64_times_minus_one (as_secs_f64 (- d)) else as_secs_f64 d)"

lemma calc_skew_eq:
  assumes "0 \<le> now" "unat (ts_seconds ts) + unat (ts_nanos ts) div 1000000000 \<le> unat u64_MAX"
  shows "calc_skew now ts = Ok (skew_nanos (now - packet_nanos ts))"
proof -
  have "duration_new (ucast (ts_seconds ts)) (ucast (ts_nanos ts)) = Ok (packet_nanos ts)"
    using assms(2) by (simp add: duration_new_def packet_nanos_def)
  then show ?thesis
    using assms(1) by (auto simp: calc_skew_def duration_checked_sub_def skew_nanos_def)
qed

text \<open>The text of a skew: a sign exactly when it is negative, and the nearest thousandths.\<close>

lemma format_3_skew_nanos:
  "\<exists>k. format_3 (skew_nanos d) = (if d < 0 then ''-'' else []) @ show_thousandths k \<and>
    \<bar>of_nat k / 1000 - of_int \<bar>d\<bar> / (1000000000 :: rat)\<bar> \<le> 1 / 2000 + of_int \<bar>d\<bar> / 1000000000 / 2 ^ 51"
proof (cases "d < 0")
  case True
  then have "0 \<le> - d" "\<bar>d\<bar> = - d" by simp_all
  with format_3_as_secs_f64(2) [of "- d"] True show ?thesis
    by (simp only: skew_nanos_def if_True)
next
  case False
  then have "0 \<le> d" "\<bar>d\<bar> = d" by simp_all
  with format_3_as_secs_f64(1) [of d] False show ?thesis
    by (simp only: skew_nanos_def if_False append_Nil)
qed

text \<open>What a conversion of the clock into a timestamp has to keep: the nanoseconds since the epoch.\<close>

definition keeps_nanos :: "(system_time \<Rightarrow> Timestamp) \<Rightarrow> system_time \<Rightarrow> bool" where
  "keeps_nanos stamp t \<longleftrightarrow>
     sint (ts_seconds (stamp t)) * 1000000000 + sint (ts_nanos (stamp t)) = t \<and>
     0 \<le> sint (ts_nanos (stamp t)) \<and> sint (ts_nanos (stamp t)) < 1000000000"

lemma uint_eq_sint:
  assumes "0 \<le> sint (x :: 'a::len word)"
  shows "uint x = sint x"
proof -
  have "sint x < 2 ^ LENGTH('a)" by (rule less_le_trans [OF sint_lt]) simp
  with assms show ?thesis by (simp only: uint_sint take_bit_int_eq_self)
qed

lemma skew_of_stamp:
  assumes "keeps_nanos stamp t" "0 \<le> t" "0 \<le> now"
  shows "calc_skew now (stamp t) = Ok (skew_nanos (now - t))"
proof -
  let ?s = "sint (ts_seconds (stamp t))" and ?n = "sint (ts_nanos (stamp t))"
  have t: "?s * 1000000000 + ?n = t" "0 \<le> ?n" "?n < 1000000000"
    using assms(1) by (simp_all add: keeps_nanos_def)
  with assms(2) have "0 \<le> ?s" by linarith
  then have u: "uint (ts_seconds (stamp t)) = ?s" "uint (ts_nanos (stamp t)) = ?n"
    using t(2) by (simp_all add: uint_eq_sint)
  have "unat (ts_nanos (stamp t)) = nat ?n"
    unfolding unat_eq_nat_uint u ..
  with t have "unat (ts_nanos (stamp t)) div 1000000000 = 0" by simp
  then have "calc_skew now (stamp t) = Ok (skew_nanos (now - packet_nanos (stamp t)))"
    using assms(3) unat_u64_le [of "ts_seconds (stamp t)"] by (intro calc_skew_eq) (simp_all add: unat_u64_MAX)
  also have "packet_nanos (stamp t) = t" unfolding packet_nanos_def u by (rule t(1))
  finally show ?thesis .
qed

lemma account_update_message_fields:
  "\<exists>u. account_update_message pe w account slot is_startup =
      \<lparr>tau_ts = Some (pe_timestamp_from pe (pe_now pe w)), tau_account_update = Some u\<rparr> \<and> au_slot u = slot"
  by (cases account) (simp_all add: account_update_message_def)

text \<open>
  C32. The skew the client prints for an account is the time from the plugin's stamp to the
  printing: with a minus sign exactly when the stamp lies ahead of the client's clock, and then
  the seconds with three digits, off by at most half a thousandth and the error of the double
  precision numbers, for every clock from the epoch on, as long as the stamp keeps the nanoseconds
  it is made from.\<close>

theorem skew_end_to_end:
  assumes "solana_sdk S" "keeps_nanos (pe_timestamp_from pe) (pe_now pe w)"
    and "0 \<le> pe_now pe w" "0 \<le> now"
    and "tau_account_update (account_update_message pe w account slot is_startup) = Some u"
    and "length (au_pubkey u) = 32"
  shows "\<exists>k. account_line S now (account_update_message pe w account slot is_startup) =
      Ok (Account_line (au_seq u) slot (Pubkey (au_pubkey u))
        ((if now < pe_now pe w then ''-'' else []) @ show_thousandths k)) \<and>
    \<bar>of_nat k / 1000 - of_int \<bar>now - pe_now pe w\<bar> / (1000000000 :: rat)\<bar>
      \<le> 1 / 2000 + of_int \<bar>now - pe_now pe w\<bar> / 1000000000 / 2 ^ 51"
proof -
  obtain v where v: "account_update_message pe w account slot is_startup =
      \<lparr>tau_ts = Some (pe_timestamp_from pe (pe_now pe w)), tau_account_update = Some v\<rparr>" "au_slot v = slot"
    using account_update_message_fields [of pe w account slot is_startup] by blast
  with assms(5) have "u = v" by simp
  with v assms(6) skew_of_stamp [OF assms(2-4)] solana_sdk.pubkey_from_bytes [OF assms(1), of "Pubkey (au_pubkey u)"]
  have "account_line S now (account_update_message pe w account slot is_startup) =
      Ok (Account_line (au_seq u) slot (Pubkey (au_pubkey u)) (format_3 (skew_nanos (now - pe_now pe w))))"
    by (simp add: account_line_def wf_pubkey_def)
  with format_3_skew_nanos [of "now - pe_now pe w"] show ?thesis by auto
qed

lemma nearest_thousandth:
  assumes "\<bar>of_nat k / 1000 - (3 / 2 :: rat)\<bar> \<le> 1 / 2000 + 3 / 2 / 2 ^ 51"
  shows "k = 1500"
proof -
  have "rat_of_nat k < of_nat 1501" "of_nat 1499 < rat_of_nat k" using assms by (simp_all only: abs_le_iff) simp_all
  then have "k < 1501" "1499 < k" by (simp_all only: of_nat_less_iff)
  then show ?thesis by simp
qed

theorem skew_end_to_end_witness:
  "account_line array_sdk 1500000000
      (account_update_message ref_plugin_env example_validator (example_account 9) 7 False) =
    Ok (Account_line 1 7 (Pubkey (replicate 32 9)) ''1.500'')"
proof -
  let ?m = "account_update_message ref_plugin_env example_validator (example_account 9) 7 False"
  obtain u where u: "tau_account_update ?m = Some u" "length (au_pubkey u) = 32"
      "au_seq u = 1" "au_pubkey u = replicate 32 9"
    by (simp add: account_update_message_def example_account_def)
  have now: "pe_now ref_plugin_env example_validator = 0"
    "keeps_nanos (pe_timestamp_from ref_plugin_env) (pe_now ref_plugin_env example_validator)"
    by (simp_all add: keeps_nanos_def ref_plugin_env_def)
  obtain k where k: "account_line array_sdk 1500000000 ?m =
      Ok (Account_line 1 7 (Pubkey (replicate 32 9)) (show_thousandths k))"
    "\<bar>of_nat k / 1000 - (3 / 2 :: rat)\<bar> \<le> 1 / 2000 + 3 / 2 / 2 ^ 51"
    using skew_end_to_end [OF array_sdk.solana_sdk_axioms now(2), of 1500000000 "example_account 9" 7 False u] u
    by (auto simp: now(1))
  have "show_thousandths 1500 = ''1.500''" by code_simp
  with k(1) nearest_thousandth [OF k(2)] show ?thesis by simp
qed

subsection \<open>The loops\<close>

lemma print_then_eq [simp]: "print_then l r = (l # fst r, snd r)"
  by (cases r) simp

lemma print_account_updates_good:
  assumes "map (\<lambda>(now, u). account_line S now u) ms = map Ok ls"
  shows "print_account_updates S (map (\<lambda>(now, u). (now, Ok (Some u))) ms @ rest) =
    (ls @ fst (print_account_updates S rest), snd (print_account_updates S rest))"
  using assms
proof (induction ms arbitrary: ls)
  case (Cons m ms)
  then show ?case by (cases ls) (auto split: prod.splits)
qed simp

text \<open>
  C33. The account loop ends. It prints one line per update, in order, and exits at the end of
  the stream; an error of the stream or an update that cannot be shown makes it crash there,
  with the earlier lines printed. Nothing after that point is looked at.\<close>

theorem print_account_updates_ends:
  assumes "map (\<lambda>(now, u). account_line S now u) ms = map Ok ls"
    and "account_line S t bad = Err p"
  shows "print_account_updates S (map (\<lambda>(now, u). (now, Ok (Some u))) ms @ (t, Ok None) # rest) =
      (ls @ [Text_line ''error, exiting...''], Exited) \<and>
    print_account_updates S (map (\<lambda>(now, u). (now, Ok (Some u))) ms @ (t, Err e) # rest) =
      (ls, Crashed (Panic ''get account update'')) \<and>
    print_account_updates S (map (\<lambda>(now, u). (now, Ok (Some u))) ms @ (t, Ok (Some bad)) # rest) =
      (ls, Crashed p)"
  using assms(2) by (simp add: print_account_updates_good [OF assms(1)])

theorem print_account_updates_ends_witness:
  "print_account_updates array_sdk [(5, Ok None), (6, Err internal_error)] =
    ([Text_line ''error, exiting...''], Exited)"
  using print_account_updates_ends [of array_sdk "[]" "[]" 5 "\<lparr>tau_ts = None, tau_account_update = None\<rparr>"
      "Panic []" "[(6, Err internal_error)]" internal_error]
  by (simp add: account_line_def)

text \<open>
  C35. The loops for partial accounts, transactions and blocks never end by themselves. Whatever
  arrives, they do not exit: they crash at the first error of the stream and wait otherwise, and a
  stream that has ended is reported over and over.\<close>

theorem print_loops_never_exit:
  "snd (print_partial_updates ps) = (if list_ex is_err ps then Crashed (Panic ''get partial account update'') else Waiting) \<and>
   snd (print_transaction_updates ts) = (if list_ex is_err ts then Crashed (Panic ''get transaction update'') else Waiting) \<and>
   snd (print_block_updates bs) = (if list_ex is_err bs then Crashed (Panic ''get block update'') else Waiting) \<and>
   print_partial_updates (replicate n (Ok None)) =
     (replicate n (Text_line ''error receiving account update, exiting''), Waiting) \<and>
   print_transaction_updates (replicate n (Ok None)) =
     (replicate n (Text_line ''error receiving account update, exiting''), Waiting) \<and>
   print_block_updates (replicate n (Ok None)) =
     (replicate n (Text_line ''error receiving block update, exiting''), Waiting)"
proof (intro conjI)
  show "snd (print_partial_updates ps) = (if list_ex is_err ps then Crashed (Panic ''get partial account update'') else Waiting)"
    by (induction ps rule: print_partial_updates.induct) simp_all
  show "snd (print_transaction_updates ts) = (if list_ex is_err ts then Crashed (Panic ''get transaction update'') else Waiting)"
    by (induction ts rule: print_transaction_updates.induct) simp_all
  show "snd (print_block_updates bs) = (if list_ex is_err bs then Crashed (Panic ''get block update'') else Waiting)"
    by (induction bs rule: print_block_updates.induct) simp_all
  show "print_partial_updates (replicate n (Ok None)) =
     (replicate n (Text_line ''error receiving account update, exiting''), Waiting)"
    by (induction n) simp_all
  show "print_transaction_updates (replicate n (Ok None)) =
     (replicate n (Text_line ''error receiving account update, exiting''), Waiting)"
    by (induction n) simp_all
  show "print_block_updates (replicate n (Ok None)) =
     (replicate n (Text_line ''error receiving block update, exiting''), Waiting)"
    by (induction n) simp_all
qed

subsection \<open>The requests\<close>

lemma request_keys_length:
  assumes "\<And>s k. f s = Ok k \<Longrightarrow> wf_pubkey k" "request_keys f names = Ok keys"
  shows "length keys = length names \<and> (\<forall>k \<in> set keys. length k = 32)"
  using assms(2) unfolding request_keys_def
  by (induction names arbitrary: keys) (auto simp: result_simps wf_pubkey_def dest!: assms(1))

text \<open>
  C34. The service takes what the client asks for. The keys of the arguments, in order and one
  per argument, all have 32 bytes, so a service whose loop runs accepts the subscription.\<close>

theorem cli_keys_accepted:
  assumes "service_runtime env tasks signalled added loop_alive"
    and "0 < gsc_subscriber_buffer_size (gs_service_config self)"
      "unat (gsc_subscriber_buffer_size (gs_service_config self)) < 2 ^ 61" "loop_alive w"
    and "\<And>s k. pubkey_from_str s = Ok k \<Longrightarrow> wf_pubkey k"
    and "request_keys pubkey_from_str names = Ok keys"
  shows "length keys = length names \<and>
    (\<exists>w' resp. subscribe_account_updates env self keys w = (w', Ok (Ok resp))) \<and>
    (\<exists>w' resp. subscribe_program_updates env self keys w = (w', Ok (Ok resp)))"
proof (intro conjI)
  have keys: "length keys = length names" "\<forall>k \<in> set keys. length k = 32"
    using request_keys_length [OF assms(5, 6)] by simp_all
  show "length keys = length names" by (rule keys)
  have accepted: "\<exists>w' resp. call env self req w = (w', Ok (Ok resp))" if "valid_request req" for req
    using service_runtime.open_subscription_accepted [OF assms(1-3) that assms(4)]
    unfolding call_open_subscription by blast
  show "\<exists>w' resp. subscribe_account_updates env self keys w = (w', Ok (Ok resp))"
    using accepted [of "Req_accounts keys"] keys(2) by simp
  show "\<exists>w' resp. subscribe_program_updates env self keys w = (w', Ok (Ok resp))"
    using accepted [of "Req_programs keys"] keys(2) by simp
qed


definition thirty_two_chars :: "string \<Rightarrow> string + pubkey" where
  "thirty_two_chars s = (if length s = 32 then Ok (Pubkey (map of_char s)) else Err ''WrongSize'')"

theorem cli_keys_accepted_witness:
  "\<exists>w' resp. subscribe_account_updates ref_env example_service [replicate 32 65] example_ref_world =
    (w', Ok (Ok resp))"
proof -
  have "request_keys thirty_two_chars [replicate 32 CHR ''A''] = Ok [replicate 32 65]"
    by (simp add: request_keys_def thirty_two_chars_def)
  moreover have "wf_pubkey k" if "thirty_two_chars s = Ok k" for s k
    using that by (auto simp: thirty_two_chars_def wf_pubkey_def split: if_splits)
  ultimately show ?thesis
    using cli_keys_accepted [OF ref_runtime.service_runtime_axioms, of example_service example_ref_world
        thirty_two_chars "[replicate 32 CHR ''A'']" "[replicate 32 65]"]
    by (simp add: example_service_def example_ref_world_def)
qed


end
