(* ===== verification/Borsh.thy ===== *)
theory Borsh
  imports Rust_Std Solana_Types
begin

section \<open>What the stand-alone programs use of Borsh and of the Solana crates\<close>

text \<open>
  The orca toolkit and the mock programs build and read Solana instructions. The Borsh
  encodings of the primitive types are not part of the repository: they are the fields of a
  record, an argument of every definition that encodes or decodes. A derived encoding of a
  struct is that of its fields in order. The locale states what the programs rely on: a reader
  takes back exactly what the writer wrote, whatever follows.
\<close>

subsection \<open>Writers and readers\<close>

type_synonym 'a reader = "bytes \<Rightarrow> string + 'a \<times> bytes"

record 'a bcodec =
  ser :: "'a \<Rightarrow> bytes"
  de :: "'a reader"

definition reads_back :: "'a bcodec \<Rightarrow> bool" where
  "reads_back c \<longleftrightarrow> (\<forall>x rest. de c (ser c x @ rest) = Ok (x, rest))"

text \<open>Reading one field and going on with the rest; reading the elements of an array.\<close>

definition read :: "'a bcodec \<Rightarrow> bytes \<Rightarrow> ('a \<Rightarrow> bytes \<Rightarrow> string + 'r) \<Rightarrow> string + 'r" where
  "read c b k = and_then (de c b) (\<lambda>(x, b'). k x b')"

primrec read_array :: "'a reader \<Rightarrow> nat \<Rightarrow> 'a list reader" where
  "read_array r 0 b = Ok ([], b)"
| "read_array r (Suc n) b =
     and_then (r b) (\<lambda>(x, b1). and_then (read_array r n b1) (\<lambda>(xs, b2). Ok (x # xs, b2)))"

text \<open>\<open>try_from_slice\<close> also wants the whole slice to be used up.\<close>

definition try_from_slice :: "'a reader \<Rightarrow> bytes \<Rightarrow> string + 'a" where
  "try_from_slice r b =
     and_then (r b) (\<lambda>(x, rest). if rest = [] then Ok x else Err ''Not all bytes read'')"

lemma read_ser: "reads_back c \<Longrightarrow> read c (ser c x @ rest) k = k x rest"
  by (simp add: read_def reads_back_def)

lemma read_array_ser:
  assumes "\<And>x rest. x \<in> set xs \<Longrightarrow> r (s x @ rest) = Ok (x, rest)"
  shows "read_array r (length xs) (concat (map s xs) @ rest) = Ok (xs, rest)"
  using assms by (induction xs) simp_all

lemma try_from_slice_iff:
  assumes "\<And>x rest. P x \<Longrightarrow> r (s x @ rest) = Ok (x, rest)" "P x"
  shows "try_from_slice r (s x @ rest) = Ok x \<longleftrightarrow> rest = []"
  using assms by (simp add: try_from_slice_def)

subsection \<open>The primitive encodings\<close>

type_synonym u128 = "128 word"

record borsh =
  b_bool :: "bool bcodec"
  b_u8 :: "u8 bcodec"
  b_u16 :: "u16 bcodec"
  b_u32 :: "u32 bcodec"
  b_u64 :: "u64 bcodec"
  b_u128 :: "u128 bcodec"
  b_i32 :: "i32 bcodec"
  b_pubkey :: "pubkey bcodec"
  b_opt_pubkeys :: "pubkey list option bcodec"
  b_opt_u64 :: "u64 option bcodec"

text \<open>
  A key is its 32 bytes; a list of keys has its length as a \<open>u32\<close>.
\<close>

locale borsh_format =
  fixes B :: borsh
  assumes bool_reads [simp]: "reads_back (b_bool B)"
    and u8_reads [simp]: "reads_back (b_u8 B)"
    and u16_reads [simp]: "reads_back (b_u16 B)"
    and u32_reads [simp]: "reads_back (b_u32 B)"
    and u64_reads [simp]: "reads_back (b_u64 B)"
    and u128_reads [simp]: "reads_back (b_u128 B)"
    and i32_reads [simp]: "reads_back (b_i32 B)"
    and pubkey_reads: "wf_pubkey k \<Longrightarrow> de (b_pubkey B) (ser (b_pubkey B) k @ rest) = Ok (k, rest)"
    and opt_u64_reads [simp]: "reads_back (b_opt_u64 B)"
    and opt_pubkeys_reads: "list_all wf_pubkey ks \<Longrightarrow> length ks < 2 ^ 32 \<Longrightarrow>
      de (b_opt_pubkeys B) (ser (b_opt_pubkeys B) (Some ks) @ rest) = Ok (Some ks, rest)"
    and no_pubkeys_reads:
      "de (b_opt_pubkeys B) (ser (b_opt_pubkeys B) None @ rest) = Ok (None, rest)"
    and None_same: "ser (b_opt_pubkeys B) None = ser (b_opt_u64 B) None"
begin

lemma read_pubkey: "wf_pubkey k \<Longrightarrow> read (b_pubkey B) (ser (b_pubkey B) k @ rest) f = f k rest"
  by (simp add: read_def pubkey_reads)

lemmas reading = read_ser read_pubkey

end

subsection \<open>A reference format\<close>

text \<open>
  The published format: little-endian integers of fixed width, a byte 0 or 1 before an option,
  a 32-bit length before a list.
\<close>

definition le_bytes :: "nat \<Rightarrow> 'a::len word \<Rightarrow> bytes" where
  "le_bytes n x = map (\<lambda>i. word_of_nat (unat x div 256 ^ i)) [0..<n]"

fun le_value :: "bytes \<Rightarrow> nat" where
  "le_value [] = 0"
| "le_value (b # bs) = unat b + 256 * le_value bs"

definition take_exactly :: "nat \<Rightarrow> bytes reader" where
  "take_exactly n b = (if length b < n then Err ''Unexpected length of input''
     else Ok (take n b, drop n b))"

definition le_codec :: "nat \<Rightarrow> 'a::len word bcodec" where
  "le_codec n = \<lparr>ser = le_bytes n,
     de = (\<lambda>b. and_then (take_exactly n b) (\<lambda>(v, rest). Ok (word_of_nat (le_value v), rest)))\<rparr>"

definition flag_reader :: "'a reader \<Rightarrow> 'a option reader" where
  "flag_reader r b =
     (case b of
        [] \<Rightarrow> Err ''Unexpected length of input''
      | t # rest \<Rightarrow>
          if t = 0 then Ok (None, rest)
          else if t = 1 then and_then (r rest) (\<lambda>(x, rest'). Ok (Some x, rest'))
          else Err ''Invalid Option representation'')"

definition ref_bool :: "bool bcodec" where
  "ref_bool = \<lparr>ser = (\<lambda>x. [if x then 1 else 0]),
     de = (\<lambda>b. case b of [] \<Rightarrow> Err ''Unexpected length of input''
       | t # rest \<Rightarrow> if t = 0 then Ok (False, rest) else if t = 1 then Ok (True, rest)
           else Err ''Invalid bool representation'')\<rparr>"

definition ref_key :: "pubkey bcodec" where
  "ref_key = \<lparr>ser = pubkey_bytes,
     de = (\<lambda>b. and_then (take_exactly 32 b) (\<lambda>(v, rest). Ok (Pubkey v, rest)))\<rparr>"

definition ref_opt_u64 :: "u64 option bcodec" where
  "ref_opt_u64 = \<lparr>ser = (\<lambda>x. case x of None \<Rightarrow> [0] | Some n \<Rightarrow> 1 # le_bytes 8 n),
     de = flag_reader (de (le_codec 8))\<rparr>"

definition ref_keys :: "pubkey list bcodec" where
  "ref_keys = \<lparr>ser = (\<lambda>ks. le_bytes 4 (word_of_nat (length ks) :: u32) @ concat (map (ser ref_key) ks)),
     de = (\<lambda>b. and_then (de (le_codec 4 :: u32 bcodec) b)
       (\<lambda>(n, rest). read_array (de ref_key) (unat n) rest))\<rparr>"

definition ref_opt_keys :: "pubkey list option bcodec" where
  "ref_opt_keys = \<lparr>ser = (\<lambda>x. case x of None \<Rightarrow> [0] | Some ks \<Rightarrow> 1 # ser ref_keys ks),
     de = flag_reader (de ref_keys)\<rparr>"

definition ref_borsh :: borsh where
  "ref_borsh = \<lparr>b_bool = ref_bool, b_u8 = le_codec 1, b_u16 = le_codec 2, b_u32 = le_codec 4,
     b_u64 = le_codec 8, b_u128 = le_codec 16, b_i32 = le_codec 4, b_pubkey = ref_key,
     b_opt_pubkeys = ref_opt_keys, b_opt_u64 = ref_opt_u64\<rparr>"

lemma length_le_bytes [simp]: "length (le_bytes n x) = n"
  by (simp add: le_bytes_def)

lemma le_value_map:
  "le_value (map (\<lambda>i. word_of_nat (m div 256 ^ i)) [0..<n]) = m mod 256 ^ n"
proof (induction n arbitrary: m)
  case (Suc n)
  have "le_value (map (\<lambda>i. word_of_nat (m div 256 ^ i)) [0..<Suc n]) =
      m mod 256 + 256 * le_value (map (\<lambda>i. word_of_nat (m div 256 div 256 ^ i)) [0..<n])"
    by (simp only: upt_conv_Cons zero_less_Suc map_Suc_upt [symmetric])
      (simp add: comp_def div_mult2_eq unsigned_of_nat take_bit_eq_mod)
  also have "\<dots> = m mod 256 + 256 * (m div 256 mod 256 ^ n)" by (simp only: Suc.IH)
  also have "\<dots> = m mod 256 ^ Suc n" by (simp add: mod_mult2_eq)
  finally show ?case .
qed simp

lemma take_exactly_append [simp]: "length k = n \<Longrightarrow> take_exactly n (k @ rest) = Ok (k, rest)"
  by (simp add: take_exactly_def)

lemma le_codec_reads:
  assumes "LENGTH('a::len) = 8 * n"
  shows "reads_back (le_codec n :: 'a word bcodec)"
proof -
  have "(256 :: nat) ^ n = 2 ^ LENGTH('a)" by (simp add: assms power_mult)
  then have "le_value (le_bytes n (x :: 'a word)) = unat x" for x
    unfolding le_bytes_def le_value_map by (simp add: unsigned_less)
  then show ?thesis by (simp add: reads_back_def le_codec_def)
qed

lemma le_codec_reads_widths:
  "reads_back (le_codec 1 :: u8 bcodec)" "reads_back (le_codec 2 :: u16 bcodec)"
  "reads_back (le_codec 4 :: u32 bcodec)" "reads_back (le_codec 8 :: u64 bcodec)"
  "reads_back (le_codec 16 :: u128 bcodec)"
  by (rule le_codec_reads, simp)+

lemma de_le_bytes [simp]:
  "de (le_codec 8) (le_bytes 8 (n :: u64) @ rest) = Ok (n, rest)"
  "de (le_codec 4) (le_bytes 4 (m :: u32) @ rest) = Ok (m, rest)"
  using le_codec_reads_widths(3, 4) by (simp_all add: reads_back_def le_codec_def)

lemma ref_keys_reads:
  assumes "list_all wf_pubkey ks" "length ks < 2 ^ 32"
  shows "de ref_keys (ser ref_keys ks @ rest) = Ok (ks, rest)"
proof -
  have "unat (word_of_nat (length ks) :: u32) = length ks"
    using assms(2) by (simp add: unsigned_of_nat take_bit_eq_mod)
  moreover have "read_array (de ref_key) (length ks) (concat (map (ser ref_key) ks) @ rest) = Ok (ks, rest)"
    by (rule read_array_ser) (use assms(1) in \<open>auto simp: list_all_iff wf_pubkey_def ref_key_def\<close>)
  ultimately show ?thesis by (simp add: ref_keys_def)
qed

lemma ref_bool_reads: "reads_back ref_bool"
  by (simp add: reads_back_def ref_bool_def)

lemma ref_opt_u64_reads: "reads_back ref_opt_u64"
  by (simp add: reads_back_def ref_opt_u64_def flag_reader_def split: option.splits)

interpretation ref_format: borsh_format ref_borsh
proof (unfold_locales, goal_cases)
  case (10 ks rest) then show ?case
    by (simp add: ref_borsh_def ref_opt_keys_def flag_reader_def ref_keys_reads)
qed (simp_all add: ref_borsh_def le_codec_reads_widths [simplified] ref_key_def wf_pubkey_def
       ref_opt_keys_def flag_reader_def ref_opt_u64_def ref_opt_u64_reads [unfolded ref_opt_u64_def] ref_bool_reads)

end
