(* ===== verification/Orca_Toolkit.thy ===== *)
theory Orca_Toolkit
  imports Borsh
begin

section \<open>The orca toolkit (orca\_toolkit/src/main.rs)\<close>

text \<open>
  The program reads a Whirlpool account and builds the transaction of a swap on it: the tick
  arrays around the current tick, their addresses and the oracle's, the accounts and the
  encoded arguments. The Solana crates are the fields of \<open>solana_client\<close>; an RPC client is the
  URL it was made for. What is printed is left out.
\<close>

subsection \<open>What the program calls\<close>

record AccountMeta =
  am_pubkey :: pubkey
  am_is_signer :: bool
  am_is_writable :: bool

record Instruction =
  ins_program_id :: pubkey
  ins_accounts :: "AccountMeta list"
  ins_data :: bytes

definition meta_new :: "pubkey \<Rightarrow> bool \<Rightarrow> AccountMeta" where
  "meta_new k is_signer = \<lparr>am_pubkey = k, am_is_signer = is_signer, am_is_writable = True\<rparr>"

definition meta_new_readonly :: "pubkey \<Rightarrow> bool \<Rightarrow> AccountMeta" where
  "meta_new_readonly k is_signer = \<lparr>am_pubkey = k, am_is_signer = is_signer, am_is_writable = False\<rparr>"

record ('k, 't) solana_client =
  sc_borsh :: borsh
  sc_hashv :: "bytes list \<Rightarrow> bytes"
  sc_try_find_program_address :: "bytes list \<Rightarrow> pubkey \<Rightarrow> (pubkey \<times> u8) option"
  sc_pubkey_from_str :: "string \<Rightarrow> string + pubkey"
  sc_pubkey_from_str_const :: "string \<Rightarrow> panic + pubkey"
  sc_get_associated_token_address :: "pubkey \<Rightarrow> pubkey \<Rightarrow> pubkey"
  sc_get_account :: "string \<Rightarrow> pubkey \<Rightarrow> string + bytes"
  sc_get_latest_blockhash :: "string \<Rightarrow> string + hash"
  sc_read_keypair_file :: "string \<Rightarrow> string + 'k"
  sc_pubkey :: "'k \<Rightarrow> pubkey"
  sc_new_signed_with_payer :: "Instruction list \<Rightarrow> pubkey option \<Rightarrow> 'k list \<Rightarrow> hash \<Rightarrow> panic + 't"
  sc_send_and_confirm_transaction :: "string \<Rightarrow> 't \<Rightarrow> string + signature"
  sc_get_transaction_logs :: "string \<Rightarrow> signature \<Rightarrow> string + string list option option"

definition as_bytes :: "string \<Rightarrow> bytes" where
  "as_bytes s = map of_char s"

definition i32_to_string :: "i32 \<Rightarrow> string" where
  "i32_to_string x =
     (if sint x < 0 then CHR ''-'' # show_nat (nat (- sint x)) else show_nat (nat (sint x)))"

text \<open>A slice from or up to a position panics when the vector is shorter.\<close>

definition slice_from :: "nat \<Rightarrow> bytes \<Rightarrow> panic + bytes" where
  "slice_from n b = (if length b < n then Err (Panic ''range start index out of range'') else Ok (drop n b))"

definition slice_to :: "nat \<Rightarrow> bytes \<Rightarrow> panic + bytes" where
  "slice_to n b = (if length b < n then Err (Panic ''range end index out of range'') else Ok (take n b))"

subsection \<open>The account\<close>

definition NUM_REWARDS :: nat where
  "NUM_REWARDS = 3"

definition TICK_ARRAY_SIZE :: nat where
  "TICK_ARRAY_SIZE = 88"

record WhirlpoolRewardInfo =
  wri_mint :: pubkey
  wri_vault :: pubkey
  wri_authority :: pubkey
  wri_emissions_per_second_x64 :: u128
  wri_growth_global_x64 :: u128

record Whirlpool =
  wp_whirlpools_config :: pubkey
  wp_whirlpool_bump :: bytes
  wp_tick_spacing :: u16
  wp_tick_spacing_seed :: bytes
  wp_fee_rate :: u16
  wp_protocol_fee_rate :: u16
  wp_liquidity :: u128
  wp_sqrt_price :: u128
  wp_tick_current_index :: i32
  wp_protocol_fee_owed_a :: u64
  wp_protocol_fee_owed_b :: u64
  wp_token_mint_a :: pubkey
  wp_token_vault_a :: pubkey
  wp_fee_growth_global_a :: u128
  wp_token_mint_b :: pubkey
  wp_token_vault_b :: pubkey
  wp_fee_growth_global_b :: u128
  wp_reward_last_updated_timestamp :: u64
  wp_reward_infos :: "WhirlpoolRewardInfo list"

text \<open>The derived encodings: the fields in the order of their declaration.\<close>

definition reward_info_serialize :: "borsh \<Rightarrow> WhirlpoolRewardInfo \<Rightarrow> bytes" where
  "reward_info_serialize B r =
     ser (b_pubkey B) (wri_mint r) @ ser (b_pubkey B) (wri_vault r) @ ser (b_pubkey B) (wri_authority r) @
     ser (b_u128 B) (wri_emissions_per_second_x64 r) @ ser (b_u128 B) (wri_growth_global_x64 r)"

definition reward_info_deserialize :: "borsh \<Rightarrow> WhirlpoolRewardInfo reader" where
  "reward_info_deserialize B b =
     read (b_pubkey B) b (\<lambda>mint b.
     read (b_pubkey B) b (\<lambda>vault b.
     read (b_pubkey B) b (\<lambda>authority b.
     read (b_u128 B) b (\<lambda>emissions b.
     read (b_u128 B) b (\<lambda>growth b. Ok
       (\<lparr>wri_mint = mint, wri_vault = vault, wri_authority = authority,
         wri_emissions_per_second_x64 = emissions, wri_growth_global_x64 = growth\<rparr>, b))))))"

definition whirlpool_serialize :: "borsh \<Rightarrow> Whirlpool \<Rightarrow> bytes" where
  "whirlpool_serialize B w =
     ser (b_pubkey B) (wp_whirlpools_config w) @
     concat (map (ser (b_u8 B)) (wp_whirlpool_bump w)) @
     ser (b_u16 B) (wp_tick_spacing w) @
     concat (map (ser (b_u8 B)) (wp_tick_spacing_seed w)) @
     ser (b_u16 B) (wp_fee_rate w) @
     ser (b_u16 B) (wp_protocol_fee_rate w) @
     ser (b_u128 B) (wp_liquidity w) @
     ser (b_u128 B) (wp_sqrt_price w) @
     ser (b_i32 B) (wp_tick_current_index w) @
     ser (b_u64 B) (wp_protocol_fee_owed_a w) @
     ser (b_u64 B) (wp_protocol_fee_owed_b w) @
     ser (b_pubkey B) (wp_token_mint_a w) @
     ser (b_pubkey B) (wp_token_vault_a w) @
     ser (b_u128 B) (wp_fee_growth_global_a w) @
     ser (b_pubkey B) (wp_token_mint_b w) @
     ser (b_pubkey B) (wp_token_vault_b w) @
     ser (b_u128 B) (wp_fee_growth_global_b w) @
     ser (b_u64 B) (wp_reward_last_updated_timestamp w) @
     concat (map (reward_info_serialize B) (wp_reward_infos w))"

definition whirlpool_deserialize :: "borsh \<Rightarrow> Whirlpool reader" where
  "whirlpool_deserialize B b =
     read (b_pubkey B) b (\<lambda>whirlpools_config b.
     and_then (read_array (de (b_u8 B)) 1 b) (\<lambda>(whirlpool_bump, b).
     read (b_u16 B) b (\<lambda>tick_spacing b.
     and_then (read_array (de (b_u8 B)) 2 b) (\<lambda>(tick_spacing_seed, b).
     read (b_u16 B) b (\<lambda>fee_rate b.
     read (b_u16 B) b (\<lambda>protocol_fee_rate b.
     read (b_u128 B) b (\<lambda>liquidity b.
     read (b_u128 B) b (\<lambda>sqrt_price b.
     read (b_i32 B) b (\<lambda>tick_current_index b.
     read (b_u64 B) b (\<lambda>protocol_fee_owed_a b.
     read (b_u64 B) b (\<lambda>protocol_fee_owed_b b.
     read (b_pubkey B) b (\<lambda>token_mint_a b.
     read (b_pubkey B) b (\<lambda>token_vault_a b.
     read (b_u128 B) b (\<lambda>fee_growth_global_a b.
     read (b_pubkey B) b (\<lambda>token_mint_b b.
     read (b_pubkey B) b (\<lambda>token_vault_b b.
     read (b_u128 B) b (\<lambda>fee_growth_global_b b.
     read (b_u64 B) b (\<lambda>reward_last_updated_timestamp b.
     and_then (read_array (reward_info_deserialize B) NUM_REWARDS b) (\<lambda>(reward_infos, b). Ok
       (\<lparr>wp_whirlpools_config = whirlpools_config, wp_whirlpool_bump = whirlpool_bump,
         wp_tick_spacing = tick_spacing, wp_tick_spacing_seed = tick_spacing_seed,
         wp_fee_rate = fee_rate, wp_protocol_fee_rate = protocol_fee_rate,
         wp_liquidity = liquidity, wp_sqrt_price = sqrt_price,
         wp_tick_current_index = tick_current_index,
         wp_protocol_fee_owed_a = protocol_fee_owed_a, wp_protocol_fee_owed_b = protocol_fee_owed_b,
         wp_token_mint_a = token_mint_a, wp_token_vault_a = token_vault_a,
         wp_fee_growth_global_a = fee_growth_global_a,
         wp_token_mint_b = token_mint_b, wp_token_vault_b = token_vault_b,
         wp_fee_growth_global_b = fee_growth_global_b,
         wp_reward_last_updated_timestamp = reward_last_updated_timestamp,
         wp_reward_infos = reward_infos\<rparr>, b))))))))))))))))))))"

subsection \<open>The arguments of a swap\<close>

record SwapArgs =
  sa_amount :: u64
  sa_other_amount_threshold :: u64
  sa_sqrt_price_limit :: u128
  sa_amount_specified_is_input :: bool
  sa_a_to_b :: bool
  sa_remaining_accounts_info :: "pubkey list option"

definition swap_args_serialize :: "borsh \<Rightarrow> SwapArgs \<Rightarrow> bytes" where
  "swap_args_serialize B a =
     ser (b_u64 B) (sa_amount a) @ ser (b_u64 B) (sa_other_amount_threshold a) @
     ser (b_u128 B) (sa_sqrt_price_limit a) @ ser (b_bool B) (sa_amount_specified_is_input a) @
     ser (b_bool B) (sa_a_to_b a) @ ser (b_opt_pubkeys B) (sa_remaining_accounts_info a)"

definition swap_args_deserialize :: "borsh \<Rightarrow> SwapArgs reader" where
  "swap_args_deserialize B b =
     read (b_u64 B) b (\<lambda>amount b.
     read (b_u64 B) b (\<lambda>other_amount_threshold b.
     read (b_u128 B) b (\<lambda>sqrt_price_limit b.
     read (b_bool B) b (\<lambda>amount_specified_is_input b.
     read (b_bool B) b (\<lambda>a_to_b b.
     read (b_opt_pubkeys B) b (\<lambda>remaining_accounts_info b. Ok
       (\<lparr>sa_amount = amount, sa_other_amount_threshold = other_amount_threshold,
         sa_sqrt_price_limit = sqrt_price_limit,
         sa_amount_specified_is_input = amount_specified_is_input, sa_a_to_b = a_to_b,
         sa_remaining_accounts_info = remaining_accounts_info\<rparr>, b)))))))"

subsection \<open>Tick arrays\<close>

text \<open>
  \<open>i32::div_euclid\<close>: the remainder is not negative, so the quotient is rounded down for a
  positive divisor; a divisor of 0 panics, and so does the one quotient that does not fit.
\<close>

definition i32_div_euclid :: "i32 \<Rightarrow> i32 \<Rightarrow> panic + i32" where
  "i32_div_euclid a b =
     (if b = 0 then Err (Panic ''attempt to divide by zero'')
      else if sint a = - (2 ^ 31) \<and> sint b = - 1 then Err (Panic ''attempt to divide with overflow'')
      else Ok (word_of_int
        (if 0 < sint b then sint a div sint b else - (sint a div (- sint b)))))"

definition tick_array_start_index :: "i32 \<Rightarrow> u16 \<Rightarrow> panic + i32" where
  "tick_array_start_index tick_index tick_spacing =
     (let tick_spacing_i32 = (ucast tick_spacing :: i32);
          tick_array_size_i32 = (word_of_nat TICK_ARRAY_SIZE :: i32)
      in and_then (i32_div_euclid tick_index tick_spacing_i32) (\<lambda>q.
         and_then (i32_div_euclid q tick_array_size_i32) (\<lambda>real_index.
           Ok (real_index * tick_spacing_i32 * tick_array_size_i32))))"

definition tick_array_indexes :: "i32 \<Rightarrow> u16 \<Rightarrow> panic + i32 list" where
  "tick_array_indexes tick_index tick_spacing =
     and_then (tick_array_start_index tick_index tick_spacing) (\<lambda>tick_array_start_index.
       let offset = (ucast tick_spacing :: i32) * word_of_nat TICK_ARRAY_SIZE
       in Ok [tick_array_start_index,
              tick_array_start_index + offset,
              tick_array_start_index + offset * 2,
              tick_array_start_index - offset,
              tick_array_start_index - offset * 2])"

datatype program_error = InvalidSeeds

definition tick_array_seeds :: "pubkey \<Rightarrow> i32 \<Rightarrow> bytes list" where
  "tick_array_seeds whirlpool start_tick_index =
     [as_bytes ''tick_array'', pubkey_bytes whirlpool, as_bytes (i32_to_string start_tick_index)]"

definition get_tick_array_address ::
  "('k, 't, 'z) solana_client_scheme \<Rightarrow> pubkey \<Rightarrow> pubkey \<Rightarrow> i32 \<Rightarrow> program_error + pubkey \<times> u8" where
  "get_tick_array_address C program_id whirlpool start_tick_index =
     (case sc_try_find_program_address C (tick_array_seeds whirlpool start_tick_index) program_id of
        None \<Rightarrow> Err InvalidSeeds
      | Some a \<Rightarrow> Ok a)"

subsection \<open>The swap\<close>

definition swap_args :: SwapArgs where
  "swap_args = \<lparr>sa_amount = 1000000000, sa_other_amount_threshold = 0, sa_sqrt_price_limit = 0,
     sa_amount_specified_is_input = True, sa_a_to_b = True, sa_remaining_accounts_info = None\<rparr>"

text \<open>When no address is found for the oracle, the error is printed and the default key stays.\<close>

definition oracle_address :: "('k, 't, 'z) solana_client_scheme \<Rightarrow> pubkey \<Rightarrow> pubkey \<Rightarrow> pubkey" where
  "oracle_address C anchor_program_id whirlpool_pubkey =
     (case sc_try_find_program_address C [as_bytes ''oracle'', pubkey_bytes whirlpool_pubkey]
             anchor_program_id of
        Some (pubkey, _) \<Rightarrow> pubkey
      | None \<Rightarrow> Pubkey (replicate 32 0))"

definition swap_instruction ::
  "('k, 't, 'z) solana_client_scheme \<Rightarrow> pubkey \<Rightarrow> pubkey \<Rightarrow> Whirlpool \<Rightarrow> pubkey \<Rightarrow> panic + Instruction" where
  "swap_instruction C whirlpool_pubkey payer_pubkey whirlpool anchor_program_id =
     and_then (slice_to 8 (sc_hashv C [as_bytes ''global:swap_v2''])) (\<lambda>swap_discriminator.
     let data = swap_discriminator @ swap_args_serialize (sc_borsh C) swap_args in
     and_then (tick_array_indexes (wp_tick_current_index whirlpool) (wp_tick_spacing whirlpool))
       (\<lambda>tick_array_indexes.
     let address = (\<lambda>i. unwrap_result [] (get_tick_array_address C anchor_program_id whirlpool_pubkey
           (tick_array_indexes ! i))) in
     and_then (address 0) (\<lambda>(tick_address_0, _).
     and_then (address 1) (\<lambda>(tick_address_1, _).
     and_then (address 2) (\<lambda>(tick_address_2, _).
     let oracle_pubkey = oracle_address C anchor_program_id whirlpool_pubkey in
     and_then (unwrap_result [] (sc_pubkey_from_str C ''TokenkegQfeZyiNwAJbNbGKPFXCWuBvf9Ss623VQ5DA''))
       (\<lambda>token_program_id.
     and_then (unwrap_result [] (sc_pubkey_from_str C ''MemoSq4gqABAXKb96qnH8TysNcWxMyWCqXgDLGmfcHr''))
       (\<lambda>memo_program_id.
     let token_mint_a = wp_token_mint_a whirlpool;
         token_mint_b = wp_token_mint_b whirlpool;
         payer_token_a_account = sc_get_associated_token_address C payer_pubkey token_mint_a;
         payer_token_b_account = sc_get_associated_token_address C payer_pubkey token_mint_b
     in Ok \<lparr>ins_program_id = anchor_program_id,
            ins_accounts =
              [meta_new_readonly token_program_id False,
               meta_new_readonly token_program_id False,
               meta_new_readonly memo_program_id False,
               meta_new_readonly payer_pubkey True,
               meta_new whirlpool_pubkey False,
               meta_new_readonly token_mint_a False,
               meta_new_readonly token_mint_b False,
               meta_new payer_token_a_account False,
               meta_new (wp_token_vault_a whirlpool) False,
               meta_new payer_token_b_account False,
               meta_new (wp_token_vault_b whirlpool) False,
               meta_new tick_address_0 False,
               meta_new tick_address_1 False,
               meta_new tick_address_2 False,
               meta_new oracle_pubkey False],
            ins_data = data\<rparr>)))))))"

definition create_swap_transaction ::
  "('k, 't, 'z) solana_client_scheme \<Rightarrow> string \<Rightarrow> pubkey \<Rightarrow> pubkey \<Rightarrow> 'k \<Rightarrow> Whirlpool \<Rightarrow> pubkey \<Rightarrow> panic + 't" where
  "create_swap_transaction C rpc_client whirlpool_pubkey payer_pubkey payer whirlpool anchor_program_id =
     and_then (swap_instruction C whirlpool_pubkey payer_pubkey whirlpool anchor_program_id)
       (\<lambda>anchor_instruction.
     and_then (unwrap_result ''Error in blockhash'' (sc_get_latest_blockhash C rpc_client)) (\<lambda>recent_blockhash.
       sc_new_signed_with_payer C [anchor_instruction] (Some payer_pubkey) [payer] recent_blockhash))"

subsection \<open>The program\<close>

definition read_pool :: "borsh \<Rightarrow> bytes \<Rightarrow> panic + Whirlpool" where
  "read_pool B data =
     and_then (slice_from 8 data) (\<lambda>relevant_data.
       unwrap_result ''Failed to parse account data'' (try_from_slice (whirlpool_deserialize B) relevant_data))"


text \<open>The account embedded in \<open>test\<close>.\<close>

definition test_data :: bytes where
  "test_data =
    [63, 149, 209, 12, 225, 128, 99, 9, 19, 228, 65, 248, 57, 19, 202, 104, 176, 99, 79, 176, 37,
     253, 234, 168, 135, 55, 232, 65, 16, 209, 37, 94, 53, 123, 51, 119, 221, 238, 28, 205, 254,
     16, 0, 16, 0, 64, 6, 20, 5, 41, 203, 234, 108, 217, 119, 0, 0, 0, 0, 0, 0, 0, 0, 0, 0, 19,
     43, 169, 240, 251, 44, 38, 96, 0, 0, 0, 0, 0, 0, 0, 0, 125, 179, 255, 255, 194, 52, 200, 8,
     0, 0, 0, 0, 74, 66, 15, 1, 0, 0, 0, 0, 6, 155, 136, 87, 254, 171, 129, 132, 251, 104, 127,
     99, 70, 24, 192, 53, 218, 196, 57, 220, 26, 235, 59, 85, 152, 160, 240, 0, 0, 0, 0, 1, 29,
     119, 163, 197, 29, 226, 97, 144, 48, 75, 0, 9, 18, 28, 99, 233, 255, 187, 134, 255, 165, 87,
     50, 192, 65, 231, 94, 193, 98, 96, 122, 149, 246, 192, 39, 166, 249, 203, 21, 187, 0, 0, 0,
     0, 0, 0, 0, 0, 121, 120, 183, 20, 69, 60, 211, 232, 122, 235, 31, 192, 155, 240, 103, 249,
     108, 210, 212, 214, 155, 87, 19, 149, 170, 155, 241, 134, 175, 249, 218, 63, 69, 39, 148,
     199, 158, 4, 169, 92, 9, 30, 79, 233, 59, 146, 187, 60, 207, 179, 47, 156, 54, 56, 219, 227,
     129, 158, 2, 248, 104, 109, 240, 239, 64, 175, 192, 154, 126, 240, 174, 43, 0, 0, 0, 0, 0,
     0, 0, 0, 246, 179, 96, 104, 0, 0, 0, 0, 121, 120, 183, 20, 69, 60, 211, 232, 122, 235, 31,
     192, 155, 240, 103, 249, 108, 210, 212, 214, 155, 87, 19, 149, 170, 155, 241, 134, 175, 249,
     218, 63, 63, 212, 24, 15, 50, 85, 7, 7, 231, 235, 169, 8, 144, 240, 112, 252, 230, 233, 91,
     229, 11, 215, 148, 159, 203, 197, 132, 62, 34, 12, 237, 117, 189, 29, 49, 175, 23, 222, 255,
     60, 38, 132, 129, 96, 10, 202, 254, 75, 20, 9, 140, 15, 225, 65, 183, 244, 161, 205, 248,
     73, 52, 100, 68, 3, 0, 0, 0, 0, 0, 0, 0, 0, 0, 0, 0, 0, 0, 0, 0, 0, 97, 19, 250, 227, 216,
     202, 64, 228, 1, 0, 0, 0, 0, 0, 0, 0, 0, 0, 0, 0, 0, 0, 0, 0, 0, 0, 0, 0, 0, 0, 0, 0, 0, 0,
     0, 0, 0, 0, 0, 0, 0, 0, 0, 0, 0, 0, 0, 0, 0, 0, 0, 0, 0, 0, 0, 0, 0, 0, 0, 0, 0, 0, 0, 0, 0,
     0, 0, 0, 0, 0, 0, 0, 0, 0, 0, 0, 0, 0, 0, 0, 189, 29, 49, 175, 23, 222, 255, 60, 38, 132,
     129, 96, 10, 202, 254, 75, 20, 9, 140, 15, 225, 65, 183, 244, 161, 205, 248, 73, 52, 100,
     68, 3, 0, 0, 0, 0, 0, 0, 0, 0, 0, 0, 0, 0, 0, 0, 0, 0, 0, 0, 0, 0, 0, 0, 0, 0, 0, 0, 0, 0,
     0, 0, 0, 0, 0, 0, 0, 0, 0, 0, 0, 0, 0, 0, 0, 0, 0, 0, 0, 0, 0, 0, 0, 0, 0, 0, 0, 0, 0, 0, 0,
     0, 0, 0, 0, 0, 0, 0, 0, 0, 0, 0, 0, 0, 0, 0, 0, 0, 0, 0, 0, 0, 0, 0, 0, 0, 0, 0, 0, 0, 0, 0,
     0, 0, 0, 0, 0, 0, 189, 29, 49, 175, 23, 222, 255, 60, 38, 132, 129, 96, 10, 202, 254, 75,
     20, 9, 140, 15, 225, 65, 183, 244, 161, 205, 248, 73, 52, 100, 68, 3, 0, 0, 0, 0, 0, 0, 0,
     0, 0, 0, 0, 0, 0, 0, 0, 0, 0, 0, 0, 0, 0, 0, 0, 0, 0, 0, 0, 0, 0, 0, 0, 0]"

definition test :: "borsh \<Rightarrow> panic + Whirlpool" where
  "test B =
     and_then (slice_from 8 test_data) (\<lambda>relevant_data.
       unwrap_result ''Failed to deserialize Anchor account''
         (try_from_slice (whirlpool_deserialize B) relevant_data))"

text \<open>The whole program; the transaction is built and not sent.\<close>

definition orca_main :: "('k, 't, 'z) solana_client_scheme \<Rightarrow> panic + 't" where
  "orca_main C =
     (let rpc_client = ''http://127.0.0.1:8899'' in
      and_then (unwrap_result [] (sc_pubkey_from_str C ''whirLbMiicVdio4qvUfM5KAg6Ct8VwpYzGff3uctyCc''))
        (\<lambda>program_id.
      and_then (unwrap_result [] (sc_pubkey_from_str C ''C9U2Ksk6KKWvLEeo5yUQ7Xu46X7NzeBJtd9PBfuXaUSM''))
        (\<lambda>whirlpool_pubkey.
      and_then (unwrap_result ''Failed to fetch account data'' (sc_get_account C rpc_client whirlpool_pubkey))
        (\<lambda>whirlpool_data.
      and_then (read_pool (sc_borsh C) whirlpool_data) (\<lambda>pool_data.
      and_then (unwrap_result [] (sc_read_keypair_file C ''/root/.config/solana/id.json''))
        (\<lambda>wallet_keypair.
      and_then (create_swap_transaction C rpc_client whirlpool_pubkey (sc_pubkey C wallet_keypair)
          wallet_keypair pool_data program_id) (\<lambda>anchor_tx.
      and_then (test (sc_borsh C)) (\<lambda>_. Ok anchor_tx))))))))"


end
