(* ===== verification/Orca_Properties.thy ===== *)
theory Orca_Properties
  imports Orca_Toolkit
begin

section \<open>The properties of the orca toolkit\<close>

text \<open>
  The account and the arguments are read back as they were written; the tick arrays are those
  around the current tick; the instruction the program builds.
\<close>

subsection \<open>Reading back\<close>

definition wf_reward_info :: "WhirlpoolRewardInfo \<Rightarrow> bool" where
  "wf_reward_info r \<longleftrightarrow>
     wf_pubkey (wri_mint r) \<and> wf_pubkey (wri_vault r) \<and> wf_pubkey (wri_authority r)"

definition wf_whirlpool :: "Whirlpool \<Rightarrow> bool" where
  "wf_whirlpool w \<longleftrightarrow>
     list_all wf_pubkey [wp_whirlpools_config w, wp_token_mint_a w, wp_token_vault_a w,
       wp_token_mint_b w, wp_token_vault_b w] \<and>
     length (wp_whirlpool_bump w) = 1 \<and> length (wp_tick_spacing_seed w) = 2 \<and>
     length (wp_reward_infos w) = NUM_REWARDS \<and> list_all wf_reward_info (wp_reward_infos w)"

context borsh_format begin

lemma reward_info_reads:
  "wf_reward_info r \<Longrightarrow> reward_info_deserialize B (reward_info_serialize B r @ rest) = Ok (r, rest)"
  by (simp add: reward_info_deserialize_def reward_info_serialize_def wf_reward_info_def reading)

lemma bytes_read:
  "length xs = n \<Longrightarrow>
    read_array (de (b_u8 B)) n (concat (map (ser (b_u8 B)) xs) @ rest) = Ok (xs, rest)"
  using read_array_ser [of xs "de (b_u8 B)" "ser (b_u8 B)" rest] u8_reads
  by (auto simp: reads_back_def)

lemma reward_infos_read:
  "length rs = n \<Longrightarrow> list_all wf_reward_info rs \<Longrightarrow>
    read_array (reward_info_deserialize B) n (concat (map (reward_info_serialize B) rs) @ rest) = Ok (rs, rest)"
  using read_array_ser [of rs "reward_info_deserialize B" "reward_info_serialize B" rest]
  by (auto simp: reward_info_reads list_all_iff)

lemma whirlpool_reads:
  assumes "wf_whirlpool w"
  shows "whirlpool_deserialize B (whirlpool_serialize B w @ rest) = Ok (w, rest)"
  using assms
  by (simp add: whirlpool_deserialize_def whirlpool_serialize_def wf_whirlpool_def reading
      bytes_read reward_infos_read del: One_nat_def read_array.simps)

lemma swap_args_read:
  "sa_remaining_accounts_info a = None \<Longrightarrow>
    swap_args_deserialize B (swap_args_serialize B a @ rest) = Ok (a, rest)"
  by (simp add: swap_args_deserialize_def swap_args_serialize_def reading)
    (simp add: read_def no_pubkeys_reads)

end

text \<open>The account of \<open>test\<close>, spelt out.\<close>

definition test_pool :: Whirlpool where
  "test_pool =
    \<lparr>wp_whirlpools_config = Pubkey [19, 228, 65, 248, 57, 19, 202, 104, 176, 99, 79, 176, 37, 253, 234, 168,
       135, 55, 232, 65, 16, 209, 37, 94, 53, 123, 51, 119, 221, 238, 28, 205],
     wp_whirlpool_bump = [254],
     wp_tick_spacing = 16,
     wp_tick_spacing_seed = [16, 0],
     wp_fee_rate = 1600,
     wp_protocol_fee_rate = 1300,
     wp_liquidity = 131775718935337,
     wp_sqrt_price = 6928274537342118675,
     wp_tick_current_index = - 19587,
     wp_protocol_fee_owed_a = 147338434,
     wp_protocol_fee_owed_b = 17777226,
     wp_token_mint_a = Pubkey [6, 155, 136, 87, 254, 171, 129, 132, 251, 104, 127, 99, 70, 24, 192, 53,
       218, 196, 57, 220, 26, 235, 59, 85, 152, 160, 240, 0, 0, 0, 0, 1],
     wp_token_vault_a = Pubkey [29, 119, 163, 197, 29, 226, 97, 144, 48, 75, 0, 9, 18, 28, 99, 233,
       255, 187, 134, 255, 165, 87, 50, 192, 65, 231, 94, 193, 98, 96, 122, 149],
     wp_fee_growth_global_a = 13480905332698366198,
     wp_token_mint_b = Pubkey [121, 120, 183, 20, 69, 60, 211, 232, 122, 235, 31, 192, 155, 240, 103, 249,
       108, 210, 212, 214, 155, 87, 19, 149, 170, 155, 241, 134, 175, 249, 218, 63],
     wp_token_vault_b = Pubkey [69, 39, 148, 199, 158, 4, 169, 92, 9, 30, 79, 233, 59, 146, 187, 60,
       207, 179, 47, 156, 54, 56, 219, 227, 129, 158, 2, 248, 104, 109, 240, 239],
     wp_fee_growth_global_b = 3147717616131419968,
     wp_reward_last_updated_timestamp = 1751167990,
     wp_reward_infos = [\<lparr>wri_mint = Pubkey [121, 120, 183, 20, 69, 60, 211, 232, 122, 235, 31, 192, 155, 240, 103, 249,
       108, 210, 212, 214, 155, 87, 19, 149, 170, 155, 241, 134, 175, 249, 218, 63],
      wri_vault = Pubkey [63, 212, 24, 15, 50, 85, 7, 7, 231, 235, 169, 8, 144, 240, 112, 252,
       230, 233, 91, 229, 11, 215, 148, 159, 203, 197, 132, 62, 34, 12, 237, 117],
      wri_authority = Pubkey [189, 29, 49, 175, 23, 222, 255, 60, 38, 132, 129, 96, 10, 202, 254, 75,
       20, 9, 140, 15, 225, 65, 183, 244, 161, 205, 248, 73, 52, 100, 68, 3],
      wri_emissions_per_second_x64 = 0, wri_growth_global_x64 = 34894112945753166689\<rparr>,
     \<lparr>wri_mint = Pubkey (replicate 32 0),
      wri_vault = Pubkey (replicate 32 0),
      wri_authority = Pubkey [189, 29, 49, 175, 23, 222, 255, 60, 38, 132, 129, 96, 10, 202, 254, 75,
       20, 9, 140, 15, 225, 65, 183, 244, 161, 205, 248, 73, 52, 100, 68, 3],
      wri_emissions_per_second_x64 = 0, wri_growth_global_x64 = 0\<rparr>,
     \<lparr>wri_mint = Pubkey (replicate 32 0),
      wri_vault = Pubkey (replicate 32 0),
      wri_authority = Pubkey [189, 29, 49, 175, 23, 222, 255, 60, 38, 132, 129, 96, 10, 202, 254, 75,
       20, 9, 140, 15, 225, 65, 183, 244, 161, 205, 248, 73, 52, 100, 68, 3],
      wri_emissions_per_second_x64 = 0, wri_growth_global_x64 = 0\<rparr>]\<rparr>"

lemma replicate_32: "replicate 32 x =
    [x, x, x, x, x, x, x, x, x, x, x, x, x, x, x, x,
     x, x, x, x, x, x, x, x, x, x, x, x, x, x, x, x]"
  by (simp add: numeral_eq_Suc)

lemma test_data_eq: "test_data = take 8 test_data @ whirlpool_serialize ref_borsh test_pool"
  by (simp add: test_data_def test_pool_def whirlpool_serialize_def reward_info_serialize_def
      ref_borsh_def le_codec_def le_bytes_def upt_rec ref_key_def replicate_32)

lemma wf_test_pool: "wf_whirlpool test_pool"
  by (simp add: wf_whirlpool_def wf_reward_info_def test_pool_def wf_pubkey_def NUM_REWARDS_def)

text \<open>
  C30. The account is read back. The pool the program reads from an account is the one that was
  written after the 8 bytes of the discriminator, and a byte more than that is an error.
\<close>

theorem whirlpool_roundtrip:
  assumes "borsh_format B" "wf_whirlpool w" "length discriminator = 8"
  shows "read_pool B (discriminator @ whirlpool_serialize B w @ extra) =
    (if extra = [] then Ok w else Err (Panic ''Failed to parse account data''))"
  using borsh_format.whirlpool_reads [OF assms(1, 2), of extra] assms(3)
  by (simp add: read_pool_def slice_from_def unwrap_result_def try_from_slice_def)

theorem whirlpool_roundtrip_witness: "read_pool ref_borsh test_data = Ok test_pool"
proof -
  have "length (take 8 test_data) = 8" by (simp add: test_data_def)
  from whirlpool_roundtrip [OF ref_format.borsh_format_axioms wf_test_pool this, of "[]"]
  show ?thesis by (simp flip: test_data_eq)
qed

subsection \<open>Tick arrays\<close>

text \<open>The number of ticks an array spans.\<close>

definition ticks_per_array :: "u16 \<Rightarrow> int" where
  "ticks_per_array tick_spacing = 88 * uint tick_spacing"

lemma uint_u16_less: "uint (s :: u16) < 65536"
  using uint_lt2p [of s] by simp

lemma sint_of_small:
  "- (2 ^ 31) \<le> x \<Longrightarrow> x < 2 ^ 31 \<Longrightarrow> sint (word_of_int x :: i32) = x"
  by (simp add: signed_of_int signed_take_bit_int_eq_self)

lemma sint_ucast_u16 [simp]: "sint (ucast (s :: u16) :: i32) = uint s"
proof -
  have "(ucast s :: i32) = word_of_int (uint s)" by (rule ucast_eq)
  moreover have "- (2 ^ 31) \<le> uint s" by (rule order_trans [OF _ uint_ge_0]) simp
  ultimately show ?thesis using sint_of_small [of "uint s"] uint_u16_less [of s] by simp
qed

lemma i32_bounds: "- (2 ^ 31) \<le> sint (t :: i32)" "sint (t :: i32) < 2 ^ 31"
  using sint_ge [of t] sint_lt [of t] by simp_all

lemma div_between:
  assumes "0 < (b :: int)"
  shows "min a 0 \<le> a div b \<and> a div b \<le> max a 0"
proof (cases "0 \<le> a")
  case True
  then have "a div b \<le> a" using zdiv_mono2 [of a 1 b] assms by simp
  with True assms show ?thesis by (simp add: pos_imp_zdiv_nonneg_iff)
next
  case False
  then have "a \<le> a div b" using zdiv_mono2_neg [of a 1 b] assms by simp
  with False assms show ?thesis by (simp add: pos_imp_zdiv_neg_iff le_less)
qed

lemma i32_div_euclid_pos:
  assumes "0 < sint b"
  shows "i32_div_euclid a b = Ok (word_of_int (sint a div sint b))"
    and "sint (word_of_int (sint a div sint b) :: i32) = sint a div sint b"
proof -
  show "i32_div_euclid a b = Ok (word_of_int (sint a div sint b))"
    using assms by (auto simp: i32_div_euclid_def)
  show "sint (word_of_int (sint a div sint b) :: i32) = sint a div sint b"
    using div_between [OF assms, of "sint a"] i32_bounds [of a] by (intro sint_of_small) linarith+
qed

text \<open>
  C28. One floor division. Dividing the tick by the spacing and then by the size of an array,
  and multiplying back, gives the multiple of the array's span next below the tick, modulo
  \<open>2 ^ 32\<close>, for every tick and spacing; only a spacing of 0 panics.
\<close>

theorem tick_array_start_index_floor:
  "tick_array_start_index t s =
     (if s = 0 then Err (Panic ''attempt to divide by zero'')
      else Ok (word_of_int (ticks_per_array s * (sint t div ticks_per_array s))))"
proof (cases "s = 0")
  case True
  then show ?thesis by (simp add: tick_array_start_index_def i32_div_euclid_def)
next
  case False
  then have s: "0 < uint s" by (metis uint_0_iff uint_ge_0 less_le)
  have size: "sint (word_of_nat TICK_ARRAY_SIZE :: i32) = 88"
    using sint_of_small [of 88] by (simp add: TICK_ARRAY_SIZE_def)
  let ?q = "word_of_int (sint t div uint s) :: i32"
  have first: "i32_div_euclid t (ucast s) = Ok ?q" "sint ?q = sint t div uint s"
    using i32_div_euclid_pos [of "ucast s :: i32" t] s by simp_all
  have second: "i32_div_euclid ?q (word_of_nat TICK_ARRAY_SIZE) = Ok (word_of_int (sint ?q div 88))"
    using i32_div_euclid_pos(1) [of "word_of_nat TICK_ARRAY_SIZE :: i32" ?q] size by simp
  have floor: "sint t div uint s div 88 = sint t div ticks_per_array s"
    using s by (simp add: ticks_per_array_def zdiv_zmult2_eq mult.commute)
  have rejoin: "word_of_int a * (ucast s :: i32) * word_of_nat TICK_ARRAY_SIZE =
      word_of_int (ticks_per_array s * a)" for a
  proof -
    have "word_of_int a * word_of_int (uint s) * (word_of_int 88 :: i32) = word_of_int (ticks_per_array s * a)"
      unfolding wi_hom_mult by (simp only: ticks_per_array_def ac_simps)
    then show ?thesis unfolding ucast_eq [of s] by (simp add: TICK_ARRAY_SIZE_def del: of_int_uint word_of_int_uint)
  qed
  show ?thesis
    unfolding tick_array_start_index_def Let_def first(1) and_then.simps second first(2) floor rejoin
    using False by simp
qed

lemma ticks_per_array_bound: "0 \<le> ticks_per_array s" "ticks_per_array s < 5767168"
  using uint_u16_less [of s] by (simp_all add: ticks_per_array_def)

lemma tick_array_offset:
  "(ucast s :: i32) * word_of_nat TICK_ARRAY_SIZE = word_of_int (ticks_per_array s)"
proof -
  have "word_of_int (uint s) * (word_of_int 88 :: i32) = word_of_int (ticks_per_array s)"
    unfolding wi_hom_mult by (simp only: ticks_per_array_def ac_simps)
  then show ?thesis unfolding ucast_eq [of s] by (simp add: TICK_ARRAY_SIZE_def del: of_int_uint word_of_int_uint)
qed

lemma tick_array_indexes_eq:
  assumes "s \<noteq> 0"
  shows "tick_array_indexes t s = Ok (map (\<lambda>k.
      word_of_int (ticks_per_array s * (sint t div ticks_per_array s) + k * ticks_per_array s)) [0, 1, 2, - 1, - 2])"
  unfolding tick_array_indexes_def tick_array_start_index_floor if_not_P [OF assms] and_then.simps
    Let_def tick_array_offset
  by (simp add: algebra_simps)

text \<open>
  C29. The tick arrays. Unless the arrays two below or two above leave the range of an \<open>i32\<close>,
  the five start indexes are those of the array that holds the current tick, of the two above
  it and of the two below it, without a wrap-around; the ticks of a Whirlpool, at most 443636
  either way, satisfy that for every spacing.
\<close>

theorem tick_arrays_surround_tick:
  assumes "s \<noteq> 0"
    and "(- (2 ^ 31) + 3 * ticks_per_array s \<le> sint t \<and> sint t < 2 ^ 31 - 2 * ticks_per_array s)
      \<or> \<bar>sint t\<bar> \<le> 443636"
  shows "\<exists>start idxs. tick_array_indexes t s = Ok idxs \<and>
    map sint idxs = [start, start + ticks_per_array s, start + 2 * ticks_per_array s,
      start - ticks_per_array s, start - 2 * ticks_per_array s] \<and>
    ticks_per_array s dvd start \<and> start \<le> sint t \<and> sint t < start + ticks_per_array s"
proof -
  let ?n = "ticks_per_array s" and ?a = "ticks_per_array s * (sint t div ticks_per_array s)"
  have pos: "0 < ?n"
    using assms(1) by (auto simp: ticks_per_array_def less_le uint_0_iff)
  then have near: "?a \<le> sint t" "sint t < ?a + ?n"
    by (simp_all add: mult_div_mod_eq [symmetric] minus_mod_eq_mult_div [symmetric])
  have lo: "- (2 ^ 31) + 3 * ?n \<le> sint t" and hi: "sint t < 2 ^ 31 - 2 * ?n"
    using assms(2) ticks_per_array_bound [of s] by auto
  have fits: "sint (word_of_int (?a + k * ?n) :: i32) = ?a + k * ?n" if "k \<in> {0, 1, 2, - 1, - 2}" for k
    by (rule sint_of_small) (use that near lo hi pos in auto)
  have "map sint (map (\<lambda>k. word_of_int (?a + k * ?n) :: i32) [0, 1, 2, - 1, - 2]) =
      map (\<lambda>k. ?a + k * ?n) [0, 1, 2, - 1, - 2]"
    unfolding map_map comp_def by (rule map_cong [OF refl]) (rule fits, simp)
  then have "map sint (map (\<lambda>k. word_of_int (?a + k * ?n) :: i32) [0, 1, 2, - 1, - 2]) =
      [?a, ?a + ?n, ?a + 2 * ?n, ?a - ?n, ?a - 2 * ?n]"
    unfolding list.map(2) [of "\<lambda>k. ?a + k * ?n"] list.map(1) by simp
  with near tick_array_indexes_eq [OF assms(1), of t] show ?thesis
    by (intro exI [of _ ?a] exI conjI) (assumption | rule dvd_triv_left)+
qed

theorem tick_arrays_surround_tick_witness:
  "\<exists>start idxs. tick_array_indexes (- 19587) 16 = Ok idxs \<and>
    map sint idxs = [start, start + ticks_per_array 16, start + 2 * ticks_per_array 16,
      start - ticks_per_array 16, start - 2 * ticks_per_array 16] \<and>
    ticks_per_array 16 dvd start \<and> start \<le> - 19587 \<and> - 19587 < start + ticks_per_array 16"
  using tick_arrays_surround_tick [of 16 "- 19587"] by simp


subsection \<open>The instruction\<close>

text \<open>The start indexes of the tick arrays the swap names.\<close>

definition tick_starts :: "Whirlpool \<Rightarrow> i32 list" where
  "tick_starts w =
     (case tick_array_indexes (wp_tick_current_index w) (wp_tick_spacing w) of
        Inl _ \<Rightarrow> []
      | Inr idxs \<Rightarrow> take 3 idxs)"

text \<open>Their addresses are looked up under different seeds: an \<open>i32\<close> is determined by its text.\<close>

lemma show_nat_inj:
  assumes "show_nat m = show_nat n"
  shows "m = n"
proof -
  have "Ok m = parse_digits (max m n) 0 (show_nat m)" by (simp add: parse_digits_show_nat)
  also have "\<dots> = Ok n" unfolding assms by (simp add: parse_digits_show_nat)
  finally show ?thesis by simp
qed

lemma hd_show_nat_digit: "hd (show_nat n) \<noteq> CHR ''-''"
proof (induction n rule: show_nat.induct)
  case (1 n)
  show ?case
  proof (cases "n < 10")
    case True
    then have "to_digit (hd (show_nat n)) \<noteq> None" by (simp add: show_nat.simps [of n])
    then show ?thesis by (auto simp: to_digit_def)
  next
    case False
    with 1 show ?thesis using hd_show_nat by (simp add: show_nat.simps [of n])
  qed
qed

lemma i32_to_string_inj: "i32_to_string x = i32_to_string y \<Longrightarrow> x = y"
proof -
  assume eq: "i32_to_string x = i32_to_string y"
  have other: "CHR ''-'' # s \<noteq> show_nat n" "show_nat n \<noteq> CHR ''-'' # s" for s n
    using hd_show_nat_digit [of n] by (metis list.sel(1))+
  have "sint x = sint y"
    using eq by (auto simp: i32_to_string_def other dest!: show_nat_inj split: if_splits)
  then show ?thesis by (simp add: signed_word_eqI)
qed

lemma as_bytes_inj: "as_bytes s = as_bytes t \<Longrightarrow> s = t"
proof (induction s arbitrary: t)
  case (Cons c s)
  then obtain d t' where t: "t = d # t'" "of_char c = (of_char d :: u8)" "as_bytes s = as_bytes t'"
    by (cases t) (auto simp: as_bytes_def)
  have "(word_of_nat (of_char c) :: u8) = word_of_nat (of_char d)"
    using t(2) by (simp only: of_nat_of_char)
  then have "(of_char c :: nat) = of_char d"
    by (simp add: word_of_nat_eq_iff take_bit_eq_mod)
  with t Cons.IH show ?case by simp
qed (simp add: as_bytes_def)

lemma tick_array_seeds_inj: "tick_array_seeds k a = tick_array_seeds k b \<longleftrightarrow> a = b"
  by (auto simp: tick_array_seeds_def dest!: as_bytes_inj i32_to_string_inj)

text \<open>When the instruction can be built.\<close>

definition swap_buildable ::
  "('k, 't, 'z) solana_client_scheme \<Rightarrow> pubkey \<Rightarrow> Whirlpool \<Rightarrow> pubkey \<Rightarrow> bool" where
  "swap_buildable C pool w program_id \<longleftrightarrow>
     8 \<le> length (sc_hashv C [as_bytes ''global:swap_v2'']) \<and>
     wp_tick_spacing w \<noteq> 0 \<and>
     list_all (\<lambda>i. sc_try_find_program_address C (tick_array_seeds pool i) program_id \<noteq> None) (tick_starts w) \<and>
     \<not> is_err (sc_pubkey_from_str C ''TokenkegQfeZyiNwAJbNbGKPFXCWuBvf9Ss623VQ5DA'') \<and>
     \<not> is_err (sc_pubkey_from_str C ''MemoSq4gqABAXKb96qnH8TysNcWxMyWCqXgDLGmfcHr'')"

lemma tick_array_indexes_zero: "tick_array_indexes t 0 = Err (Panic ''attempt to divide by zero'')"
  unfolding tick_array_indexes_def tick_array_start_index_floor by simp

lemma tick_array_indexes_shape:
  assumes "s \<noteq> 0"
  obtains a b c d e where "tick_array_indexes t s = Ok [a, b, c, d, e]"
  using tick_array_indexes_eq [OF assms, of t] by simp

lemma tick_starts_distinct: "distinct (tick_starts w)"
proof (cases "wp_tick_spacing w = 0")
  case False
  define n :: i32 where "n = word_of_int (ticks_per_array (wp_tick_spacing w))"
  have pos: "0 < ticks_per_array (wp_tick_spacing w)"
    using False by (auto simp: ticks_per_array_def less_le uint_0_iff)
  have nz: "(word_of_int (k * ticks_per_array (wp_tick_spacing w)) :: i32) \<noteq> 0" if "k \<in> {1, 2}" for k
  proof
    assume "(word_of_int (k * ticks_per_array (wp_tick_spacing w)) :: i32) = 0"
    moreover have "sint (word_of_int (k * ticks_per_array (wp_tick_spacing w)) :: i32) =
        k * ticks_per_array (wp_tick_spacing w)"
      by (rule sint_of_small) (use that ticks_per_array_bound [of "wp_tick_spacing w"] in auto)
    ultimately show False using pos that by auto
  qed
  have ne: "n \<noteq> 0" "n * 2 \<noteq> 0"
    using nz [of 1] nz [of 2] by (simp_all add: n_def mult.commute)
  obtain a where "tick_starts w = [a, a + n, a + n * 2]"
    using False by (auto simp: tick_starts_def tick_array_indexes_def tick_array_start_index_floor
        tick_array_offset n_def Let_def)
  with ne show ?thesis by (simp add: mult_2_right)
qed (simp add: tick_starts_def tick_array_indexes_zero)

lemma swap_instruction_built:
  assumes "tick_array_indexes (wp_tick_current_index w) (wp_tick_spacing w) = Ok [a, b, c, d, e]"
    and "swap_buildable C pool w program_id"
  shows "\<exists>ins. swap_instruction C pool payer w program_id = Ok ins \<and> ins_program_id ins = program_id \<and>
    ins_data ins = take 8 (sc_hashv C [as_bytes ''global:swap_v2'']) @
      swap_args_serialize (sc_borsh C) swap_args \<and>
    length (ins_accounts ins) = 15 \<and>
    filter am_is_signer (ins_accounts ins) = [meta_new_readonly payer True] \<and>
    map (\<lambda>a. Some (am_pubkey a)) (take 3 (drop 11 (ins_accounts ins))) =
      map (\<lambda>i. map_option fst (sc_try_find_program_address C (tick_array_seeds pool i) program_id))
        (tick_starts w)"
proof -
  have starts: "tick_starts w = [a, b, c]" using assms(1) by (simp add: tick_starts_def)
  obtain x y z t m where
    "sc_try_find_program_address C (tick_array_seeds pool a) program_id = Some x"
    "sc_try_find_program_address C (tick_array_seeds pool b) program_id = Some y"
    "sc_try_find_program_address C (tick_array_seeds pool c) program_id = Some z"
    "sc_pubkey_from_str C ''TokenkegQfeZyiNwAJbNbGKPFXCWuBvf9Ss623VQ5DA'' = Ok t"
    "sc_pubkey_from_str C ''MemoSq4gqABAXKb96qnH8TysNcWxMyWCqXgDLGmfcHr'' = Ok m"
    using assms(2) by (auto simp: swap_buildable_def starts is_err_def split: sum.splits)
  moreover have "8 \<le> length (sc_hashv C [as_bytes ''global:swap_v2''])"
    using assms(2) by (simp add: swap_buildable_def)
  ultimately show ?thesis
    by (simp add: swap_instruction_def assms(1) starts slice_to_def get_tick_array_address_def
        meta_new_def meta_new_readonly_def split_def Let_def)
qed

lemma swap_instruction_Ok:
  assumes "tick_array_indexes (wp_tick_current_index w) (wp_tick_spacing w) = Ok [a, b, c, d, e]"
    and "wp_tick_spacing w \<noteq> 0" "swap_instruction C pool payer w program_id = Ok ins"
  shows "swap_buildable C pool w program_id"
proof -
  have "tick_starts w = [a, b, c]" using assms(1) by (simp add: tick_starts_def)
  with assms show ?thesis
    by (auto simp: swap_instruction_def swap_buildable_def slice_to_def get_tick_array_address_def
        Let_def result_simps split: if_splits option.splits)
qed

text \<open>
  C27. The instruction. It is built exactly when the discriminator has its 8 bytes, the spacing
  is not 0, the three tick arrays have addresses and the two program ids are keys; otherwise
  the program panics. Its data are the discriminator and the arguments, which are read back
  with no byte left; of its 15 accounts only the payer signs, and the tick arrays are, under
  three different seeds, the one that holds the current tick and the two above it.
\<close>

theorem swap_instruction_outcome:
  assumes "borsh_format (sc_borsh C)"
  shows "case swap_instruction C pool payer w program_id of
      Inl _ \<Rightarrow> \<not> swap_buildable C pool w program_id
    | Inr ins \<Rightarrow> swap_buildable C pool w program_id \<and> ins_program_id ins = program_id \<and>
        take 8 (ins_data ins) = take 8 (sc_hashv C [as_bytes ''global:swap_v2'']) \<and>
        try_from_slice (swap_args_deserialize (sc_borsh C)) (drop 8 (ins_data ins)) = Ok swap_args \<and>
        length (ins_accounts ins) = 15 \<and>
        filter am_is_signer (ins_accounts ins) = [meta_new_readonly payer True] \<and>
        distinct (map (tick_array_seeds pool) (tick_starts w)) \<and>
        map (\<lambda>a. Some (am_pubkey a)) (take 3 (drop 11 (ins_accounts ins))) =
          map (\<lambda>i. map_option fst (sc_try_find_program_address C (tick_array_seeds pool i) program_id))
            (tick_starts w)"
proof (cases "wp_tick_spacing w = 0")
  case True
  then show ?thesis
    by (simp add: swap_instruction_def swap_buildable_def tick_array_indexes_zero slice_to_def)
next
  case False
  then obtain a b c d e where idxs:
    "tick_array_indexes (wp_tick_current_index w) (wp_tick_spacing w) = Ok [a, b, c, d, e]"
    by (rule tick_array_indexes_shape)
  then have starts: "tick_starts w = [a, b, c]" by (simp add: tick_starts_def)
  have args: "try_from_slice (swap_args_deserialize (sc_borsh C)) (swap_args_serialize (sc_borsh C) swap_args) = Ok swap_args"
    using borsh_format.swap_args_read [OF assms, of swap_args "[]"]
    by (simp add: try_from_slice_def swap_args_def)
  have seeds: "distinct (map (tick_array_seeds pool) [a, b, c])"
    using tick_starts_distinct [of w] by (simp add: starts tick_array_seeds_inj)
  show ?thesis
  proof (cases "swap_buildable C pool w program_id")
    case True
    then have "length (take 8 (sc_hashv C [as_bytes ''global:swap_v2''])) = 8"
      by (simp add: swap_buildable_def)
    moreover obtain ins where "swap_instruction C pool payer w program_id = Ok ins" "ins_program_id ins = program_id"
      "ins_data ins = take 8 (sc_hashv C [as_bytes ''global:swap_v2'']) @ swap_args_serialize (sc_borsh C) swap_args"
      "length (ins_accounts ins) = 15" "filter am_is_signer (ins_accounts ins) = [meta_new_readonly payer True]"
      "map (\<lambda>a. Some (am_pubkey a)) (take 3 (drop 11 (ins_accounts ins))) =
        map (\<lambda>i. map_option fst (sc_try_find_program_address C (tick_array_seeds pool i) program_id)) (tick_starts w)"
      using swap_instruction_built [OF idxs True] by blast
    ultimately show ?thesis using True seeds args by (simp add: starts)
  next
    case unbuildable: False
    show ?thesis
    proof (cases "swap_instruction C pool payer w program_id")
      case (Inr ins)
      from swap_instruction_Ok [OF idxs False this] unbuildable show ?thesis by simp
    qed (simp add: unbuildable)
  qed
qed

text \<open>A client for which everything is found: an address is the bytes of its seeds.\<close>

definition ref_client :: "(pubkey, Instruction list) solana_client" where
  "ref_client =
     \<lparr>sc_borsh = ref_borsh,
      sc_hashv = (\<lambda>bs. take 32 (concat bs @ replicate 32 0)),
      sc_try_find_program_address = (\<lambda>seeds k. Some (Pubkey (concat seeds), 255)),
      sc_pubkey_from_str = (\<lambda>s. Ok (Pubkey (as_bytes s))),
      sc_pubkey_from_str_const = (\<lambda>s. Ok (Pubkey (as_bytes s))),
      sc_get_associated_token_address = (\<lambda>k mint. mint),
      sc_get_account = (\<lambda>url k. Ok test_data),
      sc_get_latest_blockhash = (\<lambda>url. Ok (Hash (replicate 32 0))),
      sc_read_keypair_file = (\<lambda>path. Ok (Pubkey (replicate 32 3))),
      sc_pubkey = (\<lambda>k. k),
      sc_new_signed_with_payer = (\<lambda>instructions payer signers blockhash. Ok instructions),
      sc_send_and_confirm_transaction = (\<lambda>url t. Ok (Signature (replicate 64 0))),
      sc_get_transaction_logs = (\<lambda>url s. Ok (Some (Some [])))\<rparr>"

lemma ref_client_borsh [simp]: "sc_borsh ref_client = ref_borsh"
  by (simp add: ref_client_def)

theorem swap_instruction_outcome_witness:
  "\<exists>ins. swap_instruction ref_client (Pubkey (replicate 32 1)) (Pubkey (replicate 32 2)) test_pool
      (Pubkey (replicate 32 4)) = Ok ins \<and>
    try_from_slice (swap_args_deserialize ref_borsh) (drop 8 (ins_data ins)) = Ok swap_args \<and>
    distinct (map (tick_array_seeds (Pubkey (replicate 32 1))) (tick_starts test_pool))"
proof -
  have "swap_buildable ref_client (Pubkey (replicate 32 1)) test_pool (Pubkey (replicate 32 4))"
    by (simp add: swap_buildable_def ref_client_def test_pool_def as_bytes_def list_all_iff)
  with swap_instruction_outcome [where C = ref_client and pool = "Pubkey (replicate 32 1)"
      and payer = "Pubkey (replicate 32 2)" and w = test_pool and program_id = "Pubkey (replicate 32 4)"]
    ref_format.borsh_format_axioms
  show ?thesis by (simp split: sum.splits)
qed


end
