(* ===== verification/Mock_Programs.thy ===== *)
theory Mock_Programs
  imports Orca_Properties
begin

section \<open>The mock programs (mock\_offchain/src/main.rs, mock\_onchain)\<close>

text \<open>
  A client that sends one swap instruction, and the on-chain program that logs the arguments it
  receives. Dispatching on the discriminator and checking the accounts is generated by Anchor
  from the declarations; what it reads of an instruction is the argument list of the handler,
  in order, after the 8 bytes of the discriminator.
\<close>

subsection \<open>The client\<close>

record MockSwapArgs =
  msa_amount :: u64
  msa_other_amount_threshold :: u64
  msa_sqrt_price_limit :: u128
  msa_amount_specified_is_input :: bool
  msa_a_to_b :: bool
  msa_remaining_accounts_info :: "pubkey list option"

definition mock_swap_args_serialize :: "borsh \<Rightarrow> MockSwapArgs \<Rightarrow> bytes" where
  "mock_swap_args_serialize B a =
     ser (b_u64 B) (msa_amount a) @ ser (b_u64 B) (msa_other_amount_threshold a) @
     ser (b_u128 B) (msa_sqrt_price_limit a) @ ser (b_bool B) (msa_amount_specified_is_input a) @
     ser (b_bool B) (msa_a_to_b a) @ ser (b_opt_pubkeys B) (msa_remaining_accounts_info a)"

record 'k MyAccount =
  ma_keypair :: 'k
  ma_public_key :: pubkey

definition get_public_key :: "('k, 't, 'z) solana_client_scheme \<Rightarrow> string \<Rightarrow> panic + 'k MyAccount" where
  "get_public_key C path =
     and_then (unwrap_result [] (sc_read_keypair_file C path)) (\<lambda>keypair.
       Ok \<lparr>ma_keypair = keypair, ma_public_key = sc_pubkey C keypair\<rparr>)"

definition mock_swap_args :: MockSwapArgs where
  "mock_swap_args = \<lparr>msa_amount = 2000000000, msa_other_amount_threshold = 2000000000,
     msa_sqrt_price_limit = 0, msa_amount_specified_is_input = True, msa_a_to_b = True,
     msa_remaining_accounts_info = None\<rparr>"

text \<open>The discriminator is put before the arguments, and once more behind them.\<close>

definition mock_swap_instruction ::
  "('k, 't, 'z) solana_client_scheme \<Rightarrow> pubkey \<Rightarrow> pubkey \<Rightarrow> panic + Instruction" where
  "mock_swap_instruction C payer_pubkey anchor_program_id =
     and_then (slice_to 8 (sc_hashv C [as_bytes ''global:swap''])) (\<lambda>swap_discriminator.
     let data = swap_discriminator @ mock_swap_args_serialize (sc_borsh C) mock_swap_args in
     and_then (sc_pubkey_from_str_const C ''TokenkegQfeZyiNwAJbNbGKPFXCWuBvf9Ss623VQ5DA'')
       (\<lambda>token_program_id.
     let data = data @ swap_discriminator
     in Ok \<lparr>ins_program_id = anchor_program_id,
            ins_accounts = [meta_new_readonly token_program_id False, meta_new payer_pubkey True],
            ins_data = data\<rparr>))"

definition create_onchain_transaction ::
  "('k, 't, 'z) solana_client_scheme \<Rightarrow> string \<Rightarrow> pubkey \<Rightarrow> 'k \<Rightarrow> pubkey \<Rightarrow> panic + 't" where
  "create_onchain_transaction C rpc_client payer_pubkey payer anchor_program_id =
     and_then (mock_swap_instruction C payer_pubkey anchor_program_id) (\<lambda>anchor_instruction.
     and_then (unwrap_result ''Error in blockhash'' (sc_get_latest_blockhash C rpc_client)) (\<lambda>recent_blockhash.
       sc_new_signed_with_payer C [anchor_instruction] (Some payer_pubkey) [payer] recent_blockhash))"

text \<open>The program prints the logs it returns here; a transaction without metadata or logs panics.\<close>

definition mock_main :: "('k, 't, 'z) solana_client_scheme \<Rightarrow> panic + string list" where
  "mock_main C =
     (let rpc_client = ''https://api.devnet.solana.com'' in
      and_then (get_public_key C ''/root/.config/solana/id.json'') (\<lambda>my_account.
      and_then (sc_pubkey_from_str_const C ''57bfie2LvSfQbirTnWKda6waCwyo2WQeq7ms5Q5VtbJC'') (\<lambda>program_id.
      and_then (create_onchain_transaction C rpc_client (ma_public_key my_account)
          (ma_keypair my_account) program_id) (\<lambda>anchor_tx.
      and_then (unwrap_result ''Transaction failed'' (sc_send_and_confirm_transaction C rpc_client anchor_tx))
        (\<lambda>anchor_signature.
      and_then (unwrap_result ''Error in fetching transaction'' (sc_get_transaction_logs C rpc_client anchor_signature))
        (\<lambda>meta.
      and_then (unwrap [] meta) (\<lambda>log_messages. unwrap [] log_messages)))))))"

subsection \<open>The on-chain program\<close>

text \<open>A log line: the text before the value and the value.\<close>

datatype log_line =
    Log_pubkey string pubkey
  | Log_u64 string u64
  | Log_u128 string u128
  | Log_bool string bool
  | Log_opt_u64 string "u64 option"

definition initialize :: "pubkey \<Rightarrow> unit + log_line list" where
  "initialize program_id = Ok [Log_pubkey ''Greetings from: '' program_id]"

definition swap ::
  "pubkey \<Rightarrow> u64 \<Rightarrow> u64 \<Rightarrow> u128 \<Rightarrow> bool \<Rightarrow> bool \<Rightarrow> u64 option \<Rightarrow> unit + log_line list" where
  "swap program_id amount other_amount_threshold sqrt_price_limit amount_specified_is_input a_to_b
       remaining_accounts_info =
     Ok [Log_pubkey ''Swap: '' program_id,
         Log_u64 ''other_amount_threshold: '' other_amount_threshold,
         Log_u128 ''sqrt_price_limit: '' sqrt_price_limit,
         Log_bool ''amount_specified_is_input: '' amount_specified_is_input,
         Log_bool ''a_to_b: '' a_to_b,
         Log_opt_u64 ''remaining_accounts_info: '' remaining_accounts_info]"

text \<open>The arguments of the handler, in order, and the handler on the encoded arguments.\<close>

definition swap_arguments :: "borsh \<Rightarrow> (u64 \<times> u64 \<times> u128 \<times> bool \<times> bool \<times> u64 option) reader" where
  "swap_arguments B b =
     read (b_u64 B) b (\<lambda>amount b.
     read (b_u64 B) b (\<lambda>other_amount_threshold b.
     read (b_u128 B) b (\<lambda>sqrt_price_limit b.
     read (b_bool B) b (\<lambda>amount_specified_is_input b.
     read (b_bool B) b (\<lambda>a_to_b b.
     read (b_opt_u64 B) b (\<lambda>remaining_accounts_info b. Ok
       ((amount, other_amount_threshold, sqrt_price_limit, amount_specified_is_input, a_to_b,
         remaining_accounts_info), b)))))))"

definition swap_handler :: "borsh \<Rightarrow> pubkey \<Rightarrow> (unit + log_line list) reader" where
  "swap_handler B program_id b =
     and_then (swap_arguments B b)
       (\<lambda>((amount, other_amount_threshold, sqrt_price_limit, amount_specified_is_input, a_to_b,
           remaining_accounts_info), b).
          Ok (swap program_id amount other_amount_threshold sqrt_price_limit amount_specified_is_input
                a_to_b remaining_accounts_info, b))"

text \<open>
  The accounts a swap wants: the token program, at its address and executable, and a signer.
\<close>

definition swap_accounts :: "pubkey \<Rightarrow> (pubkey \<Rightarrow> bool) \<Rightarrow> AccountMeta list \<Rightarrow> bool" where
  "swap_accounts token_id executable accounts \<longleftrightarrow>
     (case accounts of
        token_program # token_authority # _ \<Rightarrow>
          am_pubkey token_program = token_id \<and> executable (am_pubkey token_program) \<and>
          am_is_signer token_authority
      | _ \<Rightarrow> False)"

subsection \<open>Client and program together\<close>

text \<open>
  C31. The program understands the client. The instruction has the discriminator of a swap and the
  accounts the program wants, and the handler gets the six arguments the client sent, its last
  parameter being declared with another type; all of them but the amount are logged. The
  discriminator that the client appended once more is left over, so a reader that wants the
  arguments to end there refuses them.
\<close>

theorem mock_swap_understood:
  assumes "borsh_format (sc_borsh C)"
    and "8 \<le> length (sc_hashv C [as_bytes ''global:swap''])"
    and "sc_pubkey_from_str_const C ''TokenkegQfeZyiNwAJbNbGKPFXCWuBvf9Ss623VQ5DA'' = Ok token_id"
    and "executable token_id"
  shows "\<exists>ins. mock_swap_instruction C payer program_id = Ok ins \<and>
    ins_program_id ins = program_id \<and> swap_accounts token_id executable (ins_accounts ins) \<and>
    take 8 (ins_data ins) = take 8 (sc_hashv C [as_bytes ''global:swap'']) \<and>
    swap_arguments (sc_borsh C) (drop 8 (ins_data ins)) = Ok
      ((2000000000, 2000000000, 0, True, True, None),
       take 8 (sc_hashv C [as_bytes ''global:swap''])) \<and>
    swap_handler (sc_borsh C) program_id (drop 8 (ins_data ins)) = Ok
      (Ok [Log_pubkey ''Swap: '' program_id, Log_u64 ''other_amount_threshold: '' 2000000000,
           Log_u128 ''sqrt_price_limit: '' 0, Log_bool ''amount_specified_is_input: '' True,
           Log_bool ''a_to_b: '' True, Log_opt_u64 ''remaining_accounts_info: '' None],
       take 8 (sc_hashv C [as_bytes ''global:swap''])) \<and>
    try_from_slice (swap_handler (sc_borsh C) program_id) (drop 8 (ins_data ins)) =
      Err ''Not all bytes read''"
proof -
  let ?D = "take 8 (sc_hashv C [as_bytes ''global:swap''])"
  note reads = borsh_format.u64_reads [OF assms(1)] borsh_format.u128_reads [OF assms(1)]
    borsh_format.bool_reads [OF assms(1)] borsh_format.opt_u64_reads [OF assms(1)]
  have arguments: "swap_arguments (sc_borsh C)
      (mock_swap_args_serialize (sc_borsh C) mock_swap_args @ ?D) = Ok
        ((2000000000, 2000000000, 0, True, True, None), ?D)"
    by (simp add: swap_arguments_def mock_swap_args_serialize_def mock_swap_args_def
        borsh_format.None_same [OF assms(1)] read_ser reads)
  have "?D \<noteq> []" using assms(2) by auto
  with assms(2-4) arguments show ?thesis
    by (simp add: mock_swap_instruction_def slice_to_def swap_accounts_def meta_new_def
        meta_new_readonly_def swap_handler_def try_from_slice_def swap_def Let_def)
qed

theorem mock_swap_understood_witness:
  "\<exists>ins. mock_swap_instruction ref_client (Pubkey (replicate 32 2)) (Pubkey (replicate 32 4)) = Ok ins \<and>
    swap_arguments ref_borsh (drop 8 (ins_data ins)) = Ok
      ((2000000000, 2000000000, 0, True, True, None), take 8 (sc_hashv ref_client [as_bytes ''global:swap''])) \<and>
    try_from_slice (swap_handler ref_borsh (Pubkey (replicate 32 4))) (drop 8 (ins_data ins)) =
      Err ''Not all bytes read''"
proof -
  let ?token = "Pubkey (as_bytes ''TokenkegQfeZyiNwAJbNbGKPFXCWuBvf9Ss623VQ5DA'')"
  have "8 \<le> length (sc_hashv ref_client [as_bytes ''global:swap''])"
    and "sc_pubkey_from_str_const ref_client ''TokenkegQfeZyiNwAJbNbGKPFXCWuBvf9Ss623VQ5DA'' = Ok ?token"
    and "sc_borsh ref_client = ref_borsh"
    by (simp_all add: ref_client_def)
  with mock_swap_understood [of ref_client ?token "\<lambda>k. k = ?token" "Pubkey (replicate 32 2)"
      "Pubkey (replicate 32 4)"] ref_format.borsh_format_axioms
  show ?thesis by auto
qed

end
