(* ===== verification/Repo_Tests.thy ===== *)
theory Repo_Tests
  imports Convert_Block Compact_Timestamp
begin

section \<open>The unit tests of the repository\<close>

text \<open>
  The tests of proto/src/convert.rs and server/src/compact\_timestamp.rs, run in the logic. An
  assertion is an equation, a loop over all variants of an enum a list of them; what a test
  reads from the clock, and a signature that \<open>bs58\<close> decodes, is an argument.
\<close>

subsection \<open>Conversions\<close>

definition test_reward_type_encode :: bool where
  "test_reward_type_encode =
     (let reward = \<lparr>r_pubkey = ''invalid'', r_lamports = 123, r_post_balance = 321,
                    r_reward_type = None, r_commission = None\<rparr>
      in list_all (\<lambda>t. let reward = reward\<lparr>r_reward_type := t\<rparr> in reward_from_pb (reward_to_pb reward) = reward)
           [None, Some Fee, Some Rent, Some Voting, Some Staking])"

definition test_transaction_by_addr_encode :: "sdk \<Rightarrow> bytes \<Rightarrow> bool" where
  "test_transaction_by_addr_encode S decoded =
     (case signature_try_from S decoded of
        Inl _ \<Rightarrow> False
      | Inr signature \<Rightarrow>
          (let info = \<lparr>tba_signature = signature, tba_err = None, tba_index = 5,
                       tba_memo = Some ''string'', tba_block_time = Some 1610674861\<rparr>
           in by_addr_try_from S (by_addr_to_pb info) = Ok info))"

definition test_transaction_error_encode :: bool where
  "test_transaction_error_encode =
     list_all (\<lambda>transaction_error.
         transaction_error_try_from (transaction_error_to_pb transaction_error) = Ok transaction_error)
       [TE_AccountBorrowOutstanding, TE_AccountInUse, TE_AccountLoadedTwice, TE_AccountNotFound,
        TE_AlreadyProcessed, TE_BlockhashNotFound, TE_CallChainTooDeep, TE_ClusterMaintenance,
        TE_InsufficientFundsForFee, TE_InvalidAccountForFee, TE_InvalidAccountIndex,
        TE_InvalidProgramForExecution, TE_MissingSignatureForFee, TE_ProgramAccountNotFound,
        TE_SanitizeFailure, TE_SignatureFailure, TE_WouldExceedMaxBlockCostLimit,
        TE_WouldExceedMaxVoteCostLimit, TE_WouldExceedMaxAccountCostLimit, TE_UnsupportedVersion,
        TE_InstructionError 10 IE_AccountAlreadyInitialized,
        TE_InstructionError 10 IE_AccountBorrowFailed,
        TE_InstructionError 10 IE_AccountBorrowOutstanding,
        TE_InstructionError 10 IE_AccountDataSizeChanged,
        TE_InstructionError 10 IE_AccountDataTooSmall,
        TE_InstructionError 10 IE_AccountNotExecutable, TE_InstructionError 10 IE_CallDepth,
        TE_InstructionError 10 IE_ComputationalBudgetExceeded,
        TE_InstructionError 10 IE_DuplicateAccountIndex,
        TE_InstructionError 10 IE_DuplicateAccountOutOfSync,
        TE_InstructionError 10 IE_ExecutableAccountNotRentExempt,
        TE_InstructionError 10 IE_ExecutableDataModified,
        TE_InstructionError 10 IE_ExecutableLamportChange,
        TE_InstructionError 10 IE_ExecutableModified,
        TE_InstructionError 10 IE_ExternalAccountDataModified,
        TE_InstructionError 10 IE_ExternalAccountLamportSpend,
        TE_InstructionError 10 IE_GenericError, TE_InstructionError 10 IE_Immutable,
        TE_InstructionError 10 IE_IncorrectAuthority, TE_InstructionError 10 IE_IncorrectProgramId,
        TE_InstructionError 10 IE_InsufficientFunds, TE_InstructionError 10 IE_InvalidAccountData,
        TE_InstructionError 10 IE_InvalidArgument, TE_InstructionError 10 IE_InvalidError,
        TE_InstructionError 10 IE_InvalidInstructionData, TE_InstructionError 10 IE_InvalidRealloc,
        TE_InstructionError 10 IE_InvalidSeeds, TE_InstructionError 10 IE_MaxSeedLengthExceeded,
        TE_InstructionError 10 IE_MissingAccount,
        TE_InstructionError 10 IE_MissingRequiredSignature,
        TE_InstructionError 10 IE_ModifiedProgramId,
        TE_InstructionError 10 IE_NotEnoughAccountKeys,
        TE_InstructionError 10 IE_PrivilegeEscalation,
        TE_InstructionError 10 IE_ProgramEnvironmentSetupFailure,
        TE_InstructionError 10 IE_ProgramFailedToCompile,
        TE_InstructionError 10 IE_ProgramFailedToComplete,
        TE_InstructionError 10 IE_ReadonlyDataModified,
        TE_InstructionError 10 IE_ReadonlyLamportChange,
        TE_InstructionError 10 IE_ReentrancyNotAllowed,
        TE_InstructionError 10 IE_RentEpochModified,
        TE_InstructionError 10 IE_UnbalancedInstruction,
        TE_InstructionError 10 IE_UninitializedAccount,
        TE_InstructionError 10 IE_UnsupportedProgramId, TE_InstructionError 10 (IE_Custom 10),
        TE_DuplicateInstruction 10, TE_InsufficientFundsForRent 10, TE_UnbalancedTransaction]"

definition all_transaction_error_types :: "TransactionErrorType list" where
  "all_transaction_error_types =
     [TET_AccountInUse, TET_AccountLoadedTwice, TET_AccountNotFound, TET_ProgramAccountNotFound,
      TET_InsufficientFundsForFee, TET_InvalidAccountForFee, TET_AlreadyProcessed,
      TET_BlockhashNotFound, TET_InstructionError, TET_CallChainTooDeep,
      TET_MissingSignatureForFee, TET_InvalidAccountIndex, TET_SignatureFailure,
      TET_InvalidProgramForExecution, TET_SanitizeFailure, TET_ClusterMaintenance,
      TET_AccountBorrowOutstandingTx, TET_WouldExceedMaxBlockCostLimit, TET_UnsupportedVersion,
      TET_InvalidWritableAccount, TET_WouldExceedMaxAccountCostLimit,
      TET_WouldExceedAccountDataBlockLimit, TET_TooManyAccountLocks,
      TET_AddressLookupTableNotFound, TET_InvalidAddressLookupTableOwner,
      TET_InvalidAddressLookupTableData, TET_InvalidAddressLookupTableIndex,
      TET_InvalidRentPayingAccount, TET_WouldExceedMaxVoteCostLimit,
      TET_WouldExceedAccountDataTotalLimit, TET_DuplicateInstruction, TET_InsufficientFundsForRent,
      TET_MaxLoadedAccountsDataSizeExceeded, TET_InvalidLoadedAccountsDataSizeLimit,
      TET_ResanitizationNeeded, TET_ProgramExecutionTemporarilyRestricted,
      TET_UnbalancedTransaction, TET_ProgramCacheHitMaxLimit, TET_CommitCancelled]"

definition all_instruction_error_types :: "InstructionErrorType list" where
  "all_instruction_error_types =
     [IET_GenericError, IET_InvalidArgument, IET_InvalidInstructionData, IET_InvalidAccountData,
      IET_AccountDataTooSmall, IET_InsufficientFunds, IET_IncorrectProgramId,
      IET_MissingRequiredSignature, IET_AccountAlreadyInitialized, IET_UninitializedAccount,
      IET_UnbalancedInstruction, IET_ModifiedProgramId, IET_ExternalAccountLamportSpend,
      IET_ExternalAccountDataModified, IET_ReadonlyLamportChange, IET_ReadonlyDataModified,
      IET_DuplicateAccountIndex, IET_ExecutableModified, IET_RentEpochModified,
      IET_NotEnoughAccountKeys, IET_AccountDataSizeChanged, IET_AccountNotExecutable,
      IET_AccountBorrowFailed, IET_AccountBorrowOutstanding, IET_DuplicateAccountOutOfSync,
      IET_Custom, IET_InvalidError, IET_ExecutableDataModified, IET_ExecutableLamportChange,
      IET_ExecutableAccountNotRentExempt, IET_UnsupportedProgramId, IET_CallDepth,
      IET_MissingAccount, IET_ReentrancyNotAllowed, IET_MaxSeedLengthExceeded, IET_InvalidSeeds,
      IET_InvalidRealloc, IET_ComputationalBudgetExceeded, IET_PrivilegeEscalation,
      IET_ProgramEnvironmentSetupFailure, IET_ProgramFailedToComplete, IET_ProgramFailedToCompile,
      IET_Immutable, IET_IncorrectAuthority, IET_BorshIoError, IET_AccountNotRentExempt,
      IET_InvalidAccountOwner, IET_ArithmeticOverflow, IET_UnsupportedSysvar, IET_IllegalOwner,
      IET_MaxAccountsDataAllocationsExceeded, IET_MaxAccountsExceeded,
      IET_MaxInstructionTraceLengthExceeded, IET_BuiltinProgramsMustConsumeComputeUnits]"

text \<open>A message that is decoded is encoded to itself.\<close>

definition encodes_back :: "PbTransactionError \<Rightarrow> bool" where
  "encodes_back tx_by_addr_error =
     (case transaction_error_try_from tx_by_addr_error of
        Inl _ \<Rightarrow> False
      | Inr transaction_error \<Rightarrow> transaction_error_to_pb transaction_error = tx_by_addr_error)"

definition test_error_enums :: bool where
  "test_error_enums =
     (let ix_index = 1; custom_error = 42
      in list_all (\<lambda>error.
           let code = transaction_error_type_as_i32 error
           in case error of
                TET_DuplicateInstruction \<Rightarrow>
                  encodes_back \<lparr>pte_transaction_error = code, pte_instruction_error = None,
                    pte_transaction_details = Some ix_index\<rparr>
              | TET_InsufficientFundsForRent \<Rightarrow>
                  encodes_back \<lparr>pte_transaction_error = code, pte_instruction_error = None,
                    pte_transaction_details = Some ix_index\<rparr>
              | TET_ProgramExecutionTemporarilyRestricted \<Rightarrow>
                  encodes_back \<lparr>pte_transaction_error = code, pte_instruction_error = None,
                    pte_transaction_details = Some ix_index\<rparr>
              | TET_InstructionError \<Rightarrow>
                  list_all (\<lambda>ix_error.
                    encodes_back \<lparr>pte_transaction_error = code,
                      pte_instruction_error = Some
                        \<lparr>pie_index = ix_index, pie_error = instruction_error_type_as_i32 ix_error,
                         pie_custom = (case ix_error of IET_Custom \<Rightarrow> Some custom_error | _ \<Rightarrow> None)\<rparr>,
                      pte_transaction_details = None\<rparr>) all_instruction_error_types
              | _ \<Rightarrow>
                  encodes_back \<lparr>pte_transaction_error = code, pte_instruction_error = None,
                    pte_transaction_details = None\<rparr>) all_transaction_error_types)"

subsection \<open>Compact timestamps\<close>

definition test_duration_since_us :: bool where
  "test_duration_since_us =
     (list_all (\<lambda>i. list_all (\<lambda>j. duration_since_us (word_of_int i) (word_of_int j) = word_of_int \<bar>i - j\<bar>)
         [-100..99]) [-100..99] \<and>
      duration_since_us 100 50 = 50 \<and> duration_since_us 50 100 = 50 \<and>
      duration_since_us 0 (- 1) = 1 \<and> duration_since_us (- 1) 0 = 1)"

text \<open>The clock is read before and after the sleep, which takes at least its time.\<close>

definition test_get_current_time_us_u32 :: "system_time \<Rightarrow> system_time \<Rightarrow> bool" where
  "test_get_current_time_us_u32 before after =
     (let sleep_time_us = 10000
      in case (get_current_time_us_u32 before, get_current_time_us_u32 after) of
           (Inr t1, Inr t2) \<Rightarrow> t2 > t1 \<and> duration_since_us t1 t2 > sleep_time_us
         | _ \<Rightarrow> False)"

definition test_to_system_time :: "system_time \<Rightarrow> system_time \<Rightarrow> bool" where
  "test_to_system_time now later =
     (case and_then (from_system_time now) (to_system_time later) of
        Inl _ \<Rightarrow> False
      | Inr reconstructed \<Rightarrow> \<bar>now - reconstructed\<bar> < 1000)"

subsection \<open>Results\<close>

lemma reward_test: "test_reward_type_encode"
  by (simp add: test_reward_type_encode_def reward.dec_enc)

lemma by_addr_test:
  assumes "solana_sdk S" "signature_try_from S decoded = Ok signature"
  shows "test_transaction_by_addr_encode S decoded"
proof -
  have "wf_signature signature"
    using solana_sdk.signature_bytes_from [OF assms] by (auto simp: wf_signature_def)
  then show ?thesis
    by (simp add: test_transaction_by_addr_encode_def assms(2) solana_sdk.by_addr_from_to_pb [OF assms(1)])
qed

lemma error_test: "test_transaction_error_encode"
  by (simp add: test_transaction_error_encode_def try_from_to_pb forget_message_def forget_borsh_def)

lemma enums_test: "test_error_enums"
  by (simp add: test_error_enums_def Let_def all_transaction_error_types_def all_instruction_error_types_def
      encodes_back_def transaction_error_try_from_def decode_instruction_error_def decode_details_def decode_plain_def
      transaction_error_table_def instruction_error_table_def transaction_error_to_pb_def instruction_error_to_pb_def
      custom_error_to_pb_def)

lemma duration_test: "test_duration_since_us"
proof -
  have "duration_since_us (word_of_int i) (word_of_int j) = word_of_int \<bar>i - j\<bar>"
    if "\<bar>i - j\<bar> < 200" for i j
  proof -
    have "circle_dist i j = \<bar>i - j\<bar>"
      using circle_dist_near [of "i - j" j] circle_dist_near [of "j - i" i] circle_dist_sym [of i j] that
      by (cases "j \<le> i") simp_all
    then have "uint (duration_since_us (word_of_int i) (word_of_int j)) = \<bar>i - j\<bar>"
      using circle_dist_mod [of i j] by (simp add: uint_duration_since_us uint_word_of_int)
    then show ?thesis by (metis word_of_int_uint)
  qed
  moreover have "duration_since_us 100 50 = 50" "duration_since_us 50 100 = 50"
    "duration_since_us 0 (- 1) = 1" "duration_since_us (- 1) 0 = 1"
    by (simp_all add: duration_since_us_def)
  ultimately show ?thesis
    unfolding test_duration_since_us_def list_all_iff set_upto by (intro conjI ballI) auto
qed

lemma system_time_test:
  assumes "0 \<le> now" "now \<le> later" "later div 1000 - now div 1000 \<le> 2 ^ 31"
  shows "test_to_system_time now later"
  using recent_through_stamp [OF assms]
  by (auto simp: test_to_system_time_def through_stamp_def abs_minus_commute)

text \<open>
  The test of the clock passes unless the 32-bit count wraps during its sleep, which it does
  every 71 minutes: then the second stamp is below the first, and the test fails.
\<close>

lemma clock_test:
  assumes "0 \<le> before" "10000 < after div 1000 - before div 1000" "after div 1000 - before div 1000 \<le> 2 ^ 31"
    and "after div 1000 div 2 ^ 32 = before div 1000 div 2 ^ 32"
  shows "test_get_current_time_us_u32 before after"
proof -
  let ?a = "after div 1000" and ?b = "before div 1000"
  have "0 \<le> ?b" using assms(1) by simp
  then have "0 \<le> ?a" using assms(2) by linarith
  then have "0 \<le> after" by simp
  have "?a mod 2 ^ 32 = ?b mod 2 ^ 32 + (?a - ?b)"
    using assms(4) by (simp only: minus_mult_div_eq_mod [symmetric])
  then have "(word_of_int ?b :: u32) < word_of_int ?a"
    using assms(2) by (simp add: word_less_def uint_word_of_int)
  moreover have "uint (duration_since_us (word_of_int ?b) (word_of_int ?a)) = ?a - ?b"
    using circle_dist_near [of "?a - ?b" ?b] circle_dist_mod [of ?b ?a] circle_dist_sym [of ?a ?b] assms(2,3)
    by (simp add: uint_duration_since_us uint_word_of_int)
  then have "10000 < duration_since_us (word_of_int ?b) (word_of_int ?a)"
    using assms(2) by (simp add: word_less_def)
  ultimately show ?thesis
    using assms(1) \<open>0 \<le> after\<close>
    by (simp add: test_get_current_time_us_u32_def get_current_time_us_u32_def from_system_time_Ok)
qed

lemma clock_test_fails: "\<not> test_get_current_time_us_u32 4294967290000 4294987290000"
  by code_simp

end
