(* ===== verification/Spec2Isabelle.thy ===== *)
theory Spec2Isabelle
  imports System_Properties Compact_Timestamp Stored_Meta Subscription_Life Cli_Properties Mock_Programs Repo_Tests
begin

text \<open>
  A model of the Solana toolkit in src/src. Its centre is the Geyser gRPC plugin
  (paths without src/src are in src/src/geyser-grpc-plugin): a validator loads the plugin and calls it with accounts, slots,
  blocks, transactions and entries; the plugin turns each into a protobuf message and puts it on
  a bounded channel; an event loop takes the messages from the channels and fans them out to
  the subscribers of a gRPC service; a client library reads them back, checks their age and
  order, numbers them and hands them to the application.

  The parts, their sources and their theories:

  \<^item> Prelude, Rust_Std, Codec: integers at their width, results as sums, panics as values,
    iteration with effects, hash maps as association lists, decimal rendering and parsing,
    and the contract of a pair of conversions (locales \<open>codec\<close>, \<open>total_codec\<close>).
  \<^item> Compact_Timestamp (server/src/compact\_timestamp.rs): the 32-bit microsecond stamp.
  \<^item> Solana_Types, Tx_Error, Solana_Sdk, Convert_Tx_Error, Convert_Leaf, Convert_Transaction,
    Convert_Meta, Convert_Block (proto/src/convert.rs): every conversion between the native
    types and the messages, one definition per \<open>From\<close> or \<open>TryFrom\<close>. What they call of the
    Solana crates and of bincode is the record \<open>sdk\<close> with the locale \<open>solana_sdk\<close>. Stored_Meta
    (proto/src/lib.rs) holds the stored forms and their conversions; the serde derives that read
    and write them, with \<open>default_on_eof\<close> for missing fields, are not modelled.
  \<^item> Geyser_Messages (proto/proto/geyser.proto): the messages of the service.
  \<^item> Channels: what the server uses of bounded channels, as the locale \<open>bounded_channels\<close> over
    an unknown world, and reference channels that keep it.
  \<^item> Subscriptions and Event_Loop (server/src/server.rs): the subscription records, the events,
    one definition per handler, \<open>loop_iteration\<close> for the body of the loop and \<open>event_loop\<close>
    for a run of it. The order in which \<open>select!\<close> takes events is the argument: a list of
    events, so a statement about every list covers every interleaving.
  \<^item> Event_Loop_Spec, Event_Loop_Refine, Event_Loop_Properties: the abstract loop is a list of
    subscribers, each an id, a topic and a channel, and the function \<open>payload\<close> that says what an
    event means for a topic; an iteration is one pass of sends over that list, after which
    exactly the subscribers it found gone are removed.
  \<^item> Server_System: the server as a transition system. An inductive step is an iteration of the
    loop, a poll of a stream that yields an item, or a receiver going away; a run is any
    interleaving of them. A subscriber refines a bounded mailbox that skips what does not fit.
  \<^item> Whole_Server: the calls of the service join in. The loop takes the added events the service
    sent, in their order, so that no id and no channel occurs twice in any state reached from the
    start: what the theories above assume of their events is then an invariant. The only bound
    is the number of steps, at most \<open>2 ^ 128\<close>, so that uuids cannot run out.
  \<^item> Subscription_Life: the tasks that wait for a stream to be dropped and the channel of closed
    events join in. Whoever subscribes and keeps the stream is never closed or given up.
  \<^item> Subscription_Stream (server/src/subscription\_stream.rs) and Service, Service_Spec,
    Service_Properties (server/src/server.rs): the stream a subscriber reads, whose drop
    sends the closed event, and the methods of the service. The seven subscribe methods follow
    one scheme, \<open>open_subscription\<close>, to which the lemmas reduce them.
  \<^item> Plugin, Plugin_Spec, Plugin_Properties (server/src/geyser\_grpc\_plugin.rs): the callbacks,
    loading and unloading, and runs of callbacks in any order.
  \<^item> Access_Token (server/src/geyser\_grpc\_plugin.rs, client/src/interceptor.rs): the two
    interceptors.
  \<^item> Client_Types (client/src/types.rs), Client_Consumer, Client_Spec, Client_Properties
    (client/src/geyser\_consumer.rs): the client's types, the check and numbering of an update,
    the consume loops over a list of turns (what \<open>select!\<close> yields, the clock, the exit flag and
    the root), an abstract counter that the cache of write sequences refines.
  \<^item> Connect (client/src/lib.rs): making the client. Cli, Cli_Properties (cli/src/main.rs): the
    commands, the requests they make, the loops that print, line by line, and the clock skew.
    Float64: the double precision numbers the skew is computed and printed with.
  \<^item> Borsh, Orca_Toolkit, Orca_Properties (src/src/orca\_toolkit/src/main.rs): the pool account,
    the tick arrays around the current tick, the swap instruction, and the whole program. The
    Borsh encodings of the primitive types are the record \<open>borsh\<close> with the locale
    \<open>borsh_format\<close>, the Solana crates the record \<open>solana_client\<close>; the derived encodings of the
    structs are written out.
  \<^item> Mock_Programs (src/src/mock\_offchain/src/main.rs, src/src/mock\_onchain): a client that sends
    a swap, the handlers of the program that receives it, and the two together.
  \<^item> Repo_Tests: the unit tests of the conversions and of the compact timestamps, run in the
    logic, which ties the definitions to what the authors expect of the code.
  \<^item> System_Properties: what spans components, from a callback of the plugin to the value the
    client hands on.

  What the groups of lemmas show. The codec lemmas give round trips of every pair of
  conversions, composed to whole blocks; where a decoder refuses, the lemmas say exactly when.
  The loop's lemmas give the refinement of the abstract loop, from which delivery, the
  invariant on ids and channels and the dropping of subscribers follow for every run; the
  refinement of the mailbox says when a subscriber gets all that is published. The service's lemmas say when a request is refused and what an accepted
  one leaves behind. The plugin's lemmas say what a run of callbacks sends. The client's lemmas
  say which updates pass and with which number. The lemmas on the tick arrays reduce the
  two euclidean divisions on \<open>i32\<close> to one floor division and bound every sum, so that the
  instruction's accounts can be stated without a wrap-around.

  Conventions. A panic is \<open>Inl (Panic message)\<close>, outermost; a Rust \<open>Result\<close> is a sum with the
  error on the left. Arithmetic is that of a release build: it wraps at the width of the type.
  Loops over finite data recurse over the data; loops over what the outside supplies recurse
  over the list of what it supplied and yield \<open>Running\<close> or \<open>Continue\<close> when the list ends, so no
  fuel is needed. The cache of write sequences holds 5000 slots, as in the code, and the
  statements about numbering are under the assumption that no more slots than that occur.
  A channel's capacity is whatever the configuration says.

  The skew of the command line client goes through three roundings to 53 bits and one to
  thousandths, as in the code; its numbers are far from the limits of the exponent. The consumer
  loads the atomic rooted slot several times for one update; here a turn has one value of it.
  Channels and threads are made by parameters; what runs on them is
  modelled.

  Not modelled: the build script proto/build.rs (it calls a code generator), logging and the
  printing of the orca toolkit and the mock client (effects without a result), the parsing of the
  command line and the derives of serde (generated code), the dispatch that Anchor generates for the on-chain program, the
  struct \<open>WhirlpoolsConfig\<close>, which nothing uses, and the
  tests of the configuration file, which exercise the JSON parser only.
\<close>

end
